(* ===== verification/Prelude.thy ===== *)
theory Prelude
  imports Main "HOL-Library.AList" "HOL-Library.List_Lexorder" "HOL-Library.Char_ord"
begin

text \<open>
  Shared vocabulary of the development. A Python dictionary is an association list with
  distinct keys kept in insertion order (\<open>dict\<close>): \<open>dict_get\<close> is \<open>d.get(k)\<close>,
  \<open>AList.update\<close> is \<open>d[k] = v\<close> (it replaces in place and appends a new key at the
  end, as Python does) and \<open>AList.delete\<close> is \<open>d.pop(k, None)\<close>. An operation that may
  raise returns \<open>exn + 'a\<close>; \<open>exn\<close> names the exception class, and \<open>fold_r\<close> is a
  \<open>for\<close> loop whose body may raise. Python strings are \<open>string\<close>s, that is lists of
  8-bit characters (the code points up to 255), ordered by character code as \<open>str\<close> is; the
  standard-library operations on them that the program uses (\<open>lower\<close>, \<open>strip\<close>,
  \<open>split\<close>, \<open>startswith\<close>) are modelled on that range.
\<close>

section \<open>Exceptions and loops that may raise\<close>

datatype exn =
    KeyError string
  | ValueError string
  | AttributeError string
  | TypeError string
  | IndexError string

type_synonym 'a result = "exn + 'a"

fun bind_r :: "'e + 'a \<Rightarrow> ('a \<Rightarrow> 'e + 'b) \<Rightarrow> 'e + 'b" where
  "bind_r (Inl e) f = Inl e"
| "bind_r (Inr x) f = f x"

fun fold_r :: "('a \<Rightarrow> 's \<Rightarrow> 'e + 's) \<Rightarrow> 'a list \<Rightarrow> 's \<Rightarrow> 'e + 's" where
  "fold_r f [] s = Inr s"
| "fold_r f (x # xs) s = bind_r (f x s) (fold_r f xs)"

fun map_r :: "('a \<Rightarrow> 'e + 'b) \<Rightarrow> 'a list \<Rightarrow> 'e + 'b list" where
  "map_r f [] = Inr []"
| "map_r f (x # xs) = bind_r (f x) (\<lambda>y. bind_r (map_r f xs) (\<lambda>ys. Inr (y # ys)))"

named_theorems result_simps \<open>inversion of computations that may raise\<close>

lemma bind_r_Inr [result_simps]:
  "bind_r m f = Inr y \<longleftrightarrow> (\<exists>x. m = Inr x \<and> f x = Inr y)"
  by (cases m) auto

lemma bind_r_Inl [result_simps]:
  "bind_r m f = Inl e \<longleftrightarrow> m = Inl e \<or> (\<exists>x. m = Inr x \<and> f x = Inl e)"
  by (cases m) auto

lemma bind_r_cong [fundef_cong]:
  "m = m' \<Longrightarrow> (\<And>x. m' = Inr x \<Longrightarrow> f x = g x) \<Longrightarrow> bind_r m f = bind_r m' g"
  by (cases m') auto

lemma fold_r_append:
  "fold_r f (xs @ ys) s = bind_r (fold_r f xs s) (fold_r f ys)"
proof (induction xs arbitrary: s)
  case (Cons x xs)
  then show ?case by (cases "f x s") auto
qed simp

lemma fold_r_invariant:
  assumes "\<And>x s s'. x \<in> set xs \<Longrightarrow> P s \<Longrightarrow> f x s = Inr s' \<Longrightarrow> P s'"
    and "P s" and "fold_r f xs s = Inr s'"
  shows "P s'"
  using assms
proof (induction xs arbitrary: s)
  case (Cons x xs)
  from Cons.prems(3) obtain t where t: "f x s = Inr t" and rest: "fold_r f xs t = Inr s'"
    by (auto simp: result_simps)
  from Cons.prems(1) [of x s t] Cons.prems(2) t have "P t" by simp
  with rest Cons.prems(1) show ?case by (auto intro: Cons.IH)
qed simp

lemma fold_r_cong [fundef_cong]:
  assumes "xs = ys" and "s = t" and "\<And>x u. x \<in> set ys \<Longrightarrow> f x u = g x u"
  shows "fold_r f xs s = fold_r g ys t"
proof -
  have "\<And>x u. x \<in> set xs \<Longrightarrow> f x u = g x u" using assms by simp
  then have "fold_r f xs s = fold_r g xs s"
  proof (induction xs arbitrary: s)
    case (Cons x xs)
    then show ?case by (auto intro: bind_r_cong)
  qed simp
  then show ?thesis using assms by simp
qed

text \<open>
  The contract of a loop body: a relation between the state before and after that is
  reflexive and transitive and that every step satisfies holds over the whole loop. The
  components interpret it with the relation they are interested in (a frame condition, a
  growing log, a preserved invariant).
\<close>

locale loop_relation =
  fixes step :: "'a \<Rightarrow> 's \<Rightarrow> 'e + 's"
    and ok :: "'a \<Rightarrow> bool"
    and R :: "'s \<Rightarrow> 's \<Rightarrow> bool"
  assumes refl_R: "R s s"
    and trans_R: "R s t \<Longrightarrow> R t u \<Longrightarrow> R s u"
    and step_R: "ok x \<Longrightarrow> step x s = Inr t \<Longrightarrow> R s t"
begin

lemma loop_R:
  assumes "\<And>x. x \<in> set xs \<Longrightarrow> ok x" and "fold_r step xs s = Inr t"
  shows "R s t"
proof (rule fold_r_invariant [where P = "R s" and f = step, OF _ refl_R assms(2)])
  fix x u u'
  assume "x \<in> set xs" and "R s u" and "step x u = Inr u'"
  then show "R s u'" using assms(1) step_R trans_R by blast
qed

end

section \<open>Dictionaries\<close>

type_synonym 'v dict = "(string \<times> 'v) list"

abbreviation dict_get :: "'v dict \<Rightarrow> string \<Rightarrow> 'v option" where
  "dict_get \<equiv> map_of"

abbreviation keys :: "'v dict \<Rightarrow> string list" where
  "keys d \<equiv> map fst d"

abbreviation wf_dict :: "'v dict \<Rightarrow> bool" where
  "wf_dict d \<equiv> distinct (map fst d)"

definition dict_update :: "'v dict \<Rightarrow> 'v dict \<Rightarrow> 'v dict" where
  "dict_update d changes = fold (\<lambda>(k, v). AList.update k v) changes d"

definition dict_get_or_raise :: "'v dict \<Rightarrow> string \<Rightarrow> 'v result" where
  "dict_get_or_raise d k = (case dict_get d k of None \<Rightarrow> Inl (KeyError k) | Some v \<Rightarrow> Inr v)"

lemma dict_get_update [simp]:
  "dict_get (AList.update k v d) k' = (if k' = k then Some v else dict_get d k')"
  by (simp add: update_conv')

lemma dict_get_delete [simp]:
  "dict_get (AList.delete k d) k' = (if k' = k then None else dict_get d k')"
  by (simp add: delete_conv')

lemma wf_dict_update [simp]: "wf_dict d \<Longrightarrow> wf_dict (AList.update k v d)"
  by (rule distinct_update)

lemma wf_dict_delete [simp]: "wf_dict d \<Longrightarrow> wf_dict (AList.delete k d)"
  by (rule distinct_delete)

lemma wf_dict_filter [simp]: "wf_dict d \<Longrightarrow> wf_dict (filter P d)"
  by (induction d) auto

lemma dict_get_filter_key:
  "dict_get (filter (\<lambda>(k, _). P k) d) k' = (if P k' then dict_get d k' else None)"
  by (induction d) auto

lemma dict_get_or_raise_Inr [result_simps]:
  "dict_get_or_raise d k = Inr v \<longleftrightarrow> dict_get d k = Some v"
  by (auto simp: dict_get_or_raise_def split: option.splits)

lemma dict_get_fold_update:
  "dict_get (fold (\<lambda>(k, v). AList.update k v) changes d) k =
     (case dict_get (rev changes) k of Some v \<Rightarrow> Some v | None \<Rightarrow> dict_get d k)"
proof (induction changes arbitrary: d)
  case (Cons c changes)
  then show ?case
    by (cases c) (auto simp: map_add_def split: option.splits)
qed simp

lemma dict_get_dict_update:
  "dict_get (dict_update d changes) k =
     (case dict_get (rev changes) k of Some v \<Rightarrow> Some v | None \<Rightarrow> dict_get d k)"
  by (simp add: dict_update_def dict_get_fold_update)

lemma dict_update_frame:
  assumes "k \<notin> set (keys changes)"
  shows "dict_get (dict_update d changes) k = dict_get d k"
proof -
  have "dict_get (rev changes) k = None"
    using assms by (auto simp: map_of_eq_None_iff rev_map [symmetric])
  then show ?thesis by (simp add: dict_get_dict_update)
qed

lemma wf_dict_fold_update:
  "wf_dict d \<Longrightarrow> wf_dict (fold (\<lambda>(k, v). AList.update k v) changes d)"
  by (induction changes arbitrary: d) auto

section \<open>Sets as sorted lists\<close>

text \<open>\<open>sorted(set(xs))\<close>: the distinct elements in increasing order.\<close>

definition sorted_set :: "('a :: linorder) list \<Rightarrow> 'a list" where
  "sorted_set xs = sort (remdups xs)"

lemma sorted_set_props [simp]:
  "sorted (sorted_set xs)" "distinct (sorted_set xs)" "set (sorted_set xs) = set xs"
  by (simp_all add: sorted_set_def)

lemma sorted_set_cong: "set xs = set ys \<Longrightarrow> sorted_set xs = sorted_set ys"
  by (rule sorted_distinct_set_unique) simp_all

section \<open>Strings\<close>

definition lower_char :: "char \<Rightarrow> char" where
  "lower_char c =
     (let n = of_char c :: nat
      in if (65 \<le> n \<and> n \<le> 90) \<or> (192 \<le> n \<and> n \<le> 222 \<and> n \<noteq> 215) then char_of (n + 32) else c)"

definition lower :: "string \<Rightarrow> string" where
  "lower s = map lower_char s"

definition is_space :: "char \<Rightarrow> bool" where
  "is_space c = (let n = of_char c :: nat
     in (9 \<le> n \<and> n \<le> 13) \<or> (28 \<le> n \<and> n \<le> 32) \<or> n = 133 \<or> n = 160)"

definition strip :: "string \<Rightarrow> string" where
  "strip s = rev (dropWhile is_space (rev (dropWhile is_space s)))"

fun split_on :: "char \<Rightarrow> string \<Rightarrow> string list" where
  "split_on c [] = [[]]"
| "split_on c (x # xs) =
     (if x = c then [] # split_on c xs
      else (case split_on c xs of [] \<Rightarrow> [[x]] | p # ps \<Rightarrow> (x # p) # ps))"

fun join_with :: "string \<Rightarrow> string list \<Rightarrow> string" where
  "join_with sep [] = []"
| "join_with sep [x] = x"
| "join_with sep (x # y # ys) = x @ sep @ join_with sep (y # ys)"

definition startswith :: "string \<Rightarrow> string \<Rightarrow> bool" where
  "startswith s p = (take (length p) s = p)"

lemma split_on_ne [simp]: "split_on c s \<noteq> []"
  by (cases s) (auto split: list.splits)

lemma join_split: "join_with [c] (split_on c s) = s"
proof (induction s)
  case (Cons x xs)
  then show ?case
    by (cases "split_on c xs") (auto, (cases "tl (split_on c xs)", auto)+)
qed simp

lemma split_on_no_sep: "p \<in> set (split_on c s) \<Longrightarrow> c \<notin> set p"
proof (induction s arbitrary: p)
  case (Cons x xs)
  then show ?case
    by (auto split: if_splits list.splits)
qed simp

lemma split_join:
  assumes "ps \<noteq> []" and "\<And>p. p \<in> set ps \<Longrightarrow> c \<notin> set p"
  shows "split_on c (join_with [c] ps) = ps"
proof -
  have sep: "split_on c (p @ c # s) = p # split_on c s" if "c \<notin> set p" for p s
    using that by (induction p) auto
  have solo: "split_on c p = [p]" if "c \<notin> set p" for p
    using that by (induction p) auto
  from assms show ?thesis
    by (induction "[c]" ps rule: join_with.induct) (auto simp: sep solo)
qed

end
