(* ===== verification/Project_Types.thy ===== *)
theory Project_Types
  imports Prelude
begin

text \<open>
  The node-type questions kernel code asks a project (\<open>core/project_types.py\<close>) and the
  research project's answers (\<open>core/research_type.py\<close>). A frozen set of the source is a
  list here; only membership in it is ever asked. \<open>project_type_of\<close> ignores the graph it
  is given, as the source does while there is one project type, so it is the constant
  \<open>project_type_of\<close>.
\<close>

section \<open>The questions\<close>

record project_type =
  pt_name :: string
  pt_node_types :: "string list"
  pt_labels :: "string dict"
  pt_plural_labels :: "string dict"
  pt_protected_belief_types :: "string list"
  pt_belief_types :: "string list"
  pt_outcome_types :: "string list"
  pt_belief_outcome_relations :: "string list"
  pt_control_node_types :: "string list"
  pt_chooser_types :: "string list"
  pt_blocker_types :: "string list"
  pt_question_types :: "string list"
  pt_protected_relations :: "string list"
  pt_blocking_relations :: "string list"
  pt_lifecycle_fields :: "string dict"
  pt_default_lifecycle_field :: string
  pt_retired_value :: string

text \<open>
  The membership questions take \<open>str | None\<close>; no set of the source contains \<open>None\<close>.
\<close>

fun opt_member :: "string option \<Rightarrow> string list \<Rightarrow> bool" where
  "opt_member None xs = False"
| "opt_member (Some x) xs = (x \<in> set xs)"

definition is_protected_belief :: "project_type \<Rightarrow> string option \<Rightarrow> bool" where
  "is_protected_belief pt t = opt_member t (pt_protected_belief_types pt)"

definition is_belief :: "project_type \<Rightarrow> string option \<Rightarrow> bool" where
  "is_belief pt t = opt_member t (pt_belief_types pt)"

definition is_outcome :: "project_type \<Rightarrow> string option \<Rightarrow> bool" where
  "is_outcome pt t = opt_member t (pt_outcome_types pt)"

definition is_control_node :: "project_type \<Rightarrow> string option \<Rightarrow> bool" where
  "is_control_node pt t = opt_member t (pt_control_node_types pt)"

definition is_chooser :: "project_type \<Rightarrow> string option \<Rightarrow> bool" where
  "is_chooser pt t = opt_member t (pt_chooser_types pt)"

definition is_blocker :: "project_type \<Rightarrow> string option \<Rightarrow> bool" where
  "is_blocker pt t = opt_member t (pt_blocker_types pt)"

definition is_question :: "project_type \<Rightarrow> string option \<Rightarrow> bool" where
  "is_question pt t = opt_member t (pt_question_types pt)"

definition lifecycle_field :: "project_type \<Rightarrow> string \<Rightarrow> string" where
  "lifecycle_field pt t =
     (case dict_get (pt_lifecycle_fields pt) t of
        Some f \<Rightarrow> f | None \<Rightarrow> pt_default_lifecycle_field pt)"

definition ordered :: "project_type \<Rightarrow> string list \<Rightarrow> string list" where
  "ordered pt wanted = filter (\<lambda>t. t \<in> set wanted) (pt_node_types pt)"

definition label :: "project_type \<Rightarrow> string \<Rightarrow> string result" where
  "label pt t = dict_get_or_raise (pt_labels pt) t"

definition label_list ::
  "project_type \<Rightarrow> string list \<Rightarrow> string \<Rightarrow> bool \<Rightarrow> string result" where
  "label_list pt node_types conjunction plural =
     (let names = (if plural then pt_plural_labels pt else pt_labels pt)
      in bind_r (map_r (dict_get_or_raise names) (ordered pt node_types)) (\<lambda>words.
           if length words \<le> 2 then Inr (join_with ('' '' @ conjunction @ '' '') words)
           else Inr (join_with '', '' (butlast words) @ '', '' @ conjunction @ '' '' @ last words)))"

section \<open>The research project's answers\<close>

definition RESEARCH :: project_type where
  "RESEARCH = \<lparr>
     pt_name = ''research'',
     pt_node_types = [''research_question'', ''hypothesis'', ''decision'', ''experiment'',
                      ''evidence'', ''blocker''],
     pt_labels = [(''research_question'', ''ResearchQuestion''), (''hypothesis'', ''Hypothesis''),
                  (''decision'', ''Decision''), (''experiment'', ''Experiment''),
                  (''evidence'', ''Evidence''), (''blocker'', ''Blocker'')],
     pt_plural_labels = [(''research_question'', ''ResearchQuestions''),
                  (''hypothesis'', ''Hypotheses''), (''decision'', ''Decisions''),
                  (''experiment'', ''Experiments''), (''evidence'', ''Evidence''),
                  (''blocker'', ''Blockers'')],
     pt_protected_belief_types = [''research_question'', ''hypothesis''],
     pt_belief_types = [''hypothesis''],
     pt_outcome_types = [''evidence''],
     pt_belief_outcome_relations =
       [''supports'', ''weakens'', ''refutes'', ''inconclusive'', ''contradicts''],
     pt_control_node_types = [''experiment''],
     pt_chooser_types = [''decision''],
     pt_blocker_types = [''blocker''],
     pt_question_types = [''research_question''],
     pt_protected_relations = [''has_subquestion'', ''has_hypothesis''],
     pt_blocking_relations = [''blocked_by''],
     pt_lifecycle_fields = [(''evidence'', ''validity'')],
     pt_default_lifecycle_field = ''status'',
     pt_retired_value = ''superseded''\<rparr>"

definition project_type_of :: project_type where
  "project_type_of = RESEARCH"

section \<open>Facts the components use\<close>

lemmas project_type_defs = project_type_of_def RESEARCH_def

lemma is_belief_research: "is_belief project_type_of t \<longleftrightarrow> t = Some ''hypothesis''"
  by (cases t) (simp_all add: is_belief_def project_type_defs)

lemma lifecycle_field_research:
  "lifecycle_field project_type_of t = (if t = ''evidence'' then ''validity'' else ''status'')"
  by (simp add: lifecycle_field_def project_type_defs)

lemma retired_value_research [simp]: "pt_retired_value project_type_of = ''superseded''"
  by (simp add: project_type_defs)

lemma map_r_total:
  "(\<And>x. x \<in> set xs \<Longrightarrow> \<exists>y. f x = Inr y) \<Longrightarrow> \<exists>ys. map_r f xs = Inr ys"
  by (induction xs) (fastforce simp: result_simps)+

lemma research_types_labelled:
  assumes "t \<in> set (pt_node_types project_type_of)"
  shows "\<exists>w. dict_get_or_raise (pt_labels project_type_of) t = Inr w"
    and "\<exists>w. dict_get_or_raise (pt_plural_labels project_type_of) t = Inr w"
  using assms by (auto simp: project_type_defs dict_get_or_raise_def)

end
