(* ===== verification/Node_Models.thy ===== *)
theory Node_Models
  imports Project_Types
begin

text \<open>
  The node, relation, ontology and edge models of \<open>core/models.py\<close>. A model class is
  declared by its table of fields (\<open>field_decl\<close>: name, annotation, default and the
  \<open>GraphField\<close> metadata the source attaches), because the program itself reads the
  declarations as data (\<open>graph_fields\<close>). A node instance (\<open>project_node\<close>) carries
  the fields of \<open>BaseNode\<close> and its class's own attributes as a dictionary of values.
  Reader-facing descriptions of fields and relations are not modelled.
\<close>

section \<open>Values\<close>

text \<open>
  Python values that occur in documents: \<open>None\<close>, booleans, integers, floats (kept as
  their text), strings (also members of the string enums), datetimes (an instant), lists
  and dictionaries.
\<close>

datatype val =
    VNone
  | VBool bool
  | VInt int
  | VFloat string
  | VStr string
  | VTime int
  | VList "val list"
  | VDict "(string \<times> val) list"

fun is_VStr :: "val \<Rightarrow> bool" where
  "is_VStr (VStr s) = True"
| "is_VStr _ = False"

section \<open>Field declarations\<close>

datatype field_role = Content | Engine | Identity

datatype node_update_policy = Immutable | Replay_only

datatype proposal_owner = Filing | Resolution

text \<open>The annotations that occur on node classes.\<close>

datatype annotation =
    AStr
  | AStrOpt
  | ABool
  | AInt "int option" \<comment> \<open>the lower bound \<open>ge\<close>, if any\<close>
  | ALit "string list"
  | ALitOpt "string list"
  | AStrList
  | AModelList string
  | AExtensionFields
  | APattern "string" \<comment> \<open>an optional string that must match a pattern\<close>

record field_decl =
  fd_name :: string
  fd_annotation :: annotation
  fd_default :: "val option" \<comment> \<open>\<open>None\<close>: the field is required\<close>
  fd_role :: field_role
  fd_node_update :: "node_update_policy option"
  fd_proposal_owner :: "proposal_owner option"

abbreviation content_field :: "string \<Rightarrow> annotation \<Rightarrow> val option \<Rightarrow> field_decl" where
  "content_field n a d \<equiv> \<lparr>fd_name = n, fd_annotation = a, fd_default = d, fd_role = Content,
     fd_node_update = None, fd_proposal_owner = None\<rparr>"

abbreviation node_field ::
  "field_role \<Rightarrow> node_update_policy option \<Rightarrow> string \<Rightarrow> annotation \<Rightarrow> val option \<Rightarrow> field_decl" where
  "node_field r u n a d \<equiv> \<lparr>fd_name = n, fd_annotation = a, fd_default = d, fd_role = r,
     fd_node_update = u, fd_proposal_owner = None\<rparr>"

text \<open>\<open>graph_fields\<close> selects the declared names whose metadata match every filter given.\<close>

definition graph_fields ::
  "field_decl list \<Rightarrow> field_role option \<Rightarrow> node_update_policy option \<Rightarrow>
   proposal_owner option \<Rightarrow> string list" where
  "graph_fields model role node_update proposal_owner =
     map fd_name (filter (\<lambda>f.
       (role = None \<or> Some (fd_role f) = role) \<and>
       (node_update = None \<or> fd_node_update f = node_update) \<and>
       (proposal_owner = None \<or> fd_proposal_owner f = proposal_owner)) model)"

section \<open>Node classes\<close>

definition identifier_pattern :: string where
  "identifier_pattern = ''^[a-z][a-z0-9]*(?:_[a-z0-9]+)*$''"

definition is_lower_alnum :: "char \<Rightarrow> bool" where
  "is_lower_alnum c =
     (let n = of_char c :: nat in (97 \<le> n \<and> n \<le> 122) \<or> (48 \<le> n \<and> n \<le> 57))"

text \<open>What the pattern matches: words of lower-case letters and digits joined by single underscores, a letter first.\<close>

definition is_identifier :: "string \<Rightarrow> bool" where
  "is_identifier s = (s \<noteq> [] \<and> (let n = of_char (hd s) :: nat in 97 \<le> n \<and> n \<le> 122)
     \<and> list_all (\<lambda>w. w \<noteq> [] \<and> list_all is_lower_alnum w) (split_on (CHR ''_'') s))"

definition BaseNode :: "field_decl list" where
  "BaseNode = [
     node_field Identity (Some Immutable) ''id'' AStr None,
     content_field ''title'' AStr None,
     node_field Identity (Some Immutable) ''extension_type'' (APattern identifier_pattern)
       (Some VNone),
     content_field ''extension_fields'' AExtensionFields (Some (VDict [])),
     node_field Content (Some Immutable) ''standing''
       (ALit [''asserted'', ''accepted'', ''contested'']) (Some (VStr ''asserted'')),
     node_field Engine (Some Immutable) ''created_rev'' (AInt None) (Some (VInt 0)),
     node_field Engine (Some Immutable) ''updated_rev'' (AInt None) (Some (VInt 0)),
     content_field ''source_refs'' (AModelList ''SourceRef'') (Some (VList []))]"

text \<open>The discriminator every node class declares.\<close>

abbreviation type_field :: "string \<Rightarrow> field_decl" where
  "type_field t \<equiv> node_field Identity (Some Immutable) ''type'' (ALit [t]) None"

definition ResearchQuestion :: "field_decl list" where
  "ResearchQuestion = [
     type_field ''research_question'',
     content_field ''question'' AStr None,
     content_field ''motivation'' AStr (Some (VStr [])),
     content_field ''scope'' AStr (Some (VStr [])),
     content_field ''status'' (ALit [''open'', ''answered'', ''abandoned'', ''superseded''])
       (Some (VStr ''open''))]"

definition Hypothesis :: "field_decl list" where
  "Hypothesis = [
     type_field ''hypothesis'',
     content_field ''statement'' AStr None,
     content_field ''rationale'' AStr (Some (VStr [])),
     content_field ''predictions'' AStrList (Some (VList [])),
     content_field ''scope'' AStr (Some (VStr [])),
     content_field ''status''
       (ALit [''proposed'', ''active'', ''supported'', ''weakened'', ''rejected'', ''superseded''])
       (Some (VStr ''proposed''))]"

definition Decision :: "field_decl list" where
  "Decision = [
     type_field ''decision'',
     content_field ''question'' AStr None,
     content_field ''options'' AStrList (Some (VList [])),
     content_field ''selected_option'' AStrOpt (Some VNone),
     content_field ''rationale'' AStrOpt (Some VNone),
     content_field ''consequences'' AStrList (Some (VList [])),
     content_field ''status'' (ALit [''open'', ''ready'', ''decided'', ''revisit'', ''superseded''])
       (Some (VStr ''open''))]"

definition Experiment :: "field_decl list" where
  "Experiment = [
     type_field ''experiment'',
     content_field ''objective'' AStr None,
     content_field ''design'' AStr (Some (VStr [])),
     content_field ''proxies'' (AModelList ''ExperimentProxy'') (Some (VList [])),
     content_field ''limitations'' AStrList (Some (VList [])),
     content_field ''expected_outcomes'' AStrList (Some (VList [])),
     content_field ''interpretation_rules'' AStrList (Some (VList [])),
     content_field ''completion_criteria'' AStrList (Some (VList [])),
     content_field ''invocation_ceiling'' (AInt (Some 1)) (Some (VInt 5)),
     content_field ''status''
       (ALit [''proposed'', ''designing'', ''implementing'', ''debugging'', ''running'',
              ''analyzing'', ''completed'', ''unspecified'', ''abandoned'', ''superseded''])
       (Some (VStr ''proposed'')),
     content_field ''attempts'' (AModelList ''ExperimentAttempt'') (Some (VList [])),
     content_field ''current_summary'' AStr (Some (VStr [])),
     content_field ''next_action'' AStrOpt (Some VNone),
     node_field Engine (Some Replay_only) ''current_summary_stale'' ABool (Some (VBool False)),
     node_field Engine (Some Replay_only) ''next_action_stale'' ABool (Some (VBool False))]"

definition Evidence :: "field_decl list" where
  "Evidence = [
     type_field ''evidence'',
     content_field ''observation'' AStr None,
     content_field ''interpretation'' AStr (Some (VStr [])),
     content_field ''role'' (ALit [''result'', ''diagnostic'']) (Some (VStr ''result'')),
     node_field Content (Some Replay_only) ''legacy_strength''
       (ALitOpt [''diagnostic'', ''preliminary'', ''supporting'', ''confirmatory'']) (Some VNone),
     content_field ''validity'' (ALit [''valid'', ''qualified'', ''invalid'', ''superseded''])
       (Some (VStr ''valid'')),
     content_field ''origin''
       (ALit [''internal_run'', ''external_publication'', ''external_instance'', ''analytic'',
              ''unknown'']) (Some (VStr ''unknown'')),
     content_field ''artifact_refs'' AStrList (Some (VList []))]"

definition Blocker :: "field_decl list" where
  "Blocker = [
     type_field ''blocker'',
     content_field ''description'' AStr None,
     content_field ''blocker_type''
       (ALit [''scientific'', ''design'', ''data'', ''implementation'', ''infrastructure'',
              ''unknown'']) (Some (VStr ''unknown'')),
     content_field ''status'' (ALit [''open'', ''resolved'', ''superseded'']) (Some (VStr ''open'')),
     content_field ''resolution_condition'' AStr (Some (VStr [])),
     content_field ''recommended_action'' AStrOpt (Some VNone)]"

text \<open>
  The discriminated union \<open>ProjectNode\<close>: the class a \<open>type\<close> value selects, with its own
  fields. The fields of \<open>BaseNode\<close> are inherited by each.
\<close>

definition node_class :: "string \<Rightarrow> field_decl list option" where
  "node_class t = map_of [
     (''research_question'', ResearchQuestion), (''hypothesis'', Hypothesis),
     (''decision'', Decision), (''experiment'', Experiment), (''evidence'', Evidence),
     (''blocker'', Blocker)] t"

definition NODE_MODELS :: "field_decl list list" where
  "NODE_MODELS = map (\<lambda>own. BaseNode @ own)
     [ResearchQuestion, Hypothesis, Decision, Experiment, Evidence, Blocker]"

definition ALL_NODE_TYPES :: "string list" where
  "ALL_NODE_TYPES = [''research_question'', ''hypothesis'', ''decision'', ''experiment'',
     ''evidence'', ''blocker'']"

definition IMMUTABLE_NODE_UPDATE_FIELDS :: "string list" where
  "IMMUTABLE_NODE_UPDATE_FIELDS = remdups (concat (map (\<lambda>model.
     concat (map (\<lambda>policy. graph_fields model None (Some policy) None) [Immutable, Replay_only]))
     NODE_MODELS))"

definition LEGACY_COMPATIBILITY_UPDATE_FIELDS :: "string list" where
  "LEGACY_COMPATIBILITY_UPDATE_FIELDS = remdups (concat (map (\<lambda>model.
     graph_fields model None (Some Replay_only) None) NODE_MODELS))"

section \<open>Node instances\<close>

datatype standing = ASSERTED | ACCEPTED | CONTESTED

fun standing_value :: "standing \<Rightarrow> string" where
  "standing_value ASSERTED = ''asserted''"
| "standing_value ACCEPTED = ''accepted''"
| "standing_value CONTESTED = ''contested''"

text \<open>\<open>Standing(value)\<close>: the enum member with this value, or \<open>ValueError\<close>.\<close>

definition Standing :: "string \<Rightarrow> standing result" where
  "Standing s = (if s = ''asserted'' then Inr ASSERTED else if s = ''accepted'' then Inr ACCEPTED
     else if s = ''contested'' then Inr CONTESTED else Inl (ValueError s))"

record project_node =
  n_id :: string
  n_title :: string
  n_extension_type :: "string option"
  n_extension_fields :: "val dict"
  n_standing :: standing
  n_created_rev :: int
  n_updated_rev :: int
  n_source_refs :: "val list" \<comment> \<open>dumped \<open>SourceRef\<close> records\<close>
  n_type :: string
  n_attrs :: "val dict" \<comment> \<open>the attributes its own class declares, but for \<open>type\<close>\<close>

fun opt_str :: "string option \<Rightarrow> val" where
  "opt_str None = VNone"
| "opt_str (Some s) = VStr s"

text \<open>\<open>node.model_dump(mode="python")\<close>: every field of the instance under its name.\<close>

definition node_model_dump :: "project_node \<Rightarrow> val dict" where
  "node_model_dump n = [
     (''id'', VStr (n_id n)),
     (''title'', VStr (n_title n)),
     (''extension_type'', opt_str (n_extension_type n)),
     (''extension_fields'', VDict (n_extension_fields n)),
     (''standing'', VStr (standing_value (n_standing n))),
     (''created_rev'', VInt (n_created_rev n)),
     (''updated_rev'', VInt (n_updated_rev n)),
     (''source_refs'', VList (n_source_refs n)),
     (''type'', VStr (n_type n))] @ n_attrs n"

text \<open>Attribute access on the fields of a node's own class (\<open>node.status\<close>).\<close>

definition node_attr :: "project_node \<Rightarrow> string \<Rightarrow> val option" where
  "node_attr n f = dict_get (n_attrs n) f"

lemma Standing_value [simp]: "Standing (standing_value s) = Inr s"
  by (cases s) (simp_all add: Standing_def)

lemma Standing_Inr: "Standing v = Inr s \<longleftrightarrow> v = standing_value s"
  by (cases s) (auto simp: Standing_def split: if_splits)

section \<open>Relations\<close>

datatype relation_layer = Epistemic | Action | Seam | Meta

record relation_spec =
  rs_source_types :: "string list"
  rs_target_types :: "string list"
  rs_layer :: relation_layer
  rs_same_type :: bool
  rs_authorable :: bool

abbreviation relspec :: "string list \<Rightarrow> string list \<Rightarrow> relation_layer \<Rightarrow> relation_spec" where
  "relspec ss ts l \<equiv> \<lparr>rs_source_types = ss, rs_target_types = ts, rs_layer = l,
     rs_same_type = False, rs_authorable = True\<rparr>"

definition RELATION_SPEC :: "relation_spec dict" where
  "RELATION_SPEC = [
     (''has_subquestion'', relspec [''research_question''] [''research_question''] Epistemic),
     (''has_hypothesis'', relspec [''research_question''] [''hypothesis''] Epistemic),
     (''supports'', relspec [''evidence''] [''hypothesis''] Epistemic),
     (''weakens'', relspec [''evidence''] [''hypothesis''] Epistemic),
     (''refutes'', relspec [''evidence''] [''hypothesis''] Epistemic),
     (''inconclusive'', relspec [''evidence''] [''hypothesis''] Epistemic),
     (''contradicts'', relspec [''evidence'', ''hypothesis''] [''hypothesis''] Epistemic),
     (''tests'', relspec [''experiment''] [''hypothesis''] Seam),
     (''produces'', relspec [''experiment''] [''evidence''] Seam),
     (''informs'', relspec [''evidence''] [''decision''] Action),
     (''addresses'', relspec [''evidence''] [''blocker''] Action),
     (''has_decision'', relspec [''hypothesis''] [''decision''] Action),
     (''governed_by'', relspec [''experiment''] [''decision''] Action),
     (''blocked_by'', relspec [''experiment''] [''blocker''] Action),
     (''requires_decision'', (relspec [''blocker''] [''decision''] Action)\<lparr>rs_authorable := False\<rparr>),
     (''supersedes'', (relspec ALL_NODE_TYPES ALL_NODE_TYPES Meta)\<lparr>rs_same_type := True\<rparr>),
     (''duplicate_of'', (relspec ALL_NODE_TYPES ALL_NODE_TYPES Meta)\<lparr>rs_same_type := True\<rparr>)]"

section \<open>The project ontology\<close>

record ontology_type_definition =
  ot_name :: string
  ot_definition :: string
  ot_base_type :: string
  ot_layer :: relation_layer
  ot_deprecated :: bool

datatype field_kind = Text | Number | Boolean | Text_list

record ontology_field_definition =
  of_owner_type :: string
  of_name :: string
  of_definition :: string
  of_kind :: field_kind
  of_required :: bool
  of_agent_writable :: bool
  of_deprecated :: bool

record ontology_relation_definition =
  or_name :: string
  or_definition :: string
  or_source_types :: "string list"
  or_target_types :: "string list"
  or_layer :: relation_layer
  or_deprecated :: bool

record ontology_state =
  os_types :: "ontology_type_definition list"
  os_fields :: "ontology_field_definition list"
  os_relations :: "ontology_relation_definition list"

definition require_unique_names :: "ontology_state \<Rightarrow> ontology_state result" where
  "require_unique_names os =
     (if \<not> distinct (map ot_name (os_types os)) then Inl (ValueError ''type'')
      else if \<not> distinct (map (\<lambda>f. of_owner_type f @ ''.'' @ of_name f) (os_fields os))
        then Inl (ValueError ''field'')
      else if \<not> distinct (map or_name (os_relations os)) then Inl (ValueError ''relation'')
      else Inr os)"

section \<open>Edges and evidence assessments\<close>

datatype relevance = Direct | Indirect | Contextual

datatype weight = Limited | Moderate | Strong

record evidence_assessment =
  ea_relevance :: relevance
  ea_weight :: weight
  ea_scope :: "string option"
  ea_qualifications :: "string list"

definition normalize_scope :: "val \<Rightarrow> val result" where
  "normalize_scope v = (case v of
     VStr s \<Rightarrow> (if strip s = [] then Inl (ValueError ''assessment scope must not be blank'')
                else Inr (VStr (strip s)))
   | _ \<Rightarrow> Inr v)"

text \<open>The loop of \<open>normalize_qualifications\<close>, with the set of qualifications seen so far.\<close>

fun normalize_qualification_items :: "val list \<Rightarrow> string list \<Rightarrow> val list result" where
  "normalize_qualification_items [] seen = Inr []"
| "normalize_qualification_items (VStr item # items) seen =
     (let qualification = strip item in
      if qualification = [] then Inl (ValueError ''assessment qualifications must not be blank'')
      else if qualification \<in> set seen
        then Inl (ValueError ''assessment qualifications must not contain duplicates'')
      else bind_r (normalize_qualification_items items (qualification # seen))
             (\<lambda>rest. Inr (VStr qualification # rest)))"
| "normalize_qualification_items (item # items) seen =
     bind_r (normalize_qualification_items items seen) (\<lambda>rest. Inr (item # rest))"

definition normalize_qualifications :: "val \<Rightarrow> val result" where
  "normalize_qualifications v = (case v of
     VList items \<Rightarrow> bind_r (normalize_qualification_items items []) (\<lambda>items'. Inr (VList items'))
   | _ \<Rightarrow> Inr v)"

datatype edge_expectation = Matched | Diverged | No_expectation

record edge =
  e_id :: string
  e_source :: string
  e_target :: string
  e_relation :: string
  e_layer :: relation_layer
  e_explanation :: string
  e_assessment :: "evidence_assessment option"
  e_expectation :: "edge_expectation option"
  e_created_rev :: int

text \<open>
  \<open>Edge.derive_base_relation_layer\<close>: the layer of a base relation replaces any layer
  given; a custom relation keeps the one given.
\<close>

definition derive_base_relation_layer :: "string \<Rightarrow> relation_layer option \<Rightarrow> relation_layer option" where
  "derive_base_relation_layer relation given =
     (case dict_get RELATION_SPEC relation of None \<Rightarrow> given | Some spec \<Rightarrow> Some (rs_layer spec))"

end
