(* ===== verification/Operations.thy ===== *)
theory Operations
  imports Node_Models
begin

text \<open>
  The graph-operation payloads of \<open>core/operations.py\<close> and the \<open>Proposal\<close> model that
  carries them (\<open>core/models.py\<close>). A payload class is a record, the two discriminated
  unions are datatypes with one constructor per class. Where the program distinguishes a
  field that was given from one that was left out (\<open>exclude_unset\<close>,
  \<open>model_fields_set\<close>), the field is an option of its value: \<open>None\<close> is "left out",
  \<open>Some None\<close> is an explicit null. A legacy Proposal class is a subclass of the current
  one with the same payload; the flag \<open>legacy\<close> of a constructor tells them apart.
\<close>

section \<open>Payloads\<close>

datatype belief_cause =
    EvidenceEdgeCause string
  | DecisionCause string
  | ProposalResolutionCause string
  | HumanEditCause

record node_update =
  nu_id :: string
  nu_changes :: "val dict"
  nu_cause :: "belief_cause option"
  nu_base_updated_rev :: "int option"

record supersede_node =
  sn_id :: string
  sn_superseded_by :: "string option"
  sn_explanation :: string
  sn_cause :: "belief_cause option"

record node_merge =
  nm_duplicate :: string
  nm_canonical :: string
  nm_explanation :: string
  nm_cause :: "belief_cause option"

record new_edge =
  ne_id :: "string option option" \<comment> \<open>left out, explicit null, or given\<close>
  ne_source :: string
  ne_target :: string
  ne_relation :: string
  ne_explanation :: string
  ne_assessment :: "evidence_assessment option"
  ne_expectation :: "edge_expectation option"
  ne_fields_set :: "string list" \<comment> \<open>the names given\<close>
  ne_assessment_fields_set :: "string list" \<comment> \<open>the names given in the assessment\<close>

datatype ambiguity_status = Ambiguity_open | Ambiguity_resolved | Ambiguity_dismissed

record new_ambiguity =
  na_id :: string
  na_question :: string
  na_why_it_matters :: string
  na_candidates :: "string list"
  na_related_node_ids :: "string list"
  na_artifact_refs :: "string list"
  na_status :: ambiguity_status

text \<open>The payload admits only \<open>resolved\<close> and \<open>dismissed\<close>.\<close>

datatype ambiguity_outcome = Resolved | Dismissed

record ambiguity_resolution =
  ar_id :: string
  ar_status :: ambiguity_outcome

datatype resolution_status = Approve | Reject | Withdraw

record proposal_resolution =
  pr_id :: string
  pr_status :: resolution_status
  pr_reason :: "string option"

record proposal_withdrawal =
  pw_id :: string
  pw_reason :: string

record new_glossary_term =
  ng_term :: string
  ng_plain_definition :: string
  ng_where_defined :: "string option"

record coverage_update =
  cu_repositories_seen :: "string list"
  cu_repositories_never_seen :: "string list"
  cu_sessions_read :: "string list"
  cu_sessions_skipped :: "string list"
  cu_earliest_timestamp :: "int option"
  cu_note :: string

record repository_descriptor =
  rd_alias :: string
  rd_machine :: string
  rd_path :: string

text \<open>
  A node to create: the validated instance and the names of the fields it was given; its nested
  records are the dictionaries of the fields they were given.
\<close>

record node_payload =
  np_node :: project_node
  np_fields_set :: "string list"

section \<open>Proposal operations\<close>

datatype edge_op = Create_edges | Remove_edges

record protected_relation =
  px_op :: edge_op
  px_edges :: "new_edge list option option"
  px_edge_ids :: "string list option option"

definition field_value :: "'a option option \<Rightarrow> 'a option" where
  "field_value f = (case f of None \<Rightarrow> None | Some v \<Rightarrow> v)"

definition require_matching_payload :: "protected_relation \<Rightarrow> protected_relation result" where
  "require_matching_payload p =
     (if px_op p = Create_edges
          \<and> (field_value (px_edges p) = None \<or> field_value (px_edge_ids p) \<noteq> None)
        then Inl (ValueError ''create_edges requires edges and forbids edge_ids'')
      else if px_op p = Remove_edges
          \<and> (field_value (px_edge_ids p) = None \<or> field_value (px_edges p) \<noteq> None)
        then Inl (ValueError ''remove_edges requires edge_ids and forbids edges'')
      else Inr p)"

datatype proposal_operation =
    ProposalContentChangeOperation (legacy: bool) "node_update list"
  | ProposalStatusChangeOperation (legacy: bool) "node_update list"
  | ProposalStandingChangeOperation string standing
  | ProposalRemovalOperation (legacy: bool) "string list"
  | ProposalSupersedeOperation (legacy: bool) "supersede_node list"
  | ProposalMergeOperation (legacy: bool) "node_merge list"
  | ProposalProtectedRelationOperation (legacy: bool) protected_relation
  | LegacyProposalSetProjectTruthScopeOperation "string list" "repository_descriptor option"
  | LegacyProposalSetOntologyOperation ontology_state
  | LegacyProposalCreateNodesOperation "node_payload list"
  | LegacyProposalCreateAmbiguitiesOperation "new_ambiguity list"
  | LegacyProposalResolveAmbiguitiesOperation "ambiguity_resolution list"
  | LegacyProposalUpsertGlossaryOperation "new_glossary_term list"
  | LegacyProposalSetCoverageOperation coverage_update

definition with_legacy :: "bool \<Rightarrow> string \<Rightarrow> string" where
  "with_legacy l s = (if l then ''legacy_'' @ s else s)"

fun intent :: "proposal_operation \<Rightarrow> string" where
  "intent (ProposalContentChangeOperation l _) = with_legacy l ''content_change''"
| "intent (ProposalStatusChangeOperation l _) = with_legacy l ''status_change''"
| "intent (ProposalStandingChangeOperation _ _) = ''standing_change''"
| "intent (ProposalRemovalOperation l _) = with_legacy l ''removal''"
| "intent (ProposalSupersedeOperation l _) = with_legacy l ''supersede''"
| "intent (ProposalMergeOperation l _) = with_legacy l ''merge''"
| "intent (ProposalProtectedRelationOperation l _) = with_legacy l ''protected_relation_change''"
| "intent (LegacyProposalSetProjectTruthScopeOperation _ _) = ''legacy_project_truth_scope_change''"
| "intent (LegacyProposalSetOntologyOperation _) = ''legacy_ontology_change''"
| "intent (LegacyProposalCreateNodesOperation _) = ''legacy_create_nodes''"
| "intent (LegacyProposalCreateAmbiguitiesOperation _) = ''legacy_create_ambiguities''"
| "intent (LegacyProposalResolveAmbiguitiesOperation _) = ''legacy_resolve_ambiguities''"
| "intent (LegacyProposalUpsertGlossaryOperation _) = ''legacy_upsert_glossary''"
| "intent (LegacyProposalSetCoverageOperation _) = ''legacy_set_coverage''"

section \<open>Proposals\<close>

record gated_card =
  gc_situation_cold :: string
  gc_why_human_now :: string
  gc_consequences :: string
  gc_decision_needed :: string

datatype proposal_status = Pending | Approved | Rejected | Withdrawn

datatype actor = Agent | Human

record proposal =
  p_id :: string
  p_title :: string
  p_card :: gated_card
  p_ops :: "proposal_operation list"
  p_related_node_ids :: "string list"
  p_related_edge_ids :: "string list"
  p_related_config_keys :: "string list"
  p_dependency_rule :: int
  p_base_rev :: int
  p_status :: proposal_status
  p_created_by :: "actor option" \<comment> \<open>\<open>None\<close>: not in \<open>model_fields_set\<close>\<close>
  p_created_by_operation_id :: "string option option" \<comment> \<open>outer \<open>None\<close>: not in \<open>model_fields_set\<close>\<close>
  p_raised_rev :: int
  p_resolved_rev :: "int option"
  p_resolved_by :: "actor option"
  p_resolved_by_operation_id :: "string option"
  p_resolution_reason :: "string option"
  p_rejection_reason :: "string option"

definition CURRENT_PROPOSAL_DEPENDENCY_RULE :: int where
  "CURRENT_PROPOSAL_DEPENDENCY_RULE = 2"

section \<open>Graph operations\<close>

datatype graph_operation =
    CreateNodesOperation "node_payload list"
  | UpdateNodesOperation "node_update list"
  | CreateEdgesOperation "new_edge list"
  | RemoveEdgesOperation "string list"
  | RemoveNodesOperation "string list"
  | SupersedeNodesOperation "supersede_node list"
  | MergeNodesOperation "node_merge list"
  | CreateAmbiguitiesOperation "new_ambiguity list"
  | ResolveAmbiguitiesOperation "ambiguity_resolution list"
  | CreateProposalsOperation "proposal list"
  | ResolveProposalsOperation "proposal_resolution list"
  | WithdrawProposalsOperation "proposal_withdrawal list"
  | UpsertGlossaryOperation "new_glossary_term list"
  | SetCoverageOperation coverage_update
  | SetStandingOperation string standing
  | SetProjectTruthScopeOperation "string list" "repository_descriptor option"
  | SetOntologyOperation ontology_state

fun op_name :: "graph_operation \<Rightarrow> string" where
  "op_name (CreateNodesOperation _) = ''create_nodes''"
| "op_name (UpdateNodesOperation _) = ''update_nodes''"
| "op_name (CreateEdgesOperation _) = ''create_edges''"
| "op_name (RemoveEdgesOperation _) = ''remove_edges''"
| "op_name (RemoveNodesOperation _) = ''remove_nodes''"
| "op_name (SupersedeNodesOperation _) = ''supersede_nodes''"
| "op_name (MergeNodesOperation _) = ''merge_nodes''"
| "op_name (CreateAmbiguitiesOperation _) = ''create_ambiguities''"
| "op_name (ResolveAmbiguitiesOperation _) = ''resolve_ambiguities''"
| "op_name (CreateProposalsOperation _) = ''create_proposals''"
| "op_name (ResolveProposalsOperation _) = ''resolve_proposals''"
| "op_name (WithdrawProposalsOperation _) = ''withdraw_proposals''"
| "op_name (UpsertGlossaryOperation _) = ''upsert_glossary''"
| "op_name (SetCoverageOperation _) = ''set_coverage''"
| "op_name (SetStandingOperation _ _) = ''set_standing''"
| "op_name (SetProjectTruthScopeOperation _ _) = ''set_project_truth_scope''"
| "op_name (SetOntologyOperation _) = ''set_ontology''"

text \<open>
  \<open>graph_operation_from_proposal\<close>: drop the intent and read the rest as a graph operation.
  The graph-operation classes forbid extra fields, so an explicit null under the other
  payload name of a protected-relation Proposal is refused, as is a missing payload.
\<close>

definition edge_operation_from_proposal :: "protected_relation \<Rightarrow> graph_operation result" where
  "edge_operation_from_proposal p = (case px_op p of
     Create_edges \<Rightarrow> (case (px_edges p, px_edge_ids p) of
         (Some (Some es), None) \<Rightarrow> Inr (CreateEdgesOperation es)
       | _ \<Rightarrow> Inl (ValueError ''create_edges''))
   | Remove_edges \<Rightarrow> (case (px_edge_ids p, px_edges p) of
         (Some (Some ids), None) \<Rightarrow> Inr (RemoveEdgesOperation ids)
       | _ \<Rightarrow> Inl (ValueError ''remove_edges'')))"

fun graph_operation_from_proposal :: "proposal_operation \<Rightarrow> graph_operation result" where
  "graph_operation_from_proposal (ProposalContentChangeOperation _ us) = Inr (UpdateNodesOperation us)"
| "graph_operation_from_proposal (ProposalStatusChangeOperation _ us) = Inr (UpdateNodesOperation us)"
| "graph_operation_from_proposal (ProposalStandingChangeOperation n s) = Inr (SetStandingOperation n s)"
| "graph_operation_from_proposal (ProposalRemovalOperation _ ns) = Inr (RemoveNodesOperation ns)"
| "graph_operation_from_proposal (ProposalSupersedeOperation _ ss) = Inr (SupersedeNodesOperation ss)"
| "graph_operation_from_proposal (ProposalMergeOperation _ ms) = Inr (MergeNodesOperation ms)"
| "graph_operation_from_proposal (ProposalProtectedRelationOperation _ p) =
     edge_operation_from_proposal p"
| "graph_operation_from_proposal (LegacyProposalSetProjectTruthScopeOperation ts r) =
     Inr (SetProjectTruthScopeOperation ts r)"
| "graph_operation_from_proposal (LegacyProposalSetOntologyOperation os) = Inr (SetOntologyOperation os)"
| "graph_operation_from_proposal (LegacyProposalCreateNodesOperation ns) = Inr (CreateNodesOperation ns)"
| "graph_operation_from_proposal (LegacyProposalCreateAmbiguitiesOperation as) =
     Inr (CreateAmbiguitiesOperation as)"
| "graph_operation_from_proposal (LegacyProposalResolveAmbiguitiesOperation rs) =
     Inr (ResolveAmbiguitiesOperation rs)"
| "graph_operation_from_proposal (LegacyProposalUpsertGlossaryOperation ts) =
     Inr (UpsertGlossaryOperation ts)"
| "graph_operation_from_proposal (LegacyProposalSetCoverageOperation c) = Inr (SetCoverageOperation c)"

definition graph_operations_from_proposal ::
  "proposal_operation list \<Rightarrow> graph_operation list result" where
  "graph_operations_from_proposal ops = map_r graph_operation_from_proposal ops"

section \<open>Datetimes on the wire\<close>

text \<open>
  \<open>_wire_datetime\<close> parses a string that looks like a date and leaves every other value as it
  is; the parser belongs to the validation library and is the parameter \<open>parse_time\<close>.
\<close>

definition wire_datetime :: "(string \<Rightarrow> val result) \<Rightarrow> val \<Rightarrow> val result" where
  "wire_datetime parse_time v = (case v of
     VStr s \<Rightarrow> (if length s \<ge> 10 \<and> s ! 4 = CHR ''-'' \<and> s ! 7 = CHR ''-'' then parse_time s
                else Inr v)
   | _ \<Rightarrow> Inr v)"

text \<open>Rewrite one field of a dictionary in place when it is present.\<close>

definition rewrite_field :: "(val \<Rightarrow> val result) \<Rightarrow> string \<Rightarrow> val dict \<Rightarrow> val dict result" where
  "rewrite_field f k d = (case dict_get d k of
     None \<Rightarrow> Inr d | Some v \<Rightarrow> bind_r (f v) (\<lambda>v'. Inr (AList.update k v' d)))"

definition adapt_source_ref_datetimes :: "(string \<Rightarrow> val result) \<Rightarrow> val \<Rightarrow> val result" where
  "adapt_source_ref_datetimes parse_time v = (case v of
     VList refs \<Rightarrow> bind_r (map_r (\<lambda>ref. case ref of
         VDict d \<Rightarrow> bind_r (rewrite_field (wire_datetime parse_time) ''timestamp'' d)
                     (\<lambda>d'. Inr (VDict d'))
       | _ \<Rightarrow> Inr ref) refs) (\<lambda>refs'. Inr (VList refs'))
   | _ \<Rightarrow> Inr v)"

definition adapt_attempt_datetimes :: "(string \<Rightarrow> val result) \<Rightarrow> val \<Rightarrow> val result" where
  "adapt_attempt_datetimes parse_time v = (case v of
     VDict d \<Rightarrow>
       bind_r (rewrite_field (wire_datetime parse_time) ''started_at'' d) (\<lambda>d1.
       bind_r (rewrite_field (wire_datetime parse_time) ''finished_at'' d1) (\<lambda>d2.
       bind_r (rewrite_field (adapt_source_ref_datetimes parse_time) ''source_refs'' d2) (\<lambda>d3.
       Inr (VDict d3))))
   | _ \<Rightarrow> Inr v)"

definition adapt_wire_node_datetimes :: "(string \<Rightarrow> val result) \<Rightarrow> val dict \<Rightarrow> val dict result" where
  "adapt_wire_node_datetimes parse_time doc =
     (if dict_get doc ''type'' = Some (VStr ''experiment'') then
        rewrite_field (\<lambda>v. case v of
            VList attempts \<Rightarrow> bind_r (map_r (adapt_attempt_datetimes parse_time) attempts)
                                (\<lambda>as. Inr (VList as))
          | _ \<Rightarrow> Inr v) ''attempts'' doc
      else Inr doc)"

section \<open>The node validator\<close>

text \<open>
  Reading a document as a node is the work of the validation library (\<open>TypeAdapter\<close>), which
  is not part of the repository: it is the parameter \<open>node_adapter\<close> of the operations that
  call it, in its default and its strict mode, together with its datetime parser, its reading
  of a source reference (of which only the truth repository is looked at) and of an experiment
  attempt (as the dictionary it dumps), and its rendering of a datetime in a JSON document.
\<close>

record node_adapter =
  ad_validate :: "val dict \<Rightarrow> project_node result"
  ad_validate_strict :: "val dict \<Rightarrow> project_node result"
  ad_parse_time :: "string \<Rightarrow> val result"
  ad_source_ref :: "val \<Rightarrow> string result"
  ad_attempt :: "val \<Rightarrow> val dict result"
  ad_json_time :: "int \<Rightarrow> string"

text \<open>\<open>strict_project_node\<close> on a document.\<close>

definition strict_project_node :: "node_adapter \<Rightarrow> val dict \<Rightarrow> project_node result" where
  "strict_project_node A doc =
     bind_r (case dict_get doc ''standing'' of
               Some (VStr s) \<Rightarrow> bind_r (Standing s) (\<lambda>_. Inr doc)
             | _ \<Rightarrow> Inr doc) (\<lambda>doc1.
     bind_r (rewrite_field (adapt_source_ref_datetimes (ad_parse_time A)) ''source_refs'' doc1) (\<lambda>doc2.
     bind_r (adapt_wire_node_datetimes (ad_parse_time A) doc2) (\<lambda>doc3.
     ad_validate_strict A doc3)))"

end
