(* ===== verification/Values.thy ===== *)
theory Values
  imports Operations
begin

text \<open>
  What the validation rules do with document values of unknown type: Python's truth value,
  equality, iteration, membership in a set of strings, \<open>str\<close> and the JSON form of a value.
  Equality compares dictionaries without regard to order and a boolean with the integer it is;
  floats are compared by their text. \<open>repr\<close> of a string is exact on 8-bit characters; a
  datetime never reaches \<open>str\<close>.
\<close>

fun truthy_val :: "val \<Rightarrow> bool" where
  "truthy_val VNone = False"
| "truthy_val (VBool b) = b"
| "truthy_val (VInt i) = (i \<noteq> 0)"
| "truthy_val (VFloat t) = (t \<noteq> ''0.0'' \<and> t \<noteq> ''-0.0'')"
| "truthy_val (VStr s) = (s \<noteq> [])"
| "truthy_val (VTime _) = True"
| "truthy_val (VList vs) = (vs \<noteq> [])"
| "truthy_val (VDict d) = (d \<noteq> [])"

text \<open>\<open>bool(d.get(k))\<close>\<close>

definition truthy_get :: "val dict \<Rightarrow> string \<Rightarrow> bool" where
  "truthy_get d k = (case dict_get d k of None \<Rightarrow> False | Some v \<Rightarrow> truthy_val v)"

text \<open>\<open>d.get(k) is not None\<close>\<close>

definition given_not_none :: "val dict \<Rightarrow> string \<Rightarrow> bool" where
  "given_not_none d k = (case dict_get d k of None \<Rightarrow> False | Some v \<Rightarrow> v \<noteq> VNone)"

text \<open>\<open>d.get(k, default)\<close>\<close>

definition get_default :: "val dict \<Rightarrow> string \<Rightarrow> val \<Rightarrow> val" where
  "get_default d k v = (case dict_get d k of None \<Rightarrow> v | Some w \<Rightarrow> w)"

fun int_of_val :: "val \<Rightarrow> int option" where
  "int_of_val (VInt i) = Some i"
| "int_of_val (VBool b) = Some (if b then 1 else 0)"
| "int_of_val _ = None"

fun py_eq :: "val \<Rightarrow> val \<Rightarrow> bool"
  and py_eq_list :: "val list \<Rightarrow> val list \<Rightarrow> bool"
  and py_eq_items :: "(string \<times> val) list \<Rightarrow> (string \<times> val) list \<Rightarrow> bool" where
  "py_eq (VList xs) w = (case w of VList ys \<Rightarrow> py_eq_list xs ys | _ \<Rightarrow> False)"
| "py_eq (VDict d) w = (case w of VDict e \<Rightarrow> length d = length e \<and> py_eq_items d e | _ \<Rightarrow> False)"
| "py_eq v w = (v = w \<or> (int_of_val v \<noteq> None \<and> int_of_val v = int_of_val w))"
| "py_eq_list [] ys = (ys = [])"
| "py_eq_list (x # xs) ys = (case ys of [] \<Rightarrow> False | y # ys' \<Rightarrow> py_eq x y \<and> py_eq_list xs ys')"
| "py_eq_items [] e = True"
| "py_eq_items ((k, v) # d) e =
     ((case dict_get e k of None \<Rightarrow> False | Some w \<Rightarrow> py_eq v w) \<and> py_eq_items d e)"

text \<open>\<open>v in frozenset(...)\<close> of strings: a list or a dictionary is not hashable.\<close>

fun in_frozenset :: "val option \<Rightarrow> string list \<Rightarrow> bool result" where
  "in_frozenset (Some (VStr s)) xs = Inr (s \<in> set xs)"
| "in_frozenset (Some (VList _)) xs = Inl (TypeError ''unhashable type: list'')"
| "in_frozenset (Some (VDict _)) xs = Inl (TypeError ''unhashable type: dict'')"
| "in_frozenset _ xs = Inr False"

text \<open>\<open>v in items\<close> of a list.\<close>

definition in_list :: "val \<Rightarrow> val list \<Rightarrow> bool" where
  "in_list v items = list_ex (py_eq v) items"

text \<open>\<open>for item in v\<close>\<close>

fun py_iter :: "val \<Rightarrow> val list result" where
  "py_iter (VList vs) = Inr vs"
| "py_iter (VDict d) = Inr (map (VStr \<circ> fst) d)"
| "py_iter (VStr s) = Inr (map (\<lambda>c. VStr [c]) s)"
| "py_iter _ = Inl (TypeError ''not iterable'')"

section \<open>Text of a value\<close>

definition digit :: "nat \<Rightarrow> char" where
  "digit n = char_of (48 + n)"

fun nat_digits :: "nat \<Rightarrow> string" where
  "nat_digits n = (if n < 10 then [digit n] else nat_digits (n div 10) @ [digit (n mod 10)])"

definition int_text :: "int \<Rightarrow> string" where
  "int_text i = (if i < 0 then ''-'' @ nat_digits (nat (- i)) else nat_digits (nat i))"

definition hex_digit :: "nat \<Rightarrow> char" where
  "hex_digit n = (if n < 10 then digit n else char_of (87 + n))"

definition repr_char :: "char \<Rightarrow> char \<Rightarrow> string" where
  "repr_char quote c = (let n = of_char c :: nat in
     if c = quote \<or> n = 92 then [CHR 0x5C, c]
     else if n = 9 then [CHR 0x5C, CHR ''t''] else if n = 10 then [CHR 0x5C, CHR ''n'']
     else if n = 13 then [CHR 0x5C, CHR ''r'']
     else if n < 32 \<or> (127 \<le> n \<and> n \<le> 160) \<or> n = 173
       then [CHR 0x5C, CHR ''x'', hex_digit (n div 16), hex_digit (n mod 16)]
     else [c])"

definition repr_str :: "string \<Rightarrow> string" where
  "repr_str s = (let quote = (if CHR 0x27 \<in> set s \<and> CHR 0x22 \<notin> set s then CHR 0x22 else CHR 0x27)
     in [quote] @ concat (map (repr_char quote) s) @ [quote])"

fun py_repr :: "val \<Rightarrow> string" where
  "py_repr VNone = ''None''"
| "py_repr (VBool b) = (if b then ''True'' else ''False'')"
| "py_repr (VInt i) = int_text i"
| "py_repr (VFloat t) = t"
| "py_repr (VStr s) = repr_str s"
| "py_repr (VTime _) = ''datetime''"
| "py_repr (VList vs) = ''['' @ join_with '', '' (map py_repr vs) @ '']''"
| "py_repr (VDict d) =
     ''{'' @ join_with '', '' (map (\<lambda>(k, v). repr_str k @ '': '' @ py_repr v) d) @ ''}''"

fun py_str :: "val \<Rightarrow> string" where
  "py_str (VStr s) = s"
| "py_str v = py_repr v"

section \<open>JSON form\<close>

fun json_val :: "node_adapter \<Rightarrow> val \<Rightarrow> val" where
  "json_val A (VTime t) = VStr (ad_json_time A t)"
| "json_val A (VList vs) = VList (map (json_val A) vs)"
| "json_val A (VDict d) = VDict (map (\<lambda>(k, v). (k, json_val A v)) d)"
| "json_val A v = v"

definition json_dict :: "node_adapter \<Rightarrow> val dict \<Rightarrow> val dict" where
  "json_dict A d = map (\<lambda>(k, v). (k, json_val A v)) d"

end
