(* ===== verification/Transition_Models.thy ===== *)
theory Transition_Models
  imports Prelude
begin

text \<open>
  Graph targets, heads and the transition provenance of \<open>core/transition_models.py\<close>, and
  the project-identity and branch records of \<open>core/models.py\<close> that are built from them.
  Each \<open>model_validator(mode="after")\<close> is a function from the constructed record to the
  same record or the \<open>ValueError\<close> it raises. Field patterns (hexadecimal digests, rule
  names) are constraints on single strings that no operation here inspects and are not
  modelled. A UUID is canonical when it is the lower-case text form that Python's \<open>uuid\<close>
  module renders.
\<close>

section \<open>Targets and heads\<close>

datatype target_kind = Main_target | Branch_target

record graph_target_ref =
  gt_kind :: target_kind
  gt_branch_id :: "string option"

definition require_matching_branch_id :: "graph_target_ref \<Rightarrow> graph_target_ref result" where
  "require_matching_branch_id t =
     (if gt_kind t = Main_target \<and> gt_branch_id t \<noteq> None
        then Inl (ValueError ''main graph targets cannot carry a branch_id'')
      else if gt_kind t = Branch_target \<and> gt_branch_id t = None
        then Inl (ValueError ''branch graph targets require a branch_id'')
      else Inr t)"

text \<open>
  \<open>GraphTargetRef.key\<close>; Python renders an absent branch id as \<open>None\<close>, which a
  validated branch target never has.
\<close>

definition target_key :: "graph_target_ref \<Rightarrow> string" where
  "target_key t = (case gt_kind t of
     Main_target \<Rightarrow> ''main''
   | Branch_target \<Rightarrow> ''branch:'' @ (case gt_branch_id t of None \<Rightarrow> ''None'' | Some b \<Rightarrow> b))"

record graph_head_ref =
  gh_target :: graph_target_ref
  gh_revision :: int
  gh_transition_id :: "string option"

section \<open>Transition traces\<close>

record graph_mutation_availability =
  gm_available :: bool
  gm_reason :: "string option"

definition require_matching_reason ::
  "graph_mutation_availability \<Rightarrow> graph_mutation_availability result" where
  "require_matching_reason g =
     (if gm_available g \<and> gm_reason g \<noteq> None
        then Inl (ValueError ''available graph mutation cannot carry an unavailable reason'')
      else if \<not> gm_available g \<and> (gm_reason g = None \<or> gm_reason g = Some [])
        then Inl (ValueError ''unavailable graph mutation requires a reason'')
      else Inr g)"

datatype cause_kind = Action_cause | Event_cause

record transition_cause_ref =
  tc_kind :: cause_kind
  tc_action_index :: "int option"
  tc_event_id :: "string option"

definition require_exact_reference :: "transition_cause_ref \<Rightarrow> transition_cause_ref result" where
  "require_exact_reference c =
     (if tc_kind c = Action_cause \<and> tc_action_index c = None
        then Inl (ValueError ''action causes require action_index'')
      else if tc_kind c = Event_cause \<and> tc_event_id c = None
        then Inl (ValueError ''event causes require event_id'')
      else if tc_kind c = Action_cause \<and> tc_event_id c \<noteq> None
        then Inl (ValueError ''action causes cannot carry event_id'')
      else if tc_kind c = Event_cause \<and> tc_action_index c \<noteq> None
        then Inl (ValueError ''event causes cannot carry action_index'')
      else Inr c)"

datatype declared_action = Decision_choice

record transition_initiating_group =
  ig_group_id :: string
  ig_operation_indexes :: "int list"
  ig_summary :: string
  ig_change_summary :: "string list"
  ig_human_action :: "declared_action option"
  ig_agent_action :: "declared_action option"

record transition_generated_action =
  ga_operation_index :: int
  ga_rule_id :: string
  ga_cause :: transition_cause_ref

datatype transition_event_type =
  Node_status_changed | Guidance_invalidated | Guidance_refreshed

datatype event_value = EV_none | EV_str string | EV_bool bool

record transition_event =
  te_event_id :: string
  te_event_type :: transition_event_type
  te_cause :: transition_cause_ref
  te_node_id :: string
  te_field :: string
  te_before :: event_value
  te_after :: event_value

record transition_trace =
  tt_transition_id :: string
  tt_pre_head :: graph_head_ref
  tt_ruleset_tag :: string
  tt_initiating_groups :: "transition_initiating_group list"
  tt_generated_actions :: "transition_generated_action list"
  tt_lifecycle_events :: "transition_event list"
  tt_expanded_ops_sha256 :: string

section \<open>Identity\<close>

definition is_lower_hex :: "char \<Rightarrow> bool" where
  "is_lower_hex c = (let n = of_char c :: nat in (48 \<le> n \<and> n \<le> 57) \<or> (97 \<le> n \<and> n \<le> 102))"

text \<open>
  \<open>str(uuid.UUID(value)) == value\<close> and \<open>version == 4\<close>: groups of 8, 4, 4, 4 and 12
  lower-case hexadecimal digits, the version digit 4 and the variant of RFC 4122 (without it
  \<open>version\<close> is \<open>None\<close>).
\<close>

definition is_canonical_uuid4 :: "string \<Rightarrow> bool" where
  "is_canonical_uuid4 s = (let parts = split_on (CHR ''-'') s in
     map length parts = [8, 4, 4, 4, 12] \<and> list_all (list_all is_lower_hex) parts
     \<and> hd (parts ! 2) = CHR ''4'' \<and> hd (parts ! 3) \<in> set ''89ab'')"

definition canonical_uuid4 :: "string \<Rightarrow> string result" where
  "canonical_uuid4 s =
     (if is_canonical_uuid4 s then Inr s else Inl (ValueError ''must be a canonical UUIDv4''))"

definition DISPLAY_NAME_MAX_LENGTH :: nat where
  "DISPLAY_NAME_MAX_LENGTH = 120"

text \<open>The control characters (category Cc) among 8-bit characters.\<close>

definition is_control :: "char \<Rightarrow> bool" where
  "is_control c = (let n = of_char c :: nat in n < 32 \<or> (127 \<le> n \<and> n \<le> 159))"

definition normalize_display_name :: "string \<Rightarrow> string result" where
  "normalize_display_name s =
     (let normalized = strip s in
      if normalized = [] then Inl (ValueError ''display name must not be blank'')
      else if length normalized > DISPLAY_NAME_MAX_LENGTH
        then Inl (ValueError ''display name is too long'')
      else if list_ex is_control normalized
        then Inl (ValueError ''display name must be a single line without control characters'')
      else Inr normalized)"

datatype identity_action = Created | Adopted

record project_identity =
  pi_project_id :: string
  pi_home_space_id :: string
  pi_action :: identity_action

record authorized_human =
  ah_space_id :: string
  ah_user_id :: string
  ah_display_name :: string

text \<open>The field validators of \<open>ProjectIdentity\<close> and \<open>AuthorizedHuman\<close>.\<close>

definition validate_project_identity :: "project_identity \<Rightarrow> project_identity result" where
  "validate_project_identity i =
     bind_r (canonical_uuid4 (pi_project_id i)) (\<lambda>_.
     bind_r (canonical_uuid4 (pi_home_space_id i)) (\<lambda>_. Inr i))"

definition validate_authorized_human :: "authorized_human \<Rightarrow> authorized_human result" where
  "validate_authorized_human h =
     bind_r (canonical_uuid4 (ah_space_id h)) (\<lambda>_.
     bind_r (canonical_uuid4 (ah_user_id h)) (\<lambda>_.
     bind_r (normalize_display_name (ah_display_name h)) (\<lambda>d. Inr (h\<lparr>ah_display_name := d\<rparr>))))"

fun is_same_member :: "authorized_human \<Rightarrow> authorized_human option \<Rightarrow> bool" where
  "is_same_member h None = False"
| "is_same_member h (Some other) =
     ((ah_space_id h, ah_user_id h) = (ah_space_id other, ah_user_id other))"

record project_home_transfer =
  ht_project_id :: string
  ht_previous_home_space_id :: string
  ht_new_home_space_id :: string
  ht_source_released_by :: authorized_human
  ht_target_admitted_by :: authorized_human

definition authority_matches_both_space_scoped_boundaries ::
  "project_home_transfer \<Rightarrow> project_home_transfer result" where
  "authority_matches_both_space_scoped_boundaries h =
     (if ht_previous_home_space_id h = ht_new_home_space_id h
        then Inl (ValueError ''a project home transfer must change spaces'')
      else if ah_space_id (ht_source_released_by h) \<noteq> ht_previous_home_space_id h
        then Inl (ValueError ''the source-release actor must belong to the previous home space'')
      else if ah_space_id (ht_target_admitted_by h) \<noteq> ht_new_home_space_id h
        then Inl (ValueError ''the target-admission actor must belong to the new home space'')
      else Inr h)"

section \<open>Branches and merges\<close>

datatype branch_kind = Auto_research | Experiment_loop_branch | Fork

record graph_branch_metadata =
  bm_branch_id :: string
  bm_episode_id :: "string option"
  bm_project_id :: string
  bm_kind :: branch_kind
  bm_base_head :: graph_head_ref
  bm_parent_head :: "graph_head_ref option"
  bm_created_by :: "string option"
  bm_head :: graph_head_ref
  bm_created_at :: int
  bm_authorized_by :: authorized_human

definition effective_parent_head :: "graph_branch_metadata \<Rightarrow> graph_head_ref" where
  "effective_parent_head m =
     (case bm_parent_head m of Some h \<Rightarrow> h | None \<Rightarrow> bm_base_head m)"

definition identity_and_heads_are_coherent ::
  "graph_branch_metadata \<Rightarrow> graph_branch_metadata result" where
  "identity_and_heads_are_coherent m =
     (let parent = effective_parent_head m in
      if (case bm_episode_id m of None \<Rightarrow> False | Some e \<Rightarrow> \<not> is_canonical_uuid4 e)
        then Inl (ValueError ''must be a canonical UUIDv4'')
      else if bm_parent_head m = None \<and> Some (bm_branch_id m) \<noteq> bm_episode_id m
        then Inl (ValueError ''a legacy graph branch must use its owner episode UUID'')
      else if bm_parent_head m \<noteq> None \<and> bm_created_by m = None
        then Inl (ValueError ''a new graph branch requires its creating operation identity'')
      else if gt_kind (gh_target (bm_base_head m)) \<noteq> Main_target
        then Inl (ValueError ''a graph branch base must name a main head'')
      else if gt_branch_id (gh_target parent) = Some (bm_branch_id m)
        then Inl (ValueError ''a graph branch cannot parent itself'')
      else if gh_revision parent < gh_revision (bm_base_head m)
        then Inl (ValueError ''a graph branch parent cannot precede its root main base'')
      else if gt_kind (gh_target parent) = Main_target \<and> parent \<noteq> bm_base_head m
        then Inl (ValueError ''a main parent must be the exact root base'')
      else if gt_kind (gh_target (bm_head m)) \<noteq> Branch_target
              \<or> gt_branch_id (gh_target (bm_head m)) \<noteq> Some (bm_branch_id m)
        then Inl (ValueError ''a graph branch head must name its exact branch'')
      else if gh_revision (bm_head m) < gh_revision parent
        then Inl (ValueError ''a graph branch head cannot precede its immutable parent'')
      else if gh_revision (bm_head m) = gh_revision parent
              \<and> gh_transition_id (bm_head m) \<noteq> gh_transition_id parent
        then Inl (ValueError ''a new graph branch head must preserve its parent transition identity'')
      else Inr m)"

record branch_merge_provenance =
  mp_merge_id :: string
  mp_branch_id :: string
  mp_episode_id :: "string option"
  mp_branch_base_head :: graph_head_ref
  mp_branch_head :: graph_head_ref
  mp_rebased_main_head :: graph_head_ref
  mp_merge_task_id :: string

definition source_and_rebase_heads_are_coherent ::
  "branch_merge_provenance \<Rightarrow> branch_merge_provenance result" where
  "source_and_rebase_heads_are_coherent p =
     (if (case mp_episode_id p of None \<Rightarrow> False | Some e \<Rightarrow> \<not> is_canonical_uuid4 e)
        then Inl (ValueError ''must be a canonical UUIDv4'')
      else if gt_kind (gh_target (mp_branch_head p)) \<noteq> Branch_target
              \<or> gt_branch_id (gh_target (mp_branch_head p)) \<noteq> Some (mp_branch_id p)
        then Inl (ValueError ''branch merge provenance names a different branch head'')
      else if gh_revision (mp_branch_head p) < gh_revision (mp_branch_base_head p)
        then Inl (ValueError ''branch merge provenance has a head before its base'')
      else if gh_target (mp_rebased_main_head p) \<noteq> gh_target (mp_branch_base_head p)
        then Inl (ValueError ''branch merge provenance must rebase onto its source parent'')
      else if gh_target (mp_rebased_main_head p) = gh_target (mp_branch_head p)
        then Inl (ValueError ''a branch cannot merge into itself'')
      else if gh_revision (mp_rebased_main_head p) < gh_revision (mp_branch_base_head p)
        then Inl (ValueError ''branch merge provenance cannot rebase before its branch base'')
      else Inr p)"

datatype merge_outcome = Committed | No_change

record branch_merge_receipt =
  mr_outcome :: merge_outcome
  mr_provenance :: branch_merge_provenance
  mr_result_main_head :: graph_head_ref
  mr_authorized_by :: authorized_human
  mr_created_at :: int

definition committed_head_is_coherent :: "branch_merge_receipt \<Rightarrow> branch_merge_receipt result" where
  "committed_head_is_coherent r =
     (let rebased = mp_rebased_main_head (mr_provenance r); res = mr_result_main_head r in
      if gh_target res \<noteq> gh_target rebased
        then Inl (ValueError ''a branch merge receipt must retain its destination target'')
      else if mr_outcome r = Committed then
        (if gh_transition_id res = None
           then Inl (ValueError ''a committed branch merge requires its transition identity'')
         else if gh_revision res \<noteq> gh_revision rebased + 1
           then Inl (ValueError ''a committed branch merge must advance its destination exactly once'')
         else Inr r)
      else if res \<noteq> rebased
        then Inl (ValueError ''a no-change branch merge must retain the exact rebased destination head'')
      else Inr r)"

datatype merge_state = Unmerged | Merge_running | Merged | Needs_action | Merge_failed

record graph_branch_summary =
  bs_branch_id :: string
  bs_episode_id :: "string option"
  bs_current_episode_id :: "string option"
  bs_base_head :: graph_head_ref
  bs_parent_head :: "graph_head_ref option"
  bs_head :: graph_head_ref
  bs_merge_eligible :: bool
  bs_merge_blocked_reason :: "string option"
  bs_merge_state :: merge_state
  bs_latest_successful_merge :: "branch_merge_receipt option"
  bs_active_merge_task_id :: "string option"
  bs_merge_diagnostic :: "string option"

definition merge_projection_is_coherent ::
  "graph_branch_summary \<Rightarrow> graph_branch_summary result" where
  "merge_projection_is_coherent s =
     (if \<not> list_all (\<lambda>v. case v of None \<Rightarrow> True | Some e \<Rightarrow> is_canonical_uuid4 e)
           [bs_episode_id s, bs_current_episode_id s]
        then Inl (ValueError ''must be a canonical UUIDv4'')
      else if gt_kind (gh_target (bs_base_head s)) \<noteq> Main_target
        then Inl (ValueError ''branch summary base must name main'')
      else if gt_kind (gh_target (bs_head s)) \<noteq> Branch_target
              \<or> gt_branch_id (gh_target (bs_head s)) \<noteq> Some (bs_branch_id s)
        then Inl (ValueError ''branch summary head must name its exact branch'')
      else if (bs_merge_state s = Merge_running) \<noteq> (bs_active_merge_task_id s \<noteq> None)
        then Inl (ValueError ''only a running branch merge may name an active merge task'')
      else if bs_merge_state s = Merged \<and> bs_latest_successful_merge s = None
        then Inl (ValueError ''a merged branch summary requires its successful receipt'')
      else if bs_merge_eligible s \<and> bs_merge_state s = Merge_running
        then Inl (ValueError ''a branch with an active merge task is not merge eligible'')
      else Inr s)"

end
