(* ===== verification/History_Heads.thy ===== *)
theory History_Heads
  imports Values Transition_Models
begin

text \<open>
  References to graph heads (\<open>history/queries.py\<close>) and the ancestry of branches
  (\<open>history/ancestry.py\<close>). The pattern of a reference is matched by splitting it at its only \<open>@\<close>.
\<close>

section \<open>Head references\<close>

text \<open>The revision \<open>head\<close> is no number.\<close>

record head_spec =
  hs_target :: "graph_target_ref option"
  hs_revision :: "int option"

definition is_branch_char :: "char \<Rightarrow> bool" where
  "is_branch_char c = ((CHR ''A'' \<le> c \<and> c \<le> CHR ''Z'') \<or> (CHR ''a'' \<le> c \<and> c \<le> CHR ''z'')
     \<or> (CHR ''0'' \<le> c \<and> c \<le> CHR ''9'') \<or> c \<in> {CHR ''.'', CHR ''_'', CHR ''-''})"

definition is_branch_text :: "string \<Rightarrow> bool" where
  "is_branch_text s = (1 \<le> length s \<and> length s \<le> 200 \<and> list_all is_branch_char s)"

definition is_revision_text :: "string \<Rightarrow> bool" where
  "is_revision_text s = (s = ''head'' \<or> s = ''0''
     \<or> (1 \<le> length s \<and> length s \<le> 12 \<and> list_all (\<lambda>c. CHR ''0'' \<le> c \<and> c \<le> CHR ''9'') s \<and> hd s \<noteq> CHR ''0''))"

definition read_decimal :: "string \<Rightarrow> int" where
  "read_decimal = foldl (\<lambda>n c. 10 * n + (int (of_char c) - 48)) 0"

text \<open>The three groups of the pattern.\<close>

definition match_head :: "string \<Rightarrow> (bool \<times> string \<times> string) option" where
  "match_head s =
     (let target = takeWhile (\<lambda>c. c \<noteq> CHR ''@'') s; rest = dropWhile (\<lambda>c. c \<noteq> CHR ''@'') s in
      if rest = [] \<or> \<not> is_revision_text (tl rest) then None
      else if target = [] then Some (False, [], tl rest)
      else if target = ''main'' then Some (True, [], tl rest)
      else if take 7 target = ''branch:'' \<and> is_branch_text (drop 7 target)
        then Some (False, drop 7 target, tl rest)
      else None)"

definition named_branch :: "string dict option \<Rightarrow> string \<Rightarrow> string" where
  "named_branch names b = (case names of
     Some ns \<Rightarrow> if b \<noteq> [] \<and> b \<notin> set (keys ns)
       then (case filter (\<lambda>(_, name). name = b) ns of [] \<Rightarrow> b | (k, _) # _ \<Rightarrow> k) else b
   | None \<Rightarrow> b)"

definition parse_head :: "string \<Rightarrow> string dict option \<Rightarrow> head_spec result" where
  "parse_head s names = (case match_head (strip s) of
     None \<Rightarrow> Inl (ValueError ''not a graph head reference'')
   | Some (main, b, revision) \<Rightarrow>
       (let branch_id = named_branch names b in
        Inr \<lparr>hs_target = (if main then Some \<lparr>gt_kind = Main_target, gt_branch_id = None\<rparr>
               else if branch_id \<noteq> [] then Some \<lparr>gt_kind = Branch_target, gt_branch_id = Some branch_id\<rparr>
               else None),
             hs_revision = (if revision = ''head'' then None else Some (read_decimal revision))\<rparr>))"

definition format_head :: "graph_head_ref \<Rightarrow> string" where
  "format_head h = target_key (gh_target h) @ ''@'' @ int_text (gh_revision h)"

section \<open>Ancestry\<close>

definition GRAPH_BRANCH_MAX_DEPTH :: nat where
  "GRAPH_BRANCH_MAX_DEPTH = 32"

function ancestry_from ::
  "(string \<Rightarrow> string option result) \<Rightarrow> string list \<Rightarrow> string option \<Rightarrow> string list result" where
  "ancestry_from parent_of chain None = Inr chain"
| "ancestry_from parent_of chain (Some b) =
     (if b \<in> set chain then Inl (ValueError ''branch ancestry contains a cycle'')
      else if length chain \<ge> GRAPH_BRANCH_MAX_DEPTH
        then Inl (ValueError ''branch ancestry exceeds the depth limit'')
      else bind_r (parent_of b) (ancestry_from parent_of (chain @ [b])))"
  by pat_completeness auto

termination
  by (relation "measure (\<lambda>(_, chain, _). GRAPH_BRANCH_MAX_DEPTH - length chain)") auto

definition branch_ancestry :: "string \<Rightarrow> (string \<Rightarrow> string option result) \<Rightarrow> string list result" where
  "branch_ancestry b parent_of = ancestry_from parent_of [] (Some b)"

definition checked_parent :: "graph_branch_metadata dict \<Rightarrow> int \<Rightarrow> string \<Rightarrow> string option result" where
  "checked_parent branches main_revision b = (case dict_get branches b of
     None \<Rightarrow> Inl (KeyError b)
   | Some current \<Rightarrow>
       (let parent = effective_parent_head current in
        if gt_kind (gh_target parent) = Main_target then
          if gh_revision parent > main_revision \<or> parent \<noteq> bm_base_head current
            then Inl (ValueError ''branch ancestry has an invalid main base'') else Inr None
        else (case dict_get branches (case gt_branch_id (gh_target parent) of None \<Rightarrow> [] | Some k \<Rightarrow> k) of
            None \<Rightarrow> Inl (ValueError ''branch ancestry requires every parent'')
          | Some ancestor \<Rightarrow>
              if bm_project_id ancestor \<noteq> bm_project_id current \<or> bm_base_head ancestor \<noteq> bm_base_head current
                 \<or> \<not> (gh_revision (effective_parent_head ancestor) \<le> gh_revision parent
                      \<and> gh_revision parent \<le> gh_revision (bm_head ancestor))
                then Inl (ValueError ''branch ancestry has an invalid parent head'')
              else Inr (Some (bm_branch_id ancestor)))))"

definition validate_branch_ancestry :: "graph_branch_metadata dict \<Rightarrow> int \<Rightarrow> unit result" where
  "validate_branch_ancestry branches main_revision =
     bind_r (map_r (\<lambda>b. branch_ancestry b (checked_parent branches main_revision)) (keys branches))
       (\<lambda>_. Inr ())"

end
