(* ===== verification/Head_Properties.thy ===== *)
theory Head_Properties
  imports History_Heads
begin

text \<open>
  A formatted head is read back as itself, and a validated inventory of branches has a finite
  ancestry that ends on main.
\<close>

section \<open>Decimal text\<close>

declare nat_digits.simps [simp del]

lemma digit_char: "n < 10 \<Longrightarrow> of_char (digit n) = 48 + n"
  by (simp add: digit_def)

lemma digit_range: "n < 10 \<Longrightarrow> CHR ''0'' \<le> digit n \<and> digit n \<le> CHR ''9''"
  by (simp add: digit_def less_eq_char_def)

lemma nat_digits_range: "list_all (\<lambda>c. CHR ''0'' \<le> c \<and> c \<le> CHR ''9'') (nat_digits n)"
proof (induction n rule: nat_digits.induct)
  case (1 n)
  then show ?case
    using digit_range [of n] digit_range [of "n mod 10"] by (subst nat_digits.simps) auto
qed

lemma nat_digits_nonempty: "nat_digits n \<noteq> []"
  by (subst nat_digits.simps) simp

lemma nat_digits_head: "0 < n \<Longrightarrow> hd (nat_digits n) \<noteq> CHR ''0''"
proof (induction n rule: nat_digits.induct)
  case (1 n)
  have "of_char (digit n) \<noteq> (of_char (CHR ''0'') :: nat)" if "n < 10"
    using 1(2) that by (simp add: digit_char)
  then have "n < 10 \<Longrightarrow> digit n \<noteq> CHR ''0''" by metis
  with 1 show ?case
    by (subst nat_digits.simps) (auto simp: hd_append nat_digits_nonempty)
qed

lemma nat_digits_length: "n < 10 ^ k \<Longrightarrow> 0 < k \<Longrightarrow> length (nat_digits n) \<le> k"
proof (induction n arbitrary: k rule: nat_digits.induct)
  case (1 n)
  show ?case
  proof (cases "n < 10")
    case False
    with 1(2,3) obtain j where j: "k = Suc j" "0 < j" by (cases k; cases "k - 1") auto
    with 1(2) have "n div 10 < 10 ^ j" by simp
    with 1(1) [OF False this j(2)] False j(1) show ?thesis by (subst nat_digits.simps) simp
  qed (use 1(3) in \<open>subst nat_digits.simps, simp\<close>)
qed

lemma read_decimal_digits: "read_decimal (nat_digits n) = int n"
proof (induction n rule: nat_digits.induct)
  case (1 n)
  show ?case
  proof (cases "n < 10")
    case True
    then show ?thesis by (subst nat_digits.simps) (simp add: read_decimal_def digit_char)
  next
    case False
    with 1 have "read_decimal (nat_digits n) = 10 * int (n div 10) + int (n mod 10)"
      by (subst nat_digits.simps) (simp add: read_decimal_def digit_char)
    then show ?thesis by presburger
  qed
qed

section \<open>Reading a head back\<close>

lemma revision_text:
  assumes "0 \<le> r" "r < 10 ^ 12"
  shows "is_revision_text (int_text r)" "int_text r \<noteq> ''head''" "read_decimal (int_text r) = r"
    "list_all (\<lambda>c. CHR ''0'' \<le> c \<and> c \<le> CHR ''9'') (int_text r)" "int_text r \<noteq> []"
proof -
  have shown: "int_text r = nat_digits (nat r)" using assms(1) by (simp add: int_text_def)
  show "list_all (\<lambda>c. CHR ''0'' \<le> c \<and> c \<le> CHR ''9'') (int_text r)"
    unfolding shown by (rule nat_digits_range)
  show "int_text r \<noteq> []" unfolding shown by (rule nat_digits_nonempty)
  show "read_decimal (int_text r) = r" using assms(1) by (simp add: shown read_decimal_digits)
  show "int_text r \<noteq> ''head''"
    using nat_digits_range [of "nat r"] by (auto simp: shown less_eq_char_def)
  have "nat r < 10 ^ 12" using assms by simp
  then have len: "length (nat_digits (nat r)) \<le> 12" by (rule nat_digits_length) simp
  show "is_revision_text (int_text r)"
  proof (cases "r = 0")
    case True
    moreover have "int_text 0 = ''0''" by code_simp
    ultimately show ?thesis by (simp add: is_revision_text_def)
  next
    case False
    with assms(1) have "hd (nat_digits (nat r)) \<noteq> CHR ''0''" by (intro nat_digits_head) simp
    with len nat_digits_range [of "nat r"] nat_digits_nonempty [of "nat r"] show ?thesis
      by (simp add: shown is_revision_text_def Suc_le_eq)
  qed
qed

lemma strip_plain: "s \<noteq> [] \<Longrightarrow> \<not> is_space (hd s) \<Longrightarrow> \<not> is_space (last s) \<Longrightarrow> strip s = s"
  using dropWhile_eq_self_iff [of is_space s] dropWhile_eq_self_iff [of is_space "rev s"]
  by (simp add: strip_def hd_rev)

definition head_target_text :: "graph_target_ref \<Rightarrow> bool" where
  "head_target_text t = (case gt_kind t of Main_target \<Rightarrow> gt_branch_id t = None
     | Branch_target \<Rightarrow> (case gt_branch_id t of None \<Rightarrow> False | Some b \<Rightarrow> is_branch_text b))"

lemma target_text:
  assumes "head_target_text t"
  shows "target_key t \<noteq> []" "\<not> is_space (hd (target_key t))" "CHR ''@'' \<notin> set (target_key t)"
proof -
  have "\<not> is_branch_char (CHR ''@'')" by (simp add: is_branch_char_def less_eq_char_def)
  then show "CHR ''@'' \<notin> set (target_key t)"
    using assms by (auto simp: head_target_text_def target_key_def is_branch_text_def list_all_iff
        split: target_kind.splits option.splits)
qed (use assms in \<open>auto simp: head_target_text_def target_key_def is_space_def
       split: target_kind.splits option.splits\<close>)

lemma matched_target:
  assumes "head_target_text t" "is_revision_text r"
  shows "match_head (target_key t @ ''@'' @ r) =
     Some (gt_kind t = Main_target, case gt_branch_id t of None \<Rightarrow> [] | Some b \<Rightarrow> b, r)"
proof -
  have "takeWhile (\<lambda>c. c \<noteq> CHR ''@'') (target_key t @ ''@'' @ r) = target_key t"
       "dropWhile (\<lambda>c. c \<noteq> CHR ''@'') (target_key t @ ''@'' @ r) = ''@'' @ r"
    using target_text(3) [OF assms(1)] by (subst takeWhile_append2 dropWhile_append2; force)+
  with assms show ?thesis
    by (auto simp: match_head_def head_target_text_def target_key_def split: target_kind.splits option.splits)
qed

section \<open>Ancestry\<close>

text \<open>A chain from a branch to one whose parent is main.\<close>

fun linked :: "(string \<Rightarrow> string option result) \<Rightarrow> string list \<Rightarrow> bool" where
  "linked parent_of [] = False"
| "linked parent_of [x] = (parent_of x = Inr None)"
| "linked parent_of (x # y # ys) = (parent_of x = Inr (Some y) \<and> linked parent_of (y # ys))"

lemma ancestry_from_linked:
  "ancestry_from parent_of chain current = Inr res \<Longrightarrow> distinct chain \<Longrightarrow> length chain \<le> GRAPH_BRANCH_MAX_DEPTH \<Longrightarrow>
     distinct res \<and> length res \<le> GRAPH_BRANCH_MAX_DEPTH
     \<and> (\<exists>rest. res = chain @ rest \<and> (case current of None \<Rightarrow> rest = []
          | Some b \<Rightarrow> rest \<noteq> [] \<and> hd rest = b \<and> linked parent_of rest))"
proof (induction parent_of chain current rule: ancestry_from.induct)
  case (2 parent_of chain b)
  then obtain up where up: "b \<notin> set chain" "length chain < GRAPH_BRANCH_MAX_DEPTH" "parent_of b = Inr up"
      "ancestry_from parent_of (chain @ [b]) up = Inr res"
    by (auto simp: result_simps split: if_splits)
  from 2(1) [of up] 2(3) up obtain rest where rest: "distinct res" "length res \<le> GRAPH_BRANCH_MAX_DEPTH"
      "res = (chain @ [b]) @ rest"
      "case up of None \<Rightarrow> rest = [] | Some c \<Rightarrow> rest \<noteq> [] \<and> hd rest = c \<and> linked parent_of rest"
    by (auto simp: Suc_le_eq)
  have "linked parent_of (b # rest)"
    using rest(4) up(3) by (cases up; cases rest) auto
  with rest show ?case by auto
qed auto

lemma map_r_defined: "map_r f xs = Inr ys \<Longrightarrow> x \<in> set xs \<Longrightarrow> \<exists>y. f x = Inr y"
  by (induction xs arbitrary: ys) (auto simp: result_simps)

lemma checked_parent_step:
  assumes "checked_parent branches main_revision b = Inr (Some a)"
    and "list_all (\<lambda>(k, m). bm_branch_id m = k) branches"
  shows "\<exists>m n. dict_get branches b = Some m \<and> dict_get branches a = Some n
     \<and> bm_project_id n = bm_project_id m \<and> bm_base_head n = bm_base_head m"
proof -
  from assms(1) obtain m n k where "dict_get branches b = Some m" "dict_get branches k = Some n"
      "bm_project_id n = bm_project_id m" "bm_base_head n = bm_base_head m" "a = bm_branch_id n"
    by (auto simp: checked_parent_def Let_def split: option.splits if_splits)
  moreover from this(2) assms(2) have "bm_branch_id n = k"
    by (auto simp: list_all_iff dest!: map_of_SomeD)
  ultimately show ?thesis by auto
qed

lemma linked_base:
  assumes "linked (checked_parent branches main_revision) chain"
    and "list_all (\<lambda>(k, m). bm_branch_id m = k) branches"
  shows "\<exists>m. dict_get branches (hd chain) = Some m \<and> gh_revision (bm_base_head m) \<le> main_revision
     \<and> (\<forall>a \<in> set chain. \<exists>n. dict_get branches a = Some n \<and> bm_project_id n = bm_project_id m
          \<and> bm_base_head n = bm_base_head m)
     \<and> (\<exists>n. dict_get branches (last chain) = Some n \<and> effective_parent_head n = bm_base_head m)"
  using assms(1)
proof (induction "checked_parent branches main_revision" chain rule: linked.induct)
  case (2 x)
  then obtain m where m: "dict_get branches x = Some m"
    by (auto simp: checked_parent_def split: option.splits)
  with 2 show ?case
    by (auto simp: checked_parent_def Let_def split: option.splits if_splits)
next
  case (3 x y ys)
  then have "checked_parent branches main_revision x = Inr (Some y)" by simp
  from checked_parent_step [OF this assms(2)] 3 show ?case by fastforce
qed simp

section \<open>Properties\<close>

text \<open>
  (C36) A formatted head is read back. For a head on main, or on a branch whose id a reference can
  spell, with a revision of at most twelve digits, \<open>parse_head\<close> of \<open>format_head\<close> is that target and
  that revision; a table of branch names that knows the id changes nothing.
\<close>

theorem head_text_roundtrip:
  assumes "head_target_text (gh_target h)" and "0 \<le> gh_revision h" "gh_revision h < 10 ^ 12"
    and "case (names, gt_branch_id (gh_target h)) of (Some ns, Some b) \<Rightarrow> b \<in> set (keys ns) | _ \<Rightarrow> True"
  shows "parse_head (format_head h) names =
     Inr \<lparr>hs_target = Some (gh_target h), hs_revision = Some (gh_revision h)\<rparr>"
proof -
  note rev = revision_text [OF assms(2,3)]
  have "\<not> is_space (last (int_text (gh_revision h)))"
    using rev(4,5) by (auto simp: list_all_iff is_space_def less_eq_char_def dest!: bspec [OF _ last_in_set])
  then have "strip (format_head h) = format_head h"
    using target_text [OF assms(1)] rev(5) by (intro strip_plain) (simp_all add: format_head_def)
  then have "match_head (strip (format_head h)) = Some (gt_kind (gh_target h) = Main_target,
      case gt_branch_id (gh_target h) of None \<Rightarrow> [] | Some b \<Rightarrow> b, int_text (gh_revision h))"
    using matched_target [OF assms(1) rev(1)] by (simp add: format_head_def)
  then show ?thesis
    using assms(1,4) rev(2,3)
    by (cases "gh_target h")
       (auto simp: parse_head_def Let_def named_branch_def head_target_text_def is_branch_text_def
          split: target_kind.splits option.splits)
qed

theorem head_text_roundtrip_witness:
  "parse_head (format_head \<lparr>gh_target = \<lparr>gt_kind = Branch_target, gt_branch_id = Some ''b-1''\<rparr>,
       gh_revision = 120, gh_transition_id = None\<rparr>) (Some [(''b-1'', ''Main line'')]) =
     Inr \<lparr>hs_target = Some \<lparr>gt_kind = Branch_target, gt_branch_id = Some ''b-1''\<rparr>, hs_revision = Some 120\<rparr>"
proof -
  let ?h = "\<lparr>gh_target = \<lparr>gt_kind = Branch_target, gt_branch_id = Some ''b-1''\<rparr>, gh_revision = 120,
    gh_transition_id = None :: string option\<rparr>"
  have "head_target_text (gh_target ?h)" by code_simp
  from head_text_roundtrip [OF this, of "Some [(''b-1'', ''Main line'')]"] show ?thesis by simp
qed

text \<open>
  (C24) Ancestry ends on main. In an inventory that \<open>validate_branch_ancestry\<close> accepts, keyed by branch
  id, following the parents of any branch ends: the chain has no repetition and at most
  \<open>GRAPH_BRANCH_MAX_DEPTH\<close> branches, all of one project and one base head, its last branch starts
  at that base, and the base is a revision main has reached.
\<close>

theorem validated_ancestry_ends:
  assumes "validate_branch_ancestry branches main_revision = Inr ()"
    and "list_all (\<lambda>(k, m). bm_branch_id m = k) branches" and "b \<in> set (keys branches)"
  shows "\<exists>chain m. branch_ancestry b (checked_parent branches main_revision) = Inr chain
     \<and> distinct chain \<and> length chain \<le> GRAPH_BRANCH_MAX_DEPTH \<and> chain \<noteq> [] \<and> hd chain = b
     \<and> dict_get branches b = Some m \<and> gh_revision (bm_base_head m) \<le> main_revision
     \<and> (\<forall>a \<in> set chain. \<exists>n. dict_get branches a = Some n \<and> bm_project_id n = bm_project_id m
          \<and> bm_base_head n = bm_base_head m)
     \<and> (\<exists>n. dict_get branches (last chain) = Some n \<and> effective_parent_head n = bm_base_head m)"
proof -
  from assms(1) obtain chains
    where "map_r (\<lambda>b. branch_ancestry b (checked_parent branches main_revision)) (keys branches) = Inr chains"
    by (auto simp: validate_branch_ancestry_def result_simps)
  from map_r_defined [OF this assms(3)] obtain chain
    where chain: "branch_ancestry b (checked_parent branches main_revision) = Inr chain" by blast
  from ancestry_from_linked [OF this [unfolded branch_ancestry_def]]
  have shape: "distinct chain" "length chain \<le> GRAPH_BRANCH_MAX_DEPTH" "chain \<noteq> []" "hd chain = b"
    and links: "linked (checked_parent branches main_revision) chain" by auto
  from linked_base [OF links assms(2)] shape chain show ?thesis by blast
qed

definition branch_sample :: "string \<Rightarrow> graph_head_ref option \<Rightarrow> graph_branch_metadata" where
  "branch_sample b parent = \<lparr>bm_branch_id = b, bm_episode_id = None, bm_project_id = ''prj'', bm_kind = Auto_research,
     bm_base_head = \<lparr>gh_target = \<lparr>gt_kind = Main_target, gt_branch_id = None\<rparr>, gh_revision = 3,
       gh_transition_id = None\<rparr>,
     bm_parent_head = parent, bm_created_by = Some ''op'',
     bm_head = \<lparr>gh_target = \<lparr>gt_kind = Branch_target, gt_branch_id = Some b\<rparr>, gh_revision = 5,
       gh_transition_id = None\<rparr>,
     bm_created_at = 0, bm_authorized_by = \<lparr>ah_space_id = ''s'', ah_user_id = ''u'', ah_display_name = ''U''\<rparr>\<rparr>"

definition inventory :: "graph_branch_metadata dict" where
  "inventory = [(''b1'', branch_sample ''b1'' None),
     (''b2'', branch_sample ''b2'' (Some \<lparr>gh_target = \<lparr>gt_kind = Branch_target, gt_branch_id = Some ''b1''\<rparr>,
        gh_revision = 4, gh_transition_id = None\<rparr>))]"

theorem validated_ancestry_ends_witness:
  "\<exists>chain m. branch_ancestry ''b2'' (checked_parent inventory 7) = Inr chain
     \<and> distinct chain \<and> length chain \<le> GRAPH_BRANCH_MAX_DEPTH \<and> chain \<noteq> [] \<and> hd chain = ''b2''
     \<and> dict_get inventory ''b2'' = Some m \<and> gh_revision (bm_base_head m) \<le> 7
     \<and> (\<forall>a \<in> set chain. \<exists>n. dict_get inventory a = Some n \<and> bm_project_id n = bm_project_id m
          \<and> bm_base_head n = bm_base_head m)
     \<and> (\<exists>n. dict_get inventory (last chain) = Some n \<and> effective_parent_head n = bm_base_head m)"
  by (rule validated_ancestry_ends) code_simp+

end
