(* ===== verification/Legacy_Documents.thy ===== *)
theory Legacy_Documents
  imports Operations
begin

text \<open>
  The adaptation of persisted documents to the current schema: \<open>core/operations.py\<close>
  (\<open>adapt_persisted_patch_document\<close>, \<open>adapt_persisted_graph_state_document\<close>) and the per-type
  adapters of \<open>core/research_compat.py\<close>. The program mutates a deep copy of the document; here an
  adapter returns the changed value. Reading an unhashable value as a dictionary key or a member
  of a set raises \<open>TypeError\<close>, as in Python.
\<close>

section \<open>Document access\<close>

definition get_val :: "val dict \<Rightarrow> string \<Rightarrow> val" where
  "get_val d k = (case dict_get d k of None \<Rightarrow> VNone | Some v \<Rightarrow> v)"

text \<open>Truth value testing; a float is kept as its text.\<close>

fun truthy :: "val \<Rightarrow> bool" where
  "truthy VNone = False"
| "truthy (VBool b) = b"
| "truthy (VInt i) = (i \<noteq> 0)"
| "truthy (VFloat s) = (s \<notin> {''0.0'', ''-0.0''})"
| "truthy (VStr s) = (s \<noteq> [])"
| "truthy (VList vs) = (vs \<noteq> [])"
| "truthy (VDict d) = (d \<noteq> [])"
| "truthy (VTime t) = True"

fun hashable :: "val \<Rightarrow> bool" where
  "hashable (VList _) = False"
| "hashable (VDict _) = False"
| "hashable _ = True"

text \<open>\<open>value == 1\<close>\<close>

definition equals_one :: "val \<Rightarrow> bool" where
  "equals_one v = (v \<in> {VInt 1, VBool True, VFloat ''1.0''})"

text \<open>Change each element of a list stored in a dictionary, when it is a list.\<close>

definition over_list :: "(val \<Rightarrow> val) \<Rightarrow> string \<Rightarrow> val dict \<Rightarrow> val dict" where
  "over_list f k d = (case dict_get d k of
     Some (VList vs) \<Rightarrow> AList.update k (VList (map f vs)) d | _ \<Rightarrow> d)"

definition over_list_r :: "(val \<Rightarrow> val result) \<Rightarrow> string \<Rightarrow> val dict \<Rightarrow> val dict result" where
  "over_list_r f k d = (case dict_get d k of
     Some (VList vs) \<Rightarrow> bind_r (map_r f vs) (\<lambda>vs'. Inr (AList.update k (VList vs') d)) | _ \<Rightarrow> Inr d)"

fun on_dict :: "(val dict \<Rightarrow> val dict) \<Rightarrow> val \<Rightarrow> val" where
  "on_dict f (VDict d) = VDict (f d)"
| "on_dict f v = v"

fun on_dict_r :: "(val dict \<Rightarrow> val dict result) \<Rightarrow> val \<Rightarrow> val result" where
  "on_dict_r f (VDict d) = bind_r (f d) (\<lambda>d'. Inr (VDict d'))"
| "on_dict_r f v = Inr v"

section \<open>Node records\<close>

definition adapt_legacy_evidence_record :: "bool \<Rightarrow> val dict \<Rightarrow> val dict" where
  "adapt_legacy_evidence_record assume_default_strength record =
     (let given = get_val record ''strength'';
          record1 = AList.delete ''strength'' record;
          strength = (if given = VNone \<and> assume_default_strength \<and> ''role'' \<notin> set (keys record1)
                      then VStr ''preliminary'' else given)
      in if strength = VNone then record1
         else AList.update ''legacy_strength'' strength
           (AList.update ''role''
             (VStr (if strength = VStr ''diagnostic'' then ''diagnostic'' else ''result'')) record1))"

definition adapt_legacy_experiment_record :: "val dict \<Rightarrow> val dict" where
  "adapt_legacy_experiment_record record =
     (if get_val record ''status'' = VStr ''blocked'' then
        (let record1 = AList.update ''status'' (VStr ''unspecified'') record;
             record2 = (if truthy (get_val record1 ''current_summary'')
                        then AList.update ''current_summary_stale'' (VBool True) record1 else record1)
         in if truthy (get_val record2 ''next_action'')
            then AList.update ''next_action_stale'' (VBool True) record2 else record2)
      else record)"

definition reject_current_generation_legacy_node :: "val \<Rightarrow> unit result" where
  "reject_current_generation_legacy_node node = (case node of
     VDict d \<Rightarrow> if get_val d ''type'' = VStr ''evidence'' \<and> ''legacy_strength'' \<in> set (keys d)
       then Inl (ValueError ''schema-generation 2 patches cannot create Evidence with legacy_strength'')
       else Inr ()
   | _ \<Rightarrow> Inr ())"

definition adapt_legacy_snapshot_node :: "val dict \<Rightarrow> val dict" where
  "adapt_legacy_snapshot_node node =
     (if get_val node ''type'' = VStr ''evidence'' then adapt_legacy_evidence_record True node
      else if get_val node ''type'' = VStr ''experiment'' then adapt_legacy_experiment_record node
      else node)"

definition adapt_legacy_created_node :: "val \<Rightarrow> val" where
  "adapt_legacy_created_node = on_dict (\<lambda>node.
     (let node1 = (if get_val node ''type'' = VStr ''evidence''
            then adapt_legacy_evidence_record True node else node)
      in if get_val node1 ''type'' = VStr ''experiment''
         then adapt_legacy_experiment_record node1 else node1))"

definition adapt_legacy_node_changes :: "val \<Rightarrow> val" where
  "adapt_legacy_node_changes = on_dict (\<lambda>changes.
     adapt_legacy_experiment_record
       (if ''strength'' \<in> set (keys changes) then adapt_legacy_evidence_record False changes
        else changes))"

definition is_legacy_status_change :: "val \<Rightarrow> val \<Rightarrow> bool" where
  "is_legacy_status_change changes cause = (case (changes, cause) of
     (VDict c, VDict r) \<Rightarrow> set (keys c) = {''status''} \<and> get_val r ''kind'' = VStr ''evidence_edge''
   | _ \<Rightarrow> False)"

section \<open>Operations\<close>

definition adapt_legacy_update :: "val dict \<Rightarrow> val dict" where
  "adapt_legacy_update update = (case dict_get update ''changes'' of
     None \<Rightarrow> update | Some c \<Rightarrow> AList.update ''changes'' (adapt_legacy_node_changes c) update)"

definition adapt_legacy_node_operation :: "bool \<Rightarrow> val dict \<Rightarrow> val dict" where
  "adapt_legacy_node_operation legacy_generation operation =
     (if \<not> legacy_generation then operation
      else if get_val operation ''op'' = VStr ''create_nodes''
        then over_list adapt_legacy_created_node ''nodes'' operation
      else if get_val operation ''op'' = VStr ''update_nodes''
        then over_list (on_dict adapt_legacy_update) ''nodes'' operation
      else operation)"

definition adapt_legacy_ambiguity_operation :: "val dict \<Rightarrow> val dict" where
  "adapt_legacy_ambiguity_operation operation =
     (if get_val operation ''op'' = VStr ''create_ambiguities''
      then over_list (on_dict (AList.delete ''raised_rev'')) ''ambiguities'' operation else operation)"

definition legacy_approval_shapes :: "(string \<times> string) list" where
  "legacy_approval_shapes = [(''update_nodes'', ''content_change''),
     (''update_nodes'', ''status_change''), (''remove_nodes'', ''removal''),
     (''supersede_nodes'', ''supersede''), (''merge_nodes'', ''merge''),
     (''create_edges'', ''protected_relation_change''),
     (''remove_edges'', ''protected_relation_change'')]"

definition adapt_legacy_approval_operation :: "val dict \<Rightarrow> val dict result" where
  "adapt_legacy_approval_operation operation =
     (let name = get_val operation ''op''; intent = get_val operation ''intent'' in
      if \<not> hashable name \<or> \<not> hashable intent then Inl (TypeError ''unhashable'')
      else if (name, intent) \<in> set (map (\<lambda>(a, b). (VStr a, VStr b)) legacy_approval_shapes)
        then Inr (AList.delete ''intent'' operation) else Inr operation)"

definition legacy_proposal_intents :: "string dict" where
  "legacy_proposal_intents = [(''create_nodes'', ''legacy_create_nodes''),
     (''create_ambiguities'', ''legacy_create_ambiguities''),
     (''resolve_ambiguities'', ''legacy_resolve_ambiguities''),
     (''upsert_glossary'', ''legacy_upsert_glossary''), (''set_coverage'', ''legacy_set_coverage''),
     (''remove_nodes'', ''legacy_removal''), (''supersede_nodes'', ''legacy_supersede''),
     (''merge_nodes'', ''legacy_merge''), (''create_edges'', ''legacy_protected_relation_change''),
     (''remove_edges'', ''legacy_protected_relation_change''),
     (''set_project_truth_scope'', ''legacy_project_truth_scope_change''),
     (''set_ontology'', ''legacy_ontology_change'')]"

definition legacy_proposal_intent :: "val dict \<Rightarrow> string option result" where
  "legacy_proposal_intent operation = (case get_val operation ''op'' of
     VStr name \<Rightarrow>
       if name = ''update_nodes'' then
         Inr (Some (case get_val operation ''nodes'' of
           VList [VDict u] \<Rightarrow>
             if is_legacy_status_change (get_val u ''changes'') (get_val u ''cause'')
             then ''legacy_status_change'' else ''legacy_content_change''
         | _ \<Rightarrow> ''legacy_content_change''))
       else Inr (dict_get legacy_proposal_intents name)
   | name \<Rightarrow> if hashable name then Inr None else Inl (TypeError ''unhashable''))"

definition adapt_legacy_proposal_operation :: "bool \<Rightarrow> val dict \<Rightarrow> val dict result" where
  "adapt_legacy_proposal_operation legacy_generation operation =
     (let operation1 = adapt_legacy_node_operation legacy_generation operation in
      if \<not> legacy_generation \<or> ''intent'' \<in> set (keys operation1) then Inr operation1
      else bind_r (legacy_proposal_intent operation1) (\<lambda>intent. Inr (case intent of
             None \<Rightarrow> operation1 | Some i \<Rightarrow> AList.update ''intent'' (VStr i) operation1)))"

definition adapt_legacy_proposal_document :: "bool \<Rightarrow> val \<Rightarrow> val result" where
  "adapt_legacy_proposal_document legacy_generation =
     on_dict_r (over_list_r (on_dict_r (adapt_legacy_proposal_operation legacy_generation)) ''ops'')"

section \<open>Documents\<close>

text \<open>The body of the loop over the operations of a patch document.\<close>

definition adapt_patch_operation :: "bool \<Rightarrow> bool \<Rightarrow> val dict \<Rightarrow> val dict result" where
  "adapt_patch_operation legacy_generation approval operation =
     bind_r (if legacy_generation \<and> approval then adapt_legacy_approval_operation operation
             else Inr operation) (\<lambda>operation1.
       (let operation2 = adapt_legacy_node_operation legacy_generation operation1;
            operation3 = (if legacy_generation then adapt_legacy_ambiguity_operation operation2
                          else operation2)
        in if get_val operation3 ''op'' = VStr ''create_proposals''
           then over_list_r (adapt_legacy_proposal_document legacy_generation) ''proposals'' operation3
           else Inr operation3))"

definition check_current_generation :: "val list \<Rightarrow> unit result" where
  "check_current_generation operations = fold_r (\<lambda>operation _. case operation of
     VDict d \<Rightarrow> (if get_val d ''op'' = VStr ''create_nodes'' then
         (case dict_get d ''nodes'' of
            Some (VList nodes) \<Rightarrow> fold_r (\<lambda>node _. reject_current_generation_legacy_node node) nodes ()
          | _ \<Rightarrow> Inr ())
       else Inr ())
   | _ \<Rightarrow> Inr ()) operations ()"

definition adapt_persisted_patch_document :: "val dict \<Rightarrow> val dict result" where
  "adapt_persisted_patch_document document =
     (if ''campaign_id'' \<in> set (keys document) \<and> ''episode_id'' \<in> set (keys document)
      then Inl (ValueError ''persisted Patch cannot contain both campaign_id and episode_id'')
      else
        (let adapted = (case dict_get document ''campaign_id'' of
               None \<Rightarrow> document
             | Some v \<Rightarrow> AList.update ''episode_id'' v (AList.delete ''campaign_id'' document));
             marker_missing = ''schema_generation'' \<notin> set (keys adapted);
             legacy_generation = (marker_missing \<or> equals_one (get_val adapted ''schema_generation''));
             adapted1 = (if marker_missing
               then AList.update ''schema_generation'' (VInt 1) adapted else adapted)
         in if get_val adapted1 ''admission'' = VStr ''rejected''
            then Inr (AList.update ''ops'' (VList []) adapted1)
            else (case dict_get adapted1 ''ops'' of
                Some (VList operations) \<Rightarrow>
                  bind_r (if legacy_generation then Inr () else check_current_generation operations) (\<lambda>_.
                    over_list_r (on_dict_r (adapt_patch_operation legacy_generation
                      (get_val adapted1 ''kind'' = VStr ''approval''))) ''ops'' adapted1)
              | _ \<Rightarrow> Inr adapted1)))"

definition over_values :: "(val \<Rightarrow> val result) \<Rightarrow> string \<Rightarrow> val dict \<Rightarrow> val dict result" where
  "over_values f k d = (case dict_get d k of
     Some (VDict kvs) \<Rightarrow> bind_r (map_r (\<lambda>(i, v). bind_r (f v) (\<lambda>v'. Inr (i, v'))) kvs)
       (\<lambda>kvs'. Inr (AList.update k (VDict kvs') d))
   | _ \<Rightarrow> Inr d)"

definition adapt_persisted_graph_state_document :: "val dict \<Rightarrow> val dict result" where
  "adapt_persisted_graph_state_document document =
     bind_r (over_values (\<lambda>v. Inr (on_dict adapt_legacy_snapshot_node v)) ''nodes''
       (AList.delete ''coverage'' document)) (\<lambda>adapted.
     over_values (adapt_legacy_proposal_document True) ''proposals'' adapted)"

end
