(* ===== verification/Graph_State.thy ===== *)
theory Graph_State
  imports Operations Transition_Models
begin

text \<open>
  The materialized graph (\<open>GraphState\<close>), the canonical \<open>Patch\<close> and the records they hold
  (\<open>core/models.py\<close>), and the validation report (\<open>core/validation/report.py\<close>). The prose of
  a message or failure and the diagnostic \<open>cause_chain\<close> and \<open>failed_invariant\<close> are not
  modelled: the program branches on level, code, related ids and rule id only. A datetime is
  the instant it names.
\<close>

section \<open>Records of the graph\<close>

record ambiguity =
  am_id :: string
  am_question :: string
  am_why_it_matters :: string
  am_candidates :: "string list"
  am_related_node_ids :: "string list"
  am_artifact_refs :: "string list"
  am_status :: ambiguity_status
  am_raised_rev :: int

record glossary_term =
  gl_term :: string
  gl_plain_definition :: string
  gl_where_defined :: "string option"
  gl_updated_rev :: int

datatype level = Flag | Reject_level

record validation_message =
  vm_level :: level
  vm_code :: string
  vm_patch_revision :: "int option"
  vm_related_node_ids :: "string list"
  vm_related_edge_ids :: "string list"
  vm_operation_index :: "int option"
  vm_rule_id :: "string option"

record belief_transition =
  bt_hypothesis_id :: string
  bt_from_status :: "val option"
  bt_to_status :: "val option"
  bt_revision :: int
  bt_cause :: belief_cause

record replay_failure =
  rf_revision :: int
  rf_created_at :: int
  rf_code :: string

datatype replay_status = Complete | Degraded

record graph_state =
  g_revision :: int
  g_project_truth_scope :: "string list"
  g_config_revisions :: "int dict"
  g_nodes :: "project_node dict"
  g_edges :: "edge dict"
  g_proposals :: "proposal dict"
  g_ambiguities :: "ambiguity dict"
  g_glossary :: "glossary_term dict"
  g_ontology :: ontology_state
  g_validation_messages :: "validation_message list"
  g_belief_transitions :: "belief_transition list"
  g_replay_status :: replay_status
  g_replay_failure :: "replay_failure option"
  g_last_refresh_at :: "int option"

definition empty_ontology :: ontology_state where
  "empty_ontology = \<lparr>os_types = [], os_fields = [], os_relations = []\<rparr>"

text \<open>\<open>GraphState(project_truth_scope=scope)\<close>: every other field at its default.\<close>

definition initial_graph_state :: "string list \<Rightarrow> graph_state" where
  "initial_graph_state scope = \<lparr>
     g_revision = 0, g_project_truth_scope = scope, g_config_revisions = [], g_nodes = [],
     g_edges = [], g_proposals = [], g_ambiguities = [], g_glossary = [],
     g_ontology = empty_ontology, g_validation_messages = [], g_belief_transitions = [],
     g_replay_status = Complete, g_replay_failure = None, g_last_refresh_at = None\<rparr>"

section \<open>Patches\<close>

datatype patch_kind =
  Seed | Refresh | Chat | Work | Experiment_loop | Approval | Identity_patch

datatype producer = Agent_producer | Human_producer | System_producer

datatype admission = Accepted | Rejected_admission

datatype profile = Ordinary | Orchestrator

record experiment_decision_pin =
  dp_decision_id :: string
  dp_decision_revision :: int
  dp_selected_option :: string

record patch =
  pa_schema_generation :: int
  pa_revision :: int
  pa_kind :: patch_kind
  pa_author :: "actor option"
  pa_producer :: producer
  pa_created_at :: int
  pa_summary :: string
  pa_ops :: "graph_operation list"
  pa_run_truth_scope :: "string list"
  pa_repositories_read :: "string list"
  pa_run_read_scope :: "string list option"
  pa_processed_cursors :: "string dict"
  pa_change_summary :: "string list"
  pa_source_operation_id :: "string option"
  pa_source_effect_id :: "string option"
  pa_source_effect_sha256 :: "string option"
  pa_human_action :: "declared_action option"
  pa_agent_action :: "declared_action option"
  pa_admission :: admission
  pa_admission_messages :: "validation_message list"
  pa_experiment_control_node_id :: "string option"
  pa_experiment_decision_bundle :: "experiment_decision_pin list"
  pa_project_identity :: "project_identity option"
  pa_project_home_transfer :: "project_home_transfer option"
  pa_authorized_by :: "authorized_human option"
  pa_profile :: "profile option"
  pa_task_id :: "string option"
  pa_episode_id :: "string option"
  pa_branch_merge :: "branch_merge_provenance option"
  pa_transition :: "transition_trace option"

definition reject_legacy_proposal_intents_in_current_generation :: "patch \<Rightarrow> patch result" where
  "reject_legacy_proposal_intents_in_current_generation p =
     (if pa_schema_generation p = 1 then Inr p
      else if list_ex (\<lambda>op. case op of
             CreateProposalsOperation ps \<Rightarrow>
               list_ex (\<lambda>q. list_ex (\<lambda>item. startswith (intent item) ''legacy_'') (p_ops q)) ps
           | _ \<Rightarrow> False) (pa_ops p)
        then Inl (ValueError ''legacy Proposal operation shapes'')
      else Inr p)"

definition branch_merge_attribution_is_complete :: "patch \<Rightarrow> patch result" where
  "branch_merge_attribution_is_complete p = (case pa_branch_merge p of
     None \<Rightarrow> Inr p
   | Some provenance \<Rightarrow>
       if pa_kind p \<noteq> Work \<or> pa_author p \<noteq> Some Agent \<or> pa_producer p \<noteq> Agent_producer
          \<or> pa_profile p \<noteq> Some Orchestrator \<or> pa_authorized_by p = None
         then Inl (ValueError ''a branch merge must be an attributed orchestrator Work Patch'')
       else if pa_task_id p \<noteq> Some (mp_merge_task_id provenance)
         then Inl (ValueError ''branch merge provenance does not match its direct task'')
       else if (case pa_transition p of None \<Rightarrow> False
                | Some t \<Rightarrow> tt_pre_head t \<noteq> mp_rebased_main_head provenance)
         then Inl (ValueError ''branch merge transition does not start from its rebased main head'')
       else Inr p)"

section \<open>The validation report\<close>

text \<open>A report is the list of its messages, oldest first.\<close>

type_synonym report = "validation_message list"

definition rejected :: "report \<Rightarrow> bool" where
  "rejected r = list_ex (\<lambda>m. vm_level m = Reject_level) r"

definition flags :: "report \<Rightarrow> validation_message list" where
  "flags r = filter (\<lambda>m. vm_level m = Flag) r"

definition report_message ::
  "level \<Rightarrow> string \<Rightarrow> int option \<Rightarrow> string list \<Rightarrow> string list \<Rightarrow> validation_message" where
  "report_message l code rv nodes edges = \<lparr>vm_level = l, vm_code = code,
     vm_patch_revision = rv, vm_related_node_ids = nodes, vm_related_edge_ids = edges,
     vm_operation_index = None, vm_rule_id = None\<rparr>"

definition reject ::
  "string \<Rightarrow> int option \<Rightarrow> string list \<Rightarrow> string list \<Rightarrow> report \<Rightarrow> report" where
  "reject code rv nodes edges r = r @ [report_message Reject_level code rv nodes edges]"

definition flag ::
  "string \<Rightarrow> int option \<Rightarrow> string list \<Rightarrow> string list \<Rightarrow> report \<Rightarrow> report" where
  "flag code rv nodes edges r = r @ [report_message Flag code rv nodes edges]"

text \<open>Reject when a condition holds; the common shape of a validation rule.\<close>

definition reject_if ::
  "bool \<Rightarrow> string \<Rightarrow> int option \<Rightarrow> string list \<Rightarrow> string list \<Rightarrow> report \<Rightarrow> report" where
  "reject_if c code rv nodes edges r = (if c then reject code rv nodes edges r else r)"

lemma rejected_simps [simp]:
  "rejected [] = False"
  "rejected (xs @ ys) = (rejected xs \<or> rejected ys)"
  by (auto simp: rejected_def)

lemma rejected_reject [simp]: "rejected (reject code rv ns es r)"
  by (simp add: reject_def rejected_def report_message_def)

lemma rejected_flag [simp]: "rejected (flag code rv ns es r) = rejected r"
  by (simp add: flag_def rejected_def report_message_def)

lemma rejected_reject_if [simp]:
  "rejected (reject_if c code rv ns es r) \<longleftrightarrow> c \<or> rejected r"
  by (simp add: reject_if_def)

end
