(* ===== verification/State_Delta.thy ===== *)
theory State_Delta
  imports Legacy_Documents Graph_State
begin

text \<open>
  Sparse differences between two graph snapshots, for the history index
  (\<open>history/state_delta.py\<close>). The program reads a \<open>GraphState\<close> through its declared fields; here it
  is the list of its fields, each a scalar, a list or a dictionary of objects. Dumping and
  validating an object is the work of a Pydantic adapter, and comparing two is Python's \<open>==\<close>: they
  are the parameter \<open>K\<close> (\<open>state_codec\<close>).
\<close>

section \<open>A snapshot as its fields\<close>

datatype state_object =
    O_int int
  | O_text string
  | O_node project_node
  | O_edge edge
  | O_proposal proposal
  | O_ambiguity ambiguity
  | O_term glossary_term
  | O_ontology ontology_state
  | O_message validation_message
  | O_transition belief_transition
  | O_status replay_status
  | O_failure "replay_failure option"
  | O_time "int option"

datatype state_slot = Scalar state_object | Items "state_object list" | Table "state_object dict"

definition table_of :: "('v \<Rightarrow> state_object) \<Rightarrow> 'v dict \<Rightarrow> state_slot" where
  "table_of f d = Table (map (\<lambda>(k, v). (k, f v)) d)"

text \<open>\<open>GraphState.model_fields\<close>, in the order of their declaration.\<close>

definition slots_of :: "graph_state \<Rightarrow> state_slot dict" where
  "slots_of st = [
     (''revision'', Scalar (O_int (g_revision st))),
     (''project_truth_scope'', Items (map O_text (g_project_truth_scope st))),
     (''config_revisions'', table_of O_int (g_config_revisions st)),
     (''nodes'', table_of O_node (g_nodes st)),
     (''edges'', table_of O_edge (g_edges st)),
     (''proposals'', table_of O_proposal (g_proposals st)),
     (''ambiguities'', table_of O_ambiguity (g_ambiguities st)),
     (''glossary'', table_of O_term (g_glossary st)),
     (''ontology'', Scalar (O_ontology (g_ontology st))),
     (''validation_messages'', Items (map O_message (g_validation_messages st))),
     (''belief_transitions'', Items (map O_transition (g_belief_transitions st))),
     (''replay_status'', Scalar (O_status (g_replay_status st))),
     (''replay_failure'', Scalar (O_failure (g_replay_failure st))),
     (''last_refresh_at'', Scalar (O_time (g_last_refresh_at st)))]"

definition MAP_FIELDS :: "string list" where
  "MAP_FIELDS = [''config_revisions'', ''nodes'', ''edges'', ''proposals'', ''ambiguities'', ''glossary'']"

definition LIST_FIELDS :: "string list" where
  "LIST_FIELDS = [''project_truth_scope'', ''validation_messages'', ''belief_transitions'']"

definition SCALAR_FIELDS :: "string list" where
  "SCALAR_FIELDS = [''revision'', ''ontology'', ''replay_status'', ''replay_failure'', ''last_refresh_at'']"

text \<open>The adapter of a field, by its name; the adapter of a layer.\<close>

record state_codec =
  sc_dump :: "string \<Rightarrow> state_object \<Rightarrow> val"
  sc_validate :: "string \<Rightarrow> val \<Rightarrow> state_object result"
  sc_equal :: "state_object \<Rightarrow> state_object \<Rightarrow> bool"
  sc_layer :: "val \<Rightarrow> relation_layer result"

section \<open>Deltas\<close>

record list_splice =
  ls_start :: nat
  ls_delete_count :: nat
  ls_items :: "val list"

record state_delta =
  sd_replacements :: "val dict"
  sd_splices :: "list_splice dict"
  sd_changed :: "val dict dict"
  sd_removed :: "string list dict"

definition validate_delta_fields :: "state_delta \<Rightarrow> state_delta result" where
  "validate_delta_fields d =
     (if \<not> set (keys (sd_replacements d)) \<subseteq> set (SCALAR_FIELDS @ LIST_FIELDS)
        then Inl (ValueError ''snapshot replacement names an unknown or dictionary field'')
      else if \<not> set (keys (sd_changed d)) \<union> set (keys (sd_removed d)) \<subseteq> set MAP_FIELDS
        then Inl (ValueError ''snapshot dictionary change names an unknown or scalar field'')
      else if \<not> set (keys (sd_splices d)) \<subseteq> set LIST_FIELDS
          \<or> set (keys (sd_splices d)) \<inter> set (keys (sd_replacements d)) \<noteq> {}
        then Inl (ValueError ''snapshot splice names an unknown, non-list, or replaced field'')
      else if list_ex (\<lambda>(name, removed). \<not> distinct removed
          \<or> (case dict_get (sd_changed d) name of None \<Rightarrow> False
             | Some changed \<Rightarrow> set removed \<inter> set (keys changed) \<noteq> {})) (sd_removed d)
        then Inl (ValueError ''snapshot dictionary keys are removed more than once or replaced'')
      else Inr d)"

section \<open>Capturing\<close>

fun common_length :: "('a \<Rightarrow> 'a \<Rightarrow> bool) \<Rightarrow> 'a list \<Rightarrow> 'a list \<Rightarrow> nat" where
  "common_length eq (x # xs) (y # ys) = (if eq x y then Suc (common_length eq xs ys) else 0)"
| "common_length eq _ _ = 0"

definition splice_of :: "state_codec \<Rightarrow> string \<Rightarrow> state_object list \<Rightarrow> state_object list \<Rightarrow> list_splice" where
  "splice_of K name old new =
     (let start = common_length (sc_equal K) old new;
          tail = common_length (sc_equal K) (rev (drop start old)) (rev (drop start new))
      in \<lparr>ls_start = start, ls_delete_count = length old - tail - start,
          ls_items = map (sc_dump K name) (take (length new - tail - start) (drop start new))\<rparr>)"

definition table_updates :: "state_codec \<Rightarrow> state_object dict \<Rightarrow> state_object dict \<Rightarrow> state_object dict" where
  "table_updates K old new = filter (\<lambda>(k, v). case dict_get old k of
     None \<Rightarrow> True | Some w \<Rightarrow> \<not> sc_equal K w v) new"

definition absent_keys :: "state_object dict \<Rightarrow> state_object dict \<Rightarrow> string list" where
  "absent_keys old new = sort (filter (\<lambda>k. k \<notin> set (keys new)) (keys old))"

text \<open>
  The loop over the fields fills four dictionaries, by the kind of the field; each entry is
  given by a function of the old and the new value.
\<close>

fun replaced_value :: "state_codec \<Rightarrow> string \<Rightarrow> state_slot \<Rightarrow> state_slot \<Rightarrow> val option" where
  "replaced_value K name (Scalar old) (Scalar new) =
     (if sc_equal K old new then None else Some (sc_dump K name new))"
| "replaced_value K name _ _ = None"

fun spliced_items :: "state_codec \<Rightarrow> string \<Rightarrow> state_slot \<Rightarrow> state_slot \<Rightarrow> list_splice option" where
  "spliced_items K name (Items old) (Items new) =
     (if list_all2 (sc_equal K) old new then None else Some (splice_of K name old new))"
| "spliced_items K name _ _ = None"

fun changed_entries :: "state_codec \<Rightarrow> string \<Rightarrow> state_slot \<Rightarrow> state_slot \<Rightarrow> val dict option" where
  "changed_entries K name (Table old) (Table new) = (if table_updates K old new = [] then None
     else Some (map (\<lambda>(k, v). (k, sc_dump K name v)) (table_updates K old new)))"
| "changed_entries K name _ _ = None"

fun removed_entries :: "string \<Rightarrow> state_slot \<Rightarrow> state_slot \<Rightarrow> string list option" where
  "removed_entries name (Table old) (Table new) =
     (if absent_keys old new = [] then None else Some (absent_keys old new))"
| "removed_entries name _ _ = None"

definition field_pairs :: "state_slot dict \<Rightarrow> state_slot dict \<Rightarrow> (state_slot \<times> state_slot) dict" where
  "field_pairs old new = List.map_filter (\<lambda>(name, s).
     map_option (\<lambda>t. (name, s, t)) (dict_get new name)) old"

definition per_field ::
  "(string \<Rightarrow> state_slot \<Rightarrow> state_slot \<Rightarrow> 'v option) \<Rightarrow> (state_slot \<times> state_slot) dict \<Rightarrow> 'v dict" where
  "per_field f pairs = List.map_filter (\<lambda>(name, old, new). map_option (Pair name) (f name old new)) pairs"

definition capture_state_delta ::
  "state_codec \<Rightarrow> state_slot dict \<Rightarrow> state_slot dict \<Rightarrow> state_delta result" where
  "capture_state_delta K before after =
     (let pairs = field_pairs before after in validate_delta_fields \<lparr>
        sd_replacements = per_field (replaced_value K) pairs,
        sd_splices = per_field (spliced_items K) pairs,
        sd_changed = per_field (changed_entries K) pairs,
        sd_removed = per_field removed_entries pairs\<rparr>)"

section \<open>Applying\<close>

definition restore_edge_layer :: "state_codec \<Rightarrow> string \<Rightarrow> val \<Rightarrow> state_object \<Rightarrow> state_object result" where
  "restore_edge_layer K name document object = (case (object, document) of
     (O_edge e, VDict d) \<Rightarrow> if name = ''edges'' then (case dict_get d ''layer'' of
         None \<Rightarrow> Inr object
       | Some v \<Rightarrow> bind_r (sc_layer K v) (\<lambda>l. Inr (O_edge (e\<lparr>e_layer := l\<rparr>)))) else Inr object
   | _ \<Rightarrow> Inr object)"

definition read_table :: "state_codec \<Rightarrow> string \<Rightarrow> val dict \<Rightarrow> state_object dict result" where
  "read_table K name changed =
     bind_r (adapt_persisted_graph_state_document [(name, VDict changed)]) (\<lambda>document.
     case dict_get document name of
       Some (VDict entries) \<Rightarrow> map_r (\<lambda>(k, v).
         bind_r (sc_validate K name v) (\<lambda>object.
         bind_r (restore_edge_layer K name v object) (\<lambda>restored. Inr (k, restored)))) entries
     | _ \<Rightarrow> Inl (KeyError name))"

definition remove_keys :: "string list \<Rightarrow> state_object dict \<Rightarrow> state_object dict result" where
  "remove_keys = fold_r (\<lambda>k d. if k \<in> set (keys d) then Inr (AList.delete k d)
     else Inl (ValueError ''snapshot dictionary removal is absent from its predecessor''))"

definition or_empty :: "'a list option \<Rightarrow> 'a list" where
  "or_empty m = (case m of None \<Rightarrow> [] | Some xs \<Rightarrow> xs)"

definition apply_table ::
  "state_codec \<Rightarrow> state_slot dict \<Rightarrow> state_delta \<Rightarrow> string \<Rightarrow> (string \<times> state_slot) result" where
  "apply_table K before d name = (case dict_get before name of
     Some (Table entries) \<Rightarrow>
       bind_r (remove_keys (or_empty (dict_get (sd_removed d) name)) entries) (\<lambda>kept.
       bind_r (read_table K name (or_empty (dict_get (sd_changed d) name))) (\<lambda>read.
         Inr (name, Table (fold (\<lambda>(k, v). AList.update k v) read kept))))
   | _ \<Rightarrow> Inl (AttributeError name))"

definition apply_splice ::
  "state_codec \<Rightarrow> state_slot dict \<Rightarrow> string \<times> list_splice \<Rightarrow> (string \<times> state_slot) result" where
  "apply_splice K before = (\<lambda>(name, splice). case dict_get before name of
     Some (Items xs) \<Rightarrow>
       (let upto = ls_start splice + ls_delete_count splice in
        if upto > length xs then Inl (ValueError ''snapshot list splice exceeds its predecessor'')
        else bind_r (map_r (sc_validate K name) (ls_items splice)) (\<lambda>items.
          Inr (name, Items (take (ls_start splice) xs @ items @ drop upto xs))))
   | _ \<Rightarrow> Inl (AttributeError name))"

definition read_replacement :: "state_codec \<Rightarrow> string \<times> val \<Rightarrow> (string \<times> state_slot) result" where
  "read_replacement K = (\<lambda>(name, v).
     if name \<in> set LIST_FIELDS then (case v of
         VList vs \<Rightarrow> bind_r (map_r (sc_validate K name) vs) (\<lambda>items. Inr (name, Items items))
       | _ \<Rightarrow> Inl (ValueError ''snapshot replacement''))
     else bind_r (sc_validate K name v) (\<lambda>object. Inr (name, Scalar object)))"

definition apply_state_delta ::
  "state_codec \<Rightarrow> state_slot dict \<Rightarrow> state_delta \<Rightarrow> state_slot dict result" where
  "apply_state_delta K before d =
     bind_r (map_r (read_replacement K) (sd_replacements d)) (\<lambda>replaced.
     bind_r (map_r (apply_splice K before) (sd_splices d)) (\<lambda>spliced.
     bind_r (map_r (apply_table K before d) (remdups (keys (sd_changed d) @ keys (sd_removed d)))) (\<lambda>tables.
       Inr (map (\<lambda>(name, s). (name, case dict_get (replaced @ spliced @ tables) name of
         None \<Rightarrow> s | Some t \<Rightarrow> t)) before))))"

end
