(* ===== verification/Ontology.thy ===== *)
theory Ontology
  imports Graph_State
begin

text \<open>
  The project ontology rules of \<open>core/ontology.py\<close>: the structure a declared ontology must
  have, the changes it may undergo against the existing graph, the extension fields of nodes,
  and the layer of an edge. A rule takes the report it appends to and returns it. Python
  dictionaries built from lists of definitions are built by \<open>dict_of\<close>, in order and with
  later definitions overwriting earlier ones.
\<close>

definition dict_of :: "('a \<Rightarrow> 'k) \<Rightarrow> 'a list \<Rightarrow> ('k \<times> 'a) list" where
  "dict_of key xs = fold (\<lambda>x. AList.update (key x) x) xs []"

section \<open>Base vocabulary\<close>

definition BASE_TYPE_LAYERS :: "relation_layer dict" where
  "BASE_TYPE_LAYERS = [(''research_question'', Epistemic), (''hypothesis'', Epistemic),
     (''evidence'', Epistemic), (''decision'', Action), (''experiment'', Action),
     (''blocker'', Action)]"

definition BASE_FIELD_NAMES :: "string list" where
  "BASE_FIELD_NAMES = remdups (concat (map (map fd_name)
     [BaseNode, ResearchQuestion, Hypothesis, Decision, Experiment, Evidence, Blocker]))"

definition LATER_BASE_FIELD_NAMES :: "string list" where
  "LATER_BASE_FIELD_NAMES = [''proxies'', ''limitations'']"

section \<open>Structure of a declared ontology\<close>

definition check_type_definition :: "int option \<Rightarrow> ontology_type_definition \<Rightarrow> report \<Rightarrow> report" where
  "check_type_definition rv item r =
     reject_if (dict_get BASE_TYPE_LAYERS (ot_base_type item) \<noteq> Some (ot_layer item))
       ''invalid-base-mapping'' rv [] []
     (reject_if (ot_name item \<in> set ALL_NODE_TYPES) ''base-ontology-collision'' rv [] [] r)"

definition check_field_definition ::
  "bool \<Rightarrow> string list \<Rightarrow> int option \<Rightarrow> ontology_field_definition \<Rightarrow> report \<Rightarrow> report" where
  "check_field_definition replay known rv item r =
     reject_if (of_name item \<in> set BASE_FIELD_NAMES
                \<and> \<not> (replay \<and> of_name item \<in> set LATER_BASE_FIELD_NAMES))
       ''base-ontology-collision'' rv [] []
     (reject_if (of_owner_type item \<notin> set known) ''unknown-ontology-owner'' rv [] [] r)"

definition fields_of_owner :: "ontology_state \<Rightarrow> string \<Rightarrow> string list" where
  "fields_of_owner os owner =
     map of_name (filter (\<lambda>f. of_owner_type f = owner) (os_fields os))"

definition check_inherited_fields ::
  "ontology_state \<Rightarrow> int option \<Rightarrow> ontology_type_definition \<Rightarrow> report \<Rightarrow> report" where
  "check_inherited_fields os rv item r =
     reject_if (set (fields_of_owner os (ot_name item))
                  \<inter> set (fields_of_owner os (ot_base_type item)) \<noteq> {})
       ''ontology-field-collision'' rv [] [] r"

definition check_relation_definition ::
  "string list \<Rightarrow> int option \<Rightarrow> ontology_relation_definition \<Rightarrow> report \<Rightarrow> report" where
  "check_relation_definition known rv item r =
     reject_if (\<not> set (or_source_types item) \<union> set (or_target_types item) \<subseteq> set known)
       ''unknown-relation-type'' rv [] []
     (reject_if (\<not> distinct (or_source_types item) \<or> \<not> distinct (or_target_types item))
       ''duplicate-relation-endpoint-type'' rv [] []
     (reject_if (or_name item \<in> set (keys RELATION_SPEC)) ''base-ontology-collision'' rv [] [] r))"

definition validate_ontology_structure ::
  "ontology_state \<Rightarrow> int option \<Rightarrow> bool \<Rightarrow> report \<Rightarrow> report" where
  "validate_ontology_structure ontology rv replay r =
     (let known = ALL_NODE_TYPES @ map ot_name (os_types ontology) in
      fold (check_relation_definition known rv) (os_relations ontology)
      (fold (check_inherited_fields ontology rv) (os_types ontology)
      (fold (check_field_definition replay known rv) (os_fields ontology)
      (fold (check_type_definition rv) (os_types ontology) r))))"

section \<open>Relations, layers and semantic types\<close>

definition custom_relation ::
  "ontology_state \<Rightarrow> string \<Rightarrow> ontology_relation_definition option" where
  "custom_relation ontology name = find (\<lambda>item. or_name item = name) (os_relations ontology)"

definition ontology_type :: "ontology_state \<Rightarrow> string \<Rightarrow> ontology_type_definition option" where
  "ontology_type ontology name = find (\<lambda>item. ot_name item = name) (os_types ontology)"

definition type_pair_layer ::
  "string option \<Rightarrow> string option \<Rightarrow> relation_layer \<Rightarrow> relation_layer" where
  "type_pair_layer source_type target_type declared =
     (if declared = Meta then declared
      else case (Option.bind source_type (dict_get BASE_TYPE_LAYERS),
                 Option.bind target_type (dict_get BASE_TYPE_LAYERS)) of
             (Some l1, Some l2) \<Rightarrow> (if l1 = l2 then l1 else Seam)
           | _ \<Rightarrow> declared)"

definition node_type_of :: "graph_state \<Rightarrow> string \<Rightarrow> string option" where
  "node_type_of st node_id = map_option n_type (dict_get (g_nodes st) node_id)"

definition edge_layer ::
  "graph_state \<Rightarrow> string \<Rightarrow> string \<Rightarrow> relation_layer \<Rightarrow> relation_layer" where
  "edge_layer st source_id target_id declared =
     type_pair_layer (node_type_of st source_id) (node_type_of st target_id) declared"

text \<open>\<open>semantic_type\<close> of a node and of a raw node document.\<close>

definition semantic_type :: "project_node \<Rightarrow> string" where
  "semantic_type n = (case n_extension_type n of Some x \<Rightarrow> x | None \<Rightarrow> n_type n)"

definition raw_semantic_type :: "val dict \<Rightarrow> string option" where
  "raw_semantic_type d = (case dict_get d ''extension_type'' of
     Some (VStr x) \<Rightarrow> Some x
   | _ \<Rightarrow> (case dict_get d ''type'' of Some (VStr t) \<Rightarrow> Some t | _ \<Rightarrow> None))"

text \<open>
  The endpoint lookup of \<open>edge_matches_relation\<close>: the graph's node, else the last created
  document with this id. The outer option is "not found", the inner one the semantic type.
\<close>

definition endpoint_type ::
  "graph_state \<Rightarrow> val dict list \<Rightarrow> string \<Rightarrow> string option option" where
  "endpoint_type st created node_id = (case dict_get (g_nodes st) node_id of
     Some n \<Rightarrow> Some (Some (semantic_type n))
   | None \<Rightarrow> map_option raw_semantic_type
               (find (\<lambda>d. dict_get d ''id'' = Some (VStr node_id)) (rev created)))"

definition edge_matches_relation ::
  "graph_state \<Rightarrow> string \<Rightarrow> string \<Rightarrow> ontology_relation_definition \<Rightarrow> val dict list \<Rightarrow> bool" where
  "edge_matches_relation st source_id target_id relation created =
     (case (endpoint_type st created source_id, endpoint_type st created target_id) of
        (Some (Some s), Some (Some t)) \<Rightarrow>
          s \<in> set (or_source_types relation) \<and> t \<in> set (or_target_types relation)
      | _ \<Rightarrow> False)"

section \<open>Extension fields\<close>

definition applicable_field_definitions ::
  "ontology_state \<Rightarrow> string option \<Rightarrow> string option \<Rightarrow> ontology_field_definition list" where
  "applicable_field_definitions ontology base_type extension_type =
     filter (\<lambda>item. Some (of_owner_type item) = base_type
                 \<or> Some (of_owner_type item) = extension_type) (os_fields ontology)"

definition field_applies :: "project_node \<Rightarrow> ontology_field_definition \<Rightarrow> bool" where
  "field_applies n field =
     (of_owner_type field = n_type n \<or> Some (of_owner_type field) = n_extension_type n)"

fun field_value_matches :: "ontology_field_definition \<Rightarrow> val \<Rightarrow> bool" where
  "field_value_matches field v = (case of_kind field of
     Text \<Rightarrow> is_VStr v
   | Number \<Rightarrow> (case v of VInt _ \<Rightarrow> True | VFloat _ \<Rightarrow> True | _ \<Rightarrow> False)
   | Boolean \<Rightarrow> (case v of VBool _ \<Rightarrow> True | _ \<Rightarrow> False)
   | Text_list \<Rightarrow> (case v of VList items \<Rightarrow> list_all is_VStr items | _ \<Rightarrow> False))"

definition validate_one_field ::
  "string list \<Rightarrow> ontology_field_definition \<Rightarrow> val \<Rightarrow> int option \<Rightarrow> bool \<Rightarrow> bool \<Rightarrow> bool \<Rightarrow>
   report \<Rightarrow> report" where
  "validate_one_field related defn v rv authoring agent_authored check_kind r =
     reject_if (authoring \<and> agent_authored \<and> \<not> of_agent_writable defn)
       ''extension-field-human-only'' rv related []
     (reject_if (authoring \<and> of_deprecated defn)
       ''deprecated-extension-field'' rv related []
     (reject_if (check_kind \<and> \<not> field_value_matches defn v)
       ''invalid-extension-field-kind'' rv related [] r))"

text \<open>Required fields of the definitions that the given fields lack.\<close>

definition missing_required :: "ontology_field_definition list \<Rightarrow> val dict \<Rightarrow> string list" where
  "missing_required definitions flds =
     sort (map of_name (filter (\<lambda>item. of_required item \<and> of_name item \<notin> set (keys flds))
       definitions))"

definition validate_extension_fields ::
  "string list \<Rightarrow> val dict \<Rightarrow> ontology_field_definition list \<Rightarrow> int option \<Rightarrow> bool \<Rightarrow> bool \<Rightarrow>
   bool \<Rightarrow> report \<Rightarrow> report" where
  "validate_extension_fields related flds definitions rv authoring agent_authored structural r =
     (let known = dict_of of_name definitions;
          r1 = reject_if (structural \<and> \<not> set (keys flds) \<subseteq> set (keys known))
                 ''unknown-extension-field'' rv related [] r;
          r2 = fold (\<lambda>(name, v) r. case dict_get known name of
                 None \<Rightarrow> r
               | Some d \<Rightarrow> validate_one_field related d v rv authoring agent_authored structural r)
               flds r1
      in reject_if (structural \<and> missing_required definitions flds \<noteq> [])
           ''missing-required-extension-field'' rv related [] r2)"

text \<open>\<open>[node_id] if isinstance(node_id, str) else []\<close>\<close>

definition str_ids :: "val option \<Rightarrow> string list" where
  "str_ids v = (case v of Some (VStr s) \<Rightarrow> [s] | _ \<Rightarrow> [])"

definition val_str :: "val option \<Rightarrow> string option" where
  "val_str v = (case v of Some (VStr s) \<Rightarrow> Some s | _ \<Rightarrow> None)"

definition validate_new_node_extensions ::
  "graph_state \<Rightarrow> val dict \<Rightarrow> int option \<Rightarrow> bool \<Rightarrow> bool \<Rightarrow> report \<Rightarrow> report" where
  "validate_new_node_extensions st raw rv authoring agent_authored r =
     (let base_type = dict_get raw ''type'';
          extension_type = (case dict_get raw ''extension_type'' of None \<Rightarrow> VNone | Some v \<Rightarrow> v);
          type_definition = Option.bind (val_str (Some extension_type)) (ontology_type (g_ontology st));
          r1 = (if extension_type = VNone then r
                else if \<not> authoring \<and> type_definition = None
                  then reject ''unknown-extension-type'' rv [] [] r
                else (case type_definition of
                    None \<Rightarrow> r
                  | Some td \<Rightarrow>
                      if \<not> authoring \<and> Some (VStr (ot_base_type td)) \<noteq> base_type
                        then reject ''invalid-extension-base'' rv [] [] r
                      else if authoring \<and> ot_deprecated td
                        then reject ''deprecated-extension-type'' rv [] [] r
                      else r))
      in case (case dict_get raw ''extension_fields'' of None \<Rightarrow> VDict [] | Some v \<Rightarrow> v) of
           VDict flds \<Rightarrow>
             validate_extension_fields (str_ids (dict_get raw ''id'')) flds
               (applicable_field_definitions (g_ontology st) (val_str base_type)
                 (val_str (Some extension_type)))
               rv authoring agent_authored (\<not> authoring) r1
         | _ \<Rightarrow> r1)"

text \<open>Names whose extension value differs between the node and the change.\<close>

definition changed_extension_fields :: "val dict \<Rightarrow> val dict \<Rightarrow> string list" where
  "changed_extension_fields old new =
     filter (\<lambda>name. dict_get old name \<noteq> dict_get new name) (sorted_set (keys old @ keys new))"

definition validate_updated_extension_fields ::
  "graph_state \<Rightarrow> project_node \<Rightarrow> val dict \<Rightarrow> int option \<Rightarrow> bool \<Rightarrow> bool \<Rightarrow> report \<Rightarrow> report" where
  "validate_updated_extension_fields st node changes rv authoring agent_authored r =
     (case dict_get changes ''extension_fields'' of
        Some (VDict flds) \<Rightarrow>
          (let definitions = applicable_field_definitions (g_ontology st) (Some (n_type node))
                 (n_extension_type node);
               known = dict_of of_name definitions;
               r1 = fold (\<lambda>name r. case dict_get known name of
                      None \<Rightarrow> reject_if (\<not> authoring) ''unknown-extension-field'' rv [n_id node] [] r
                    | Some d \<Rightarrow> (case dict_get flds name of
                        None \<Rightarrow> r
                      | Some v \<Rightarrow>
                          validate_one_field [n_id node] d v rv authoring agent_authored
                            (\<not> authoring) r))
                    (changed_extension_fields (n_extension_fields node) flds) r
           in reject_if (\<not> authoring \<and> missing_required definitions flds \<noteq> [])
                ''missing-required-extension-field'' rv [n_id node] [] r1)
      | _ \<Rightarrow> r)"

section \<open>Changing the ontology of an existing graph\<close>

definition require_deprecation_before_removal ::
  "('k \<Rightarrow> string) \<Rightarrow> ('v \<Rightarrow> bool) \<Rightarrow> ('k \<times> 'v) list \<Rightarrow> ('k \<times> 'v) list \<Rightarrow> int option \<Rightarrow>
   report \<Rightarrow> report" where
  "require_deprecation_before_removal render deprecated previous desired rv r =
     fold (\<lambda>(key, v). reject_if (\<not> deprecated v) ''ontology-removal-without-deprecation'' rv [] [])
       (sort_key (\<lambda>(key, v). render key) (filter (\<lambda>(key, v). key \<notin> set (map fst desired)) previous)) r"

text \<open>\<open>str((owner_type, name))\<close> of two identifiers.\<close>

definition render_pair :: "string \<times> string \<Rightarrow> string" where
  "render_pair p = [CHR ''('', CHR 0x27] @ fst p @ [CHR 0x27, CHR '','', CHR '' '', CHR 0x27]
     @ snd p @ [CHR 0x27, CHR '')'']"

definition field_key :: "ontology_field_definition \<Rightarrow> string \<times> string" where
  "field_key f = (of_owner_type f, of_name f)"

definition nodes_where :: "graph_state \<Rightarrow> (project_node \<Rightarrow> bool) \<Rightarrow> string list" where
  "nodes_where st P = sort (map n_id (filter P (map snd (g_nodes st))))"

definition check_type_remap ::
  "graph_state \<Rightarrow> (string \<times> ontology_type_definition) list \<Rightarrow> int option \<Rightarrow>
   string \<times> ontology_type_definition \<Rightarrow> report \<Rightarrow> report" where
  "check_type_remap st new_types rv = (\<lambda>(name, previous) r. case map_of new_types name of
     None \<Rightarrow> r
   | Some current \<Rightarrow>
       reject_if ((ot_base_type current, ot_layer current) \<noteq> (ot_base_type previous, ot_layer previous))
         ''ontology-type-remap'' rv (nodes_where st (\<lambda>n. n_extension_type n = Some name)) [] r)"

definition check_field_change ::
  "graph_state \<Rightarrow> ((string \<times> string) \<times> ontology_field_definition) list \<Rightarrow> int option \<Rightarrow>
   (string \<times> string) \<times> ontology_field_definition \<Rightarrow> report \<Rightarrow> report" where
  "check_field_change st old_fields rv = (\<lambda>(key, current) r.
     (let previous = map_of old_fields key;
          missing = nodes_where st (\<lambda>n. field_applies n current
                      \<and> of_name current \<notin> set (keys (n_extension_fields n)));
          mismatched = nodes_where st (\<lambda>n. field_applies n current
                      \<and> (case dict_get (n_extension_fields n) (of_name current) of
                           None \<Rightarrow> False | Some v \<Rightarrow> \<not> field_value_matches current v));
          r1 = reject_if (of_required current
                 \<and> (case previous of None \<Rightarrow> True | Some p \<Rightarrow> \<not> of_required p) \<and> missing \<noteq> [])
                 ''required-field-breaks-existing-nodes'' rv missing [] r
      in reject_if ((case previous of None \<Rightarrow> False | Some p \<Rightarrow> of_kind p \<noteq> of_kind current)
            \<and> mismatched \<noteq> []) ''field-kind-breaks-existing-nodes'' rv mismatched [] r1))"

definition edge_ends :: "edge list \<Rightarrow> string list" where
  "edge_ends es = sorted_set (concat (map (\<lambda>e. [e_source e, e_target e]) es))"

definition check_relation_change ::
  "graph_state \<Rightarrow> (string \<times> ontology_relation_definition) list \<Rightarrow> int option \<Rightarrow>
   string \<times> ontology_relation_definition \<Rightarrow> report \<Rightarrow> report" where
  "check_relation_change st new_relations rv = (\<lambda>(name, previous) r. case map_of new_relations name of
     None \<Rightarrow> r
   | Some current \<Rightarrow>
       (let used = filter (\<lambda>e. e_relation e = name) (map snd (g_edges st));
            excluded = filter (\<lambda>e. \<not> edge_matches_relation st (e_source e) (e_target e) current []) used;
            r1 = reject_if (or_layer previous \<noteq> or_layer current \<and> used \<noteq> [])
                   ''relation-layer-breaks-existing-edges'' rv (edge_ends used) (sort (map e_id used)) r
        in reject_if (excluded \<noteq> []) ''relation-narrowing-breaks-existing-edges'' rv
             (edge_ends excluded) (sort (map e_id excluded)) r1))"

definition validate_ontology_change ::
  "graph_state \<Rightarrow> ontology_state \<Rightarrow> int option \<Rightarrow> report \<Rightarrow> report" where
  "validate_ontology_change st desired rv r =
     (let old_types = dict_of ot_name (os_types (g_ontology st));
          new_types = dict_of ot_name (os_types desired);
          old_fields = dict_of field_key (os_fields (g_ontology st));
          new_fields = dict_of field_key (os_fields desired);
          old_relations = dict_of or_name (os_relations (g_ontology st));
          new_relations = dict_of or_name (os_relations desired)
      in fold (check_relation_change st new_relations rv) old_relations
         (fold (check_field_change st old_fields rv) new_fields
         (fold (check_type_remap st new_types rv) old_types
         (require_deprecation_before_removal id or_deprecated old_relations new_relations rv
         (require_deprecation_before_removal render_pair of_deprecated old_fields new_fields rv
         (require_deprecation_before_removal id ot_deprecated old_types new_types rv r))))))"

end
