(* ===== verification/Dependencies.thy ===== *)
theory Dependencies
  imports Ontology
begin

text \<open>
  What a Proposal depends on: the dependency column of the operation vocabulary
  (\<open>core/validation/registry.py\<close>) and the \<open>depends_*\<close> functions it names
  (\<open>core/validation/ops.py\<close>). A candidate of type \<open>Any\<close> is a \<open>string option\<close>;
  only the strings count.
\<close>

definition depends_update_nodes :: "node_update list \<Rightarrow> string option list \<times> string list" where
  "depends_update_nodes updates =
     (map (Some \<circ> nu_id) updates,
      map (\<lambda>_. ''ontology'') (filter (\<lambda>u. ''extension_fields'' \<in> set (keys (nu_changes u))) updates))"

definition depends_create_edges :: "new_edge list \<Rightarrow> string option list \<times> string list" where
  "depends_create_edges edges =
     (concat (map (\<lambda>e. [Some (ne_source e), Some (ne_target e)]) edges), [])"

definition depends_remove_edges ::
  "string list \<Rightarrow> graph_state \<Rightarrow> string option list \<times> string list" where
  "depends_remove_edges edge_ids st =
     (concat (map (\<lambda>i. case dict_get (g_edges st) i of
        None \<Rightarrow> [] | Some e \<Rightarrow> [Some (e_source e), Some (e_target e)]) edge_ids), [])"

definition depends_remove_nodes :: "string list \<Rightarrow> string option list \<times> string list" where
  "depends_remove_nodes node_ids = (map Some node_ids, [])"

definition depends_supersede_nodes :: "supersede_node list \<Rightarrow> string option list \<times> string list" where
  "depends_supersede_nodes items =
     (concat (map (\<lambda>i. [Some (sn_id i), sn_superseded_by i]) items), [])"

definition depends_merge_nodes :: "node_merge list \<Rightarrow> string option list \<times> string list" where
  "depends_merge_nodes items =
     (concat (map (\<lambda>i. [Some (nm_duplicate i), Some (nm_canonical i)]) items), [])"

definition depends_create_ambiguities :: "new_ambiguity list \<Rightarrow> string option list \<times> string list" where
  "depends_create_ambiguities ambiguities =
     (concat (map (\<lambda>a. map Some (na_related_node_ids a)) ambiguities), [])"

definition depends_resolve_ambiguities ::
  "ambiguity_resolution list \<Rightarrow> graph_state \<Rightarrow> string option list \<times> string list" where
  "depends_resolve_ambiguities resolutions st =
     (concat (map (\<lambda>r. case dict_get (g_ambiguities st) (ar_id r) of
        None \<Rightarrow> [] | Some a \<Rightarrow> map Some (am_related_node_ids a)) resolutions), [])"

definition depends_set_project_truth_scope :: "string option list \<times> string list" where
  "depends_set_project_truth_scope = ([], [''project_truth_scope''])"

definition depends_set_ontology :: "string option list \<times> string list" where
  "depends_set_ontology = ([], [''ontology''])"

text \<open>
  \<open>OP_RULES[op].dependencies\<close> applied to a Proposal operation; \<open>None\<close> for the operations
  whose rule has none. An absent payload list is empty (\<open>op.edges or []\<close>).
\<close>

fun op_dependencies ::
  "proposal_operation \<Rightarrow> graph_state \<Rightarrow> (string option list \<times> string list) option" where
  "op_dependencies (ProposalContentChangeOperation _ us) st = Some (depends_update_nodes us)"
| "op_dependencies (ProposalStatusChangeOperation _ us) st = Some (depends_update_nodes us)"
| "op_dependencies (ProposalStandingChangeOperation _ _) st = None"
| "op_dependencies (ProposalRemovalOperation _ ns) st = Some (depends_remove_nodes ns)"
| "op_dependencies (ProposalSupersedeOperation _ ss) st = Some (depends_supersede_nodes ss)"
| "op_dependencies (ProposalMergeOperation _ ms) st = Some (depends_merge_nodes ms)"
| "op_dependencies (ProposalProtectedRelationOperation _ p) st = Some (case px_op p of
     Create_edges \<Rightarrow> depends_create_edges (case field_value (px_edges p) of None \<Rightarrow> [] | Some es \<Rightarrow> es)
   | Remove_edges \<Rightarrow>
       depends_remove_edges (case field_value (px_edge_ids p) of None \<Rightarrow> [] | Some is \<Rightarrow> is) st)"
| "op_dependencies (LegacyProposalSetProjectTruthScopeOperation _ _) st =
     Some depends_set_project_truth_scope"
| "op_dependencies (LegacyProposalSetOntologyOperation _) st = Some depends_set_ontology"
| "op_dependencies (LegacyProposalCreateNodesOperation _) st = None"
| "op_dependencies (LegacyProposalCreateAmbiguitiesOperation as) st =
     Some (depends_create_ambiguities as)"
| "op_dependencies (LegacyProposalResolveAmbiguitiesOperation rs) st =
     Some (depends_resolve_ambiguities rs st)"
| "op_dependencies (LegacyProposalUpsertGlossaryOperation _) st = None"
| "op_dependencies (LegacyProposalSetCoverageOperation _) st = None"

text \<open>The edge ids and the further node ids an operation's own class adds.\<close>

definition cause_edges :: "node_update list \<Rightarrow> string list" where
  "cause_edges us = concat (map (\<lambda>u. case nu_cause u of
     Some (EvidenceEdgeCause e) \<Rightarrow> [e] | _ \<Rightarrow> []) us)"

definition cause_nodes :: "node_update list \<Rightarrow> string list" where
  "cause_nodes us = concat (map (\<lambda>u. case nu_cause u of
     Some (DecisionCause d) \<Rightarrow> [d] | _ \<Rightarrow> []) us)"

definition incident_edge_ids :: "graph_state \<Rightarrow> string list \<Rightarrow> string list" where
  "incident_edge_ids st targets =
     map e_id (filter (\<lambda>e. e_source e \<in> set targets \<or> e_target e \<in> set targets)
       (map snd (g_edges st)))"

fun own_edge_ids :: "proposal_operation \<Rightarrow> graph_state \<Rightarrow> string list" where
  "own_edge_ids (ProposalProtectedRelationOperation _ p) st = (case px_op p of
     Create_edges \<Rightarrow> []
   | Remove_edges \<Rightarrow> (case field_value (px_edge_ids p) of None \<Rightarrow> [] | Some is \<Rightarrow> is))"
| "own_edge_ids (ProposalRemovalOperation _ ns) st = incident_edge_ids st ns"
| "own_edge_ids (ProposalContentChangeOperation _ us) st = cause_edges us"
| "own_edge_ids (ProposalStatusChangeOperation _ us) st = cause_edges us"
| "own_edge_ids _ st = []"

fun own_node_ids :: "proposal_operation \<Rightarrow> string list" where
  "own_node_ids (ProposalStandingChangeOperation n _) = [n]"
| "own_node_ids (ProposalContentChangeOperation _ us) = cause_nodes us"
| "own_node_ids (ProposalStatusChangeOperation _ us) = cause_nodes us"
| "own_node_ids _ = []"

definition candidate_ids :: "proposal_operation \<Rightarrow> graph_state \<Rightarrow> string list" where
  "candidate_ids op st = (case op_dependencies op st of
     None \<Rightarrow> [] | Some (candidates, _) \<Rightarrow> List.map_filter id candidates)"

definition config_keys :: "proposal_operation \<Rightarrow> graph_state \<Rightarrow> string list" where
  "config_keys op st = (case op_dependencies op st of None \<Rightarrow> [] | Some (_, ks) \<Rightarrow> ks)"

definition proposal_dependencies ::
  "graph_state \<Rightarrow> proposal_operation list \<Rightarrow> string list \<times> string list \<times> string list" where
  "proposal_dependencies st ops =
     (sorted_set (concat (map (\<lambda>op. own_node_ids op @ candidate_ids op st) ops)),
      sorted_set (concat (map (\<lambda>op. own_edge_ids op st) ops)),
      sorted_set (concat (map (\<lambda>op. config_keys op st) ops)))"

end
