(* ===== verification/Materialize.thy ===== *)
theory Materialize
  imports Dependencies
begin

text \<open>
  Materialization (\<open>core/materialize.py\<close>): applying one patch to a graph state, replaying a
  log of patches, and the bookkeeping RCP resolves before it records a patch. The program
  mutates a fork of the state (\<open>_fork_state\<close>) and drops the fork when an operation raises;
  here an operation takes the state and returns the changed one or the exception, so the
  caller's state is the fork that was dropped. The node validator is the parameter \<open>A\<close>
  (\<open>Operations.node_adapter\<close>); the patch validator of a replay is the argument
  \<open>validate_patch\<close> of the replay functions.
\<close>

section \<open>One operation\<close>

text \<open>What one run of \<open>_apply_patch\<close> threads through its loop.\<close>

record apply_state =
  ap_graph :: graph_state
  ap_descriptors :: "repository_descriptor list"
  ap_created_edge_ids :: "string list"

definition on_graph :: "(graph_state \<Rightarrow> graph_state result) \<Rightarrow> apply_state \<Rightarrow> apply_state result" where
  "on_graph f s = bind_r (f (ap_graph s)) (\<lambda>g. Inr (s\<lparr>ap_graph := g\<rparr>))"

definition put_node :: "project_node \<Rightarrow> graph_state \<Rightarrow> graph_state" where
  "put_node n st = st\<lparr>g_nodes := AList.update (n_id n) n (g_nodes st)\<rparr>"

definition put_edge :: "edge \<Rightarrow> graph_state \<Rightarrow> graph_state" where
  "put_edge e st = st\<lparr>g_edges := AList.update (e_id e) e (g_edges st)\<rparr>"

definition put_proposal :: "proposal \<Rightarrow> graph_state \<Rightarrow> graph_state" where
  "put_proposal p st = st\<lparr>g_proposals := AList.update (p_id p) p (g_proposals st)\<rparr>"

definition actor_of :: "patch \<Rightarrow> actor" where
  "actor_of p = (if pa_author p = Some Human then Human else Agent)"

definition dump_exclude_unset :: "node_payload \<Rightarrow> val dict" where
  "dump_exclude_unset raw = filter (\<lambda>(k, _). k \<in> set (np_fields_set raw)) (node_model_dump (np_node raw))"

definition create_node :: "node_adapter \<Rightarrow> int \<Rightarrow> node_payload \<Rightarrow> graph_state \<Rightarrow> graph_state result" where
  "create_node A revision raw st =
     (let data = dump_exclude_unset raw;
          data1 = AList.update ''created_rev'' (VInt revision) data;
          data2 = AList.update ''updated_rev'' (VInt revision) data1;
          data3 = AList.update ''standing''
            (case dict_get data2 ''standing'' of Some s \<Rightarrow> s | None \<Rightarrow> VStr ''asserted'') data2
      in bind_r (ad_validate A data3) (\<lambda>node. Inr (put_node node st)))"

definition record_belief_transition ::
  "project_node \<Rightarrow> project_node \<Rightarrow> int \<Rightarrow> belief_cause option \<Rightarrow> graph_state \<Rightarrow> graph_state" where
  "record_belief_transition previous updated revision cause st = (case cause of
     None \<Rightarrow> st
   | Some c \<Rightarrow>
       if \<not> is_belief project_type_of (Some (n_type previous))
          \<or> \<not> is_belief project_type_of (Some (n_type updated))
          \<or> node_attr previous ''status'' = node_attr updated ''status''
       then st
       else st\<lparr>g_belief_transitions := g_belief_transitions st @ [\<lparr>
              bt_hypothesis_id = n_id previous,
              bt_from_status = node_attr previous ''status'',
              bt_to_status = node_attr updated ''status'',
              bt_revision = revision,
              bt_cause = c\<rparr>]\<rparr>)"

definition immutable_update_fields :: "patch \<Rightarrow> bool \<Rightarrow> string list" where
  "immutable_update_fields p generated =
     (if pa_schema_generation p = 1
        then filter (\<lambda>f. f \<notin> set LEGACY_COMPATIBILITY_UPDATE_FIELDS) IMMUTABLE_NODE_UPDATE_FIELDS
      else if generated
        then filter (\<lambda>f. f \<notin> {''current_summary_stale'', ''next_action_stale''})
               IMMUTABLE_NODE_UPDATE_FIELDS
      else IMMUTABLE_NODE_UPDATE_FIELDS)"

definition standing_after :: "bool \<Rightarrow> project_node \<Rightarrow> val" where
  "standing_after preserve node =
     VStr (standing_value (if preserve then n_standing node else ASSERTED))"

definition update_node ::
  "node_adapter \<Rightarrow> patch \<Rightarrow> bool \<Rightarrow> node_update \<Rightarrow> graph_state \<Rightarrow> graph_state result" where
  "update_node A p generated update st =
     bind_r (dict_get_or_raise (g_nodes st) (nu_id update)) (\<lambda>node.
     (let changes = nu_changes update;
          immutable = filter (\<lambda>f. f \<in> set (immutable_update_fields p generated)) (keys changes)
      in if immutable \<noteq> [] then Inl (ValueError ''node updates cannot change system fields'')
         else
           (let data = dict_update (node_model_dump node) changes;
                data1 = AList.update ''updated_rev'' (VInt (pa_revision p)) data;
                data2 = AList.update ''standing'' (standing_after (pa_kind p = Approval) node) data1
            in bind_r (if pa_schema_generation p = 1 then ad_validate A data2
                       else strict_project_node A data2) (\<lambda>updated.
               Inr ((record_belief_transition node updated (pa_revision p) (nu_cause update) st)
                      \<lparr>g_nodes := AList.update (n_id node) updated (g_nodes st)\<rparr>)))))"

definition edge_default_id :: "string \<Rightarrow> string \<Rightarrow> string \<Rightarrow> string" where
  "edge_default_id source relation target = source @ ''::'' @ relation @ ''::'' @ target"

text \<open>
  \<open>Edge.model_validate\<close> of an edge payload: the id may not be null, the relation must be an
  identifier, and a layer must come from the custom relation or from the base relation, which wins.
\<close>

definition edge_of_payload :: "ontology_state \<Rightarrow> int \<Rightarrow> new_edge \<Rightarrow> edge result" where
  "edge_of_payload ontology revision raw =
     (let given_id = (case ne_id raw of
            None \<Rightarrow> Some (edge_default_id (ne_source raw) (ne_relation raw) (ne_target raw))
          | Some i \<Rightarrow> i);
          layer = derive_base_relation_layer (ne_relation raw)
            (map_option or_layer (custom_relation ontology (ne_relation raw)))
      in if \<not> is_identifier (ne_relation raw) then Inl (ValueError ''Edge'')
         else case (given_id, layer) of
           (Some i, Some l) \<Rightarrow> Inr \<lparr>e_id = i, e_source = ne_source raw, e_target = ne_target raw,
              e_relation = ne_relation raw, e_layer = l, e_explanation = ne_explanation raw,
              e_assessment = ne_assessment raw, e_expectation = ne_expectation raw,
              e_created_rev = revision\<rparr>
         | _ \<Rightarrow> Inl (ValueError ''Edge''))"

definition derive_layer :: "graph_state \<Rightarrow> edge \<Rightarrow> edge" where
  "derive_layer st e = e\<lparr>e_layer := edge_layer st (e_source e) (e_target e) (e_layer e)\<rparr>"

definition create_edge :: "int \<Rightarrow> new_edge \<Rightarrow> apply_state \<Rightarrow> apply_state result" where
  "create_edge revision raw s =
     bind_r (edge_of_payload (g_ontology (ap_graph s)) revision raw) (\<lambda>e.
       Inr (s\<lparr>ap_graph := put_edge (derive_layer (ap_graph s) e) (ap_graph s),
              ap_created_edge_ids := ap_created_edge_ids s @ [e_id e]\<rparr>))"

definition retire_node ::
  "node_adapter \<Rightarrow> string \<Rightarrow> int \<Rightarrow> bool \<Rightarrow> graph_state \<Rightarrow> project_node result" where
  "retire_node A node_id revision preserve_standing st =
     bind_r (dict_get_or_raise (g_nodes st) node_id) (\<lambda>node.
     (let data = AList.update (lifecycle_field project_type_of (n_type node))
            (VStr (pt_retired_value project_type_of)) (node_model_dump node);
          data1 = AList.update ''updated_rev'' (VInt revision) data;
          data2 = AList.update ''standing'' (standing_after preserve_standing node) data1
      in ad_validate A data2))"

text \<open>
  The common part of \<open>supersede_nodes\<close> and \<open>merge_nodes\<close> for one node: retire it under its
  own key and record the belief transition.
\<close>

definition retire_and_record ::
  "node_adapter \<Rightarrow> patch \<Rightarrow> string \<Rightarrow> belief_cause option \<Rightarrow> graph_state \<Rightarrow> graph_state result" where
  "retire_and_record A p node_id cause st =
     bind_r (dict_get_or_raise (g_nodes st) node_id) (\<lambda>previous.
     bind_r (retire_node A node_id (pa_revision p) (pa_kind p = Approval) st) (\<lambda>retired.
       Inr (record_belief_transition previous retired (pa_revision p) cause
              (st\<lparr>g_nodes := AList.update node_id retired (g_nodes st)\<rparr>))))"

text \<open>\<open>Edge(...)\<close> as supersede and merge construct it: a base relation in the meta layer.\<close>

definition generated_edge :: "string \<Rightarrow> string \<Rightarrow> string \<Rightarrow> string \<Rightarrow> int \<Rightarrow> edge" where
  "generated_edge source relation target explanation revision =
     \<lparr>e_id = edge_default_id source relation target, e_source = source, e_target = target,
      e_relation = relation, e_layer = Meta, e_explanation = explanation, e_assessment = None,
      e_expectation = None, e_created_rev = revision\<rparr>"

definition supersede_one ::
  "node_adapter \<Rightarrow> patch \<Rightarrow> supersede_node \<Rightarrow> graph_state \<Rightarrow> graph_state result" where
  "supersede_one A p item st =
     bind_r (retire_and_record A p (sn_id item) (sn_cause item) st) (\<lambda>st1.
       Inr (case sn_superseded_by item of
              None \<Rightarrow> st1
            | Some target \<Rightarrow>
                if target = [] then st1
                else put_edge (generated_edge (sn_id item) ''supersedes'' target
                       (sn_explanation item) (pa_revision p)) st1))"

definition merge_one :: "node_adapter \<Rightarrow> patch \<Rightarrow> node_merge \<Rightarrow> graph_state \<Rightarrow> graph_state result" where
  "merge_one A p item st =
     bind_r (retire_and_record A p (nm_duplicate item) (nm_cause item) st) (\<lambda>st1.
       Inr (put_edge (generated_edge (nm_duplicate item) ''duplicate_of'' (nm_canonical item)
              (nm_explanation item) (pa_revision p)) st1))"

definition remove_nodes :: "string list \<Rightarrow> graph_state \<Rightarrow> graph_state" where
  "remove_nodes node_ids st = st\<lparr>
     g_nodes := filter (\<lambda>(node_id, _). node_id \<notin> set node_ids) (g_nodes st),
     g_edges := filter (\<lambda>(_, e). e_source e \<notin> set node_ids \<and> e_target e \<notin> set node_ids)
       (g_edges st)\<rparr>"

definition create_ambiguity :: "int \<Rightarrow> new_ambiguity \<Rightarrow> graph_state \<Rightarrow> graph_state" where
  "create_ambiguity revision raw st = st\<lparr>g_ambiguities := AList.update (na_id raw)
     \<lparr>am_id = na_id raw, am_question = na_question raw, am_why_it_matters = na_why_it_matters raw,
      am_candidates = na_candidates raw, am_related_node_ids = na_related_node_ids raw,
      am_artifact_refs = na_artifact_refs raw, am_status = na_status raw,
      am_raised_rev = revision\<rparr> (g_ambiguities st)\<rparr>"

fun outcome_status :: "ambiguity_outcome \<Rightarrow> ambiguity_status" where
  "outcome_status Resolved = Ambiguity_resolved"
| "outcome_status Dismissed = Ambiguity_dismissed"

definition resolve_ambiguity :: "ambiguity_resolution \<Rightarrow> graph_state \<Rightarrow> graph_state result" where
  "resolve_ambiguity res st =
     bind_r (dict_get_or_raise (g_ambiguities st) (ar_id res)) (\<lambda>a.
       Inr (st\<lparr>g_ambiguities := AList.update (am_id a)
              (a\<lparr>am_status := outcome_status (ar_status res)\<rparr>) (g_ambiguities st)\<rparr>))"

definition create_proposal :: "patch \<Rightarrow> proposal \<Rightarrow> graph_state \<Rightarrow> graph_state" where
  "create_proposal p raw st =
     (case proposal_dependencies st (p_ops raw) of (nodes, edges, config) \<Rightarrow>
        put_proposal (raw\<lparr>p_base_rev := g_revision st,
          p_related_node_ids := nodes, p_related_edge_ids := edges, p_related_config_keys := config,
          p_created_by := Some (case p_created_by raw of Some a \<Rightarrow> a | None \<Rightarrow> actor_of p),
          p_created_by_operation_id := Some (case p_created_by_operation_id raw of
            Some i \<Rightarrow> i | None \<Rightarrow> pa_source_operation_id p),
          p_raised_rev := pa_revision p\<rparr>) st)"

fun resolved_status :: "resolution_status \<Rightarrow> proposal_status" where
  "resolved_status Approve = Approved"
| "resolved_status Reject = Rejected"
| "resolved_status Withdraw = Withdrawn"

definition resolve_proposal :: "patch \<Rightarrow> proposal_resolution \<Rightarrow> graph_state \<Rightarrow> graph_state result" where
  "resolve_proposal p res st =
     bind_r (dict_get_or_raise (g_proposals st) (pr_id res)) (\<lambda>q.
       Inr (put_proposal (q\<lparr>p_status := resolved_status (pr_status res),
          p_resolved_rev := Some (pa_revision p), p_resolved_by := Some (actor_of p),
          p_resolved_by_operation_id := pa_source_operation_id p,
          p_resolution_reason := pr_reason res,
          p_rejection_reason := (if pr_status res = Reject then pr_reason res else None)\<rparr>) st))"

definition withdraw_proposal :: "patch \<Rightarrow> proposal_withdrawal \<Rightarrow> graph_state \<Rightarrow> graph_state result" where
  "withdraw_proposal p w st =
     bind_r (dict_get_or_raise (g_proposals st) (pw_id w)) (\<lambda>q.
       Inr (put_proposal (q\<lparr>p_status := Withdrawn, p_resolved_rev := Some (pa_revision p),
          p_resolved_by := Some Agent, p_resolved_by_operation_id := pa_source_operation_id p,
          p_resolution_reason := Some (pw_reason w)\<rparr>) st))"

definition upsert_term :: "int \<Rightarrow> new_glossary_term \<Rightarrow> graph_state \<Rightarrow> graph_state" where
  "upsert_term revision raw st = st\<lparr>g_glossary := AList.update (ng_term raw)
     \<lparr>gl_term = ng_term raw, gl_plain_definition = ng_plain_definition raw,
      gl_where_defined = ng_where_defined raw, gl_updated_rev = revision\<rparr> (g_glossary st)\<rparr>"

definition set_standing :: "string \<Rightarrow> standing \<Rightarrow> int \<Rightarrow> graph_state \<Rightarrow> graph_state result" where
  "set_standing node_id standing revision st =
     bind_r (dict_get_or_raise (g_nodes st) node_id) (\<lambda>node.
       Inr (put_node (node\<lparr>n_standing := standing, n_updated_rev := revision\<rparr>) st))"

definition set_project_truth_scope ::
  "string list \<Rightarrow> repository_descriptor option \<Rightarrow> int \<Rightarrow> apply_state \<Rightarrow> apply_state" where
  "set_project_truth_scope scope repository revision s =
     s\<lparr>ap_graph := (ap_graph s)\<lparr>g_project_truth_scope := sorted_set scope,
         g_config_revisions := AList.update ''project_truth_scope'' revision
           (g_config_revisions (ap_graph s))\<rparr>,
       ap_descriptors := ap_descriptors s @ (case repository of None \<Rightarrow> [] | Some d \<Rightarrow> [d])\<rparr>"

definition set_ontology :: "ontology_state \<Rightarrow> int \<Rightarrow> graph_state \<Rightarrow> graph_state" where
  "set_ontology os revision st = st\<lparr>g_ontology := os,
     g_config_revisions := AList.update ''ontology'' revision (g_config_revisions st)\<rparr>"

text \<open>The body of the loop over \<open>patch.ops\<close>.\<close>

fun apply_operation ::
  "node_adapter \<Rightarrow> patch \<Rightarrow> bool \<Rightarrow> graph_operation \<Rightarrow> apply_state \<Rightarrow> apply_state result" where
  "apply_operation A p generated (CreateNodesOperation nodes) s =
     on_graph (fold_r (create_node A (pa_revision p)) nodes) s"
| "apply_operation A p generated (UpdateNodesOperation updates) s =
     on_graph (fold_r (update_node A p generated) updates) s"
| "apply_operation A p generated (CreateEdgesOperation edges) s =
     fold_r (create_edge (pa_revision p)) edges s"
| "apply_operation A p generated (RemoveEdgesOperation edge_ids) s =
     Inr (s\<lparr>ap_graph := (ap_graph s)\<lparr>g_edges := fold AList.delete edge_ids (g_edges (ap_graph s))\<rparr>\<rparr>)"
| "apply_operation A p generated (RemoveNodesOperation node_ids) s =
     Inr (s\<lparr>ap_graph := remove_nodes node_ids (ap_graph s)\<rparr>)"
| "apply_operation A p generated (SupersedeNodesOperation items) s =
     on_graph (fold_r (supersede_one A p) items) s"
| "apply_operation A p generated (MergeNodesOperation merges) s =
     on_graph (fold_r (merge_one A p) merges) s"
| "apply_operation A p generated (CreateAmbiguitiesOperation as) s =
     Inr (s\<lparr>ap_graph := fold (create_ambiguity (pa_revision p)) as (ap_graph s)\<rparr>)"
| "apply_operation A p generated (ResolveAmbiguitiesOperation rs) s =
     on_graph (fold_r resolve_ambiguity rs) s"
| "apply_operation A p generated (CreateProposalsOperation ps) s =
     Inr (s\<lparr>ap_graph := fold (create_proposal p) ps (ap_graph s)\<rparr>)"
| "apply_operation A p generated (ResolveProposalsOperation rs) s =
     on_graph (fold_r (resolve_proposal p) rs) s"
| "apply_operation A p generated (WithdrawProposalsOperation ws) s =
     on_graph (fold_r (withdraw_proposal p) ws) s"
| "apply_operation A p generated (UpsertGlossaryOperation terms) s =
     Inr (s\<lparr>ap_graph := fold (upsert_term (pa_revision p)) terms (ap_graph s)\<rparr>)"
| "apply_operation A p generated (SetCoverageOperation _) s = Inr s"
| "apply_operation A p generated (SetStandingOperation node_id standing) s =
     on_graph (set_standing node_id standing (pa_revision p)) s"
| "apply_operation A p generated (SetProjectTruthScopeOperation scope repository) s =
     Inr (set_project_truth_scope scope repository (pa_revision p) s)"
| "apply_operation A p generated (SetOntologyOperation os) s =
     Inr (s\<lparr>ap_graph := set_ontology os (pa_revision p) (ap_graph s)\<rparr>)"

section \<open>One patch\<close>

definition generated_operation_indexes :: "int list \<Rightarrow> patch \<Rightarrow> int list" where
  "generated_operation_indexes system_indexes p =
     system_indexes @ (case pa_transition p of
       None \<Rightarrow> [] | Some t \<Rightarrow> map ga_operation_index (tt_generated_actions t))"

text \<open>The second pass: derive the layer of each created edge from the completed graph.\<close>

definition rederive_edge :: "string \<Rightarrow> graph_state \<Rightarrow> graph_state" where
  "rederive_edge edge_id st = (case dict_get (g_edges st) edge_id of
     None \<Rightarrow> st
   | Some e \<Rightarrow> st\<lparr>g_edges := AList.update edge_id (derive_layer st e) (g_edges st)\<rparr>)"

definition finish_patch :: "patch \<Rightarrow> graph_state \<Rightarrow> graph_state" where
  "finish_patch p st = st\<lparr>g_revision := max (g_revision st) (pa_revision p),
     g_last_refresh_at := (if pa_kind p \<in> {Seed, Refresh} then Some (pa_created_at p)
       else g_last_refresh_at st)\<rparr>"

definition apply_operations ::
  "node_adapter \<Rightarrow> patch \<Rightarrow> int list \<Rightarrow> apply_state \<Rightarrow> apply_state result" where
  "apply_operations A p generated s =
     fold_r (\<lambda>(index, op). apply_operation A p (int index \<in> set generated) op)
       (enumerate 0 (pa_ops p)) s"

definition apply_patch ::
  "node_adapter \<Rightarrow> int list \<Rightarrow> patch \<Rightarrow> graph_state \<Rightarrow>
   (graph_state \<times> repository_descriptor list) result" where
  "apply_patch A system_indexes p st =
     bind_r (apply_operations A p (generated_operation_indexes system_indexes p)
               \<lparr>ap_graph = st, ap_descriptors = [], ap_created_edge_ids = []\<rparr>) (\<lambda>s.
       Inr (finish_patch p (fold rederive_edge (rev (remdups (rev (ap_created_edge_ids s)))) (ap_graph s)),
            ap_descriptors s))"

definition apply_valid_patch :: "node_adapter \<Rightarrow> graph_state \<Rightarrow> patch \<Rightarrow> graph_state result" where
  "apply_valid_patch A st p = bind_r (apply_patch A [] p st) (\<lambda>(st', _). Inr st')"

definition apply_valid_operation ::
  "node_adapter \<Rightarrow> graph_state \<Rightarrow> patch \<Rightarrow> graph_operation \<Rightarrow> graph_state result" where
  "apply_valid_operation A st p op =
     bind_r (apply_patch A [] (p\<lparr>pa_ops := [op]\<rparr>) st)
       (\<lambda>(st', _). Inr (st'\<lparr>g_revision := g_revision st\<rparr>))"

definition apply_transition_generated_operation ::
  "node_adapter \<Rightarrow> graph_state \<Rightarrow> patch \<Rightarrow> graph_operation \<Rightarrow> graph_state result" where
  "apply_transition_generated_operation A st p op =
     bind_r (apply_patch A [0] (p\<lparr>pa_ops := [op]\<rparr>) st)
       (\<lambda>(st', _). Inr (st'\<lparr>g_revision := g_revision st\<rparr>))"

end
