(* ===== verification/Replay.thy ===== *)
theory Replay
  imports Materialize
begin

text \<open>
  Replaying a log of patches and preparing a patch for recording (\<open>core/materialize.py\<close>).
  The callback that observes accepted patches is modelled by the list of the triples it is
  called with. The patch validator is the argument \<open>validate_patch\<close>.
\<close>

section \<open>Cursors\<close>

definition current_cursor_key :: "string \<Rightarrow> string" where
  "current_cursor_key key =
     (let parts = split_on (CHR ''/'') key in
      if length parts = 4 then join_with ''/'' (hd parts # drop 2 parts) else key)"

definition current_cursors :: "string dict \<Rightarrow> string dict" where
  "current_cursors cursors =
     fold (\<lambda>(key, v). AList.update (current_cursor_key key) v) cursors []"

section \<open>Replaying a log\<close>

datatype validation_mode = Admission | Replay_mode

record validation_context =
  vc_project_truth_scope :: "string list"
  vc_repository_aliases :: "string list option"
  vc_machine_aliases :: "string list option"
  vc_state_repository :: "string option"
  vc_mode :: validation_mode
  vc_merge_source :: "graph_state option"

type_synonym patch_validator = "graph_state \<Rightarrow> patch \<Rightarrow> validation_context \<Rightarrow> report"

record materialization_result =
  m_state :: graph_state
  m_reports :: "(int \<times> report) list"
  m_repository_descriptors :: "repository_descriptor list"
  m_processed_cursors :: "string dict"
  m_patches :: "patch list"
  m_observed :: "(graph_state \<times> patch \<times> graph_state) list"

definition degrade :: "patch \<Rightarrow> string \<Rightarrow> graph_state \<Rightarrow> graph_state" where
  "degrade p code st = st\<lparr>g_replay_status := Degraded,
     g_replay_failure := Some \<lparr>rf_revision = pa_revision p, rf_created_at = pa_created_at p,
       rf_code = code\<rparr>\<rparr>"

text \<open>The code of the first rejecting message.\<close>

definition first_reject_code :: "report \<Rightarrow> string" where
  "first_reject_code r = (case find (\<lambda>m. vm_level m = Reject_level) r of
     None \<Rightarrow> [] | Some m \<Rightarrow> vm_code m)"

text \<open>A patch that was recorded as rejected: only chronology and its receipt count.\<close>

definition skip_rejected :: "patch \<Rightarrow> materialization_result \<Rightarrow> materialization_result" where
  "skip_rejected p m = m\<lparr>
     m_reports := AList.update (pa_revision p) (pa_admission_messages p) (m_reports m),
     m_state := (m_state m)\<lparr>g_revision := max (g_revision (m_state m)) (pa_revision p),
       g_validation_messages := g_validation_messages (m_state m) @ pa_admission_messages p\<rparr>\<rparr>"

definition accept_applied ::
  "patch \<Rightarrow> report \<Rightarrow> graph_state \<Rightarrow> repository_descriptor list \<Rightarrow> materialization_result \<Rightarrow>
   materialization_result" where
  "accept_applied p r candidate descriptors m =
     (let st = candidate\<lparr>g_validation_messages :=
                 g_validation_messages candidate @ pa_admission_messages p\<rparr>
      in m\<lparr>m_state := st, m_reports := AList.update (pa_revision p) r (m_reports m),
           m_repository_descriptors := m_repository_descriptors m @ descriptors,
           m_processed_cursors := dict_update (m_processed_cursors m)
             (current_cursors (pa_processed_cursors p)),
           m_observed := m_observed m @ [(m_state m, p, st)]\<rparr>)"

text \<open>The loop; a rejected or failing patch leaves it (\<open>break\<close>).\<close>

fun replay_loop ::
  "node_adapter \<Rightarrow> patch_validator \<Rightarrow> validation_context \<Rightarrow> patch list \<Rightarrow>
   materialization_result \<Rightarrow> materialization_result" where
  "replay_loop A validate_patch context [] m = m"
| "replay_loop A validate_patch context (p # ps) m =
     (if pa_admission p = Rejected_admission
        then replay_loop A validate_patch context ps (skip_rejected p m)
      else
        (let r = validate_patch (m_state m) p
               (context\<lparr>vc_project_truth_scope := g_project_truth_scope (m_state m),
                        vc_mode := Replay_mode\<rparr>) @ pa_admission_messages p
         in if rejected r
              then m\<lparr>m_reports := AList.update (pa_revision p) r (m_reports m),
                     m_state := degrade p (first_reject_code r) (m_state m)\<rparr>
            else (case apply_patch A [] p (m_state m) of
                Inl e \<Rightarrow>
                  m\<lparr>m_reports := AList.update (pa_revision p)
                       (reject ''malformed-operation'' (Some (pa_revision p)) [] [] r) (m_reports m),
                    m_state := degrade p ''malformed-operation'' (m_state m)\<rparr>
              | Inr (candidate, descriptors) \<Rightarrow>
                  replay_loop A validate_patch context ps
                    (accept_applied p r candidate descriptors m))))"

definition materialize_patches_from_state ::
  "node_adapter \<Rightarrow> patch_validator \<Rightarrow> patch list \<Rightarrow> graph_state \<Rightarrow> validation_context \<Rightarrow>
   materialization_result" where
  "materialize_patches_from_state A validate_patch patches initial_state context =
     replay_loop A validate_patch context patches
       \<lparr>m_state = initial_state, m_reports = [], m_repository_descriptors = [],
        m_processed_cursors = [], m_patches = patches, m_observed = []\<rparr>"

definition materialize_patches ::
  "node_adapter \<Rightarrow> patch_validator \<Rightarrow> patch list \<Rightarrow> validation_context \<Rightarrow> materialization_result" where
  "materialize_patches A validate_patch patches context =
     materialize_patches_from_state A validate_patch patches
       (initial_graph_state (vc_project_truth_scope context)) context"

section \<open>Bookkeeping before a patch is recorded\<close>

definition proposal_filing_dependency_rule :: "nat \<Rightarrow> bool \<Rightarrow> int" where
  "proposal_filing_dependency_rule operation_count branch_merge =
     (if branch_merge \<and> operation_count > 1 then 3 else CURRENT_PROPOSAL_DEPENDENCY_RULE)"

text \<open>\<open>dict.setdefault\<close>: the value under the key afterwards, and the dictionary.\<close>

definition setdefault :: "'v dict \<Rightarrow> string \<Rightarrow> 'v \<Rightarrow> 'v \<times> 'v dict" where
  "setdefault d k v = (case dict_get d k of Some w \<Rightarrow> (w, d) | None \<Rightarrow> (v, AList.update k v d))"

definition glossary_spelling :: "graph_state \<Rightarrow> string dict" where
  "glossary_spelling st =
     fold (\<lambda>t d. snd (setdefault d (lower t) t)) (sort (keys (g_glossary st))) []"

fun respell_terms ::
  "new_glossary_term list \<Rightarrow> string dict \<Rightarrow> new_glossary_term list \<times> string dict" where
  "respell_terms [] d = ([], d)"
| "respell_terms (t # ts) d =
     (let (spelling, d1) = setdefault d (lower (ng_term t)) (ng_term t);
          (rest, d2) = respell_terms ts d1
      in (t\<lparr>ng_term := spelling\<rparr> # rest, d2))"

text \<open>\<open>model_copy(update={**_PROPOSAL_UNRESOLVED, ...})\<close> of one Proposal being filed.\<close>

definition file_proposal :: "graph_state \<Rightarrow> patch \<Rightarrow> proposal \<Rightarrow> proposal" where
  "file_proposal st p q =
     (case proposal_dependencies st (p_ops q) of (nodes, edges, config) \<Rightarrow>
        q\<lparr>p_status := Pending, p_resolved_rev := None, p_resolved_by := None,
          p_resolved_by_operation_id := None, p_resolution_reason := None,
          p_rejection_reason := None,
          p_dependency_rule :=
            proposal_filing_dependency_rule (length (p_ops q)) (pa_branch_merge p \<noteq> None),
          p_related_node_ids := nodes, p_related_edge_ids := edges, p_related_config_keys := config,
          p_base_rev := g_revision st, p_created_by := Some (actor_of p),
          p_created_by_operation_id := Some (pa_source_operation_id p), p_raised_rev := 0\<rparr>)"

fun prepare_operations ::
  "graph_state \<Rightarrow> patch \<Rightarrow> graph_operation list \<Rightarrow> string dict \<Rightarrow> graph_operation list" where
  "prepare_operations st p [] d = []"
| "prepare_operations st p (UpsertGlossaryOperation terms # ops) d =
     (let (terms', d1) = respell_terms terms d
      in UpsertGlossaryOperation terms' # prepare_operations st p ops d1)"
| "prepare_operations st p (CreateProposalsOperation qs # ops) d =
     CreateProposalsOperation (map (file_proposal st p) qs) # prepare_operations st p ops d"
| "prepare_operations st p (op # ops) d = op # prepare_operations st p ops d"

definition prepare_patch_bookkeeping :: "graph_state \<Rightarrow> patch \<Rightarrow> patch" where
  "prepare_patch_bookkeeping st p =
     p\<lparr>pa_ops := prepare_operations st p (pa_ops p) (glossary_spelling st)\<rparr>"

definition finalize_proposal :: "graph_state \<Rightarrow> proposal \<Rightarrow> proposal" where
  "finalize_proposal staged_state q = (case dict_get (g_proposals staged_state) (p_id q) of
     None \<Rightarrow> q
   | Some staged \<Rightarrow> q\<lparr>p_related_node_ids := p_related_node_ids staged,
       p_related_edge_ids := p_related_edge_ids staged,
       p_related_config_keys := p_related_config_keys staged\<rparr>)"

fun finalize_operation :: "graph_state \<Rightarrow> graph_operation \<Rightarrow> graph_operation" where
  "finalize_operation staged_state (CreateProposalsOperation qs) =
     CreateProposalsOperation (map (finalize_proposal staged_state) qs)"
| "finalize_operation staged_state op = op"

definition finalize_patch_bookkeeping :: "patch \<Rightarrow> graph_state \<Rightarrow> patch" where
  "finalize_patch_bookkeeping p staged_state =
     p\<lparr>pa_ops := map (finalize_operation staged_state) (pa_ops p)\<rparr>"

end
