(* ===== verification/Authority.thy ===== *)
theory Authority
  imports Replay Values
begin

text \<open>
  Who may write what (\<open>core/authority.py\<close>): the dispatch binding of an agent task and the
  checks at dispatch and at Apply, the closed vocabulary of graph actions and the action an
  operation needs, the permissions of each producer, and the live admission of a patch
  (\<open>WriteAuthority\<close>). The project-membership check and the task resolver are arguments of
  the source (callables over operational state) and of the model. An \<open>AuthorityRefusal\<close>
  carries its diagnostics; any other exception is \<open>Other_error\<close>. The rendered prose of the
  authority contract and its digest are not modelled.
\<close>

section \<open>Refusals\<close>

datatype authority_exn =
    AuthorityRefusal "validation_message list"
  | Other_error exn

definition AgentAuthorizerDeparted :: authority_exn where
  "AgentAuthorizerDeparted =
     AuthorityRefusal [report_message Reject_level ''agent_authorizer_departed'' None [] []]"

definition AgentTaskAuthorityRefused :: authority_exn where
  "AgentTaskAuthorityRefused =
     AuthorityRefusal [report_message Reject_level ''agent-task-authority-refused'' None [] []]"

section \<open>Dispatch bindings\<close>

datatype capability =
  Discuss | Work_auto | Orchestrate | Scratch_patch | Paper_suggest | Session_summary

datatype chat_scope = Node_chat | Project_chat

text \<open>
  The patch kind of a dispatch scope is one of \<open>Seed\<close>, \<open>Refresh\<close>, \<open>Work\<close> and
  \<open>Experiment_loop\<close>.
\<close>

record agent_dispatch_scope =
  ds_run_truth_scope :: "string list"
  ds_episode_id :: "string option"
  ds_chat_scope :: "chat_scope option"
  ds_chat_id :: "string option"
  ds_node_id :: "string option"
  ds_patch_kind :: "patch_kind option"
  ds_control_node_id :: "string option"
  ds_control_episode_id :: "string option"

definition require_normalized_scope :: "agent_dispatch_scope \<Rightarrow> agent_dispatch_scope result" where
  "require_normalized_scope s =
     (if list_ex (\<lambda>i. i = []) (ds_run_truth_scope s)
        then Inl (ValueError ''dispatch run_truth_scope entries must be non-empty'')
      else if ds_run_truth_scope s \<noteq> sorted_set (ds_run_truth_scope s)
        then Inl (ValueError ''dispatch run_truth_scope must be sorted and unique'')
      else if ds_chat_scope s = None \<and> (ds_chat_id s \<noteq> None \<or> ds_node_id s \<noteq> None)
        then Inl (ValueError ''dispatch chat identity requires a chat scope'')
      else if ds_chat_scope s = Some Project_chat \<and> ds_node_id s \<noteq> None
        then Inl (ValueError ''project chat dispatch scope cannot name a node'')
      else if ds_patch_kind s = Some Experiment_loop
          \<and> (ds_control_node_id s = None \<or> ds_control_episode_id s = None)
        then Inl (ValueError ''experiment-loop dispatch scope requires its control node and episode'')
      else if ds_patch_kind s \<noteq> Some Experiment_loop
          \<and> (ds_control_node_id s \<noteq> None \<or> ds_control_episode_id s \<noteq> None)
        then Inl (ValueError ''only experiment-loop dispatch scope may name control state'')
      else Inr s)"

record agent_dispatch_authority =
  da_profile :: profile
  da_task_contract :: capability
  da_scope :: agent_dispatch_scope

text \<open>\<open>bool(x)\<close> of an optional string.\<close>

definition truthy :: "string option \<Rightarrow> bool" where
  "truthy v = (v \<noteq> None \<and> v \<noteq> Some [])"

definition is_work_chat :: "agent_dispatch_authority \<Rightarrow> bool" where
  "is_work_chat a = (da_profile a = Ordinary \<and> da_task_contract a = Work_auto
     \<and> ds_patch_kind (da_scope a) = Some Work \<and> truthy (ds_chat_id (da_scope a)))"

definition is_discuss_chat :: "agent_dispatch_authority \<Rightarrow> bool" where
  "is_discuss_chat a = (da_profile a = Ordinary \<and> da_task_contract a = Discuss
     \<and> ds_patch_kind (da_scope a) = None \<and> truthy (ds_chat_id (da_scope a)))"

datatype merge_dispatcher = Member_dispatcher | Orchestrator_dispatcher

record agent_task_authority =
  ta_operation_id :: string
  ta_project_id :: string
  ta_apply_target :: graph_target_ref
  ta_authorized_by :: "authorized_human option"
  ta_dispatch_authority :: "agent_dispatch_authority option"
  ta_episode_id :: "string option"
  ta_merge_source :: "graph_target_ref option"
  ta_merge_dispatcher :: "merge_dispatcher option"

definition member_merge_source :: "agent_task_authority \<Rightarrow> graph_target_ref option" where
  "member_merge_source t =
     (if ta_merge_dispatcher t = Some Member_dispatcher then ta_merge_source t else None)"

definition ORDINARY_AGENT_TASK_CONTRACTS :: "capability set" where
  "ORDINARY_AGENT_TASK_CONTRACTS = {Discuss, Work_auto, Scratch_patch, Paper_suggest}"

definition ORCHESTRATOR_AGENT_TASK_CONTRACTS :: "capability set" where
  "ORCHESTRATOR_AGENT_TASK_CONTRACTS = {Orchestrate}"

definition APPLY_CAPABLE_TASK_CONTRACTS :: "capability set" where
  "APPLY_CAPABLE_TASK_CONTRACTS = {Work_auto, Scratch_patch, Orchestrate}"

definition no_chat_or_control :: "agent_dispatch_scope \<Rightarrow> bool" where
  "no_chat_or_control s = (ds_chat_scope s = None \<and> ds_chat_id s = None \<and> ds_node_id s = None
     \<and> ds_control_node_id s = None \<and> ds_control_episode_id s = None)"

definition require_scope_shape ::
  "agent_dispatch_authority \<Rightarrow> graph_target_ref option \<Rightarrow> unit result" where
  "require_scope_shape a merge_source =
     (let contract = da_task_contract a; scope = da_scope a in
      if (case merge_source of None \<Rightarrow> False | Some t \<Rightarrow>
            gt_kind t \<noteq> Branch_target \<or> da_profile a \<noteq> Orchestrator \<or> contract \<noteq> Orchestrate)
        then Inl (ValueError ''member merge authority requires an exact branch source and orchestrator'')
      else (case contract of
        Orchestrate \<Rightarrow>
          if (ds_episode_id scope = None \<and> merge_source = None) \<or> ds_run_truth_scope scope = []
             \<or> ds_patch_kind scope \<noteq> Some Work \<or> \<not> no_chat_or_control scope
            then Inl (ValueError ''orchestrate requires an exact episode'')
          else Inr ()
      | Scratch_patch \<Rightarrow>
          if ds_patch_kind scope \<notin> {Some Seed, Some Refresh}
            then Inl (ValueError ''scratch_patch requires seed or refresh scope'')
          else if ds_episode_id scope \<noteq> None \<or> ds_chat_scope scope \<noteq> None
              \<or> ds_chat_id scope \<noteq> None \<or> ds_node_id scope \<noteq> None
            then Inl (ValueError ''scratch_patch cannot carry chat identity'')
          else Inr ()
      | Paper_suggest \<Rightarrow>
          if \<not> no_chat_or_control scope \<or> ds_episode_id scope \<noteq> None \<or> ds_patch_kind scope \<noteq> None
            then Inl (ValueError ''paper_suggest cannot carry chat, Patch, or control scope'')
          else Inr ()
      | Session_summary \<Rightarrow> Inr ()
      | _ \<Rightarrow>
          if contract = Work_auto \<and> ds_episode_id scope \<noteq> None then
            (if ds_run_truth_scope scope = [] \<or> ds_patch_kind scope \<noteq> Some Work
                \<or> \<not> no_chat_or_control scope
               then Inl (ValueError ''an episode worker requires an exact episode'')
             else Inr ())
          else if ds_episode_id scope \<noteq> None
            then Inl (ValueError ''cannot carry episode scope'')
          else if ds_chat_scope scope = None \<or> ds_chat_id scope = None
            then Inl (ValueError ''requires an exact chat scope and chat id'')
          else if ds_chat_scope scope = Some Node_chat \<and> ds_node_id scope = None
            then Inl (ValueError ''node chat scope requires an exact node id'')
          else if contract = Discuss \<and> ds_patch_kind scope \<noteq> None
            then Inl (ValueError ''discuss cannot expose a graph Patch kind'')
          else if contract = Work_auto \<and> ds_patch_kind scope \<notin> {Some Work, Some Experiment_loop}
            then Inl (ValueError ''work_auto requires Work or Experiment scope'')
          else Inr ()))"

definition compatible_contract :: "agent_dispatch_authority \<Rightarrow> bool" where
  "compatible_contract a =
     ((da_profile a = Ordinary \<and> da_task_contract a \<in> ORDINARY_AGENT_TASK_CONTRACTS)
      \<or> (da_profile a = Orchestrator \<and> da_task_contract a \<in> ORCHESTRATOR_AGENT_TASK_CONTRACTS))"

definition require_dispatch ::
  "agent_dispatch_authority \<Rightarrow> graph_target_ref option \<Rightarrow> agent_dispatch_authority result" where
  "require_dispatch a merge_source =
     (if \<not> compatible_contract a then Inl (ValueError ''profile does not permit task contract'')
      else bind_r (require_scope_shape a merge_source) (\<lambda>_. Inr a))"

type_synonym membership_check = "string \<Rightarrow> string \<Rightarrow> bool"

definition require_apply ::
  "agent_task_authority \<Rightarrow> patch \<Rightarrow> membership_check \<Rightarrow> authority_exn + agent_dispatch_authority" where
  "require_apply t p is_project_member = (case (ta_dispatch_authority t, ta_authorized_by t) of
     (Some dispatch, Some authorizer) \<Rightarrow>
       (let scope = da_scope dispatch; contract = da_task_contract dispatch in
        if \<not> is_project_member (ta_project_id t) (ah_user_id authorizer)
          then Inl AgentAuthorizerDeparted
        else if \<not> compatible_contract dispatch then Inl AgentTaskAuthorityRefused
        else if pa_profile p \<noteq> None \<and> pa_profile p \<noteq> Some (da_profile dispatch)
          then Inl AgentTaskAuthorityRefused
        else if pa_agent_action p \<noteq> None \<and> da_profile dispatch \<noteq> Orchestrator
          then Inl AgentTaskAuthorityRefused
        else (case require_scope_shape dispatch (member_merge_source t) of
            Inl _ \<Rightarrow> Inl AgentTaskAuthorityRefused
          | Inr _ \<Rightarrow>
              if contract \<notin> APPLY_CAPABLE_TASK_CONTRACTS then Inl AgentTaskAuthorityRefused
              else if \<not> ((contract = Scratch_patch \<and> ds_patch_kind scope \<in> {Some Seed, Some Refresh})
                  \<or> (contract = Work_auto \<and> ds_patch_kind scope \<in> {Some Work, Some Experiment_loop})
                  \<or> (contract = Orchestrate \<and> ds_patch_kind scope = Some Work))
                then Inl AgentTaskAuthorityRefused
              else if Some (pa_kind p) \<noteq> ds_patch_kind scope then Inl AgentTaskAuthorityRefused
              else if sorted_set (pa_run_truth_scope p) \<noteq> ds_run_truth_scope scope
                then Inl AgentTaskAuthorityRefused
              else if pa_kind p = Experiment_loop
                  \<and> pa_experiment_control_node_id p \<noteq> ds_control_node_id scope
                then Inl AgentTaskAuthorityRefused
              else Inr dispatch))
   | _ \<Rightarrow> Inl AgentTaskAuthorityRefused)"

section \<open>Graph actions\<close>

datatype graph_action =
    CREATE_NODE | UPDATE_NODE | UPDATE_PROTECTED_EPISTEMIC | DECIDE_DECISION | QUEUE_DECISION
  | REMOVE_NODE | REMOVE_PROTECTED_EPISTEMIC | SUPERSEDE_NODE | SUPERSEDE_PROTECTED_EPISTEMIC
  | MERGE_NODE | MERGE_PROTECTED_EPISTEMIC | CREATE_EDGE | REMOVE_EDGE
  | RESTRUCTURE_PROTECTED_EPISTEMIC | SET_STANDING | CREATE_PROPOSAL | RESOLVE_PROPOSAL
  | WITHDRAW_PROPOSAL | UPSERT_GLOSSARY | SET_COVERAGE | SET_PROJECT_TRUTH_SCOPE | SET_ONTOLOGY
  | CREATE_AMBIGUITY | RESOLVE_AMBIGUITY

definition ORDINARY_AGENT_GRAPH_ACTIONS :: "graph_action set" where
  "ORDINARY_AGENT_GRAPH_ACTIONS = {CREATE_NODE, UPDATE_NODE, QUEUE_DECISION, REMOVE_NODE,
     SUPERSEDE_NODE, MERGE_NODE, CREATE_EDGE, REMOVE_EDGE, CREATE_PROPOSAL, WITHDRAW_PROPOSAL,
     UPSERT_GLOSSARY}"

definition ORCHESTRATOR_AGENT_GRAPH_ACTIONS :: "graph_action set" where
  "ORCHESTRATOR_AGENT_GRAPH_ACTIONS =
     ORDINARY_AGENT_GRAPH_ACTIONS \<union> {DECIDE_DECISION, SET_STANDING}"

text \<open>Every graph action but the five that only agents and old history perform.\<close>

definition human_graph_action :: "graph_action \<Rightarrow> bool" where
  "human_graph_action a = (a \<notin> {CREATE_PROPOSAL, UPSERT_GLOSSARY, SET_COVERAGE, CREATE_AMBIGUITY,
     RESOLVE_AMBIGUITY})"

definition permits :: "patch \<Rightarrow> graph_action \<Rightarrow> bool" where
  "permits p action =
     (if pa_author p = Some Human then human_graph_action action
      else if pa_author p \<noteq> Some Agent then False
      else if pa_profile p = Some Orchestrator then action \<in> ORCHESTRATOR_AGENT_GRAPH_ACTIONS
      else action \<in> ORDINARY_AGENT_GRAPH_ACTIONS)"

definition LIFECYCLE_RELATIONS :: "string list" where
  "LIFECYCLE_RELATIONS = [''supersedes'', ''duplicate_of'']"

definition protected_epistemic_relations :: "string list" where
  "protected_epistemic_relations = pt_protected_relations project_type_of @ LIFECYCLE_RELATIONS"

definition is_existing_protected_node :: "graph_state \<Rightarrow> string \<Rightarrow> bool" where
  "is_existing_protected_node st node_id = (case dict_get (g_nodes st) node_id of
     None \<Rightarrow> False | Some n \<Rightarrow> is_protected_belief project_type_of (Some (n_type n)))"

text \<open>The nodes and edges the operations of a patch create, in order.\<close>

fun op_created_nodes :: "graph_operation \<Rightarrow> project_node list" where
  "op_created_nodes (CreateNodesOperation raws) = map np_node raws"
| "op_created_nodes _ = []"

definition patch_created_nodes :: "patch \<Rightarrow> project_node list" where
  "patch_created_nodes p = concat (map op_created_nodes (pa_ops p))"

fun op_new_edges :: "graph_operation \<Rightarrow> new_edge list" where
  "op_new_edges (CreateEdgesOperation es) = es"
| "op_new_edges _ = []"

text \<open>\<open>edge.id or f"{source}::{relation}::{target}"\<close>\<close>

definition new_edge_id :: "new_edge \<Rightarrow> string" where
  "new_edge_id e = (case field_value (ne_id e) of
     Some i \<Rightarrow> if i = [] then edge_default_id (ne_source e) (ne_relation e) (ne_target e) else i
   | None \<Rightarrow> edge_default_id (ne_source e) (ne_relation e) (ne_target e))"

definition created_node_type :: "patch \<Rightarrow> string \<Rightarrow> string option" where
  "created_node_type p node_id =
     map_option n_type (find (\<lambda>n. n_id n = node_id) (patch_created_nodes p))"

definition created_node_ids :: "patch \<Rightarrow> string set" where
  "created_node_ids p = n_id ` set (patch_created_nodes p)"

definition created_edge_ids :: "patch \<Rightarrow> string set" where
  "created_edge_ids p = new_edge_id ` set (concat (map op_new_edges (pa_ops p)))"

definition new_node_ids :: "graph_state \<Rightarrow> patch \<Rightarrow> string set" where
  "new_node_ids st p = created_node_ids p - set (keys (g_nodes st))"

definition DECISION_QUEUE_STATUSES :: "string list" where
  "DECISION_QUEUE_STATUSES = [''open'', ''ready'', ''revisit'']"

definition queues_decision :: "val dict \<Rightarrow> bool result" where
  "queues_decision changes = in_frozenset (dict_get changes ''status'') DECISION_QUEUE_STATUSES"

definition restructures_protected_relation ::
  "graph_state \<Rightarrow> patch \<Rightarrow> string \<Rightarrow> string \<times> string \<Rightarrow> bool" where
  "restructures_protected_relation st p relation = (\<lambda>(source, target).
     relation \<in> set protected_epistemic_relations
     \<and> source \<notin> new_node_ids st p \<and> target \<notin> new_node_ids st p
     \<and> (is_existing_protected_node st source \<or> is_existing_protected_node st target))"

definition or_base :: "graph_action \<Rightarrow> graph_action list \<Rightarrow> graph_action list" where
  "or_base base actions = (if actions = [] then [base] else actions)"

definition update_action :: "graph_state \<Rightarrow> patch \<Rightarrow> node_update \<Rightarrow> graph_action result" where
  "update_action st p u =
     (if is_existing_protected_node st (nu_id u) then Inr UPDATE_PROTECTED_EPISTEMIC
      else
        (let existing_chooser = is_chooser project_type_of (node_type_of st (nu_id u));
             chooser = existing_chooser
               \<or> is_chooser project_type_of (created_node_type p (nu_id u))
         in if chooser \<and> (pa_human_action p = Some Decision_choice
                \<or> pa_agent_action p = Some Decision_choice)
              then Inr DECIDE_DECISION
            else if existing_chooser
              then bind_r (queues_decision (nu_changes u))
                     (\<lambda>queued. Inr (if queued then QUEUE_DECISION else UPDATE_NODE))
            else Inr UPDATE_NODE))"

definition update_actions ::
  "graph_state \<Rightarrow> patch \<Rightarrow> node_update list \<Rightarrow> graph_action list result" where
  "update_actions st p us =
     bind_r (map_r (update_action st p) us) (\<lambda>actions. Inr (or_base UPDATE_NODE actions))"

definition create_edge_actions :: "graph_state \<Rightarrow> patch \<Rightarrow> new_edge list \<Rightarrow> graph_action list" where
  "create_edge_actions st p es = or_base CREATE_EDGE (map (\<lambda>e.
     if restructures_protected_relation st p (ne_relation e) (ne_source e, ne_target e)
       then RESTRUCTURE_PROTECTED_EPISTEMIC else CREATE_EDGE) es)"

definition remove_edge_actions :: "graph_state \<Rightarrow> patch \<Rightarrow> string list \<Rightarrow> graph_action list" where
  "remove_edge_actions st p ids = or_base REMOVE_EDGE (map (\<lambda>i.
     case dict_get (g_edges st) i of
       None \<Rightarrow> REMOVE_EDGE
     | Some e \<Rightarrow>
         if i \<notin> created_edge_ids p - set (keys (g_edges st))
            \<and> e_relation e \<in> set protected_epistemic_relations
            \<and> (is_existing_protected_node st (e_source e) \<or> is_existing_protected_node st (e_target e))
           then RESTRUCTURE_PROTECTED_EPISTEMIC else REMOVE_EDGE) ids)"

definition node_target_actions ::
  "graph_state \<Rightarrow> string list \<Rightarrow> graph_action \<Rightarrow> graph_action \<Rightarrow> graph_action list" where
  "node_target_actions st ids base protected =
     or_base base (map (\<lambda>i. if is_existing_protected_node st i then protected else base) ids)"

definition node_lifecycle_actions ::
  "graph_state \<Rightarrow> patch \<Rightarrow> string list \<Rightarrow> (string \<times> string) list \<Rightarrow> string \<Rightarrow> graph_action \<Rightarrow>
   graph_action \<Rightarrow> graph_action list" where
  "node_lifecycle_actions st p ids endpoints relation base protected =
     node_target_actions st ids base protected
     @ map (\<lambda>_. RESTRUCTURE_PROTECTED_EPISTEMIC)
         (filter (restructures_protected_relation st p relation) endpoints)"

text \<open>
  A frozen set of actions is the list of them, of which only membership is asked. Asking
  whether an update queues a Decision raises when its status is a list or a dictionary.
\<close>

fun operation_actions :: "graph_state \<Rightarrow> patch \<Rightarrow> graph_operation \<Rightarrow> graph_action list result" where
  "operation_actions st p (CreateNodesOperation _) = Inr [CREATE_NODE]"
| "operation_actions st p (UpdateNodesOperation us) = update_actions st p us"
| "operation_actions st p (CreateEdgesOperation es) = Inr (create_edge_actions st p es)"
| "operation_actions st p (RemoveEdgesOperation ids) = Inr (remove_edge_actions st p ids)"
| "operation_actions st p (RemoveNodesOperation ids) =
     Inr (node_target_actions st ids REMOVE_NODE REMOVE_PROTECTED_EPISTEMIC)"
| "operation_actions st p (SupersedeNodesOperation items) =
     Inr (node_lifecycle_actions st p (map sn_id items)
       (List.map_filter (\<lambda>i. map_option (Pair (sn_id i)) (sn_superseded_by i)) items)
       ''supersedes'' SUPERSEDE_NODE SUPERSEDE_PROTECTED_EPISTEMIC)"
| "operation_actions st p (MergeNodesOperation items) =
     Inr (node_lifecycle_actions st p (map nm_duplicate items)
       (map (\<lambda>i. (nm_duplicate i, nm_canonical i)) items)
       ''duplicate_of'' MERGE_NODE MERGE_PROTECTED_EPISTEMIC)"
| "operation_actions st p (SetStandingOperation node_id _) =
     (if is_existing_protected_node st node_id
         \<or> is_protected_belief project_type_of (created_node_type p node_id)
        then Inr [UPDATE_PROTECTED_EPISTEMIC] else Inr [SET_STANDING])"
| "operation_actions st p (CreateAmbiguitiesOperation _) = Inr [CREATE_AMBIGUITY]"
| "operation_actions st p (ResolveAmbiguitiesOperation _) = Inr [RESOLVE_AMBIGUITY]"
| "operation_actions st p (CreateProposalsOperation _) = Inr [CREATE_PROPOSAL]"
| "operation_actions st p (ResolveProposalsOperation _) = Inr [RESOLVE_PROPOSAL]"
| "operation_actions st p (WithdrawProposalsOperation _) = Inr [WITHDRAW_PROPOSAL]"
| "operation_actions st p (UpsertGlossaryOperation _) = Inr [UPSERT_GLOSSARY]"
| "operation_actions st p (SetCoverageOperation _) = Inr [SET_COVERAGE]"
| "operation_actions st p (SetProjectTruthScopeOperation _ _) = Inr [SET_PROJECT_TRUTH_SCOPE]"
| "operation_actions st p (SetOntologyOperation _) = Inr [SET_ONTOLOGY]"

section \<open>Writers and persisted authorship\<close>

record writer =
  w_author :: "actor option"
  w_profile :: "profile option"
  w_human_action :: "declared_action option"
  w_agent_action :: "declared_action option"

definition writer_from_patch :: "patch \<Rightarrow> writer" where
  "writer_from_patch p = \<lparr>w_author = pa_author p, w_profile = pa_profile p,
     w_human_action = pa_human_action p, w_agent_action = pa_agent_action p\<rparr>"

text \<open>\<open>patch.revision or None\<close>\<close>

definition patch_rev :: "patch \<Rightarrow> int option" where
  "patch_rev p = (if pa_revision p = 0 then None else Some (pa_revision p))"

fun producer_actor :: "producer \<Rightarrow> actor option" where
  "producer_actor Agent_producer = Some Agent"
| "producer_actor Human_producer = Some Human"
| "producer_actor System_producer = None"

definition validate_authorship :: "patch \<Rightarrow> report \<Rightarrow> report" where
  "validate_authorship p r =
     (if pa_kind p = Identity_patch then
        reject_if (pa_author p \<noteq> None) ''wrong-author'' (patch_rev p) [] []
        (reject_if (pa_producer p \<noteq> System_producer) ''wrong-producer'' (patch_rev p) [] [] r)
      else
        (let r1 = reject_if (pa_author p \<noteq> Some (if pa_kind p = Approval then Human else Agent))
               ''wrong-author'' (patch_rev p) [] [] r
         in if pa_producer p = System_producer
              then reject ''system-producer-forbidden'' (patch_rev p) [] [] r1
            else reject_if (producer_actor (pa_producer p) \<noteq> pa_author p)
                   ''producer-author-mismatch'' (patch_rev p) [] [] r1))"

text \<open>\<open>OP_RULES[op].legacy_only\<close>\<close>

fun legacy_only :: "graph_operation \<Rightarrow> bool" where
  "legacy_only (CreateAmbiguitiesOperation _) = True"
| "legacy_only (ResolveAmbiguitiesOperation _) = True"
| "legacy_only (SetCoverageOperation _) = True"
| "legacy_only _ = False"

definition refused_actions ::
  "graph_state \<Rightarrow> patch \<Rightarrow> graph_operation \<Rightarrow> graph_action list result" where
  "refused_actions st p op = bind_r (operation_actions st p op)
     (\<lambda>actions. Inr (filter (\<lambda>a. \<not> permits p a) (remdups actions)))"

text \<open>
  One message per distinct refused action; the messages differ in prose only, so the order in
  which the source sorts them does not show.
\<close>

definition check_operation_authority ::
  "graph_state \<Rightarrow> patch \<Rightarrow> graph_operation \<Rightarrow> report \<Rightarrow> report result" where
  "check_operation_authority st p op r =
     (if legacy_only op then Inr r
      else bind_r (refused_actions st p op) (\<lambda>actions.
        Inr (fold (\<lambda>_. reject ''graph-action-refused'' (patch_rev p) [] []) actions r)))"

definition validate_operation_authority :: "graph_state \<Rightarrow> patch \<Rightarrow> report \<Rightarrow> report result" where
  "validate_operation_authority st p r = fold_r (check_operation_authority st p) (pa_ops p) r"

fun writer_action_refusal :: "patch \<Rightarrow> bool \<Rightarrow> graph_operation \<Rightarrow> string option" where
  "writer_action_refusal p replay (ResolveProposalsOperation _) =
     (if pa_kind p \<noteq> Approval \<and> \<not> replay then Some ''agent-resolved-proposal'' else None)"
| "writer_action_refusal p replay (WithdrawProposalsOperation _) =
     (if pa_author p \<noteq> Some Agent \<or> pa_kind p = Approval
        then Some ''human-only-proposal-withdrawal'' else None)"
| "writer_action_refusal p replay (SetStandingOperation _ _) =
     (if \<not> replay \<and> \<not> permits p SET_STANDING then Some ''agent-set-standing'' else None)"
| "writer_action_refusal p replay (SetProjectTruthScopeOperation _ _) =
     (if pa_kind p \<noteq> Approval then Some ''agent-set-project-scope'' else None)"
| "writer_action_refusal p replay (SetOntologyOperation _) =
     (if pa_kind p \<noteq> Approval then Some ''agent-set-ontology'' else None)"
| "writer_action_refusal p replay _ = None"

definition validate_writer_actions :: "patch \<Rightarrow> bool \<Rightarrow> report \<Rightarrow> report" where
  "validate_writer_actions p replay r =
     fold (\<lambda>op r. case writer_action_refusal p replay op of
         None \<Rightarrow> r | Some code \<Rightarrow> reject code (patch_rev p) [] [] r) (pa_ops p)
     (reject_if (pa_agent_action p \<noteq> None
          \<and> (pa_author p \<noteq> Some Agent \<or> pa_profile p \<noteq> Some Orchestrator))
        ''invalid-agent-action'' (patch_rev p) [] []
     (reject_if (pa_human_action p \<noteq> None \<and> (pa_kind p \<noteq> Approval \<or> pa_author p \<noteq> Some Human))
        ''invalid-human-action'' (patch_rev p) [] [] r))"

definition authorship_rejected :: "patch \<Rightarrow> bool" where
  "authorship_rejected p = rejected (validate_authorship p [])"

definition HUMAN_AUTHORIZER_NOT_MEMBER :: string where
  "HUMAN_AUTHORIZER_NOT_MEMBER = ''human-authorizer-not-member''"

definition refused_authorizer :: "report \<Rightarrow> bool" where
  "refused_authorizer r = list_ex (\<lambda>m. vm_code m = HUMAN_AUTHORIZER_NOT_MEMBER) r"

section \<open>Live admission\<close>

text \<open>The resolver raises \<open>KeyError\<close> for an unknown task; either callable may be absent.\<close>

record write_authority =
  wa_agent_authority_resolver :: "(string \<Rightarrow> string \<Rightarrow> agent_task_authority result) option"
  wa_project_membership_check :: "membership_check option"

text \<open>
  The report is an object that keeps what was written to it before an exception; the messages
  of the operations before the one that raised stay in it.
\<close>

fun authority_messages :: "graph_state \<Rightarrow> patch \<Rightarrow> graph_operation list \<Rightarrow> report \<Rightarrow> report" where
  "authority_messages st p [] r = r"
| "authority_messages st p (op # ops) r = (case check_operation_authority st p op r of
     Inl _ \<Rightarrow> reject ''malformed-operation'' (patch_rev p) [] [] r
   | Inr r1 \<Rightarrow> authority_messages st p ops r1)"

definition validate_permissions :: "graph_state \<Rightarrow> patch \<Rightarrow> report" where
  "validate_permissions st p = authority_messages st p (pa_ops p) []"

definition canonical_authorizer :: "authorized_human \<Rightarrow> authorized_human result" where
  "canonical_authorizer h = (case validate_authorized_human h of
     Inl _ \<Rightarrow> Inl (ValueError ''authorized_by must be a valid authorizer snapshot'')
   | Inr snapshot \<Rightarrow>
       if strip (ah_display_name snapshot) = []
         then Inl (ValueError ''authorized_by must name the authorizing human'')
       else Inr snapshot)"

definition lift_error :: "'a result \<Rightarrow> authority_exn + 'a" where
  "lift_error m = (case m of Inl e \<Rightarrow> Inl (Other_error e) | Inr x \<Rightarrow> Inr x)"

definition MAIN_TARGET :: graph_target_ref where
  "MAIN_TARGET = \<lparr>gt_kind = Main_target, gt_branch_id = None\<rparr>"

text \<open>The task binding that an agent patch names, checked against project and target.\<close>

definition resolve_task ::
  "(string \<Rightarrow> string \<Rightarrow> agent_task_authority result) \<Rightarrow> string \<Rightarrow> string \<Rightarrow>
   authority_exn + agent_task_authority" where
  "resolve_task resolver project_id operation_id = (case resolver project_id operation_id of
     Inl (KeyError _) \<Rightarrow> Inl AgentTaskAuthorityRefused
   | Inl e \<Rightarrow> Inl (Other_error e)
   | Inr t \<Rightarrow>
       if ta_operation_id t \<noteq> operation_id \<or> ta_project_id t \<noteq> project_id
         then Inl AgentTaskAuthorityRefused
       else Inr t)"

definition stamp_agent ::
  "write_authority \<Rightarrow> patch \<Rightarrow> string option \<Rightarrow> graph_target_ref \<Rightarrow> authority_exn + patch" where
  "stamp_agent wa p project_id apply_target =
     (case (pa_source_operation_id p, project_id, wa_agent_authority_resolver wa,
            wa_project_membership_check wa) of
        (Some operation_id, Some project, Some resolver, Some member) \<Rightarrow>
          if strip operation_id = [] then Inl AgentTaskAuthorityRefused
          else
            bind_r (resolve_task resolver project operation_id) (\<lambda>t.
            if ta_apply_target t \<noteq> apply_target then Inl AgentTaskAuthorityRefused
            else
              bind_r (require_apply t p member) (\<lambda>dispatch.
              if apply_target \<noteq> MAIN_TARGET \<and> pa_kind p = Experiment_loop \<and> ta_episode_id t = None
                then Inl AgentTaskAuthorityRefused
              else if da_profile dispatch = Orchestrator \<and> ta_episode_id t = None
                  \<and> member_merge_source t = None
                then Inl AgentTaskAuthorityRefused
              else (case ta_authorized_by t of
                  None \<Rightarrow> Inl (Other_error (TypeError ''authorized_by''))
                | Some h \<Rightarrow>
                    bind_r (lift_error (canonical_authorizer h)) (\<lambda>authorizer.
                    (let canonical = (Some authorizer, Some (da_profile dispatch),
                           Some operation_id, ta_episode_id t);
                         supplied = (pa_authorized_by p, pa_profile p, pa_task_id p, pa_episode_id p)
                     in if supplied \<noteq> (None, None, None, None) \<and> supplied \<noteq> canonical
                          then Inl AgentTaskAuthorityRefused
                        else Inr (p\<lparr>pa_authorized_by := Some authorizer,
                               pa_profile := Some (da_profile dispatch),
                               pa_task_id := Some operation_id,
                               pa_episode_id := ta_episode_id t\<rparr>))))))
      | _ \<Rightarrow> Inl AgentTaskAuthorityRefused)"

definition stamp_attribution ::
  "write_authority \<Rightarrow> patch \<Rightarrow> string option \<Rightarrow> authorized_human option \<Rightarrow> graph_target_ref \<Rightarrow>
   authority_exn + patch" where
  "stamp_attribution wa p project_id authorized_by apply_target =
     (if pa_kind p = Identity_patch then
        (if authorized_by \<noteq> None \<or> pa_authorized_by p \<noteq> None \<or> pa_profile p \<noteq> None
            \<or> pa_task_id p \<noteq> None \<or> pa_episode_id p \<noteq> None
           then Inl (Other_error (ValueError ''identity patches are system-owned''))
         else Inr p)
      else if pa_kind p = Approval then (case authorized_by of
          None \<Rightarrow> Inl (Other_error (ValueError ''human approval patches require authorized_by''))
        | Some h \<Rightarrow> bind_r (lift_error (canonical_authorizer h)) (\<lambda>authorizer.
            Inr (p\<lparr>pa_authorized_by := Some authorizer, pa_profile := None, pa_task_id := None,
                   pa_episode_id := None\<rparr>)))
      else if authorized_by \<noteq> None then Inl AgentTaskAuthorityRefused
      else stamp_agent wa p project_id apply_target)"

definition is_current_member :: "write_authority \<Rightarrow> string option \<Rightarrow> patch \<Rightarrow> bool" where
  "is_current_member wa project_id p =
     (case (project_id, wa_project_membership_check wa, pa_authorized_by p) of
        (Some project, Some member, Some h) \<Rightarrow> member project (ah_user_id h)
      | _ \<Rightarrow> False)"

definition admit ::
  "write_authority \<Rightarrow> graph_state \<Rightarrow> patch \<Rightarrow> string option \<Rightarrow> authorized_human option \<Rightarrow>
   graph_target_ref \<Rightarrow> authority_exn + patch \<times> writer \<times> report" where
  "admit wa st p project_id authorized_by apply_target =
     (if authorship_rejected p then Inr (p, writer_from_patch p, [])
      else
        bind_r (stamp_attribution wa p project_id authorized_by apply_target) (\<lambda>q.
        if pa_kind q = Approval \<and> \<not> is_current_member wa project_id q
          then Inr (q, writer_from_patch q,
                 reject HUMAN_AUTHORIZER_NOT_MEMBER (patch_rev q) [] [] [])
        else Inr (q, writer_from_patch q, validate_permissions st q)))"

text \<open>The probe patch a no-change merge receipt is checked with.\<close>

definition merge_receipt_probe ::
  "branch_merge_receipt \<Rightarrow> agent_task_authority \<Rightarrow> agent_dispatch_authority \<Rightarrow> int \<Rightarrow> patch" where
  "merge_receipt_probe receipt t dispatch now =
     \<lparr>pa_schema_generation = 2, pa_revision = 0, pa_kind = Work, pa_author = Some Agent,
      pa_producer = Agent_producer, pa_created_at = now, pa_summary = [], pa_ops = [],
      pa_run_truth_scope = ds_run_truth_scope (da_scope dispatch), pa_repositories_read = [],
      pa_run_read_scope = None, pa_processed_cursors = [], pa_change_summary = [],
      pa_source_operation_id = Some (mp_merge_task_id (mr_provenance receipt)),
      pa_source_effect_id = None, pa_source_effect_sha256 = None, pa_human_action = None,
      pa_agent_action = None, pa_admission = Accepted, pa_admission_messages = [],
      pa_experiment_control_node_id = None, pa_experiment_decision_bundle = [],
      pa_project_identity = None, pa_project_home_transfer = None,
      pa_authorized_by = Some (mr_authorized_by receipt), pa_profile = Some Orchestrator,
      pa_task_id = Some (mp_merge_task_id (mr_provenance receipt)),
      pa_episode_id = ta_episode_id t, pa_branch_merge = None, pa_transition = None\<rparr>"

text \<open>
  \<open>require_no_change_merge\<close>; the clock reading of the probe (\<open>now\<close>) is never looked at.
\<close>

definition require_no_change_merge ::
  "write_authority \<Rightarrow> branch_merge_receipt \<Rightarrow> string option \<Rightarrow> int \<Rightarrow> authority_exn + unit" where
  "require_no_change_merge wa receipt project_id now =
     (let operation_id = mp_merge_task_id (mr_provenance receipt);
          refuse = (\<lambda>s. Inl (Other_error (ValueError s)))
      in case (project_id, wa_agent_authority_resolver wa, wa_project_membership_check wa) of
           (Some project, Some resolver, Some member) \<Rightarrow>
             (case resolver project operation_id of
                Inl (KeyError _) \<Rightarrow> refuse ''unknown agent task''
              | Inl e \<Rightarrow> Inl (Other_error e)
              | Inr t \<Rightarrow>
                  if ta_operation_id t \<noteq> operation_id \<or> ta_project_id t \<noteq> project
                    then refuse ''another task or project''
                  else if ta_apply_target t \<noteq> gh_target (mp_rebased_main_head (mr_provenance receipt))
                    then refuse ''recorded destination authority''
                  else if ta_merge_source t = None
                      \<and> (ta_episode_id t = None
                         \<or> ta_episode_id t \<noteq> mp_episode_id (mr_provenance receipt))
                    then refuse ''recorded episode''
                  else if ta_merge_source t \<noteq> None
                      \<and> ta_merge_source t \<noteq> Some \<lparr>gt_kind = Branch_target,
                           gt_branch_id = Some (mp_branch_id (mr_provenance receipt))\<rparr>
                    then refuse ''recorded source authority''
                  else (case ta_dispatch_authority t of
                      None \<Rightarrow> refuse ''no dispatch authority binding''
                    | Some dispatch \<Rightarrow>
                        bind_r (require_apply t (merge_receipt_probe receipt t dispatch now) member)
                          (\<lambda>bound.
                        if da_profile bound \<noteq> Orchestrator then refuse ''orchestrator authority''
                        else (case ta_authorized_by t of
                            None \<Rightarrow> refuse ''no authorizer snapshot''
                          | Some h \<Rightarrow>
                              bind_r (lift_error (canonical_authorizer h)) (\<lambda>authorizer.
                              if authorizer \<noteq> mr_authorized_by receipt
                                then refuse ''authorizer does not match''
                              else Inr ())))))
         | _ \<Rightarrow> refuse ''requires a canonical resolver and membership check'')"

record captured_change_authority =
  ca_project_id :: "string option"
  ca_apply_target :: graph_target_ref
  ca_patch_template :: patch

definition require_empty_template ::
  "captured_change_authority \<Rightarrow> captured_change_authority result" where
  "require_empty_template c =
     (if pa_ops (ca_patch_template c) \<noteq> []
        then Inl (ValueError ''captured authority requires an empty-operation Patch template'')
      else Inr c)"

definition capture_change_authority ::
  "graph_state \<Rightarrow> patch \<Rightarrow> write_authority \<Rightarrow> string option \<Rightarrow> graph_target_ref \<Rightarrow>
   authorized_human option \<Rightarrow> authority_exn + captured_change_authority" where
  "capture_change_authority st template wa project_id apply_target authorized_by =
     (if pa_ops template \<noteq> []
        then Inl (Other_error (ValueError ''authority capture requires an empty-operation template''))
      else
        bind_r (admit wa st template project_id authorized_by apply_target) (\<lambda>(admitted, _, r).
        (let r1 = validate_authorship admitted r in
         if rejected r1 then Inl (AuthorityRefusal r1)
         else lift_error (require_empty_template
                \<lparr>ca_project_id = project_id, ca_apply_target = apply_target,
                 ca_patch_template = admitted\<rparr>))))"

end
