(* ===== verification/Research_Rules.thy ===== *)
theory Research_Rules
  imports Authority Values
begin

text \<open>
  The rules of single research node types that kernel validation calls
  (\<open>core/research_rules.py\<close>): compatibility-only fields of live writes, a Decision's ballot and
  choice, the endpoints and expectations of evidence relations, and active experiment attempts.
  A node of class \<open>C\<close> is a node whose \<open>type\<close> is the discriminator of \<open>C\<close>.
\<close>

abbreviation is_decision :: "project_node \<Rightarrow> bool" where
  "is_decision n \<equiv> n_type n = ''decision''"

abbreviation is_hypothesis :: "project_node \<Rightarrow> bool" where
  "is_hypothesis n \<equiv> n_type n = ''hypothesis''"

abbreviation is_experiment :: "project_node \<Rightarrow> bool" where
  "is_experiment n \<equiv> n_type n = ''experiment''"

abbreviation is_evidence :: "project_node \<Rightarrow> bool" where
  "is_evidence n \<equiv> n_type n = ''evidence''"

definition EXPECTATION_RELATIONS :: "string list" where
  "EXPECTATION_RELATIONS = [''produces'']"

definition DECISION_BALLOT_STATUSES :: "string list" where
  "DECISION_BALLOT_STATUSES = [''ready'', ''revisit'']"

definition EXPERIMENT_COMPATIBILITY_STATUSES :: "string list" where
  "EXPERIMENT_COMPATIBILITY_STATUSES = [''unspecified'']"

definition ACTIVE_EXPERIMENT_ATTEMPT_STATUSES :: "string list" where
  "ACTIVE_EXPERIMENT_ATTEMPT_STATUSES = [''planned'', ''submitted'', ''running'']"

text \<open>\<open>node.f in frozenset(...)\<close> of a textual attribute.\<close>

definition attr_in :: "project_node \<Rightarrow> string \<Rightarrow> string list \<Rightarrow> bool" where
  "attr_in n f xs = (case node_attr n f of Some (VStr s) \<Rightarrow> s \<in> set xs | _ \<Rightarrow> False)"

definition reject_live_legacy_new_node :: "node_payload \<Rightarrow> int option \<Rightarrow> report \<Rightarrow> report" where
  "reject_live_legacy_new_node raw rv r = (let node = np_node raw in
     reject_if (is_evidence node \<and> ''legacy_strength'' \<in> set (np_fields_set raw))
       ''live-legacy-evidence-strength'' rv [n_id node] []
     (reject_if (is_experiment node \<and> attr_in node ''status'' EXPERIMENT_COMPATIBILITY_STATUSES)
       ''live-legacy-experiment-phase'' rv [n_id node] [] r))"

text \<open>The report and whether the update authored a legacy phase and a legacy strength.\<close>

definition reject_live_legacy_update ::
  "project_node \<Rightarrow> val dict \<Rightarrow> int option \<Rightarrow> bool \<Rightarrow> report \<Rightarrow> (bool \<times> bool \<times> report) result" where
  "reject_live_legacy_update node changes rv admission r =
     bind_r (if admission \<and> is_experiment node
               then in_frozenset (dict_get changes ''status'') EXPERIMENT_COMPATIBILITY_STATUSES
             else Inr False) (\<lambda>phase.
     (let strength = (admission \<and> is_evidence node \<and> ''legacy_strength'' \<in> set (keys changes))
      in Inr (phase, strength,
           reject_if strength ''live-legacy-evidence-strength'' rv [n_id node] []
           (reject_if phase ''live-legacy-experiment-phase'' rv [n_id node] [] r))))"

definition chooses_decision :: "val dict \<Rightarrow> bool" where
  "chooses_decision changes =
     (dict_get changes ''status'' = Some (VStr ''decided'') \<or> given_not_none changes ''selected_option'')"

definition reject_incomplete_decision_ballot ::
  "project_node option \<Rightarrow> int option \<Rightarrow> report \<Rightarrow> report" where
  "reject_incomplete_decision_ballot node rv r = (case node of
     None \<Rightarrow> r
   | Some n \<Rightarrow>
       reject_if (is_decision n \<and> attr_in n ''status'' DECISION_BALLOT_STATUSES
           \<and> (case node_attr n ''options'' of
                Some (VList options) \<Rightarrow> card (set options) < 2 | _ \<Rightarrow> True))
         ''incomplete-decision-ballot'' rv [n_id n] [] r)"

text \<open>Whether the endpoints of an evidence relation are wrong.\<close>

definition evidence_relation_endpoint_error ::
  "string \<Rightarrow> string option \<Rightarrow> string option \<Rightarrow> bool" where
  "evidence_relation_endpoint_error relation source_type target_type =
     (\<not> (target_type = Some ''hypothesis''
         \<and> (source_type = Some ''evidence''
            \<or> (relation = ''contradicts'' \<and> source_type = Some ''hypothesis''))))"

definition expectation_applies :: "string \<Rightarrow> string option \<Rightarrow> string option \<Rightarrow> bool" where
  "expectation_applies relation source_type target_type =
     (relation \<in> set EXPECTATION_RELATIONS
      \<and> (source_type = None \<or> source_type = Some ''experiment'')
      \<and> (target_type = None \<or> target_type = Some ''evidence''))"

text \<open>The attempts of an Experiment, as the dictionaries they are dumped to.\<close>

definition attempts_of :: "project_node \<Rightarrow> val dict list" where
  "attempts_of n = (case node_attr n ''attempts'' of
     Some (VList vs) \<Rightarrow> map (\<lambda>v. case v of VDict d \<Rightarrow> d | _ \<Rightarrow> []) vs
   | _ \<Rightarrow> [])"

definition attempt_status_in :: "val dict \<Rightarrow> string list \<Rightarrow> bool" where
  "attempt_status_in d xs = (case dict_get d ''status'' of Some (VStr s) \<Rightarrow> s \<in> set xs | _ \<Rightarrow> False)"

definition has_active_experiment_attempt :: "project_node list \<Rightarrow> bool" where
  "has_active_experiment_attempt nodes =
     list_ex (\<lambda>n. is_experiment n
       \<and> list_ex (\<lambda>d. attempt_status_in d ACTIVE_EXPERIMENT_ATTEMPT_STATUSES) (attempts_of n)) nodes"

end
