(* ===== verification/Validation_Context.thy ===== *)
theory Validation_Context
  imports Research_Rules
begin

text \<open>
  What an operation rule judges with (\<open>OpContext\<close> of \<open>core/validation/context.py\<close>), the
  look-ups of \<open>core/validation/ops.py\<close> that see the graph and the patch together, and what a
  branch merge carries from its source (\<open>core/validation/carried.py\<close>). A rule that reports
  takes the context and returns it with the longer report; the sets of the context are lists.
\<close>

section \<open>The context\<close>

record op_context =
  cx_state :: graph_state
  cx_initial_state :: graph_state
  cx_patch :: patch
  cx_writer :: writer
  cx_report :: report
  cx_revision :: "int option"
  cx_project_truth_scope :: "string list"
  cx_repositories :: "string list"
  cx_machines :: "string list option"
  cx_state_repository :: "string option"
  cx_mode :: validation_mode
  cx_experiment_control_node_id :: "string option"
  cx_reference_patch :: "patch option"
  cx_merge_source :: "graph_state option"

text \<open>\<open>ctx.report.reject(...)\<close> and its conditional form.\<close>

definition cx_reject :: "string \<Rightarrow> string list \<Rightarrow> string list \<Rightarrow> op_context \<Rightarrow> op_context" where
  "cx_reject code nodes edges cx =
     cx\<lparr>cx_report := reject code (cx_revision cx) nodes edges (cx_report cx)\<rparr>"

definition cx_reject_if ::
  "bool \<Rightarrow> string \<Rightarrow> string list \<Rightarrow> string list \<Rightarrow> op_context \<Rightarrow> op_context" where
  "cx_reject_if c code nodes edges cx = (if c then cx_reject code nodes edges cx else cx)"

text \<open>A rule on the report alone, and one that may raise, run in the context.\<close>

definition on_report :: "(report \<Rightarrow> report) \<Rightarrow> op_context \<Rightarrow> op_context" where
  "on_report f cx = cx\<lparr>cx_report := f (cx_report cx)\<rparr>"

definition on_report_r :: "(report \<Rightarrow> report result) \<Rightarrow> op_context \<Rightarrow> op_context result" where
  "on_report_r f cx = bind_r (f (cx_report cx)) (\<lambda>r. Inr (cx\<lparr>cx_report := r\<rparr>))"

definition is_human :: "op_context \<Rightarrow> bool" where
  "is_human cx = (w_author (cx_writer cx) = Some Human)"

section \<open>Graph and patch together\<close>

definition context_patches :: "op_context \<Rightarrow> patch list" where
  "context_patches cx =
     cx_patch cx # (case cx_reference_patch cx of None \<Rightarrow> [] | Some p \<Rightarrow> [p])"

definition cx_node_type :: "op_context \<Rightarrow> string \<Rightarrow> string option" where
  "cx_node_type cx node_id = (case dict_get (g_nodes (cx_state cx)) node_id of
     Some n \<Rightarrow> Some (n_type n)
   | None \<Rightarrow> map_option n_type
       (find (\<lambda>n. n_id n = node_id) (concat (map patch_created_nodes (context_patches cx)))))"

text \<open>
  \<open>_edge_in_context\<close>: a new edge is read without its custom relation, so only an edge with a
  base relation is found in a patch.
\<close>

definition edge_in_context :: "op_context \<Rightarrow> string \<Rightarrow> edge option" where
  "edge_in_context cx edge_id = (case dict_get (g_edges (cx_state cx)) edge_id of
     Some e \<Rightarrow> Some e
   | None \<Rightarrow>
       (case find (\<lambda>e. new_edge_id e = edge_id)
               (concat (map (\<lambda>p. concat (map op_new_edges (pa_ops p))) (context_patches cx))) of
          None \<Rightarrow> None
        | Some raw \<Rightarrow>
            (case edge_of_payload empty_ontology 0 (raw\<lparr>ne_id := Some (Some edge_id)\<rparr>) of
               Inl _ \<Rightarrow> None | Inr e \<Rightarrow> Some e)))"

definition cx_created_node_id :: "op_context \<Rightarrow> string \<Rightarrow> bool" where
  "cx_created_node_id cx node_id = list_ex (\<lambda>n. n_id n = node_id) (patch_created_nodes (cx_patch cx))"

definition resolves_proposals :: "patch \<Rightarrow> bool" where
  "resolves_proposals p =
     list_ex (\<lambda>op. case op of ResolveProposalsOperation _ \<Rightarrow> True | _ \<Rightarrow> False) (pa_ops p)"

section \<open>What a branch merge carries\<close>

definition carried_source :: "op_context \<Rightarrow> graph_state option" where
  "carried_source cx =
     (let own = pa_branch_merge (cx_patch cx);
          merge = (case own of
              Some m \<Rightarrow> Some m
            | None \<Rightarrow> Option.bind (cx_reference_patch cx) pa_branch_merge);
          writer = (case cx_reference_patch cx of
              Some p \<Rightarrow> if own = None then p else cx_patch cx
            | None \<Rightarrow> cx_patch cx)
      in if merge = None then None
         else if pa_author writer \<noteq> Some Agent \<or> pa_profile writer \<noteq> Some Orchestrator then None
         else cx_merge_source cx)"

text \<open>
  \<open>_matches\<close>: every given value but the id is the admitted document's, or the default of a
  field the merge resets.
\<close>

definition payload_matches :: "node_adapter \<Rightarrow> val dict \<Rightarrow> val dict \<Rightarrow> val dict \<Rightarrow> bool" where
  "payload_matches A payload document resettable = list_all (\<lambda>(key, v).
     key = ''id''
     \<or> (case dict_get document key of None \<Rightarrow> False | Some w \<Rightarrow> py_eq w (json_val A v))
     \<or> (case dict_get resettable key of None \<Rightarrow> False
        | Some w \<Rightarrow> py_eq (json_val A w) (json_val A v))) payload"

definition node_json :: "node_adapter \<Rightarrow> project_node \<Rightarrow> val dict" where
  "node_json A n = json_dict A (node_model_dump n)"

definition class_fields :: "string \<Rightarrow> field_decl list" where
  "class_fields t = BaseNode @ (case node_class t of None \<Rightarrow> [] | Some own \<Rightarrow> own)"

definition lifecycle_defaults :: "string \<Rightarrow> val dict" where
  "lifecycle_defaults t = List.map_filter (\<lambda>f.
     if fd_name f = ''status'' \<or> fd_name f = lifecycle_field project_type_of t
       then map_option (Pair (fd_name f)) (fd_default f) else None) (class_fields t)"

text \<open>
  An edge payload is compared field by field; an assessment given without one of its optional
  fields differs from the dumped one, which has them all.
\<close>

definition edge_matches :: "new_edge \<Rightarrow> edge \<Rightarrow> bool" where
  "edge_matches raw e =
     (ne_source raw = e_source e \<and> ne_target raw = e_target e \<and> ne_relation raw = e_relation e
      \<and> (''explanation'' \<in> set (ne_fields_set raw) \<longrightarrow> ne_explanation raw = e_explanation e)
      \<and> (''assessment'' \<in> set (ne_fields_set raw) \<longrightarrow> ne_assessment raw = e_assessment e
          \<and> (ne_assessment raw = None
             \<or> {''scope'', ''qualifications''} \<subseteq> set (ne_assessment_fields_set raw)))
      \<and> (''expectation'' \<in> set (ne_fields_set raw) \<longrightarrow> ne_expectation raw = e_expectation e))"

definition carries_edge :: "op_context \<Rightarrow> new_edge \<Rightarrow> bool" where
  "carries_edge cx raw = (case carried_source cx of
     None \<Rightarrow> False
   | Some source \<Rightarrow> (case dict_get (g_edges source) (new_edge_id raw) of
       None \<Rightarrow> False | Some e \<Rightarrow> edge_matches raw e))"

definition carries_new_node :: "node_adapter \<Rightarrow> op_context \<Rightarrow> node_payload \<Rightarrow> bool" where
  "carries_new_node A cx raw = (case carried_source cx of
     None \<Rightarrow> False
   | Some source \<Rightarrow> (case dict_get (g_nodes source) (n_id (np_node raw)) of
       None \<Rightarrow> False
     | Some admitted \<Rightarrow>
         dict_get (dump_exclude_unset raw) ''type'' = Some (VStr (n_type admitted))
         \<and> payload_matches A (dump_exclude_unset raw) (node_json A admitted)
             (lifecycle_defaults (n_type admitted))))"

definition carries_update ::
  "node_adapter \<Rightarrow> op_context \<Rightarrow> string \<Rightarrow> val dict \<Rightarrow> string list \<Rightarrow> bool" where
  "carries_update A cx node_id changes reads =
     (case (Option.bind (carried_source cx) (\<lambda>source. dict_get (g_nodes source) node_id),
            dict_get (g_nodes (cx_state cx)) node_id) of
        (Some admitted, Some node) \<Rightarrow>
          (let current = node_model_dump node;
               judged = List.map_filter (\<lambda>k. map_option (Pair k) (dict_get current k)) reads
           in payload_matches A (dict_update judged changes) (node_json A admitted) [])
      | _ \<Rightarrow> False)"

definition carries_staged_node :: "node_adapter \<Rightarrow> op_context \<Rightarrow> string \<Rightarrow> bool" where
  "carries_staged_node A cx node_id =
     (case (Option.bind (carried_source cx) (\<lambda>source. dict_get (g_nodes source) node_id),
            dict_get (g_nodes (cx_state cx)) node_id) of
        (Some admitted, Some staged) \<Rightarrow>
          (let engine = ''standing'' # graph_fields (class_fields (n_type staged)) (Some Engine) None None;
               shown = (\<lambda>n. VDict (filter (\<lambda>(k, _). k \<notin> set engine) (node_json A n)))
           in n_type admitted = n_type staged \<and> py_eq (shown staged) (shown admitted))
      | _ \<Rightarrow> False)"

end
