(* ===== verification/Text_Rules.thy ===== *)
theory Text_Rules
  imports Prelude
begin

text \<open>
  The text tests of the validation rules: the node slug pattern and the identifier pattern
  (\<open>core/validation/constants.py\<close>), the normal form of authored text
  (\<open>core/validation/nodes.py\<close>) and the similarity ratio of the standard library's
  \<open>difflib.SequenceMatcher\<close>. The two regular expressions are the functions \<open>is_slug\<close> and
  \<open>find_identifiers\<close>. Normal forms leave the 8-bit range, so they are lists of code points.
\<close>

section \<open>Slugs\<close>

definition is_az :: "char \<Rightarrow> bool" where
  "is_az c = (let n = of_char c :: nat in 97 \<le> n \<and> n \<le> 122)"

definition is_digit :: "char \<Rightarrow> bool" where
  "is_digit c = (let n = of_char c :: nat in 48 \<le> n \<and> n \<le> 57)"

definition words_of :: "char \<Rightarrow> string \<Rightarrow> bool" where
  "words_of sep s = list_all (\<lambda>w. w \<noteq> [] \<and> list_all (\<lambda>c. is_az c \<or> is_digit c) w) (split_on sep s)"

text \<open>\<open>^[a-z][a-z0-9]*(?:_[a-z0-9]+)*/[a-z0-9]+(?:-[a-z0-9]+)*$\<close>\<close>

definition is_slug :: "string \<Rightarrow> bool" where
  "is_slug s = (case split_on (CHR ''/'') s of
     [prefix, suffix] \<Rightarrow> prefix \<noteq> [] \<and> is_az (hd prefix) \<and> words_of (CHR ''_'') prefix
       \<and> words_of (CHR ''-'') suffix
   | _ \<Rightarrow> False)"

section \<open>Authored text\<close>

definition nfkc_char :: "char \<Rightarrow> nat list" where
  "nfkc_char c = (let n = of_char c :: nat in
     case map_of [(160, [32]), (168, [32, 776]), (170, [97]), (175, [32, 772]), (178, [50]),
       (179, [51]), (180, [32, 769]), (181, [956]), (184, [32, 807]), (185, [49]), (186, [111]),
       (188, [49, 8260, 52]), (189, [49, 8260, 50]), (190, [51, 8260, 52])] n of
       None \<Rightarrow> [n] | Some ps \<Rightarrow> ps)"

definition casefold_point :: "nat \<Rightarrow> nat list" where
  "casefold_point n =
     (if (65 \<le> n \<and> n \<le> 90) \<or> (192 \<le> n \<and> n \<le> 222 \<and> n \<noteq> 215) then [n + 32]
      else if n = 223 then [115, 115] else [n])"

definition is_space_point :: "nat \<Rightarrow> bool" where
  "is_space_point n = ((9 \<le> n \<and> n \<le> 13) \<or> (28 \<le> n \<and> n \<le> 32) \<or> n = 133 \<or> n = 160)"

text \<open>\<open>" ".join(points.split())\<close>: drop outer spaces and collapse inner ones.\<close>

fun squeeze :: "bool \<Rightarrow> bool \<Rightarrow> nat list \<Rightarrow> nat list" where
  "squeeze started pending [] = []"
| "squeeze started pending (n # ns) =
     (if is_space_point n then squeeze started started ns
      else (if pending then [32, n] else [n]) @ squeeze True False ns)"

definition normalize_authoring_text :: "string \<Rightarrow> nat list" where
  "normalize_authoring_text s =
     squeeze False False (concat (map casefold_point (concat (map nfkc_char s))))"

text \<open>\<open>needle in haystack\<close>\<close>

fun contains :: "'a list \<Rightarrow> 'a list \<Rightarrow> bool" where
  "contains needle [] = (needle = [])"
| "contains needle (x # xs) = (take (length needle) (x # xs) = needle \<or> contains needle xs)"

section \<open>Identifiers in prose\<close>

definition is_word_char :: "char \<Rightarrow> bool" where
  "is_word_char c = (let n = of_char c :: nat in
     (48 \<le> n \<and> n \<le> 57) \<or> (65 \<le> n \<and> n \<le> 90) \<or> n = 95 \<or> (97 \<le> n \<and> n \<le> 122)
     \<or> n \<in> {170, 178, 179, 181, 185, 186, 188, 189, 190}
     \<or> (192 \<le> n \<and> n \<noteq> 215 \<and> n \<noteq> 247))"

definition ends_word :: "string \<Rightarrow> bool" where
  "ends_word rest = (rest = [] \<or> \<not> is_word_char (hd rest))"

text \<open>Is there a word boundary in \<open>run @ rest\<close> after the first \<open>e\<close> characters?\<close>

definition boundary_at :: "string \<Rightarrow> nat \<Rightarrow> bool" where
  "boundary_at text e =
     (is_word_char (text ! (e - 1)) \<noteq> (e < length text \<and> is_word_char (text ! e)))"

text \<open>
  The length of the match of
  \<open>\b(?:[a-z]+_[a-z0-9_]+|[a-z]+-[a-z0-9-]*\d[a-z0-9-]*)\b\<close> at the start of the text, whose
  left neighbour is not a word character.
\<close>

definition identifier_length :: "string \<Rightarrow> nat option" where
  "identifier_length s =
     (let letters = takeWhile is_az s; n = length letters in
      if n = 0 then None
      else (case drop n s of
          [] \<Rightarrow> None
        | c # after \<Rightarrow>
            if c = CHR ''_'' then
              (let run = takeWhile (\<lambda>c. is_az c \<or> is_digit c \<or> c = CHR ''_'') after
               in if run \<noteq> [] \<and> ends_word (drop (length run) after) then Some (n + 1 + length run)
                  else None)
            else if c = CHR ''-'' then
              (let run = takeWhile (\<lambda>c. is_az c \<or> is_digit c \<or> c = CHR ''-'') after;
                   ends = filter (\<lambda>e. list_ex is_digit (take e run) \<and> boundary_at after e)
                     [1..<length run + 1]
               in if ends = [] then None else Some (n + 1 + last ends))
            else None))"

function find_identifiers :: "bool \<Rightarrow> string \<Rightarrow> string list" where
  "find_identifiers in_word [] = []"
| "find_identifiers in_word (c # cs) =
     (case (if in_word then None else identifier_length (c # cs)) of
        None \<Rightarrow> find_identifiers (is_word_char c) cs
      | Some n \<Rightarrow> take n (c # cs)
          # find_identifiers (is_word_char ((c # cs) ! (n - 1))) (drop (n - 1) cs))"
  by pat_completeness auto

termination
  by (relation "measure (\<lambda>(_, s). length s)") auto

section \<open>Similarity\<close>

text \<open>Length of the common prefix whose characters satisfy \<open>ok\<close>.\<close>

fun common_prefix :: "(char \<Rightarrow> bool) \<Rightarrow> string \<Rightarrow> string \<Rightarrow> nat" where
  "common_prefix ok (x # xs) (y # ys) = (if x = y \<and> ok x then Suc (common_prefix ok xs ys) else 0)"
| "common_prefix ok _ _ = 0"

text \<open>
  \<open>find_longest_match\<close>: the first longest common block of characters that are not popular,
  extended in both directions by equal characters.
\<close>

definition longest_match :: "(char \<Rightarrow> bool) \<Rightarrow> string \<Rightarrow> string \<Rightarrow> nat \<times> nat \<times> nat" where
  "longest_match ok a b =
     (let (i, j, k) = fold (\<lambda>(i, j) (bi, bj, bk).
            let k = common_prefix ok (drop i a) (drop j b) in if k > bk then (i, j, k) else (bi, bj, bk))
            (List.product [0..<length a] [0..<length b]) (0, 0, 0);
          back = common_prefix (\<lambda>_. True) (rev (take i a)) (rev (take j b));
          forth = common_prefix (\<lambda>_. True) (drop (i + k) a) (drop (j + k) b)
      in (i - back, j - back, back + k + forth))"

lemma common_prefix_le: "common_prefix ok xs ys \<le> length xs"
  by (induction ok xs ys rule: common_prefix.induct) auto

lemma longest_match_start: "longest_match ok a b = (i, j, k) \<Longrightarrow> k > 0 \<Longrightarrow> i < length a"
proof -
  assume match: "longest_match ok a b = (i, j, k)" and pos: "k > 0"
  define pick where "pick = (\<lambda>(i, j) (bi, bj, bk).
    let k = common_prefix ok (drop i a) (drop j b) in if k > bk then (i, j, k) else (bi, bj, bk))"
  have inv: "fst (fold pick ps (bi, bj, bk)) \<le> length a
      \<and> (snd (snd (fold pick ps (bi, bj, bk))) > 0 \<longrightarrow> fst (fold pick ps (bi, bj, bk)) < length a)"
    if "set ps \<subseteq> {0..<length a} \<times> UNIV" "bi \<le> length a" "bk > 0 \<longrightarrow> bi < length a" for ps bi bj bk
    using that by (induction ps arbitrary: bi bj bk) (auto simp: pick_def Let_def)
  obtain bi bj bk where best:
    "fold pick (List.product [0..<length a] [0..<length b]) (0, 0, 0) = (bi, bj, bk)"
    by (cases "fold pick (List.product [0..<length a] [0..<length b]) (0, 0, 0)") auto
  have "bi \<le> length a \<and> (bk > 0 \<longrightarrow> bi < length a)"
    using inv [of "List.product [0..<length a] [0..<length b]" 0 0 0] best by auto
  moreover have "i = bi - common_prefix (\<lambda>_. True) (rev (take bi a)) (rev (take bj b))"
    and "k = common_prefix (\<lambda>_. True) (rev (take bi a)) (rev (take bj b)) + bk
      + common_prefix (\<lambda>_. True) (drop (bi + bk) a) (drop (bj + bk) b)"
    using match best by (auto simp: longest_match_def pick_def Let_def split: prod.splits)
  moreover have "common_prefix (\<lambda>_. True) (rev (take bi a)) (rev (take bj b)) \<le> bi"
    using common_prefix_le [of "\<lambda>_. True" "rev (take bi a)" "rev (take bj b)"] by simp
  moreover have "common_prefix (\<lambda>_. True) (drop (bi + bk) a) (drop (bj + bk) b) \<le> length a - (bi + bk)"
    using common_prefix_le [of "\<lambda>_. True" "drop (bi + bk) a" "drop (bj + bk) b"] by simp
  ultimately show ?thesis using pos by linarith
qed

text \<open>\<open>sum(block.size for block in get_matching_blocks())\<close>\<close>

function matched_chars :: "(char \<Rightarrow> bool) \<Rightarrow> string \<Rightarrow> string \<Rightarrow> nat" where
  "matched_chars ok a b = (case longest_match ok a b of
     (i, j, k) \<Rightarrow> if k = 0 then 0
       else matched_chars ok (take i a) (take j b) + k
            + matched_chars ok (drop (i + k) a) (drop (j + k) b))"
  by pat_completeness auto

termination
  by (relation "measure (\<lambda>(_, a, _). length a)") (auto dest!: longest_match_start [OF sym])

text \<open>The popular characters of a second text of 200 characters or more are no anchors.\<close>

definition is_anchor :: "string \<Rightarrow> char \<Rightarrow> bool" where
  "is_anchor b c = (length b < 200 \<or> count_list b c \<le> length b div 100 + 1)"

text \<open>\<open>SequenceMatcher(None, a, b).ratio() >= 0.78\<close>\<close>

definition similar :: "string \<Rightarrow> string \<Rightarrow> bool" where
  "similar a b =
     (length a + length b = 0
      \<or> 200 * matched_chars (is_anchor b) a b \<ge> 78 * (length a + length b))"

end
