(* ===== verification/Graph_Quality.thy ===== *)
theory Graph_Quality
  imports Research_Rules Text_Rules "HOL-Library.Product_Lexorder"
begin

text \<open>
  Judgments about a whole graph: edges whose evidence moved after they were judged
  (\<open>core/validation/outcome_edges.py\<close>) and the advice about issues a patch introduced
  (\<open>core/validation/quality.py\<close>).
\<close>

section \<open>Evidence edges\<close>

definition is_current_evidence :: "graph_state \<Rightarrow> string \<Rightarrow> bool" where
  "is_current_evidence st node_id = (case dict_get (g_nodes st) node_id of
     None \<Rightarrow> False
   | Some n \<Rightarrow> is_outcome project_type_of (Some (n_type n))
       \<and> node_attr n (lifecycle_field project_type_of (n_type n))
           \<noteq> Some (VStr (pt_retired_value project_type_of)))"

definition edge_is_stale :: "graph_state \<Rightarrow> edge \<Rightarrow> bool" where
  "edge_is_stale st e =
     (e_relation e \<in> set (pt_belief_outcome_relations project_type_of)
      \<and> is_belief project_type_of (node_type_of st (e_target e))
      \<and> is_current_evidence st (e_source e)
      \<and> (case dict_get (g_nodes st) (e_source e) of
           None \<Rightarrow> False | Some n \<Rightarrow> n_updated_rev n > e_created_rev e))"

definition stale_edge_ids :: "graph_state \<Rightarrow> string list" where
  "stale_edge_ids st = sort (map e_id (filter (edge_is_stale st) (map snd (g_edges st))))"

section \<open>Issues a patch introduced\<close>

text \<open>The connected nodes and the evidence an Experiment produced.\<close>

definition connections :: "graph_state \<Rightarrow> string set \<times> string set" where
  "connections st =
     (let live = filter (\<lambda>e. e_source e \<in> set (keys (g_nodes st)) \<and> e_target e \<in> set (keys (g_nodes st)))
            (map snd (g_edges st))
      in (e_source ` set live \<union> e_target ` set live,
          e_target ` set (filter (\<lambda>e. e_relation e = ''produces''
            \<and> node_type_of st (e_source e) = Some ''experiment''
            \<and> node_type_of st (e_target e) = Some ''evidence'') live)))"

definition is_internal_run :: "project_node \<Rightarrow> bool" where
  "is_internal_run n = (is_evidence n \<and> node_attr n ''origin'' = Some (VStr ''internal_run''))"

definition flag_node_issues ::
  "graph_state \<Rightarrow> graph_state \<Rightarrow> int option \<Rightarrow> string \<times> project_node \<Rightarrow> report \<Rightarrow> report" where
  "flag_node_issues initial candidate rv = (\<lambda>(node_id, node) r.
     (let previous = dict_get (g_nodes initial) node_id;
          (previous_connected, previous_produced) = connections initial;
          (connected, produced) = connections candidate;
          r1 = (if is_internal_run node \<and> node_id \<notin> produced
                   \<and> \<not> (case previous of None \<Rightarrow> False
                        | Some n \<Rightarrow> is_internal_run n \<and> node_id \<notin> previous_produced)
                then flag ''internal-evidence-without-experiment'' rv [node_id] [] r else r)
      in if node_id \<notin> connected \<and> (previous = None \<or> node_id \<in> previous_connected)
           then flag ''isolated-node'' rv [node_id] [] r1 else r1))"

definition title_key :: "project_node \<Rightarrow> string \<times> nat list" where
  "title_key n = (n_type n, normalize_authoring_text (n_title n))"

text \<open>Groups of node ids by type and normalised title, in the order of the keys.\<close>

definition title_groups :: "graph_state \<Rightarrow> ((string \<times> nat list) \<times> string list) list" where
  "title_groups candidate =
     (let titled = filter (\<lambda>(_, n). snd (title_key n) \<noteq> []) (sort_key fst (g_nodes candidate))
      in map (\<lambda>k. (k, map fst (filter (\<lambda>(_, n). title_key n = k) titled)))
           (sorted_set (map (title_key \<circ> snd) titled)))"

definition flag_title_group ::
  "graph_state \<Rightarrow> int option \<Rightarrow> (string \<times> nat list) \<times> string list \<Rightarrow> report \<Rightarrow> report" where
  "flag_title_group initial rv = (\<lambda>(key, node_ids) r.
     (let previous = map (dict_get (g_nodes initial)) node_ids;
          previous_titles = remdups (map title_key (List.map_filter id previous))
      in if length node_ids < 2 then r
         else if list_all (\<lambda>n. n \<noteq> None) previous \<and> length previous_titles = 1
             \<and> snd (hd previous_titles) \<noteq> [] then r
         else flag ''identical-node-title'' rv node_ids [] r))"

definition flag_introduced_quality_issues ::
  "graph_state \<Rightarrow> graph_state \<Rightarrow> int option \<Rightarrow> report \<Rightarrow> report" where
  "flag_introduced_quality_issues initial candidate rv r =
     (if rejected r then r
      else fold (flag_title_group initial rv) (title_groups candidate)
        (fold (flag_node_issues initial candidate rv) (sort_key fst (g_nodes candidate)) r))"

end
