(* ===== verification/Validation_Nodes.thy ===== *)
theory Validation_Nodes
  imports Validation_Context Graph_Quality
begin

text \<open>
  The rules about one node payload (\<open>core/validation/nodes.py\<close>): the structure and the
  authoring of a new node, the grounded scope of a hypothesis, source references, and the
  updates that need a Proposal. A rule that iterates over a value that is no list raises.
\<close>

definition NODE_PREFIXES :: "string dict" where
  "NODE_PREFIXES = [(''research_question'', ''rq''), (''hypothesis'', ''hyp''), (''decision'', ''dec''),
     (''experiment'', ''exp''), (''evidence'', ''ev''), (''blocker'', ''blk'')]"

text \<open>\<open>extension_type or NODE_PREFIXES.get(type)\<close>\<close>

definition expected_prefix :: "val dict \<Rightarrow> string option" where
  "expected_prefix raw = (case val_str (dict_get raw ''extension_type'') of
     Some (c # cs) \<Rightarrow> Some (c # cs)
   | _ \<Rightarrow> Option.bind (val_str (dict_get raw ''type'')) (dict_get NODE_PREFIXES))"

definition raw_id :: "val dict \<Rightarrow> string" where
  "raw_id raw = (case dict_get raw ''id'' of Some (VStr s) \<Rightarrow> s | _ \<Rightarrow> [])"

definition validate_new_node ::
  "node_adapter \<Rightarrow> graph_state \<Rightarrow> int option \<Rightarrow> writer \<Rightarrow> val dict \<Rightarrow> report \<Rightarrow> report" where
  "validate_new_node A st rv writer raw r =
     (let node_id = raw_id raw;
          r1 = reject_if (node_id \<in> set (keys (g_nodes st))) ''duplicate-node-id'' rv [] [] r;
          r2 = reject_if (\<not> is_slug node_id) ''malformed-slug'' rv [] [] r1;
          r3 = reject_if (case expected_prefix raw of
                   None \<Rightarrow> False | Some x \<Rightarrow> \<not> startswith node_id (x @ ''/''))
                 ''wrong-slug-prefix'' rv [] [] r2;
          r4 = reject_if (get_default raw ''standing'' (VStr ''asserted'') \<noteq> VStr ''asserted''
                   \<and> w_author writer \<noteq> Some Human)
                 ''agent-created-trusted-node'' rv [] [] r3;
          r5 = reject_if (case ad_validate A raw of Inl _ \<Rightarrow> True | Inr _ \<Rightarrow> False)
                 ''invalid-node'' rv [] [] r4
      in validate_new_node_extensions st raw rv False False r5)"

definition validate_grounded_scope :: "val dict \<Rightarrow> int option \<Rightarrow> report \<Rightarrow> report result" where
  "validate_grounded_scope raw rv r =
     bind_r (py_iter (get_default raw ''source_refs'' (VList []))) (\<lambda>items.
     (let scope = normalize_authoring_text (py_str (get_default raw ''scope'' (VStr [])));
          excerpts = List.map_filter (\<lambda>item. case item of
              VDict d \<Rightarrow> Some (normalize_authoring_text (py_str (get_default d ''excerpt'' (VStr []))))
            | _ \<Rightarrow> None) items
      in Inr (reject_if (scope \<noteq> [] \<and> \<not> list_ex (contains scope) excerpts)
           ''ungrounded-hypothesis-scope'' rv [raw_id raw] [] r)))"

text \<open>The rules about the status and choice a new Decision starts with.\<close>

definition new_decision_refusal :: "val dict \<Rightarrow> string option" where
  "new_decision_refusal raw =
     (let status = get_default raw ''status'' (VStr ''open'') in
      if status = VStr ''revisit'' then Some ''incoherent-decision-creation''
      else if given_not_none raw ''selected_option'' \<or> status = VStr ''decided''
        then Some ''agent-created-decision-action''
      else if status \<noteq> VStr ''open'' \<and> status \<noteq> VStr ''ready''
        then Some ''agent-created-decision-action''
      else None)"

definition slug_prefix :: "string \<Rightarrow> string" where
  "slug_prefix s = (if CHR ''/'' \<in> set s then takeWhile (\<lambda>c. c \<noteq> CHR ''/'') s else [])"

definition slug_suffix :: "string \<Rightarrow> string" where
  "slug_suffix s = (if CHR ''/'' \<in> set s then tl (dropWhile (\<lambda>c. c \<noteq> CHR ''/'') s) else s)"

text \<open>
  The search for a possible duplicate stops at the first one; an existing id without a slash
  does not unpack.
\<close>

fun flag_possible_duplicate :: "string \<Rightarrow> int option \<Rightarrow> string list \<Rightarrow> report \<Rightarrow> report result" where
  "flag_possible_duplicate node_id rv [] r = Inr r"
| "flag_possible_duplicate node_id rv (existing # rest) r =
     (if CHR ''/'' \<notin> set existing then Inl (ValueError ''not enough values to unpack'')
      else if slug_prefix node_id = slug_prefix existing
          \<and> similar (slug_suffix node_id) (slug_suffix existing)
        then Inr (flag ''possible-duplicate'' rv [] [] r)
      else flag_possible_duplicate node_id rv rest r)"

definition validate_new_node_authoring ::
  "graph_state \<Rightarrow> int option \<Rightarrow> writer \<Rightarrow> bool \<Rightarrow> val dict \<Rightarrow> report \<Rightarrow> report result" where
  "validate_new_node_authoring st rv writer carried raw r =
     (let node_id = raw_id raw;
          node_type = dict_get raw ''type'';
          agent = (w_author writer = Some Agent);
          r1 = validate_new_node_extensions st raw rv True agent r;
          r2 = reject_if (\<not> carried \<and> node_type = Some (VStr ''evidence'')
                   \<and> ''origin'' \<notin> set (keys raw)) ''missing-evidence-origin'' rv [node_id] [] r1
      in bind_r (if \<not> carried \<and> node_type = Some (VStr ''hypothesis'') \<and> truthy_get raw ''scope''
                   then validate_grounded_scope raw rv r2 else Inr r2) (\<lambda>r3.
         (let r4 = reject_if (agent \<and> node_type = Some (VStr ''hypothesis'')
                     \<and> get_default raw ''status'' (VStr ''proposed'') \<noteq> VStr ''proposed'')
                    ''agent-created-belief-transition'' rv [node_id] [] r3;
              r5 = (case (if node_type = Some (VStr ''decision'') then new_decision_refusal raw
                          else None) of
                      None \<Rightarrow> r4 | Some code \<Rightarrow> reject code rv [node_id] [] r4)
          in flag_possible_duplicate node_id rv (keys (g_nodes st)) r5)))"

definition validate_updated_node_authoring ::
  "project_node \<Rightarrow> val dict \<Rightarrow> int option \<Rightarrow> report \<Rightarrow> report result" where
  "validate_updated_node_authoring node changes rv r =
     (if \<not> is_hypothesis node \<or> \<not> truthy_get changes ''scope'' then Inr r
      else validate_grounded_scope (dict_update (node_model_dump node) changes) rv r)"

definition validate_extension_update ::
  "graph_state \<Rightarrow> int option \<Rightarrow> project_node \<Rightarrow> val dict \<Rightarrow> bool \<Rightarrow> writer \<Rightarrow> report \<Rightarrow> report" where
  "validate_extension_update st rv node changes authoring writer r =
     validate_updated_extension_fields st node changes rv authoring
       (w_author writer = Some Agent) r"

definition requires_proposal :: "project_node \<Rightarrow> val dict \<Rightarrow> bool" where
  "requires_proposal node changes =
     ((is_hypothesis node \<and> ''status'' \<in> set (keys changes)
        \<and> dict_get changes ''status'' \<noteq> node_attr node ''status'')
      \<or> (is_decision node \<and> (''selected_option'' \<in> set (keys changes)
        \<or> dict_get changes ''status'' = Some (VStr ''decided''))))"

definition check_source_item ::
  "node_adapter \<Rightarrow> int option \<Rightarrow> writer \<Rightarrow> string list \<Rightarrow> val \<Rightarrow> report \<Rightarrow> report" where
  "check_source_item A rv writer readable item r = (case ad_source_ref A item of
     Inl _ \<Rightarrow> reject ''invalid-source-ref'' rv [] [] r
   | Inr repository \<Rightarrow>
       reject_if (w_author writer \<noteq> Some Human \<and> repository \<notin> set readable)
         ''source-outside-run-scope'' rv [] [] r)"

definition validate_source_refs ::
  "node_adapter \<Rightarrow> int option \<Rightarrow> writer \<Rightarrow> string list \<Rightarrow> val \<Rightarrow> report \<Rightarrow> report result" where
  "validate_source_refs A rv writer readable source_refs r =
     bind_r (py_iter source_refs) (\<lambda>items. Inr (fold (check_source_item A rv writer readable) items r))"

end
