(* ===== verification/Experiment_Control.thy ===== *)
theory Experiment_Control
  imports Graph_Quality
begin

text \<open>
  The graph facts that gate an Experiment (\<open>control.py\<close>) and the rule that marks its guidance
  stale when they change (\<open>core/experiment_guidance.py\<close>). A gate reason is the fact its prose
  states. The dependency signature is the record of the facts the source dumps; two signatures
  are equal when the dumps are. The run-time control state of a loop is in
  \<open>Experiment_Runtime\<close>; the browser's trigger manifest is not modelled.
\<close>

section \<open>Graph control\<close>

definition experiment_node :: "graph_state \<Rightarrow> string option \<Rightarrow> project_node option" where
  "experiment_node st node_id = (case Option.bind node_id (dict_get (g_nodes st)) of
     Some n \<Rightarrow> if is_experiment n then Some n else None | None \<Rightarrow> None)"

definition related_targets :: "graph_state \<Rightarrow> string \<Rightarrow> string \<Rightarrow> string list" where
  "related_targets st source_id relation =
     sorted_set (map e_target (filter (\<lambda>e. e_source e = source_id \<and> e_relation e = relation)
       (map snd (g_edges st))))"

fun op_target_ids :: "proposal_operation \<Rightarrow> string list" where
  "op_target_ids (ProposalContentChangeOperation _ us) = map nu_id us"
| "op_target_ids (ProposalStatusChangeOperation _ us) = map nu_id us"
| "op_target_ids (ProposalSupersedeOperation _ ss) = concat (map (\<lambda>i. sn_id i #
     (case sn_superseded_by i of None \<Rightarrow> [] | Some t \<Rightarrow> [t])) ss)"
| "op_target_ids (ProposalMergeOperation _ ms) = concat (map (\<lambda>i. [nm_duplicate i, nm_canonical i]) ms)"
| "op_target_ids _ = []"

definition has_pending_proposal :: "graph_state \<Rightarrow> string \<Rightarrow> bool" where
  "has_pending_proposal st decision_id = list_ex (\<lambda>q. p_status q = Pending
     \<and> list_ex (\<lambda>op. decision_id \<in> set (op_target_ids op)) (p_ops q)) (map snd (g_proposals st))"

definition node_of_type :: "graph_state \<Rightarrow> string \<Rightarrow> string \<Rightarrow> project_node option" where
  "node_of_type st t node_id = (case dict_get (g_nodes st) node_id of
     Some n \<Rightarrow> if n_type n = t then Some n else None | None \<Rightarrow> None)"

text \<open>\<open>decision.status == "decided"\<close> and \<open>bool(decision.selected_option)\<close>\<close>

definition is_decided :: "project_node \<Rightarrow> bool" where
  "is_decided n = (node_attr n ''status'' = Some (VStr ''decided''))"

definition has_selection :: "project_node \<Rightarrow> bool" where
  "has_selection n = (case node_attr n ''selected_option'' of None \<Rightarrow> False | Some v \<Rightarrow> truthy_val v)"

definition decision_drift ::
  "graph_state \<Rightarrow> experiment_decision_pin list \<Rightarrow>
   (experiment_decision_pin \<times> val option \<times> val option) list" where
  "decision_drift st pins = List.map_filter (\<lambda>pin.
     case node_of_type st ''decision'' (dp_decision_id pin) of
       None \<Rightarrow> Some (pin, None, None)
     | Some d \<Rightarrow>
         if \<not> is_decided d \<or> node_attr d ''selected_option'' \<noteq> Some (VStr (dp_selected_option pin))
            \<or> n_updated_rev d \<noteq> dp_decision_revision pin
           then Some (pin, node_attr d ''selected_option'', node_attr d ''status'') else None) pins"

definition governing_decision_bundle ::
  "graph_state \<Rightarrow> string \<Rightarrow> experiment_decision_pin list" where
  "governing_decision_bundle st experiment_id = List.map_filter (\<lambda>decision_id.
     case node_of_type st ''decision'' decision_id of
       None \<Rightarrow> None
     | Some d \<Rightarrow> (case node_attr d ''selected_option'' of
           Some (VStr (c # cs)) \<Rightarrow>
             if is_decided d then Some \<lparr>dp_decision_id = n_id d,
               dp_decision_revision = n_updated_rev d, dp_selected_option = c # cs\<rparr> else None
         | _ \<Rightarrow> None))
     (related_targets st experiment_id ''governed_by'')"

datatype gate_reason =
    Decision_missing string
  | Decision_undecided string
  | Decision_proposed string
  | Blocker_missing string
  | Blocker_open string

definition decision_reasons :: "graph_state \<Rightarrow> string \<Rightarrow> gate_reason list" where
  "decision_reasons st decision_id =
     (case node_of_type st ''decision'' decision_id of
        None \<Rightarrow> [Decision_missing decision_id]
      | Some d \<Rightarrow> if \<not> is_decided d \<or> \<not> has_selection d then [Decision_undecided decision_id] else [])
     @ (if has_pending_proposal st decision_id then [Decision_proposed decision_id] else [])"

definition blocker_reasons :: "graph_state \<Rightarrow> string \<Rightarrow> gate_reason list" where
  "blocker_reasons st blocker_id = (case node_of_type st ''blocker'' blocker_id of
     None \<Rightarrow> [Blocker_missing blocker_id]
   | Some b \<Rightarrow> if node_attr b ''status'' = Some (VStr ''open'') then [Blocker_open blocker_id] else [])"

definition experiment_graph_precondition_reasons ::
  "graph_state \<Rightarrow> string \<Rightarrow> gate_reason list result" where
  "experiment_graph_precondition_reasons st experiment_id =
     (if node_type_of st experiment_id \<noteq> Some ''experiment'' then Inl (ValueError ''not an Experiment'')
      else Inr (concat (map (decision_reasons st) (related_targets st experiment_id ''governed_by''))
             @ concat (map (blocker_reasons st) (related_targets st experiment_id ''blocked_by''))))"

record governing_decision_dependency =
  gd_decision_id :: string
  gd_status :: "val option"
  gd_selected_option :: "val option"
  gd_pending_proposal :: bool

record control_dependencies =
  cd_gate_reasons :: "gate_reason list"
  cd_governing_decisions :: "governing_decision_dependency list"
  cd_blockers :: "(string \<times> val option) list"

definition experiment_control_dependencies ::
  "graph_state \<Rightarrow> string \<Rightarrow> control_dependencies result" where
  "experiment_control_dependencies st experiment_id =
     bind_r (experiment_graph_precondition_reasons st experiment_id) (\<lambda>reasons. Inr \<lparr>
       cd_gate_reasons = reasons,
       cd_governing_decisions = map (\<lambda>i.
         (let d = node_of_type st ''decision'' i in \<lparr>gd_decision_id = i,
            gd_status = Option.bind d (\<lambda>n. node_attr n ''status''),
            gd_selected_option = Option.bind d (\<lambda>n. node_attr n ''selected_option''),
            gd_pending_proposal = has_pending_proposal st i\<rparr>))
         (related_targets st experiment_id ''governed_by''),
       cd_blockers = map (\<lambda>i.
         (i, Option.bind (node_of_type st ''blocker'' i) (\<lambda>n. node_attr n ''status'')))
         (related_targets st experiment_id ''blocked_by'')\<rparr>)"

section \<open>The guidance-validity rule\<close>

definition GUIDANCE_RULE_ID :: string where
  "GUIDANCE_RULE_ID = ''experiment.guidance-validity.v2''"

definition GUIDANCE_RULE_IDS :: "string list" where
  "GUIDANCE_RULE_IDS = [''experiment.guidance-validity.v1'', GUIDANCE_RULE_ID]"

record belief_assessment =
  ba_edge_id :: string
  ba_source :: string
  ba_target :: string
  ba_relation :: string
  ba_assessment :: "evidence_assessment option"
  ba_lifecycle :: "val option"

record dependency_signature =
  sg_control :: "control_dependencies result"
  sg_tests :: "(string \<times> string) list"
  sg_assessments :: "belief_assessment list"

definition tests_relations :: "graph_state \<Rightarrow> string \<Rightarrow> (string \<times> string) list" where
  "tests_relations st experiment_id = sorted_set (map (\<lambda>e. (e_id e, e_target e))
     (filter (\<lambda>e. e_source e = experiment_id \<and> e_relation e = ''tests'') (map snd (g_edges st))))"

definition assessment_of :: "graph_state \<Rightarrow> string list \<Rightarrow> edge \<Rightarrow> belief_assessment option" where
  "assessment_of st hypothesis_ids e =
     (if e_target e \<notin> set hypothesis_ids
         \<or> e_relation e \<notin> set (pt_belief_outcome_relations project_type_of) then None
      else (case node_of_type st ''evidence'' (e_source e) of
          None \<Rightarrow> None
        | Some source \<Rightarrow>
            (let lifecycle = node_attr source (lifecycle_field project_type_of (n_type source)) in
             if lifecycle = Some (VStr (pt_retired_value project_type_of)) then None
             else Some \<lparr>ba_edge_id = e_id e, ba_source = e_source e, ba_target = e_target e,
               ba_relation = e_relation e, ba_assessment = e_assessment e,
               ba_lifecycle = lifecycle\<rparr>)))"

definition experiment_dependency_signature ::
  "graph_state \<Rightarrow> string \<Rightarrow> dependency_signature option" where
  "experiment_dependency_signature st experiment_id =
     (if node_type_of st experiment_id \<noteq> Some ''experiment'' then None
      else
        (let tests = tests_relations st experiment_id in
         Some \<lparr>sg_control = experiment_control_dependencies st experiment_id,
           sg_tests = tests,
           sg_assessments = sort_key ba_edge_id
             (List.map_filter (assessment_of st (map snd tests)) (map snd (g_edges st)))\<rparr>))"

type_synonym timeline = "(int \<times> graph_state \<times> graph_state) list"

definition experiment_ids :: "graph_state \<Rightarrow> string list" where
  "experiment_ids st = sort (map fst (filter (\<lambda>(_, n). is_experiment n) (g_nodes st)))"

text \<open>Creating an Experiment is no dependency change; the first cause of each is kept.\<close>

definition action_change_causes ::
  "int \<times> graph_state \<times> graph_state \<Rightarrow> int dict \<Rightarrow> int dict" where
  "action_change_causes = (\<lambda>(action_index, before, after) causes.
     fold (\<lambda>i causes.
         if node_type_of before i = Some ''experiment''
            \<and> experiment_dependency_signature before i \<noteq> experiment_dependency_signature after i
            \<and> dict_get causes i = None
           then AList.update i action_index causes else causes)
       (experiment_ids after) causes)"

definition dependency_change_causes :: "timeline \<Rightarrow> int dict" where
  "dependency_change_causes steps = fold action_change_causes steps []"

definition GUIDANCE_FIELDS :: "(string \<times> string) list" where
  "GUIDANCE_FIELDS = [(''current_summary'', ''current_summary_stale''),
     (''next_action'', ''next_action_stale'')]"

text \<open>The action that last wrote each guidance field.\<close>

definition explicit_guidance_updates ::
  "graph_operation list \<Rightarrow> ((string \<times> string) \<times> int) list" where
  "explicit_guidance_updates ops = fold (\<lambda>(index, op) updates. case op of
       UpdateNodesOperation us \<Rightarrow> fold (\<lambda>u updates. fold (\<lambda>field updates.
           if field \<in> set (keys (nu_changes u)) then AList.update (nu_id u, field) (int index) updates
           else updates) [''current_summary'', ''next_action''] updates) us updates
     | _ \<Rightarrow> updates) (enumerate 0 ops) []"

text \<open>The stale flag a guidance field should have, with the action that causes it.\<close>

definition desired_staleness ::
  "project_node \<Rightarrow> int option \<Rightarrow> ((string \<times> string) \<times> int) list \<Rightarrow> string \<Rightarrow>
   (string \<times> string) \<Rightarrow> (int \<times> string \<times> bool) option" where
  "desired_staleness n invalidation explicit node_id = (\<lambda>(field, stale_field).
     (let stale = node_attr n stale_field;
          wanted = (case invalidation of
              Some cause \<Rightarrow> Some (cause, case node_attr n field of None \<Rightarrow> False | Some v \<Rightarrow> truthy_val v)
            | None \<Rightarrow> map_option (\<lambda>cause. (cause, False)) (map_of explicit (node_id, field)))
      in case wanted of
           None \<Rightarrow> None
         | Some (cause, desired) \<Rightarrow>
             if stale \<noteq> Some (VBool desired) then Some (cause, stale_field, desired) else None))"

definition guidance_update :: "string \<Rightarrow> (string \<times> bool) list \<Rightarrow> graph_operation" where
  "guidance_update node_id changes = UpdateNodesOperation [\<lparr>nu_id = node_id,
     nu_changes = map (\<lambda>(f, b). (f, VBool b)) changes, nu_cause = None, nu_base_updated_rev = None\<rparr>]"

definition experiment_guidance_actions ::
  "graph_state \<Rightarrow> int dict \<Rightarrow> ((string \<times> string) \<times> int) list \<Rightarrow> string \<Rightarrow>
   (graph_operation \<times> int) list" where
  "experiment_guidance_actions st invalidations explicit node_id =
     (case dict_get (g_nodes st) node_id of
        None \<Rightarrow> []
      | Some n \<Rightarrow>
          (let changes = List.map_filter
                 (desired_staleness n (dict_get invalidations node_id) explicit node_id) GUIDANCE_FIELDS
           in map (\<lambda>cause. (guidance_update node_id
                  (map snd (filter (\<lambda>(c, _). c = cause) changes)), cause))
                (sorted_set (map fst changes))))"

definition guidance_actions ::
  "graph_state \<Rightarrow> int dict \<Rightarrow> ((string \<times> string) \<times> int) list \<Rightarrow> (graph_operation \<times> int) list" where
  "guidance_actions st invalidations explicit =
     concat (map (experiment_guidance_actions st invalidations explicit) (experiment_ids st))"

fun validate_guidance_operation :: "graph_operation \<Rightarrow> unit result" where
  "validate_guidance_operation (UpdateNodesOperation us) =
     (if us = [] then Inl (ValueError ''only non-empty update_nodes'')
      else bind_r (map_r (\<lambda>u.
        if nu_changes u = []
           \<or> \<not> set (keys (nu_changes u)) \<subseteq> {''current_summary_stale'', ''next_action_stale''}
          then Inl (ValueError ''changes a non-system field'')
        else if list_ex (\<lambda>(_, v). case v of VBool _ \<Rightarrow> False | _ \<Rightarrow> True) (nu_changes u)
          then Inl (ValueError ''values must be booleans'')
        else Inr ()) us) (\<lambda>_. Inr ()))"
| "validate_guidance_operation _ = Inl (ValueError ''only non-empty update_nodes'')"

datatype guidance_status = Guidance_empty | Guidance_stale "string option" | Guidance_current

definition guidance_field_validity :: "val option \<Rightarrow> bool \<Rightarrow> string option \<Rightarrow> guidance_status" where
  "guidance_field_validity v stale event_id =
     (if \<not> (case v of None \<Rightarrow> False | Some x \<Rightarrow> truthy_val x) then Guidance_empty
      else if stale then Guidance_stale event_id else Guidance_current)"

end
