(* ===== verification/Transitions.thy ===== *)
theory Transitions
  imports Experiment_Control
begin

text \<open>
  Preparing a graph transition and validating a recorded one (\<open>core/transitions.py\<close>). The
  digests of the source are SHA-256 of a canonical JSON rendering; they are the parameter
  \<open>D\<close> (\<open>digests\<close>), functions of exactly what the source hashes. The reader-facing projection
  that accompanies a prepared transition is represented by the graph it shows.
\<close>

section \<open>Digests\<close>

text \<open>
  The producer provenance that enters the identity of a transition; the cursor dictionary is
  in key order, as both the comparison and the rendering see it.
\<close>

record transition_envelope =
  tv_schema_generation :: int
  tv_kind :: patch_kind
  tv_author :: "actor option"
  tv_producer :: producer
  tv_run_truth_scope :: "string list"
  tv_repositories_read :: "string list"
  tv_run_read_scope :: "string list option"
  tv_processed_cursors :: "string dict"
  tv_source_operation_id :: "string option"
  tv_source_effect_id :: "string option"
  tv_source_effect_sha256 :: "string option"
  tv_experiment_control_node_id :: "string option"
  tv_experiment_decision_bundle :: "experiment_decision_pin list"
  tv_project_identity :: "project_identity option"
  tv_project_home_transfer :: "project_home_transfer option"
  tv_authorized_by :: "authorized_human option"
  tv_profile :: "profile option"
  tv_task_id :: "string option"
  tv_episode_id :: "string option"
  tv_branch_merge :: "branch_merge_provenance option"

definition envelope_of :: "patch \<Rightarrow> transition_envelope" where
  "envelope_of p = \<lparr>tv_schema_generation = pa_schema_generation p, tv_kind = pa_kind p,
     tv_author = pa_author p, tv_producer = pa_producer p,
     tv_run_truth_scope = pa_run_truth_scope p, tv_repositories_read = pa_repositories_read p,
     tv_run_read_scope = pa_run_read_scope p,
     tv_processed_cursors = sort_key fst (pa_processed_cursors p),
     tv_source_operation_id = pa_source_operation_id p, tv_source_effect_id = pa_source_effect_id p,
     tv_source_effect_sha256 = pa_source_effect_sha256 p,
     tv_experiment_control_node_id = pa_experiment_control_node_id p,
     tv_experiment_decision_bundle = pa_experiment_decision_bundle p,
     tv_project_identity = pa_project_identity p,
     tv_project_home_transfer = pa_project_home_transfer p,
     tv_authorized_by = pa_authorized_by p, tv_profile = pa_profile p, tv_task_id = pa_task_id p,
     tv_episode_id = pa_episode_id p, tv_branch_merge = pa_branch_merge p\<rparr>"

datatype event_cause = Cause_action int | Cause_event string

record event_payload =
  ep_ordinal :: nat
  ep_event_type :: transition_event_type
  ep_cause :: event_cause
  ep_node_id :: string
  ep_field :: string
  ep_before :: event_value
  ep_after :: event_value

record digests =
  dg_transition :: "graph_head_ref \<Rightarrow> transition_envelope list \<Rightarrow> transition_initiating_group list \<Rightarrow>
    graph_operation list \<Rightarrow> string \<Rightarrow> transition_generated_action list \<Rightarrow> string"
  dg_operations :: "graph_operation list \<Rightarrow> string"
  dg_event :: "string \<Rightarrow> event_payload \<Rightarrow> string"

definition TRANSITION_RULESET_TAG :: string where
  "TRANSITION_RULESET_TAG = ''rcp.lifecycle.v4''"

definition LIFECYCLE_FIELD_RULESETS :: "string list" where
  "LIFECYCLE_FIELD_RULESETS = [''rcp.lifecycle.v3'', TRANSITION_RULESET_TAG]"

definition DEFAULT_MAX_RULE_FIRINGS :: nat where
  "DEFAULT_MAX_RULE_FIRINGS = 128"

section \<open>Timelines and lifecycle events\<close>

fun apply_steps ::
  "node_adapter \<Rightarrow> nat \<Rightarrow> (patch \<times> graph_operation) list \<Rightarrow> graph_state \<Rightarrow>
   (timeline \<times> graph_state) result" where
  "apply_steps A i [] st = Inr ([], st)"
| "apply_steps A i ((p, op) # actions) st =
     bind_r (apply_valid_operation A st p op) (\<lambda>st1.
     bind_r (apply_steps A (Suc i) actions st1) (\<lambda>(steps, st2).
       Inr ((int i, st, st1) # steps, st2)))"

definition apply_timeline ::
  "node_adapter \<Rightarrow> graph_state \<Rightarrow> (patch \<times> graph_operation) list \<Rightarrow> (timeline \<times> graph_state) result" where
  "apply_timeline A st actions =
     bind_r (apply_steps A 0 actions st) (\<lambda>(steps, st1). case actions of
       [] \<Rightarrow> Inl (ValueError ''no action'')
     | (p, _) # _ \<Rightarrow> Inr (steps, st1\<lparr>g_revision := pa_revision p\<rparr>))"

fun apply_generated_steps ::
  "node_adapter \<Rightarrow> patch \<Rightarrow> (int \<times> graph_operation) list \<Rightarrow> graph_state \<Rightarrow>
   (timeline \<times> graph_state) result" where
  "apply_generated_steps A p [] st = Inr ([], st)"
| "apply_generated_steps A p ((i, op) # rest) st =
     bind_r (apply_transition_generated_operation A st p op) (\<lambda>st1.
     bind_r (apply_generated_steps A p rest st1) (\<lambda>(steps, st2). Inr ((i, st, st1) # steps, st2)))"

fun event_value_of :: "val option \<Rightarrow> event_value" where
  "event_value_of (Some (VStr s)) = EV_str s"
| "event_value_of (Some (VBool b)) = EV_bool b"
| "event_value_of _ = EV_none"

fun event_truthy :: "event_value \<Rightarrow> bool" where
  "event_truthy EV_none = False"
| "event_truthy (EV_str s) = (s \<noteq> [])"
| "event_truthy (EV_bool b) = b"

text \<open>\<open>getattr(nodes.get(node_id), field, None)\<close>\<close>

definition event_field :: "graph_state \<Rightarrow> string \<Rightarrow> string \<Rightarrow> event_value" where
  "event_field st node_id field =
     event_value_of (Option.bind (dict_get (g_nodes st) node_id) (\<lambda>n. node_attr n field))"

type_synonym pending_event =
  "int \<times> string \<times> string \<times> event_value \<times> event_value \<times> transition_event_type"

definition status_field :: "bool \<Rightarrow> graph_state \<Rightarrow> string \<Rightarrow> string" where
  "status_field lifecycle_fields st node_id = (case dict_get (g_nodes st) node_id of
     Some n \<Rightarrow> if lifecycle_fields then lifecycle_field project_type_of (n_type n) else ''status''
   | None \<Rightarrow> ''status'')"

definition status_events :: "bool \<Rightarrow> int \<times> graph_state \<times> graph_state \<Rightarrow> pending_event list" where
  "status_events lifecycle_fields = (\<lambda>(action_index, before, after).
     List.map_filter (\<lambda>node_id.
       (let field = status_field lifecycle_fields after node_id;
            old = event_field before node_id field; new = event_field after node_id field
        in if old = new then None
           else Some (action_index, node_id, field, old, new, Node_status_changed)))
       (sort (filter (\<lambda>i. i \<in> set (keys (g_nodes after))) (keys (g_nodes before)))))"

definition guidance_events ::
  "graph_operation list \<Rightarrow> int \<times> graph_state \<times> graph_state \<Rightarrow> pending_event list" where
  "guidance_events ops = (\<lambda>(operation_index, before, after). case ops ! nat operation_index of
     UpdateNodesOperation us \<Rightarrow> concat (map (\<lambda>u. map (\<lambda>field.
         (let new = event_field after (nu_id u) field
          in (operation_index, nu_id u, field, event_field before (nu_id u) field, new,
              if event_truthy new then Guidance_invalidated else Guidance_refreshed)))
         (sort (keys (nu_changes u)))) us)
   | _ \<Rightarrow> [])"

definition event_of :: "digests \<Rightarrow> string \<Rightarrow> nat \<Rightarrow> pending_event \<Rightarrow> transition_event" where
  "event_of D transition_id ordinal = (\<lambda>(cause, node_id, field, old, new, event_type).
     \<lparr>te_event_id = dg_event D transition_id \<lparr>ep_ordinal = ordinal, ep_event_type = event_type,
        ep_cause = Cause_action cause, ep_node_id = node_id, ep_field = field, ep_before = old,
        ep_after = new\<rparr>,
      te_event_type = event_type,
      te_cause = \<lparr>tc_kind = Action_cause, tc_action_index = Some cause, tc_event_id = None\<rparr>,
      te_node_id = node_id, te_field = field, te_before = old, te_after = new\<rparr>)"

definition lifecycle_events ::
  "digests \<Rightarrow> string \<Rightarrow> timeline \<Rightarrow> timeline \<Rightarrow> graph_operation list \<Rightarrow> string \<Rightarrow>
   transition_event list" where
  "lifecycle_events D transition_id initiating generated ops ruleset_tag =
     (let pending =
        concat (map (status_events (ruleset_tag \<in> set LIFECYCLE_FIELD_RULESETS)) initiating)
        @ concat (map (guidance_events ops) generated)
      in map (\<lambda>(ordinal, e). event_of D transition_id ordinal e) (enumerate 0 pending))"

section \<open>Preparing a transition\<close>

fun initiating_groups :: "nat \<Rightarrow> nat \<Rightarrow> patch list \<Rightarrow> transition_initiating_group list" where
  "initiating_groups i offset [] = []"
| "initiating_groups i offset (p # ps) =
     \<lparr>ig_group_id = ''group-'' @ int_text (int i + 1),
      ig_operation_indexes = map int [offset..<offset + length (pa_ops p)],
      ig_summary = pa_summary p, ig_change_summary = pa_change_summary p,
      ig_human_action = pa_human_action p, ig_agent_action = pa_agent_action p\<rparr>
     # initiating_groups (Suc i) (offset + length (pa_ops p)) ps"

definition source_actions :: "patch list \<Rightarrow> (patch \<times> graph_operation) list" where
  "source_actions ps = concat (map (\<lambda>p. map (Pair p) (pa_ops p)) ps)"

text \<open>\<open>_stable_union\<close>: every value once, at its first position.\<close>

definition stable_union :: "string list list \<Rightarrow> string list" where
  "stable_union xss = rev (remdups (rev (concat xss)))"

definition add_cursor :: "string \<times> string \<Rightarrow> string dict \<Rightarrow> string dict result" where
  "add_cursor = (\<lambda>(key, v) cursors.
     if dict_get cursors key \<noteq> None \<and> dict_get cursors key \<noteq> Some v
       then Inl (ValueError ''conflicting processed cursor'')
     else Inr (AList.update key v cursors))"

definition combined_patch ::
  "patch list \<Rightarrow> graph_operation list \<Rightarrow> transition_trace \<Rightarrow> patch result" where
  "combined_patch ps ops trace =
     bind_r (fold_r add_cursor (concat (map pa_processed_cursors ps)) []) (\<lambda>cursors.
     Inr ((hd ps)\<lparr>
       pa_summary := (if length ps = 1 then pa_summary (hd ps)
         else ''Human Sync: '' @ join_with ''; '' (map pa_summary ps)),
       pa_ops := ops,
       pa_run_truth_scope := stable_union (map pa_run_truth_scope ps),
       pa_repositories_read := stable_union (map pa_repositories_read ps),
       pa_processed_cursors := cursors,
       pa_change_summary := concat (map pa_change_summary ps),
       pa_human_action := None, pa_agent_action := None, pa_admission := Accepted,
       pa_admission_messages := [], pa_transition := Some trace\<rparr>))"

definition transition_id ::
  "digests \<Rightarrow> graph_head_ref \<Rightarrow> patch list \<Rightarrow> transition_initiating_group list \<Rightarrow>
   graph_operation list \<Rightarrow> string \<Rightarrow> transition_generated_action list \<Rightarrow> string" where
  "transition_id D pre_head ps groups ops ruleset_tag generated =
     dg_transition D pre_head (map envelope_of ps) groups ops ruleset_tag generated"

definition generated_action :: "int \<times> int \<Rightarrow> transition_generated_action" where
  "generated_action = (\<lambda>(operation_index, cause_index). \<lparr>ga_operation_index = operation_index,
     ga_rule_id = GUIDANCE_RULE_ID,
     ga_cause = \<lparr>tc_kind = Action_cause, tc_action_index = Some cause_index, tc_event_id = None\<rparr>\<rparr>)"

text \<open>
  The checks that precede any staging. A conflict (\<open>TransitionConflict\<close>) is a kind of
  \<open>ValueError\<close>.
\<close>

definition initiating_error :: "graph_state \<Rightarrow> patch list \<Rightarrow> graph_head_ref \<Rightarrow> string option" where
  "initiating_error st ps head =
     (if ps = [] then Some ''a graph transition requires at least one initiating patch''
      else if pa_revision (hd ps) \<le> g_revision st
          \<or> list_ex (\<lambda>p. pa_revision p \<noteq> pa_revision (hd ps)) ps
        then Some ''all initiating patches must share the next canonical revision''
      else if list_ex (\<lambda>p. pa_transition p \<noteq> None) ps
        then Some ''initiating patches cannot contain a committed transition trace''
      else if list_ex (\<lambda>p. envelope_of p \<noteq> envelope_of (hd ps)) ps
        then Some ''initiating patches in one transition must share producer provenance''
      else if gh_revision head \<noteq> g_revision st
        then Some ''transition pre-head does not match the supplied graph state''
      else if list_ex (\<lambda>p. pa_ops p = []) ps
        then Some ''every initiating patch must contain a semantic operation''
      else None)"

definition prepare_validated ::
  "node_adapter \<Rightarrow> digests \<Rightarrow> nat \<Rightarrow> graph_state \<Rightarrow> patch list \<Rightarrow> graph_head_ref option \<Rightarrow>
   (patch \<times> graph_state) result" where
  "prepare_validated A D max_rule_firings st ps pre_head =
     (let head = (case pre_head of Some h \<Rightarrow> h | None \<Rightarrow>
            \<lparr>gh_target = MAIN_TARGET, gh_revision = g_revision st, gh_transition_id = None\<rparr>);
          actions = source_actions ps; groups = initiating_groups 0 0 ps
      in case initiating_error st ps head of
           Some e \<Rightarrow> Inl (ValueError e)
         | None \<Rightarrow>
             bind_r (apply_timeline A st actions) (\<lambda>(steps, initiated).
             (let generated = guidance_actions initiated (dependency_change_causes steps)
                    (explicit_guidance_updates (map snd actions));
                  indexed = zip [int (length actions)..int (length actions + length generated) - 1]
                    (map fst generated);
                  ops = map snd actions @ map fst generated;
                  refs = map generated_action (zip (map fst indexed) (map snd generated))
              in if length generated > max_rule_firings then Inl (ValueError ''rule closure exceeded'')
                 else
                   bind_r (apply_generated_steps A (hd ps) indexed initiated)
                     (\<lambda>(generated_steps, final).
                   (let tid = transition_id D head ps groups (map snd actions)
                          TRANSITION_RULESET_TAG refs;
                        trace = \<lparr>tt_transition_id = tid, tt_pre_head = head,
                          tt_ruleset_tag = TRANSITION_RULESET_TAG, tt_initiating_groups = groups,
                          tt_generated_actions = refs,
                          tt_lifecycle_events = lifecycle_events D tid steps generated_steps ops
                            TRANSITION_RULESET_TAG,
                          tt_expanded_ops_sha256 = dg_operations D ops\<rparr>
                    in bind_r (combined_patch ps ops trace) (\<lambda>combined.
                       bind_r (apply_valid_patch A st combined) (\<lambda>persisted.
                       if persisted \<noteq> final then Inl (ValueError ''replay equivalence'')
                       else Inr (combined, persisted))))))))"

section \<open>Validating a recorded transition\<close>

definition source_patch_for_group :: "patch \<Rightarrow> transition_initiating_group \<Rightarrow> patch" where
  "source_patch_for_group p grp = p\<lparr>pa_summary := ig_summary grp,
     pa_change_summary := ig_change_summary grp,
     pa_ops := map (\<lambda>i. pa_ops p ! nat i) (ig_operation_indexes grp),
     pa_human_action := ig_human_action grp, pa_agent_action := ig_agent_action grp,
     pa_transition := None\<rparr>"

definition index_error :: "patch \<Rightarrow> transition_trace \<Rightarrow> string option" where
  "index_error p trace =
     (let sources = concat (map ig_operation_indexes (tt_initiating_groups trace));
          generated = map ga_operation_index (tt_generated_actions trace);
          count = int (length (pa_ops p))
      in if \<not> distinct sources then Some ''transition initiating operation indexes overlap''
         else if \<not> distinct generated then Some ''transition generated operation indexes overlap''
         else if set sources \<inter> set generated \<noteq> {}
           then Some ''transition initiating and generated operation indexes overlap''
         else if sort (sources @ generated) \<noteq> [0..count - 1]
           then Some ''transition trace must reference every expanded operation exactly once''
         else if sources \<noteq> sort sources \<or> generated \<noteq> sort generated
           then Some ''transition action references must retain written order''
         else if list_ex (\<lambda>i. i \<ge> (if generated = [] then count else Min (set generated))) sources
           then Some ''transition generated operations must follow all initiating operations''
         else None)"

definition check_generated_action ::
  "patch \<Rightarrow> transition_generated_action \<Rightarrow> unit result" where
  "check_generated_action p item =
     (if ga_rule_id item \<notin> set GUIDANCE_RULE_IDS
        then Inl (ValueError ''unsupported generated transition rule'')
      else (case (tc_kind (ga_cause item), tc_action_index (ga_cause item)) of
          (Action_cause, Some cause) \<Rightarrow>
            if cause \<ge> ga_operation_index item
              then Inl (ValueError ''generated action cause must precede the generated action'')
            else validate_guidance_operation (pa_ops p ! nat (ga_operation_index item))
        | _ \<Rightarrow> Inl (ValueError ''generated actions must cite an earlier action'')))"

text \<open>The check of one recorded event, with the event ids seen before it.\<close>

definition check_event ::
  "digests \<Rightarrow> string \<Rightarrow> int \<Rightarrow> nat \<times> transition_event \<Rightarrow> string list \<Rightarrow> string list result" where
  "check_event D tid count = (\<lambda>(ordinal, e) known.
     bind_r (case tc_kind (te_cause e) of
         Action_cause \<Rightarrow> (case tc_action_index (te_cause e) of
             None \<Rightarrow> Inl (ValueError ''transition event cites an unknown action'')
           | Some i \<Rightarrow> if i \<ge> count then Inl (ValueError ''transition event cites an unknown action'')
                       else Inr (Cause_action i))
       | Event_cause \<Rightarrow> (case tc_event_id (te_cause e) of
             Some i \<Rightarrow> if i \<in> set known then Inr (Cause_event i)
               else Inl (ValueError ''transition event cites an event that is not earlier'')
           | None \<Rightarrow> Inl (ValueError ''transition event cites an event that is not earlier'')))
     (\<lambda>cause.
       if te_event_id e \<noteq> dg_event D tid \<lparr>ep_ordinal = ordinal, ep_event_type = te_event_type e,
            ep_cause = cause, ep_node_id = te_node_id e, ep_field = te_field e,
            ep_before = te_before e, ep_after = te_after e\<rparr>
         then Inl (ValueError ''transition event id does not match its canonical payload'')
       else Inr (te_event_id e # known)))"

definition validate_transition_trace ::
  "node_adapter \<Rightarrow> digests \<Rightarrow> graph_state \<Rightarrow> patch \<Rightarrow> patch list result" where
  "validate_transition_trace A D st p = (case pa_transition p of
     None \<Rightarrow> Inl (ValueError ''transition patch is missing its trace'')
   | Some trace \<Rightarrow>
       (let sources = map (source_patch_for_group p) (tt_initiating_groups trace);
            actions = source_actions sources;
            tid = tt_transition_id trace
        in if gh_revision (tt_pre_head trace) \<noteq> g_revision st
             then Inl (ValueError ''transition pre-head does not match replay head'')
           else if dg_operations D (pa_ops p) \<noteq> tt_expanded_ops_sha256 trace
             then Inl (ValueError ''transition expanded operation digest does not match Patch.ops'')
           else (case index_error p trace of
               Some e \<Rightarrow> Inl (ValueError e)
             | None \<Rightarrow>
                 if actions = []
                   then Inl (ValueError ''transition trace requires at least one initiating action'')
                 else if transition_id D (tt_pre_head trace) sources (tt_initiating_groups trace)
                     (map snd actions) (tt_ruleset_tag trace) (tt_generated_actions trace) \<noteq> tid
                   then Inl (ValueError ''transition id does not match'')
                 else
                   bind_r (map_r (check_generated_action p) (tt_generated_actions trace)) (\<lambda>_.
                   bind_r (apply_timeline A st actions) (\<lambda>(steps, initiated).
                   bind_r (apply_generated_steps A p
                       (map (\<lambda>i. (ga_operation_index i, pa_ops p ! nat (ga_operation_index i)))
                         (tt_generated_actions trace)) initiated) (\<lambda>(generated_steps, _).
                   if tt_lifecycle_events trace \<noteq> lifecycle_events D tid steps generated_steps
                       (pa_ops p) (tt_ruleset_tag trace)
                     then Inl (ValueError ''transition lifecycle events do not match'')
                   else
                     bind_r (fold_r (check_event D tid (int (length (pa_ops p))))
                         (enumerate 0 (tt_lifecycle_events trace)) []) (\<lambda>_. Inr sources)))))))"

text \<open>The first accepted transition that does not continue the exact head.\<close>

fun accepted_transition_head_chain_failure ::
  "patch list \<Rightarrow> graph_target_ref \<Rightarrow> string option \<Rightarrow> replay_failure option" where
  "accepted_transition_head_chain_failure [] target tid = None"
| "accepted_transition_head_chain_failure (p # ps) target tid =
     (case pa_transition p of
        None \<Rightarrow> accepted_transition_head_chain_failure ps target tid
      | Some trace \<Rightarrow>
          if pa_admission p \<noteq> Accepted then accepted_transition_head_chain_failure ps target tid
          else if gh_target (tt_pre_head trace) \<noteq> target \<or> gh_transition_id (tt_pre_head trace) \<noteq> tid
            then Some \<lparr>rf_revision = pa_revision p, rf_created_at = pa_created_at p,
                   rf_code = ''transition-head-mismatch''\<rparr>
          else accepted_transition_head_chain_failure ps target (Some (tt_transition_id trace)))"

end
