(* ===== verification/Proposal_Rules.thy ===== *)
theory Proposal_Rules
  imports Validation_Nodes Transitions
begin

text \<open>
  Proposals under review (\<open>core/validation/proposals.py\<close>): the coherence of a Decision
  transition, the operations an approval applies, what a Proposal depends on and when it is
  stale, the reads and writes that couple Proposals, and the shapes an agent may file. A
  refusal with prose is the truth value \<open>error is not None\<close>. The operations of a Proposal are
  validated by the argument \<open>run_operations\<close>, the loop over operations that the patch rules
  define. Frozen sets are sorted lists.
\<close>

definition PROPOSAL_REPLAY_RULE_ID :: string where
  "PROPOSAL_REPLAY_RULE_ID = ''proposal-replay''"

definition dict_fromkeys :: "'a list \<Rightarrow> 'a list" where
  "dict_fromkeys xs = rev (remdups (rev xs))"

definition attr_val :: "project_node \<Rightarrow> string \<Rightarrow> val" where
  "attr_val n f = (case node_attr n f of None \<Rightarrow> VNone | Some v \<Rightarrow> v)"

section \<open>Decisions\<close>

definition in_options :: "val \<Rightarrow> val \<Rightarrow> bool" where
  "in_options v options = (case options of VList items \<Rightarrow> in_list v items | _ \<Rightarrow> False)"

fun is_VList :: "val \<Rightarrow> bool" where
  "is_VList (VList _) = True"
| "is_VList _ = False"

definition decision_transition_error :: "project_node \<Rightarrow> val dict \<Rightarrow> bool" where
  "decision_transition_error d changes =
     (let selected = get_default changes ''selected_option'' (attr_val d ''selected_option'');
          status = get_default changes ''status'' (attr_val d ''status'');
          options = get_default changes ''options'' (attr_val d ''options'');
          selects = given_not_none changes ''selected_option''
      in (selects \<and> is_VList options \<and> \<not> in_options selected options)
         \<or> (status = VStr ''decided'' \<and> (selected = VNone \<or> \<not> in_options selected options))
         \<or> (status = VStr ''revisit'' \<and> attr_val d ''status'' \<noteq> VStr ''revisit''
             \<and> attr_val d ''selected_option'' = VNone)
         \<or> (attr_in d ''status'' [''open'', ''ready'', ''revisit''] \<and> selects
             \<and> status \<noteq> VStr ''decided''))"

definition is_decision_choice :: "val dict \<Rightarrow> bool" where
  "is_decision_choice changes = (''selected_option'' \<in> set (keys changes)
     \<or> dict_get changes ''status'' = Some (VStr ''decided''))"

definition normalized_decision_update :: "graph_state \<Rightarrow> node_update \<Rightarrow> node_update" where
  "normalized_decision_update st u = (case dict_get (g_nodes st) (nu_id u) of
     None \<Rightarrow> u
   | Some n \<Rightarrow>
       if is_decision n \<and> given_not_none (nu_changes u) ''selected_option''
          \<and> ''status'' \<notin> set (keys (nu_changes u)) \<and> node_attr n ''status'' \<noteq> Some (VStr ''decided'')
         then u\<lparr>nu_changes := AList.update ''status'' (VStr ''decided'') (nu_changes u)\<rparr>
       else u)"

fun normalized_decision_op :: "graph_state \<Rightarrow> graph_operation \<Rightarrow> graph_operation" where
  "normalized_decision_op st (UpdateNodesOperation us) =
     UpdateNodesOperation (map (normalized_decision_update st) us)"
| "normalized_decision_op st op = op"

definition normalized_decision_proposal_ops ::
  "graph_state \<Rightarrow> proposal \<Rightarrow> graph_operation list result" where
  "normalized_decision_proposal_ops st q =
     bind_r (graph_operations_from_proposal (p_ops q)) (\<lambda>ops. Inr (map (normalized_decision_op st) ops))"

text \<open>The node updates of a content or status change, legacy or not.\<close>

fun proposal_updates :: "proposal_operation \<Rightarrow> node_update list" where
  "proposal_updates (ProposalContentChangeOperation _ us) = us"
| "proposal_updates (ProposalStatusChangeOperation _ us) = us"
| "proposal_updates _ = []"

definition proposal_updates_node :: "proposal \<Rightarrow> string \<Rightarrow> bool" where
  "proposal_updates_node q node_id =
     list_ex (\<lambda>u. nu_id u = node_id) (concat (map proposal_updates (p_ops q)))"

section \<open>What an approval applies\<close>

definition is_legacy :: "proposal_operation \<Rightarrow> bool" where
  "is_legacy op = startswith (intent op) ''legacy_''"

fun standing_subject :: "proposal_operation \<Rightarrow> string list" where
  "standing_subject (ProposalStandingChangeOperation n _) = [n]"
| "standing_subject _ = []"

fun removal_subjects :: "proposal_operation \<Rightarrow> string list" where
  "removal_subjects (ProposalRemovalOperation l ns) = (if l then [] else ns)"
| "removal_subjects _ = []"

definition proposal_removal_targets :: "proposal \<Rightarrow> string list" where
  "proposal_removal_targets q = concat (map removal_subjects (p_ops q))"

fun written_subjects :: "proposal_operation \<Rightarrow> string list" where
  "written_subjects (ProposalSupersedeOperation _ ss) = map sn_id ss"
| "written_subjects (ProposalMergeOperation _ ms) = map nm_duplicate ms"
| "written_subjects op = map nu_id (proposal_updates op)"

definition first_subject :: "string list \<Rightarrow> string list result" where
  "first_subject xs = (case xs of [] \<Rightarrow> Inl (IndexError ''list index out of range'') | x # _ \<Rightarrow> Inr [x])"

definition old_rule_standing_targets :: "proposal \<Rightarrow> string list result" where
  "old_rule_standing_targets q = (case p_ops q of
     [op] \<Rightarrow>
       if is_legacy op then Inr (p_related_node_ids q)
       else (case op of
           ProposalRemovalOperation _ _ \<Rightarrow> Inr []
         | ProposalProtectedRelationOperation _ _ \<Rightarrow> Inr []
         | ProposalContentChangeOperation _ us \<Rightarrow> first_subject (map nu_id us)
         | ProposalStatusChangeOperation _ us \<Rightarrow> first_subject (map nu_id us)
         | ProposalSupersedeOperation _ ss \<Rightarrow> first_subject (map sn_id ss)
         | ProposalMergeOperation _ ms \<Rightarrow> first_subject (map nm_duplicate ms)
         | _ \<Rightarrow> Inr (p_related_node_ids q))
   | _ \<Rightarrow> Inr (p_related_node_ids q))"

definition proposal_approval_standing_targets :: "proposal \<Rightarrow> string list result" where
  "proposal_approval_standing_targets q =
     (let explicit = concat (map standing_subject (p_ops q)) in
      if p_dependency_rule q < 3 then
        (if explicit \<noteq> [] then Inr [] else old_rule_standing_targets q)
      else
        (let targets = concat (map (\<lambda>op. if is_legacy op then p_related_node_ids q
               else written_subjects op) (p_ops q));
             removed = proposal_removal_targets q
         in Inr (dict_fromkeys (filter (\<lambda>t. t \<notin> set explicit \<and> t \<notin> set removed) targets))))"

definition proposal_approval_operations ::
  "graph_state \<Rightarrow> proposal \<Rightarrow> string option \<Rightarrow> graph_operation list result" where
  "proposal_approval_operations st q reason =
     bind_r (normalized_decision_proposal_ops st q) (\<lambda>ops.
     bind_r (proposal_approval_standing_targets q) (\<lambda>targets.
       Inr (ops @ [ResolveProposalsOperation [\<lparr>pr_id = p_id q, pr_status = Approve, pr_reason = reason\<rparr>]]
            @ map (\<lambda>i. SetStandingOperation i ACCEPTED) targets)))"

section \<open>Dependencies and staleness\<close>

definition proposal_evidence_cause_edge_ids :: "proposal \<Rightarrow> string list" where
  "proposal_evidence_cause_edge_ids q =
     sorted_set (concat (map (cause_edges \<circ> proposal_updates) (p_ops q)))"

definition proposal_cause_evidence_sources :: "graph_state \<Rightarrow> proposal \<Rightarrow> string dict" where
  "proposal_cause_evidence_sources st q =
     (if p_dependency_rule q < 2 then []
      else List.map_filter (\<lambda>i. map_option (\<lambda>e. (i, e_source e)) (dict_get (g_edges st) i))
             (proposal_evidence_cause_edge_ids q))"

text \<open>The edges a protected-relation change removes, and those it creates.\<close>

fun removed_edge_ids :: "proposal_operation \<Rightarrow> string list" where
  "removed_edge_ids (ProposalProtectedRelationOperation _ p) =
     (if px_op p = Remove_edges then case_option [] id (field_value (px_edge_ids p)) else [])"
| "removed_edge_ids _ = []"

fun judged_absent_edge_ids :: "proposal_operation \<Rightarrow> string list" where
  "judged_absent_edge_ids (ProposalProtectedRelationOperation l p) =
     (if \<not> l \<and> px_op p = Create_edges
        then map new_edge_id (case_option [] id (field_value (px_edges p))) else [])"
| "judged_absent_edge_ids (ProposalSupersedeOperation l ss) =
     (if l then [] else List.map_filter (\<lambda>i. map_option
        (edge_default_id (sn_id i) ''supersedes'') (sn_superseded_by i)) ss)"
| "judged_absent_edge_ids (ProposalMergeOperation l ms) =
     (if l then [] else map (\<lambda>i. edge_default_id (nm_duplicate i) ''duplicate_of'' (nm_canonical i)) ms)"
| "judged_absent_edge_ids _ = []"

definition proposal_reference_dependencies :: "proposal \<Rightarrow> string list \<times> string list" where
  "proposal_reference_dependencies q =
     (concat (map (\<lambda>op. removed_edge_ids op @ cause_edges (proposal_updates op)) (p_ops q)),
      concat (map (cause_nodes \<circ> proposal_updates) (p_ops q)))"

record proposal_inputs =
  pd_node_ids :: "string list"
  pd_edge_ids :: "string list"
  pd_config_keys :: "string list"
  pd_required_absent_edge_ids :: "string list"
  pd_incident_snapshots :: "(string list \<times> string list) list"
  pd_decision_ids :: "string list"
  pd_cause_evidence_sources :: "string dict"

definition touches_targets :: "string list \<Rightarrow> edge \<Rightarrow> bool" where
  "touches_targets targets e = (e_source e \<in> set targets \<or> e_target e \<in> set targets)"

definition proposal_dependency_contract :: "graph_state \<Rightarrow> proposal \<Rightarrow> bool \<Rightarrow> proposal_inputs" where
  "proposal_dependency_contract st q derive_unfiled =
     (let (nodes, edges, config) =
            (if derive_unfiled \<and> p_raised_rev q = 0 then proposal_dependencies st (p_ops q)
             else (p_related_node_ids q, p_related_edge_ids q, p_related_config_keys q));
          (referenced, decisions) = proposal_reference_dependencies q;
          absent = concat (map judged_absent_edge_ids (p_ops q));
          removed = concat (map removed_edge_ids (p_ops q));
          targets = proposal_removal_targets q;
          expected = (if p_dependency_rule q \<ge> 3
            then filter (\<lambda>i. case dict_get (g_edges st) i of
                None \<Rightarrow> False | Some e \<Rightarrow> touches_targets targets e) edges
            else edges)
      in \<lparr>pd_node_ids = nodes, pd_edge_ids = sorted_set (edges @ referenced),
          pd_config_keys = config,
          pd_required_absent_edge_ids = sorted_set (if p_dependency_rule q \<ge> 3
            then filter (\<lambda>i. i \<notin> set removed) absent else absent),
          pd_incident_snapshots =
            (if targets = [] then [] else [(sorted_set targets, sorted_set expected)]),
          pd_decision_ids = sorted_set decisions,
          pd_cause_evidence_sources = proposal_cause_evidence_sources st q\<rparr>)"

definition node_moved :: "graph_state \<Rightarrow> int \<Rightarrow> string \<Rightarrow> bool" where
  "node_moved st since i = (case dict_get (g_nodes st) i of
     None \<Rightarrow> True | Some n \<Rightarrow> n_updated_rev n > since)"

definition edge_moved :: "graph_state \<Rightarrow> int \<Rightarrow> string \<Rightarrow> bool" where
  "edge_moved st since i = (case dict_get (g_edges st) i of
     None \<Rightarrow> True | Some e \<Rightarrow> e_created_rev e > since)"

definition config_moved :: "graph_state \<Rightarrow> int \<Rightarrow> string \<Rightarrow> bool" where
  "config_moved st since k = (case dict_get (g_config_revisions st) k of
     None \<Rightarrow> 0 > since | Some r \<Rightarrow> r > since)"

definition incident_moved :: "graph_state \<Rightarrow> string list \<times> string list \<Rightarrow> string list" where
  "incident_moved st = (\<lambda>(targets, edges).
     (let current = incident_edge_ids st targets in
      sorted_set (filter (\<lambda>i. i \<notin> set edges) current @ filter (\<lambda>i. i \<notin> set current) edges)))"

definition moved_proposal_dependencies :: "graph_state \<Rightarrow> proposal \<Rightarrow> string list" where
  "moved_proposal_dependencies st q =
     (let since = (if p_raised_rev q \<noteq> 0 then p_raised_rev q else p_base_rev q);
          c = proposal_dependency_contract st q False
      in dict_fromkeys (filter (node_moved st since) (pd_node_ids c)
           @ filter (config_moved st since) (pd_config_keys c)
           @ filter (edge_moved st since) (pd_edge_ids c)
           @ filter (\<lambda>i. dict_get (g_edges st) i \<noteq> None) (pd_required_absent_edge_ids c)
           @ concat (map (incident_moved st) (pd_incident_snapshots c))
           @ map snd (filter (\<lambda>(edge_id, source_id). \<not> edge_moved st since edge_id
               \<and> node_moved st since source_id) (pd_cause_evidence_sources c))
           @ filter (\<lambda>i. node_type_of st i \<noteq> Some ''decision'' \<or> node_moved st since i)
               (pd_decision_ids c)))"

definition proposal_is_stale :: "graph_state \<Rightarrow> proposal \<Rightarrow> bool" where
  "proposal_is_stale st q = (moved_proposal_dependencies st q \<noteq> [])"

definition PROPOSAL_INTENTS :: "string list" where
  "PROPOSAL_INTENTS = [''content_change'', ''removal'', ''supersede'', ''merge'',
     ''protected_relation_change'', ''status_change'', ''standing_change'']"

definition existing_protected_node :: "graph_state \<Rightarrow> string \<Rightarrow> project_node option" where
  "existing_protected_node st node_id = (case dict_get (g_nodes st) node_id of
     None \<Rightarrow> None
   | Some n \<Rightarrow> if n_type n \<in> {''research_question'', ''hypothesis''} then Some n else None)"

fun merge_only_form :: "graph_state \<Rightarrow> proposal_operation \<Rightarrow> bool" where
  "merge_only_form st (ProposalStandingChangeOperation _ _) = True"
| "merge_only_form st (ProposalRemovalOperation _ ns) =
     list_ex (\<lambda>i. existing_protected_node st i = None) ns"
| "merge_only_form st op = list_ex (\<lambda>u. nu_cause u = Some HumanEditCause) (proposal_updates op)"

definition proposal_work_cannot_refile :: "graph_state \<Rightarrow> proposal \<Rightarrow> bool" where
  "proposal_work_cannot_refile st q =
     (length (p_ops q) > 1 \<or> list_ex (\<lambda>op. intent op \<notin> set PROPOSAL_INTENTS) (p_ops q)
      \<or> list_ex (merge_only_form st) (p_ops q))"

fun subject_ids :: "proposal_operation \<Rightarrow> string list" where
  "subject_ids (ProposalRemovalOperation _ ns) = ns"
| "subject_ids (ProposalProtectedRelationOperation _ p) =
     map ne_target (case_option [] id (field_value (px_edges p)))"
| "subject_ids op = written_subjects op"

definition proposal_subject_node :: "graph_state \<Rightarrow> proposal \<Rightarrow> string option" where
  "proposal_subject_node st q = find (\<lambda>i. i \<in> set (keys (g_nodes st)))
     (concat (map subject_ids (p_ops q)) @ p_related_node_ids q)"

definition proposal_refresh_refusal :: "graph_state \<Rightarrow> proposal option \<Rightarrow> string option" where
  "proposal_refresh_refusal st q = (case q of
     None \<Rightarrow> Some ''proposal_not_pending''
   | Some q \<Rightarrow>
       if p_status q \<noteq> Pending then Some ''proposal_not_pending''
       else if \<not> proposal_is_stale st q then Some ''proposal_not_stale''
       else if proposal_work_cannot_refile st q then Some ''proposal_not_refileable''
       else if proposal_subject_node st q = None then Some ''proposal_target_unavailable''
       else None)"

section \<open>Reads and writes that couple Proposals\<close>

datatype proposal_resource =
    Node_resource string
  | Edge_resource string
  | Config_resource string
  | Incident_resource string

record proposal_footprint =
  fp_dependencies :: "proposal_resource list"
  fp_effects :: "proposal_resource list"
  fp_required_absent_edge_ids :: "string list"
  fp_incident_snapshots :: "(string list \<times> string list) list"

text \<open>A human approval patch the program builds itself; nothing reads its clock.\<close>

definition synthetic_approval ::
  "int \<Rightarrow> graph_operation list \<Rightarrow> declared_action option \<Rightarrow> patch" where
  "synthetic_approval r ops action = \<lparr>pa_schema_generation = 2, pa_revision = r,
     pa_kind = Approval, pa_author = Some Human, pa_producer = Human_producer, pa_created_at = 0,
     pa_summary = [], pa_ops = ops, pa_run_truth_scope = [], pa_repositories_read = [],
     pa_run_read_scope = None, pa_processed_cursors = [], pa_change_summary = [],
     pa_source_operation_id = None, pa_source_effect_id = None, pa_source_effect_sha256 = None,
     pa_human_action = action, pa_agent_action = None, pa_admission = Accepted,
     pa_admission_messages = [], pa_experiment_control_node_id = None,
     pa_experiment_decision_bundle = [], pa_project_identity = None,
     pa_project_home_transfer = None, pa_authorized_by = None, pa_profile = None,
     pa_task_id = None, pa_episode_id = None, pa_branch_merge = None, pa_transition = None\<rparr>"

fun op_updates :: "graph_operation \<Rightarrow> node_update list" where
  "op_updates (UpdateNodesOperation us) = us"
| "op_updates _ = []"

definition writes_decision_outcome :: "graph_state \<Rightarrow> graph_operation list \<Rightarrow> bool" where
  "writes_decision_outcome st ops = list_ex (\<lambda>u.
     node_type_of st (nu_id u) = Some ''decision'' \<and> is_decision_choice (nu_changes u))
     (concat (map op_updates ops))"

definition footprint_dependencies :: "proposal_inputs \<Rightarrow> proposal_resource list" where
  "footprint_dependencies c =
     map Node_resource (pd_node_ids c @ pd_decision_ids c @ map snd (pd_cause_evidence_sources c))
     @ map Edge_resource (pd_edge_ids c @ pd_required_absent_edge_ids c)
     @ map Config_resource (pd_config_keys c)
     @ map Incident_resource (concat (map fst (pd_incident_snapshots c)))"

text \<open>Two nodes are compared as Python compares models, field by field.\<close>

definition same_node :: "project_node option \<Rightarrow> project_node option \<Rightarrow> bool" where
  "same_node a b = (case (a, b) of
     (None, None) \<Rightarrow> True
   | (Some x, Some y) \<Rightarrow> py_eq (VDict (node_model_dump x)) (VDict (node_model_dump y))
   | _ \<Rightarrow> False)"

definition footprint_effects :: "graph_state \<Rightarrow> graph_state \<Rightarrow> proposal_resource list" where
  "footprint_effects before after =
     map Node_resource (filter (\<lambda>i. \<not> same_node (dict_get (g_nodes before) i) (dict_get (g_nodes after) i))
       (keys (g_nodes before) @ keys (g_nodes after)))
     @ concat (map (\<lambda>i. Edge_resource i # concat (map (\<lambda>g. case dict_get (g_edges g) i of
           None \<Rightarrow> []
         | Some e \<Rightarrow> [Incident_resource (e_source e), Incident_resource (e_target e)]) [before, after]))
       (filter (\<lambda>i. dict_get (g_edges before) i \<noteq> dict_get (g_edges after) i)
         (keys (g_edges before) @ keys (g_edges after))))
     @ map Config_resource (filter (\<lambda>k.
         dict_get (g_config_revisions before) k \<noteq> dict_get (g_config_revisions after) k)
       (keys (g_config_revisions before) @ keys (g_config_revisions after)))"

text \<open>The graph a dry approval starts from, and its patch.\<close>

definition approval_probe :: "graph_state \<Rightarrow> proposal \<Rightarrow> (graph_state \<times> patch) result" where
  "approval_probe st q =
     (let c = proposal_dependency_contract st q True;
          filed = (if p_raised_rev q = 0 then q\<lparr>p_base_rev := g_revision st,
              p_raised_rev := g_revision st, p_related_node_ids := pd_node_ids c,
              p_related_edge_ids := pd_edge_ids c, p_related_config_keys := pd_config_keys c\<rparr>
            else q)
      in bind_r (proposal_approval_operations st filed None) (\<lambda>ops.
         Inr (put_proposal filed st,
           synthetic_approval (g_revision st + 1) ops
             (if writes_decision_outcome st ops then Some Decision_choice else None))))"

definition footprint_of ::
  "node_adapter \<Rightarrow> digests \<Rightarrow> graph_state \<Rightarrow> proposal \<Rightarrow> graph_state \<times> patch \<Rightarrow>
   proposal_footprint result" where
  "footprint_of A D st q = (\<lambda>(before, p).
     bind_r (prepare_validated A D DEFAULT_MAX_RULE_FIRINGS before [p] None) (\<lambda>(_, after).
     (let c = proposal_dependency_contract st q True in
      Inr \<lparr>fp_dependencies = footprint_dependencies c, fp_effects = footprint_effects before after,
           fp_required_absent_edge_ids = pd_required_absent_edge_ids c,
           fp_incident_snapshots = pd_incident_snapshots c\<rparr>)))"

text \<open>\<open>_proposal_effect_footprint(..., validate=False)\<close>\<close>

definition speculative_footprint ::
  "node_adapter \<Rightarrow> digests \<Rightarrow> graph_state \<Rightarrow> proposal \<Rightarrow> proposal_footprint result" where
  "speculative_footprint A D st q = bind_r (approval_probe st q) (footprint_of A D st q)"

definition coupled :: "proposal_footprint \<Rightarrow> proposal_footprint \<Rightarrow> bool" where
  "coupled f g = (list_ex (\<lambda>r. r \<in> set (fp_dependencies g)) (fp_effects f)
     \<or> list_ex (\<lambda>r. r \<in> set (fp_dependencies f)) (fp_effects g))"

definition linked :: "string list list option \<Rightarrow> nat list \<Rightarrow> nat list \<Rightarrow> bool" where
  "linked links xs ys = (case links of
     None \<Rightarrow> False
   | Some ls \<Rightarrow> list_ex (\<lambda>i. list_ex (\<lambda>j. list_ex (\<lambda>s. s \<in> set (ls ! j)) (ls ! i)) ys) xs)"

text \<open>The pairs of positions in the order the two loops visit them.\<close>

definition position_pairs :: "nat \<Rightarrow> (nat \<times> nat) list" where
  "position_pairs n = concat (map (\<lambda>l. map (Pair l) [Suc l..<n]) [0..<n])"

definition join_components :: "nat list list \<Rightarrow> nat \<Rightarrow> nat \<Rightarrow> nat list list" where
  "join_components cs l r =
     (let joined = cs[l := sort (cs ! l @ cs ! r)] in take r joined @ drop (Suc r) joined)"

definition component_draft :: "proposal list \<Rightarrow> nat list \<Rightarrow> proposal" where
  "component_draft qs component =
     (let ops = concat (map (\<lambda>i. p_ops (qs ! i)) component)
      in (qs ! hd component)\<lparr>p_ops := ops, p_raised_rev := 0,
           p_dependency_rule := proposal_filing_dependency_rule (length ops) True\<rparr>)"

lemma position_pairs_less: "(l, r) \<in> set (position_pairs n) \<Longrightarrow> l < r \<and> r < n"
  by (auto simp: position_pairs_def)

function connect_components ::
  "node_adapter \<Rightarrow> digests \<Rightarrow> graph_state \<Rightarrow> proposal list \<Rightarrow> string list list option \<Rightarrow>
   nat list list \<Rightarrow> nat list list result" where
  "connect_components A D st qs links cs =
     bind_r (map_r (\<lambda>c. speculative_footprint A D st (component_draft qs c)) cs) (\<lambda>fps.
     case find (\<lambda>(l, r). coupled (fps ! l) (fps ! r) \<or> linked links (cs ! l) (cs ! r))
            (position_pairs (length cs)) of
       None \<Rightarrow> Inr cs
     | Some (l, r) \<Rightarrow> connect_components A D st qs links (join_components cs l r))"
  by pat_completeness auto

termination
proof (relation "measure (\<lambda>(_, _, _, _, _, cs). length cs)", simp)
  fix A D st qs links and cs :: "nat list list" and fps pair l r
  assume "find (\<lambda>(l, r). coupled (fps ! l) (fps ! r) \<or> linked links (cs ! l) (cs ! r))
      (position_pairs (length cs)) = Some pair" and "(l, r) = pair"
  then have "(l, r) \<in> set (position_pairs (length cs))"
    by (auto simp: find_Some_iff in_set_conv_nth)
  then have "l < r \<and> r < length cs" by (rule position_pairs_less)
  then show "((A, D, st, qs, links, join_components cs l r), A, D, st, qs, links, cs)
      \<in> measure (\<lambda>(_, _, _, _, _, cs). length cs)"
    by (auto simp: join_components_def Let_def)
qed

definition connected_proposal_groups ::
  "node_adapter \<Rightarrow> digests \<Rightarrow> graph_state \<Rightarrow> proposal list \<Rightarrow> string list list option \<Rightarrow>
   nat list list result" where
  "connected_proposal_groups A D st qs links =
     connect_components A D st qs links (map (\<lambda>i. [i]) [0..<length qs])"

definition connected_proposal_operation_groups ::
  "node_adapter \<Rightarrow> digests \<Rightarrow> graph_state \<Rightarrow> proposal \<Rightarrow> proposal_operation list list result" where
  "connected_proposal_operation_groups A D st q =
     bind_r (connected_proposal_groups A D st (map (\<lambda>op. q\<lparr>p_ops := [op]\<rparr>) (p_ops q)) None)
       (\<lambda>groups. Inr (map (map (\<lambda>i. p_ops q ! i)) groups))"

end
