(* ===== verification/Merge_Compare.thy ===== *)
theory Merge_Compare
  imports State_Delta Proposal_Rules Authority
begin

text \<open>
  The three-way comparison a branch merge starts from (\<open>runs/merge_plan.py\<close>, the records of
  \<open>runs/merge_contract.py\<close> and \<open>semantic_document\<close> of \<open>history/delta.py\<close>). A field is indivisible:
  its whole value is compared. What Pydantic knows of a model instance, its fields with their
  declared roles and serialised values, is the tree \<open>model_value\<close>, and the trees of the graph's
  objects are given by the parameter \<open>K\<close> (\<open>merge_codec\<close>), with the digest that names a coordinate.
\<close>

section \<open>Documents\<close>

datatype model_value =
    Leaf val
  | Sequence "model_value list"
  | Dictionary "(string \<times> model_value) list"
  | Model "(string \<times> field_role \<times> model_value) list"

type_synonym model_fields = "(string \<times> field_role \<times> model_value) list"

fun semantic_nested :: "model_value \<Rightarrow> val"
  and semantic_document :: "model_fields \<Rightarrow> val dict" where
  "semantic_nested (Leaf v) = v"
| "semantic_nested (Sequence vs) = VList (map semantic_nested vs)"
| "semantic_nested (Dictionary d) = VDict (map (\<lambda>(k, v). (k, semantic_nested v)) d)"
| "semantic_nested (Model fs) = VDict (semantic_document fs)"
| "semantic_document [] = []"
| "semantic_document ((name, role, v) # fs) =
     (if role = Engine then [] else [(name, semantic_nested v)]) @ semantic_document fs"

text \<open>\<open>graph_fields(type(value), role="content")\<close>\<close>

definition content_fields :: "model_fields \<Rightarrow> string list" where
  "content_fields fs = map fst (filter (\<lambda>(_, role, _). role = Content) fs)"

record merge_codec =
  mk_view :: "state_object \<Rightarrow> model_fields"
  mk_digest :: "string \<Rightarrow> string option \<Rightarrow> string option \<Rightarrow> string"

section \<open>Changes and conflicts\<close>

datatype merge_value = MissingValue | PresentValue val

fun merge_eq :: "merge_value \<Rightarrow> merge_value \<Rightarrow> bool" where
  "merge_eq MissingValue MissingValue = True"
| "merge_eq (PresentValue v) (PresentValue w) = py_eq v w"
| "merge_eq _ _ = False"

record merge_change =
  mc_change_id :: string
  mc_collection :: string
  mc_entity_id :: "string option"
  mc_field_name :: "string option"
  mc_base :: merge_value
  mc_branch :: merge_value
  mc_destination :: merge_value

datatype side = On_branch | On_destination

datatype field_answer_kind = Branch_answer | Destination_answer | Merged_answer

record field_conflict =
  fc_conflict_id :: string
  fc_collection :: string
  fc_entity_id :: "string option"
  fc_field_name :: string
  fc_base :: merge_value
  fc_branch :: merge_value
  fc_destination :: merge_value
  fc_allowed_answer_kinds :: "field_answer_kind list"

definition require_field_answers :: "field_conflict \<Rightarrow> field_conflict result" where
  "require_field_answers c =
     (let expected = [Branch_answer, Destination_answer] @
        (if fc_collection c \<noteq> ''nodes'' \<or> fc_field_name c \<notin> {''status'', ''standing''}
         then [Merged_answer] else [])
      in if fc_allowed_answer_kinds c \<noteq> expected
         then Inl (ValueError ''field answer kinds must match the judgment boundary'') else Inr c)"

record presence_conflict =
  pc_conflict_id :: string
  pc_collection :: string
  pc_entity_id :: string
  pc_base :: merge_value
  pc_branch :: merge_value
  pc_destination :: merge_value
  pc_removed_on :: side

record incident_edge_conflict =
  ic_conflict_id :: string
  ic_node_id :: string
  ic_base :: merge_value
  ic_branch :: merge_value
  ic_destination :: merge_value
  ic_removed_on :: side
  ic_incident_edges :: "merge_change list"

record node_group_conflict =
  nc_conflict_id :: string
  nc_node_ids :: "string list"
  nc_fields :: "field_conflict list"
  nc_base :: "merge_value dict"
  nc_branch :: "merge_value dict"
  nc_destination :: "merge_value dict"
  nc_diagnostic_codes :: "string list"

datatype merge_conflict =
    FieldConflict field_conflict
  | PresenceConflict presence_conflict
  | IncidentEdgeConflict incident_edge_conflict
  | NodeGroupConflict node_group_conflict

fun conflict_id :: "merge_conflict \<Rightarrow> string" where
  "conflict_id (FieldConflict c) = fc_conflict_id c"
| "conflict_id (PresenceConflict c) = pc_conflict_id c"
| "conflict_id (IncidentEdgeConflict c) = ic_conflict_id c"
| "conflict_id (NodeGroupConflict c) = nc_conflict_id c"

section \<open>Values of a coordinate\<close>

definition merge_value_of :: "merge_codec \<Rightarrow> state_object option \<Rightarrow> merge_value" where
  "merge_value_of K entity = (case entity of None \<Rightarrow> MissingValue
     | Some x \<Rightarrow> PresentValue (VDict (semantic_document (mk_view K x))))"

definition field_value_of :: "merge_codec \<Rightarrow> state_object option \<Rightarrow> string \<Rightarrow> merge_value" where
  "field_value_of K entity name = (case entity of None \<Rightarrow> MissingValue
     | Some x \<Rightarrow> if name \<notin> set (content_fields (mk_view K x)) then MissingValue
         else (case dict_get (semantic_document (mk_view K x)) name of
             None \<Rightarrow> MissingValue | Some v \<Rightarrow> PresentValue v))"

definition compared_fields :: "merge_codec \<Rightarrow> state_object option list \<Rightarrow> string list" where
  "compared_fields K entities = sorted_set (concat (map (\<lambda>e. case e of None \<Rightarrow> []
     | Some x \<Rightarrow> content_fields (mk_view K x)) entities))"

definition change_at ::
  "merge_codec \<Rightarrow> string \<Rightarrow> string option \<Rightarrow> string option \<Rightarrow> merge_value \<Rightarrow> merge_value \<Rightarrow> merge_value \<Rightarrow>
   merge_change" where
  "change_at K c i f b s d = \<lparr>mc_change_id = mk_digest K c i f, mc_collection = c, mc_entity_id = i,
     mc_field_name = f, mc_base = b, mc_branch = s, mc_destination = d\<rparr>"

definition field_conflict_of :: "merge_change \<Rightarrow> field_conflict" where
  "field_conflict_of c = \<lparr>fc_conflict_id = mc_change_id c, fc_collection = mc_collection c,
     fc_entity_id = mc_entity_id c,
     fc_field_name = (case mc_field_name c of Some (x # xs) \<Rightarrow> x # xs | _ \<Rightarrow> mc_collection c),
     fc_base = mc_base c, fc_branch = mc_branch c, fc_destination = mc_destination c,
     fc_allowed_answer_kinds =
       (if mc_collection c = ''nodes'' \<and> mc_field_name c \<in> {Some ''status'', Some ''standing''}
        then [Branch_answer, Destination_answer]
        else [Branch_answer, Destination_answer, Merged_answer])\<rparr>"

section \<open>The comparison\<close>

definition MERGE_COLLECTIONS :: "string list" where
  "MERGE_COLLECTIONS = [''nodes'', ''edges'', ''proposals'', ''ambiguities'', ''glossary'']"

definition MERGE_GLOBALS :: "string list" where
  "MERGE_GLOBALS = [''project_truth_scope'', ''ontology'']"

text \<open>\<open>getattr(graph, collection)\<close>, of a collection and of a global.\<close>

definition entities :: "graph_state \<Rightarrow> string \<Rightarrow> state_object dict" where
  "entities st c = (case dict_get (slots_of st) c of Some (Table d) \<Rightarrow> d | _ \<Rightarrow> [])"

definition global_value :: "merge_codec \<Rightarrow> graph_state \<Rightarrow> string \<Rightarrow> merge_value" where
  "global_value K st c = PresentValue (if c = ''ontology''
     then VDict (semantic_document (mk_view K (O_ontology (g_ontology st))))
     else VList (map VStr (g_project_truth_scope st)))"

definition edge_value :: "merge_codec \<Rightarrow> graph_state \<Rightarrow> string \<Rightarrow> merge_value" where
  "edge_value K st i = merge_value_of K (map_option O_edge (dict_get (g_edges st) i))"

definition incident_changes ::
  "merge_codec \<Rightarrow> string \<Rightarrow> graph_state \<Rightarrow> graph_state \<Rightarrow> graph_state \<Rightarrow> side \<Rightarrow> merge_change list" where
  "incident_changes K node_id base branch destination removed_on =
     (let competing = (if removed_on = On_branch then destination else branch)
      in map (\<lambda>(i, _). change_at K ''edges'' (Some i) None (edge_value K base i) (edge_value K branch i)
             (edge_value K destination i))
           (filter (\<lambda>(i, e). node_id \<in> {e_source e, e_target e}
              \<and> \<not> merge_eq (edge_value K base i) (merge_value_of K (Some (O_edge e))))
             (sort_key fst (g_edges competing))))"

text \<open>Removed on one side only: a conflict when the other side changed it or its edges.\<close>

definition compare_presence ::
  "merge_codec \<Rightarrow> graph_state \<Rightarrow> graph_state \<Rightarrow> graph_state \<Rightarrow> string \<Rightarrow> string \<Rightarrow>
   merge_change list \<times> merge_conflict list" where
  "compare_presence K base branch destination c i =
     (let new = dict_get (entities branch c) i;
          b = merge_value_of K (dict_get (entities base c) i); s = merge_value_of K new;
          d = merge_value_of K (dict_get (entities destination c) i);
          removed_on = (if new = None then On_branch else On_destination);
          incident = (if c = ''nodes'' then incident_changes K i base branch destination removed_on else []);
          key = mk_digest K c (Some i) None
      in (if \<not> merge_eq s b \<or> incident \<noteq> [] then [change_at K c (Some i) None b s d] else [],
          if incident \<noteq> [] then [IncidentEdgeConflict \<lparr>ic_conflict_id = key, ic_node_id = i,
            ic_base = b, ic_branch = s, ic_destination = d, ic_removed_on = removed_on,
            ic_incident_edges = incident\<rparr>]
          else if \<not> merge_eq (if new = None then d else s) b then [PresenceConflict
            \<lparr>pc_conflict_id = key, pc_collection = c, pc_entity_id = i, pc_base = b, pc_branch = s,
             pc_destination = d, pc_removed_on = removed_on\<rparr>]
          else []))"

definition compare_field ::
  "merge_codec \<Rightarrow> string \<Rightarrow> string \<Rightarrow> state_object option \<Rightarrow> state_object option \<Rightarrow> state_object option \<Rightarrow>
   string \<Rightarrow> merge_change list \<times> merge_conflict list" where
  "compare_field K c i old new current name =
     (let b = field_value_of K old name; s = field_value_of K new name; d = field_value_of K current name;
          change = change_at K c (Some i) (Some name) b s d
      in if merge_eq s b \<or> merge_eq s d then ([], [])
         else ([change], if merge_eq d b then [] else [FieldConflict (field_conflict_of change)]))"

definition gather :: "('a list \<times> 'b list) list \<Rightarrow> 'a list \<times> 'b list" where
  "gather xs = (concat (map fst xs), concat (map snd xs))"

definition compare_entity ::
  "merge_codec \<Rightarrow> graph_state \<Rightarrow> graph_state \<Rightarrow> graph_state \<Rightarrow> string \<Rightarrow> string \<Rightarrow>
   merge_change list \<times> merge_conflict list" where
  "compare_entity K base branch destination c i =
     (let old = dict_get (entities base c) i; new = dict_get (entities branch c) i;
          current = dict_get (entities destination c) i;
          b = merge_value_of K old; s = merge_value_of K new; d = merge_value_of K current
      in if old \<noteq> None \<and> (new = None) \<noteq> (current = None)
           then compare_presence K base branch destination c i
         else if merge_eq s b \<or> merge_eq s d then ([], [])
         else if new = None \<or> current = None then ([change_at K c (Some i) None b s d], [])
         else gather (map (compare_field K c i old new current) (compared_fields K [old, new, current])))"

definition compare_collection ::
  "merge_codec \<Rightarrow> graph_state \<Rightarrow> graph_state \<Rightarrow> graph_state \<Rightarrow> string \<Rightarrow>
   merge_change list \<times> merge_conflict list" where
  "compare_collection K base branch destination c =
     gather (map (compare_entity K base branch destination c)
       (sorted_set (keys (entities base c) @ keys (entities branch c) @ keys (entities destination c))))"

definition compare_global ::
  "merge_codec \<Rightarrow> graph_state \<Rightarrow> graph_state \<Rightarrow> graph_state \<Rightarrow> string \<Rightarrow>
   merge_change list \<times> merge_conflict list" where
  "compare_global K base branch destination c =
     (let b = global_value K base c; s = global_value K branch c; d = global_value K destination c;
          change = change_at K c None None b s d
      in if merge_eq s b \<or> merge_eq s d then ([], [])
         else ([change], if merge_eq d b then [] else [FieldConflict (field_conflict_of change)]))"

text \<open>
  The edges that go with a node the branch removed, and the edges an incident conflict owns:
  they are not changed or disputed on their own.
\<close>

definition removed_incident_edges :: "graph_state \<Rightarrow> graph_state \<Rightarrow> string list" where
  "removed_incident_edges base branch =
     (let removed = set (keys (g_nodes base)) - set (keys (g_nodes branch))
      in map fst (filter (\<lambda>(i, e). i \<notin> set (keys (g_edges branch)) \<and> {e_source e, e_target e} \<inter> removed \<noteq> {})
           (g_edges base)))"

fun conflict_edges :: "merge_conflict \<Rightarrow> string list" where
  "conflict_edges (IncidentEdgeConflict c) =
     filter (\<lambda>i. i \<noteq> []) (List.map_filter mc_entity_id (ic_incident_edges c))"
| "conflict_edges _ = []"

fun edge_owned :: "string list \<Rightarrow> merge_conflict \<Rightarrow> bool" where
  "edge_owned owned (FieldConflict c) = (fc_collection c = ''edges'' \<and> fc_entity_id c \<in> Some ` set owned)"
| "edge_owned owned (PresenceConflict c) = (pc_collection c = ''edges'' \<and> pc_entity_id c \<in> set owned)"
| "edge_owned owned (IncidentEdgeConflict c) = False"
| "edge_owned owned (NodeGroupConflict c) = False"

definition compare_graphs ::
  "merge_codec \<Rightarrow> graph_state \<Rightarrow> graph_state \<Rightarrow> graph_state \<Rightarrow> merge_change list \<times> merge_conflict list" where
  "compare_graphs K base branch destination =
     (let (changes, conflicts) = gather (map (compare_collection K base branch destination) MERGE_COLLECTIONS
            @ map (compare_global K base branch destination) MERGE_GLOBALS);
          owned = removed_incident_edges base branch @ concat (map conflict_edges conflicts)
      in (filter (\<lambda>c. \<not> (mc_collection c = ''edges'' \<and> mc_entity_id c \<in> Some ` set owned)) changes,
          filter (\<lambda>c. \<not> edge_owned owned c) conflicts))"

end
