(* ===== verification/Value_Laws.thy ===== *)
theory Value_Laws
  imports Values
begin

text \<open>
  Python's equality of document values: it is reflexive on documents whose dictionaries do not
  repeat a key, and equal dictionaries have equal entries.
\<close>

text \<open>A document in which no dictionary repeats a key.\<close>

fun keys_once :: "val \<Rightarrow> bool" where
  "keys_once (VList vs) = list_all keys_once vs"
| "keys_once (VDict d) = (wf_dict d \<and> list_all (\<lambda>(_, v). keys_once v) d)"
| "keys_once _ = True"

lemma py_eq_items_found:
  "(\<And>k v. (k, v) \<in> set d \<Longrightarrow> \<exists>w. dict_get e k = Some w \<and> py_eq v w) \<Longrightarrow> py_eq_items d e"
proof (induction d)
  case (Cons kv d)
  obtain k v where kv: "kv = (k, v)" by (cases kv)
  from Cons.prems [of k v] obtain w where "dict_get e k = Some w" "py_eq v w" by (auto simp: kv)
  with Cons show ?case by (simp add: kv)
qed simp

lemma py_eq_list_refl: "(\<And>v. v \<in> set vs \<Longrightarrow> py_eq v v) \<Longrightarrow> py_eq_list vs vs"
  by (induction vs) auto

lemma py_eq_refl: "keys_once v \<Longrightarrow> py_eq v v"
proof (induction v)
  case (VList vs)
  then show ?case by (auto simp: list_all_iff intro: py_eq_list_refl)
next
  case (VDict d)
  have "py_eq_items d d"
  proof (rule py_eq_items_found)
    fix k v assume "(k, v) \<in> set d"
    with VDict show "\<exists>w. dict_get d k = Some w \<and> py_eq v w"
      by (fastforce simp: list_all_iff)
  qed
  then show ?case by simp
qed simp_all

lemma py_eq_items_lookup:
  "py_eq_items d e \<Longrightarrow> dict_get d k = Some v \<Longrightarrow> \<exists>w. dict_get e k = Some w \<and> py_eq v w"
  by (induction d) (auto split: if_splits option.splits)

end
