(* ===== verification/Node_Validator.thy ===== *)
theory Node_Validator
  imports Operations
begin

text \<open>
  The contract of the validation library that the graph operations rely on, and an executable
  validator that meets it. \<open>node_validator\<close> states documented behaviour of reading a document
  as a node: a given string or integer is the value of its field, and the result has the
  attributes its class declares, each with a value its annotation allows. \<open>check_node\<close> is a
  validator built from the class declarations, without the coercions of the default mode and
  without normalising nested records; it shows that the contract can be met.
\<close>

section \<open>Values an annotation allows\<close>

fun is_extension_value :: "val \<Rightarrow> bool" where
  "is_extension_value (VStr _) = True"
| "is_extension_value (VInt _) = True"
| "is_extension_value (VFloat _) = True"
| "is_extension_value (VBool _) = True"
| "is_extension_value (VList vs) = list_all is_VStr vs"
| "is_extension_value _ = False"

fun is_VDict :: "val \<Rightarrow> bool" where
  "is_VDict (VDict _) = True"
| "is_VDict _ = False"

fun allows :: "annotation \<Rightarrow> val \<Rightarrow> bool" where
  "allows AStr v = is_VStr v"
| "allows AStrOpt v = (v = VNone \<or> is_VStr v)"
| "allows ABool v = (case v of VBool _ \<Rightarrow> True | _ \<Rightarrow> False)"
| "allows (AInt lo) v = (case v of VInt i \<Rightarrow> (case lo of None \<Rightarrow> True | Some b \<Rightarrow> b \<le> i) | _ \<Rightarrow> False)"
| "allows (ALit ls) v = (case v of VStr s \<Rightarrow> s \<in> set ls | _ \<Rightarrow> False)"
| "allows (ALitOpt ls) v = (case v of VStr s \<Rightarrow> s \<in> set ls | VNone \<Rightarrow> True | _ \<Rightarrow> False)"
| "allows AStrList v = (case v of VList vs \<Rightarrow> list_all is_VStr vs | _ \<Rightarrow> False)"
| "allows (AModelList _) v = (case v of VList vs \<Rightarrow> list_all is_VDict vs | _ \<Rightarrow> False)"
| "allows AExtensionFields v =
     (case v of VDict d \<Rightarrow> list_all (\<lambda>(_, x). is_extension_value x) d | _ \<Rightarrow> False)"
| "allows (APattern _) v = (case v of VNone \<Rightarrow> True | VStr s \<Rightarrow> is_identifier s | _ \<Rightarrow> False)"

text \<open>A field whose value, when it is a string, is taken as it is given.\<close>

fun string_annotation :: "annotation \<Rightarrow> bool" where
  "string_annotation AStr = True"
| "string_annotation AStrOpt = True"
| "string_annotation (ALit _) = True"
| "string_annotation (ALitOpt _) = True"
| "string_annotation _ = False"

text \<open>The fields of a node class other than the discriminator.\<close>

definition own_fields :: "string \<Rightarrow> field_decl list" where
  "own_fields t = (case node_class t of
     None \<Rightarrow> [] | Some decls \<Rightarrow> filter (\<lambda>f. fd_name f \<noteq> ''type'') decls)"

definition conforming_node :: "project_node \<Rightarrow> bool" where
  "conforming_node n = (n_type n \<in> set ALL_NODE_TYPES \<and>
     map fst (n_attrs n) = map fd_name (own_fields (n_type n)) \<and>
     list_all (\<lambda>f. case node_attr n (fd_name f) of
       None \<Rightarrow> False | Some v \<Rightarrow> allows (fd_annotation f) v) (own_fields (n_type n)))"

section \<open>The contract\<close>

locale node_validator =
  fixes V :: "val dict \<Rightarrow> project_node result"
  assumes id_given: "V d = Inr n \<Longrightarrow> dict_get d ''id'' = Some (VStr s) \<Longrightarrow> n_id n = s"
    and type_given: "V d = Inr n \<Longrightarrow> dict_get d ''type'' = Some (VStr s) \<Longrightarrow> n_type n = s"
    and standing_given:
      "V d = Inr n \<Longrightarrow> dict_get d ''standing'' = Some (VStr (standing_value st)) \<Longrightarrow>
       n_standing n = st"
    and created_given: "V d = Inr n \<Longrightarrow> dict_get d ''created_rev'' = Some (VInt i) \<Longrightarrow>
       n_created_rev n = i"
    and updated_given: "V d = Inr n \<Longrightarrow> dict_get d ''updated_rev'' = Some (VInt i) \<Longrightarrow>
       n_updated_rev n = i"
    and string_given:
      "V d = Inr n \<Longrightarrow> f \<in> set (own_fields (n_type n)) \<Longrightarrow> string_annotation (fd_annotation f) \<Longrightarrow>
       dict_get d (fd_name f) = Some (VStr s) \<Longrightarrow> node_attr n (fd_name f) = Some (VStr s)"
    and conforming: "V d = Inr n \<Longrightarrow> conforming_node n"

locale adapter =
  fixes A :: node_adapter
  assumes lax_mode: "node_validator (ad_validate A)"
    and strict_mode: "node_validator (ad_validate_strict A)"

section \<open>Strict validation keeps the contract\<close>

lemma rewrite_field_frame:
  "rewrite_field f k d = Inr d' \<Longrightarrow> k' \<noteq> k \<Longrightarrow> dict_get d' k' = dict_get d k'"
  by (auto simp: rewrite_field_def result_simps split: option.splits)

lemma adapt_wire_node_datetimes_frame:
  "adapt_wire_node_datetimes pt d = Inr d' \<Longrightarrow> k \<noteq> ''attempts'' \<Longrightarrow> dict_get d' k = dict_get d k"
  by (auto simp: adapt_wire_node_datetimes_def dest: rewrite_field_frame split: if_splits)

lemma strict_project_node_doc:
  assumes "strict_project_node A d = Inr n"
  obtains d' where "ad_validate_strict A d' = Inr n"
    and "\<And>k. k \<noteq> ''source_refs'' \<Longrightarrow> k \<noteq> ''attempts'' \<Longrightarrow> dict_get d' k = dict_get d k"
proof -
  from assms obtain d1 d2 where
    r: "rewrite_field (adapt_source_ref_datetimes (ad_parse_time A)) ''source_refs'' d = Inr d1"
    and w: "adapt_wire_node_datetimes (ad_parse_time A) d1 = Inr d2"
    and v: "ad_validate_strict A d2 = Inr n"
    unfolding strict_project_node_def by (auto simp: result_simps split: option.splits val.splits)
  have "dict_get d2 k = dict_get d k" if "k \<noteq> ''source_refs''" "k \<noteq> ''attempts''" for k
    using adapt_wire_node_datetimes_frame [OF w that(2)] rewrite_field_frame [OF r that(1)] by simp
  with v show ?thesis by (rule that)
qed

lemma own_fields_cases:
  assumes "f \<in> set (own_fields t)"
  shows "string_annotation (fd_annotation f) \<Longrightarrow>
    fd_name f \<noteq> ''attempts'' \<and> fd_name f \<noteq> ''source_refs''"
  using assms
  by (auto simp: own_fields_def node_class_def ResearchQuestion_def Hypothesis_def Decision_def
      Experiment_def Evidence_def Blocker_def split: option.splits if_splits)

context adapter
begin

lemma strict_project_node_validator: "node_validator (strict_project_node A)"
proof
  fix d n
  assume a: "strict_project_node A d = Inr n"
  then obtain d' where v: "ad_validate_strict A d' = Inr n"
    and frame: "\<And>k. k \<noteq> ''source_refs'' \<Longrightarrow> k \<noteq> ''attempts'' \<Longrightarrow> dict_get d' k = dict_get d k"
    by (rule strict_project_node_doc) blast
  note S = strict_mode
  show "n_id n = s" if "dict_get d ''id'' = Some (VStr s)" for s
    using node_validator.id_given [OF S v, of s] that by (simp add: frame)
  show "n_type n = s" if "dict_get d ''type'' = Some (VStr s)" for s
    using node_validator.type_given [OF S v, of s] that by (simp add: frame)
  show "n_standing n = st" if "dict_get d ''standing'' = Some (VStr (standing_value st))" for st
    using node_validator.standing_given [OF S v, of st] that by (simp add: frame)
  show "n_created_rev n = i" if "dict_get d ''created_rev'' = Some (VInt i)" for i
    using node_validator.created_given [OF S v, of i] that by (simp add: frame)
  show "n_updated_rev n = i" if "dict_get d ''updated_rev'' = Some (VInt i)" for i
    using node_validator.updated_given [OF S v, of i] that by (simp add: frame)
  show "node_attr n (fd_name f) = Some (VStr s)"
    if "f \<in> set (own_fields (n_type n))" "string_annotation (fd_annotation f)"
      "dict_get d (fd_name f) = Some (VStr s)" for f s
    using node_validator.string_given [OF S v that(1,2), of s] that own_fields_cases [OF that(1,2)]
    by (simp add: frame)
  show "conforming_node n"
    by (rule node_validator.conforming [OF S v])
qed

end

sublocale adapter \<subseteq> lax: node_validator "ad_validate A"
  by (rule lax_mode)

sublocale adapter \<subseteq> strict: node_validator "strict_project_node A"
  by (rule strict_project_node_validator)

section \<open>A validator built from the class declarations\<close>

text \<open>The value of a declared field: the one given, else its default; it must be allowed.\<close>

definition read_field :: "val dict \<Rightarrow> field_decl \<Rightarrow> (string \<times> val) result" where
  "read_field d f =
     (case (case dict_get d (fd_name f) of Some v \<Rightarrow> Some v | None \<Rightarrow> fd_default f) of
        None \<Rightarrow> Inl (ValueError (fd_name f))
      | Some v \<Rightarrow> if allows (fd_annotation f) v then Inr (fd_name f, v)
                  else Inl (ValueError (fd_name f)))"

fun str_of :: "val option \<Rightarrow> string" where
  "str_of (Some (VStr s)) = s"
| "str_of _ = []"

fun opt_str_of :: "val option \<Rightarrow> string option" where
  "opt_str_of (Some (VStr s)) = Some s"
| "opt_str_of _ = None"

fun int_of :: "val option \<Rightarrow> int" where
  "int_of (Some (VInt i)) = i"
| "int_of _ = 0"

fun dict_of_val :: "val option \<Rightarrow> val dict" where
  "dict_of_val (Some (VDict d)) = d"
| "dict_of_val _ = []"

fun list_of_val :: "val option \<Rightarrow> val list" where
  "list_of_val (Some (VList vs)) = vs"
| "list_of_val _ = []"

definition check_node :: "val dict \<Rightarrow> project_node result" where
  "check_node d = (case dict_get d ''type'' of
     Some (VStr t) \<Rightarrow>
       if t \<notin> set ALL_NODE_TYPES then Inl (ValueError ''type'')
       else if \<not> set (keys d) \<subseteq> set (map fd_name (BaseNode @ own_fields t)) \<union> {''type''}
         then Inl (ValueError ''extra'')
       else bind_r (map_r (read_field d) BaseNode) (\<lambda>base.
            bind_r (map_r (read_field d) (own_fields t)) (\<lambda>attrs.
            bind_r (Standing (str_of (dict_get base ''standing''))) (\<lambda>st.
              Inr \<lparr>n_id = str_of (dict_get base ''id''), n_title = str_of (dict_get base ''title''),
                n_extension_type = opt_str_of (dict_get base ''extension_type''),
                n_extension_fields = dict_of_val (dict_get base ''extension_fields''),
                n_standing = st, n_created_rev = int_of (dict_get base ''created_rev''),
                n_updated_rev = int_of (dict_get base ''updated_rev''),
                n_source_refs = list_of_val (dict_get base ''source_refs''),
                n_type = t, n_attrs = attrs\<rparr>)))
   | _ \<Rightarrow> Inl (ValueError ''type''))"

lemma read_field_Inr:
  "read_field d f = Inr (k, v) \<longleftrightarrow> k = fd_name f \<and> allows (fd_annotation f) v \<and>
     (dict_get d (fd_name f) = Some v \<or> dict_get d (fd_name f) = None \<and> fd_default f = Some v)"
  by (auto simp: read_field_def split: option.splits if_splits)

lemma map_r_read_fields:
  assumes "map_r (read_field d) fs = Inr kvs" and "distinct (map fd_name fs)"
  shows "map fst kvs = map fd_name fs"
    and "f \<in> set fs \<Longrightarrow> \<exists>v. dict_get kvs (fd_name f) = Some v \<and> allows (fd_annotation f) v \<and>
      (dict_get d (fd_name f) = Some v \<or> dict_get d (fd_name f) = None \<and> fd_default f = Some v)"
  using assms
proof (induction fs arbitrary: kvs)
  case (Cons g fs)
  case 1
  then show ?case using Cons.IH(1) by (auto simp: result_simps read_field_Inr)
next
  case (Cons g fs)
  case 2
  then obtain v kvs' where g: "read_field d g = Inr (fd_name g, v)"
    and rest: "map_r (read_field d) fs = Inr kvs'" and kvs: "kvs = (fd_name g, v) # kvs'"
    by (auto simp: result_simps read_field_Inr)
  show ?case
  proof (cases "f = g")
    case True
    then show ?thesis using g kvs by (auto simp: read_field_Inr)
  next
    case False
    then have f: "f \<in> set fs" using 2 by simp
    then have "fd_name f \<in> fd_name ` set fs" by (rule imageI)
    then have "fd_name f \<noteq> fd_name g" using 2 by auto
    then show ?thesis using Cons.IH(2) [OF f rest] 2 kvs by simp
  qed
qed simp_all

lemma own_fields_distinct: "distinct (map fd_name (own_fields t))"
  by (auto simp: own_fields_def node_class_def ResearchQuestion_def Hypothesis_def Decision_def
      Experiment_def Evidence_def Blocker_def split: option.splits if_splits)

lemma BaseNode_distinct: "distinct (map fd_name BaseNode)"
  by (simp add: BaseNode_def)

lemma check_node_Inr:
  assumes "check_node d = Inr n"
  obtains base attrs where "map_r (read_field d) BaseNode = Inr base"
    and "map_r (read_field d) (own_fields (n_type n)) = Inr attrs"
    and "n_attrs n = attrs" and "dict_get d ''type'' = Some (VStr (n_type n))"
    and "n_type n \<in> set ALL_NODE_TYPES"
    and "n_id n = str_of (dict_get base ''id'')"
    and "Standing (str_of (dict_get base ''standing'')) = Inr (n_standing n)"
    and "n_created_rev n = int_of (dict_get base ''created_rev'')"
    and "n_updated_rev n = int_of (dict_get base ''updated_rev'')"
  using assms unfolding check_node_def
  by (auto simp: result_simps split: option.splits val.splits if_splits)

lemma base_field_given:
  assumes "map_r (read_field d) BaseNode = Inr base" and "f \<in> set BaseNode"
    and "dict_get d (fd_name f) = Some v"
  shows "dict_get base (fd_name f) = Some v"
  using map_r_read_fields(2) [OF assms(1) BaseNode_distinct assms(2)] assms(3) by auto

interpretation checked: node_validator check_node
proof
  fix d n
  assume "check_node d = Inr n"
  then obtain base attrs where b: "map_r (read_field d) BaseNode = Inr base"
    and o: "map_r (read_field d) (own_fields (n_type n)) = Inr attrs"
    and attrs: "n_attrs n = attrs" and t: "dict_get d ''type'' = Some (VStr (n_type n))"
    and ty: "n_type n \<in> set ALL_NODE_TYPES"
    and i: "n_id n = str_of (dict_get base ''id'')"
    and s: "Standing (str_of (dict_get base ''standing'')) = Inr (n_standing n)"
    and c: "n_created_rev n = int_of (dict_get base ''created_rev'')"
    and u: "n_updated_rev n = int_of (dict_get base ''updated_rev'')"
    by (rule check_node_Inr)
  have given: "dict_get base k = Some v"
    if "dict_get d k = Some v" "k \<in> set (map fd_name BaseNode)" for k v
    using base_field_given [OF b] that by auto
  show "n_id n = x" if "dict_get d ''id'' = Some (VStr x)" for x
    using given [OF that] i by (simp add: BaseNode_def)
  show "n_type n = x" if "dict_get d ''type'' = Some (VStr x)" for x
    using t that by simp
  show "n_standing n = st" if "dict_get d ''standing'' = Some (VStr (standing_value st))" for st
    using given [OF that] s by (simp add: BaseNode_def)
  show "n_created_rev n = x" if "dict_get d ''created_rev'' = Some (VInt x)" for x
    using given [OF that] c by (simp add: BaseNode_def)
  show "n_updated_rev n = x" if "dict_get d ''updated_rev'' = Some (VInt x)" for x
    using given [OF that] u by (simp add: BaseNode_def)
  show "node_attr n (fd_name f) = Some (VStr x)"
    if "f \<in> set (own_fields (n_type n))" "dict_get d (fd_name f) = Some (VStr x)" for f x
    using map_r_read_fields(2) [OF o own_fields_distinct that(1)] that(2) attrs
    by (auto simp: node_attr_def)
  show "conforming_node n"
    using map_r_read_fields [OF o own_fields_distinct] ty attrs
    by (fastforce simp: conforming_node_def node_attr_def list_all_iff split: option.splits)
qed

text \<open>Source references and attempts are accepted when they are dictionaries.\<close>

definition check_source_ref :: "val \<Rightarrow> string result" where
  "check_source_ref v = (case v of
     VDict d \<Rightarrow> (case dict_get d ''truth_repository'' of
         Some (VStr s) \<Rightarrow> Inr s | _ \<Rightarrow> Inl (ValueError ''truth_repository''))
   | _ \<Rightarrow> Inl (ValueError ''SourceRef''))"

definition check_attempt :: "val \<Rightarrow> val dict result" where
  "check_attempt v = (case v of VDict d \<Rightarrow> Inr d | _ \<Rightarrow> Inl (ValueError ''ExperimentAttempt''))"

definition checked_adapter :: node_adapter where
  "checked_adapter = \<lparr>ad_validate = check_node, ad_validate_strict = check_node,
     ad_parse_time = (\<lambda>s. Inl (ValueError s)), ad_source_ref = check_source_ref,
     ad_attempt = check_attempt, ad_json_time = (\<lambda>t. ''time'')\<rparr>"

interpretation checked_adapter: adapter checked_adapter
  by (rule adapter.intro) (simp_all add: checked_adapter_def checked.node_validator_axioms)

end
