(* ===== verification/Samples.thy ===== *)
theory Samples
  imports Replay Node_Validator
begin

text \<open>
  A small concrete project on which the conditional theorems of the development are applied: a
  seed patch that creates two hypotheses, an evidence node, an edge, a glossary term and a
  Proposal, and patches that follow it. Nodes are read by the validator \<open>check_node\<close>.
\<close>

definition sample_node :: "string \<Rightarrow> string \<Rightarrow> val dict \<Rightarrow> project_node" where
  "sample_node i t attrs = \<lparr>n_id = i, n_title = ''title'', n_extension_type = None,
     n_extension_fields = [], n_standing = ASSERTED, n_created_rev = 0, n_updated_rev = 0,
     n_source_refs = [], n_type = t, n_attrs = attrs\<rparr>"

definition sample_hypothesis :: "string \<Rightarrow> node_payload" where
  "sample_hypothesis i = \<lparr>np_node = sample_node i ''hypothesis''
     [(''statement'', VStr ''S''), (''rationale'', VStr []), (''predictions'', VList []),
      (''scope'', VStr []), (''status'', VStr ''active'')],
     np_fields_set = [''id'', ''title'', ''type'', ''statement'', ''status'']\<rparr>"

definition sample_question :: "string \<Rightarrow> node_payload" where
  "sample_question i = \<lparr>np_node = sample_node i ''research_question''
     [(''question'', VStr ''Q''), (''motivation'', VStr []), (''scope'', VStr []),
      (''status'', VStr ''open'')],
     np_fields_set = [''id'', ''title'', ''type'', ''question'']\<rparr>"

definition sample_edge :: new_edge where
  "sample_edge = \<lparr>ne_id = None, ne_source = ''h2'', ne_target = ''q1'', ne_relation = ''addresses'',
     ne_explanation = ''E'', ne_assessment = None, ne_expectation = None,
     ne_fields_set = [''source'', ''target'', ''relation'', ''explanation''],
     ne_assessment_fields_set = []\<rparr>"

definition sample_patch :: "int \<Rightarrow> patch_kind \<Rightarrow> graph_operation list \<Rightarrow> patch" where
  "sample_patch r kind ops = \<lparr>pa_schema_generation = 2, pa_revision = r, pa_kind = kind,
     pa_author = Some Agent, pa_producer = Agent_producer, pa_created_at = 100 + r,
     pa_summary = [], pa_ops = ops, pa_run_truth_scope = [], pa_repositories_read = [],
     pa_run_read_scope = None, pa_processed_cursors = [], pa_change_summary = [],
     pa_source_operation_id = Some ''op'', pa_source_effect_id = None,
     pa_source_effect_sha256 = None, pa_human_action = None, pa_agent_action = None,
     pa_admission = Accepted, pa_admission_messages = [], pa_experiment_control_node_id = None,
     pa_experiment_decision_bundle = [], pa_project_identity = None,
     pa_project_home_transfer = None, pa_authorized_by = None, pa_profile = None,
     pa_task_id = None, pa_episode_id = None, pa_branch_merge = None, pa_transition = None\<rparr>"

definition sample_update :: "string \<Rightarrow> string \<Rightarrow> node_update" where
  "sample_update i status = \<lparr>nu_id = i, nu_changes = [(''status'', VStr status)],
     nu_cause = Some HumanEditCause, nu_base_updated_rev = None\<rparr>"

definition sample_proposal :: proposal where
  "sample_proposal = \<lparr>p_id = ''pr1'', p_title = ''P'', p_card = \<lparr>gc_situation_cold = [],
       gc_why_human_now = [], gc_consequences = [], gc_decision_needed = []\<rparr>,
     p_ops = [ProposalRemovalOperation False [''h2'']], p_related_node_ids = [],
     p_related_edge_ids = [], p_related_config_keys = [], p_dependency_rule = 2, p_base_rev = 0,
     p_status = Pending, p_created_by = None, p_created_by_operation_id = None, p_raised_rev = 0,
     p_resolved_rev = None, p_resolved_by = None, p_resolved_by_operation_id = None,
     p_resolution_reason = None, p_rejection_reason = None\<rparr>"

definition sample_term :: new_glossary_term where
  "sample_term = \<lparr>ng_term = ''Term'', ng_plain_definition = ''D'', ng_where_defined = None\<rparr>"

definition seed_patch :: patch where
  "seed_patch = sample_patch 1 Seed [
     CreateNodesOperation [sample_hypothesis ''h1'', sample_hypothesis ''h2'', sample_question ''q1''],
     CreateEdgesOperation [sample_edge],
     UpsertGlossaryOperation [sample_term],
     CreateProposalsOperation [sample_proposal]]"

definition applied :: "patch \<Rightarrow> graph_state \<Rightarrow> graph_state" where
  "applied p st = (case apply_patch checked_adapter [] p st of Inl _ \<Rightarrow> st | Inr (st', _) \<Rightarrow> st')"

definition sample_state :: graph_state where
  "sample_state = applied seed_patch (initial_graph_state [''scope''])"

definition chat_patch :: patch where
  "chat_patch = sample_patch 2 Chat [UpdateNodesOperation [sample_update ''h1'' ''supported'']]"

definition approval_patch :: patch where
  "approval_patch = sample_patch 3 Approval [SetStandingOperation ''q1'' ACCEPTED,
     ResolveProposalsOperation [\<lparr>pr_id = ''pr1'', pr_status = Reject, pr_reason = Some ''no''\<rparr>]]"

definition approved_state :: graph_state where
  "approved_state = applied approval_patch sample_state"

definition cleanup_patch :: patch where
  "cleanup_patch = sample_patch 4 Chat [
     SupersedeNodesOperation [\<lparr>sn_id = ''h1'', sn_superseded_by = Some ''h2'',
       sn_explanation = ''E'', sn_cause = Some HumanEditCause\<rparr>]]"

definition sample_context :: validation_context where
  "sample_context = \<lparr>vc_project_truth_scope = [''scope''], vc_repository_aliases = None,
     vc_machine_aliases = None, vc_state_repository = None, vc_mode = Admission,
     vc_merge_source = None\<rparr>"

text \<open>A patch validator that refuses the patches with no operation.\<close>

definition sample_validator :: patch_validator where
  "sample_validator st p ctx =
     (if pa_ops p = [] then reject ''empty-patch'' (Some (pa_revision p)) [] [] [] else [])"

lemma seed_applied:
  "apply_patch checked_adapter [] seed_patch (initial_graph_state [''scope'']) = Inr (sample_state, [])"
  by code_simp

lemma chat_applied:
  "apply_patch checked_adapter [] chat_patch sample_state = Inr (applied chat_patch sample_state, [])"
  by code_simp

lemma approval_applied:
  "apply_patch checked_adapter [] approval_patch sample_state = Inr (approved_state, [])"
  by code_simp

lemma cleanup_applied:
  "apply_patch checked_adapter [] cleanup_patch approved_state
     = Inr (applied cleanup_patch approved_state, [])"
  by code_simp

end
