(* ===== verification/Merge_Properties.thy ===== *)
theory Merge_Properties
  imports Merge_Compare Value_Laws Samples Validation_Context
begin

text \<open>
  The comparison of three graphs reports exactly the coordinates the branch moved away from both
  the base and the destination, disputes exactly those the destination moved too, and reports
  nothing when a side is unchanged.
\<close>

section \<open>Gathering\<close>

lemma gather_sets [simp]:
  "set (fst (gather xs)) = (\<Union>x \<in> set xs. set (fst x))"
  "set (snd (gather xs)) = (\<Union>x \<in> set xs. set (snd x))"
  by (simp_all add: gather_def)

lemma gather_empty: "(\<And>x. x \<in> set xs \<Longrightarrow> x = ([], [])) \<Longrightarrow> gather xs = ([], [])"
  by (force simp: gather_def)

lemma gather_no_conflict: "(\<And>x. x \<in> set xs \<Longrightarrow> snd x = []) \<Longrightarrow> snd (gather xs) = []"
  by (simp add: gather_def)

definition raw_comparison ::
  "merge_codec \<Rightarrow> graph_state \<Rightarrow> graph_state \<Rightarrow> graph_state \<Rightarrow> merge_change list \<times> merge_conflict list" where
  "raw_comparison K base branch destination =
     gather (map (compare_collection K base branch destination) MERGE_COLLECTIONS
       @ map (compare_global K base branch destination) MERGE_GLOBALS)"

definition owned_edges :: "merge_codec \<Rightarrow> graph_state \<Rightarrow> graph_state \<Rightarrow> graph_state \<Rightarrow> string list" where
  "owned_edges K base branch destination = removed_incident_edges base branch
     @ concat (map conflict_edges (snd (raw_comparison K base branch destination)))"

lemma compare_graphs_raw:
  "compare_graphs K base branch destination =
     (filter (\<lambda>c. \<not> (mc_collection c = ''edges''
          \<and> mc_entity_id c \<in> Some ` set (owned_edges K base branch destination)))
        (fst (raw_comparison K base branch destination)),
      filter (\<lambda>c. \<not> edge_owned (owned_edges K base branch destination) c)
        (snd (raw_comparison K base branch destination)))"
  by (simp add: compare_graphs_def raw_comparison_def owned_edges_def case_prod_beta Let_def)

lemma raw_comparison_changes:
  "ch \<in> set (fst (raw_comparison K base branch destination)) \<longleftrightarrow>
     (\<exists>c \<in> set MERGE_COLLECTIONS. \<exists>i. i \<in> set (keys (entities base c) @ keys (entities branch c)
        @ keys (entities destination c)) \<and> ch \<in> set (fst (compare_entity K base branch destination c i)))
     \<or> (\<exists>c \<in> set MERGE_GLOBALS. ch \<in> set (fst (compare_global K base branch destination c)))"
  by (force simp: raw_comparison_def compare_collection_def)

section \<open>Coordinates\<close>

lemma change_at_fields [simp]:
  "mc_collection (change_at K c i f b s d) = c" "mc_entity_id (change_at K c i f b s d) = i"
  "mc_field_name (change_at K c i f b s d) = f" "mc_base (change_at K c i f b s d) = b"
  "mc_branch (change_at K c i f b s d) = s" "mc_destination (change_at K c i f b s d) = d"
  by (simp_all add: change_at_def)

lemma change_at_inject [simp]:
  "change_at K c i f b s d = change_at K c' i' f' b' s' d'
     \<longleftrightarrow> c = c' \<and> i = i' \<and> f = f' \<and> b = b' \<and> s = s' \<and> d = d'"
  by (auto simp: change_at_def)

lemma entity_coordinates:
  "ch \<in> set (fst (compare_entity K base branch destination c i)) \<Longrightarrow>
     mc_collection ch = c \<and> mc_entity_id ch = Some i"
  by (auto simp: compare_entity_def compare_presence_def compare_field_def Let_def split: if_splits)

lemma global_coordinates:
  "ch \<in> set (fst (compare_global K base branch destination c)) \<Longrightarrow>
     mc_collection ch = c \<and> mc_entity_id ch = None"
  by (auto simp: compare_global_def Let_def split: if_splits)

lemma absent_entity:
  assumes "i \<notin> set (keys (entities base c))" "i \<notin> set (keys (entities branch c))"
    "i \<notin> set (keys (entities destination c))"
  shows "compare_entity K base branch destination c i = ([], [])"
proof -
  have "dict_get (entities g c) i = None" if "i \<notin> set (keys (entities g c))" for g
    using that by (simp add: map_of_eq_None_iff)
  with assms show ?thesis by (simp add: compare_entity_def merge_value_of_def)
qed

lemma entity_changes:
  assumes "c \<in> set MERGE_COLLECTIONS" and "c \<noteq> ''edges''" and "mc_collection ch = c" "mc_entity_id ch = Some i"
  shows "ch \<in> set (fst (compare_graphs K base branch destination)) \<longleftrightarrow>
     ch \<in> set (fst (compare_entity K base branch destination c i))"
proof
  assume "ch \<in> set (fst (compare_graphs K base branch destination))"
  then have "ch \<in> set (fst (raw_comparison K base branch destination))" by (simp add: compare_graphs_raw)
  then consider c' i' where "ch \<in> set (fst (compare_entity K base branch destination c' i'))"
    | c' where "ch \<in> set (fst (compare_global K base branch destination c'))"
    by (auto simp: raw_comparison_changes)
  then show "ch \<in> set (fst (compare_entity K base branch destination c i))"
    using assms(3,4) entity_coordinates global_coordinates by cases fastforce+
next
  assume here: "ch \<in> set (fst (compare_entity K base branch destination c i))"
  then have "i \<in> set (keys (entities base c) @ keys (entities branch c) @ keys (entities destination c))"
    using absent_entity [of i base c branch destination K] by (cases "i \<in> fst ` set (entities branch c)") auto
  with here assms(1) have "ch \<in> set (fst (raw_comparison K base branch destination))"
    unfolding raw_comparison_changes by blast
  with assms(2,3) show "ch \<in> set (fst (compare_graphs K base branch destination))"
    by (simp add: compare_graphs_raw)
qed

section \<open>Fields\<close>

lemma field_outside:
  "f \<notin> set (compared_fields K es) \<Longrightarrow> e \<in> set es \<Longrightarrow> field_value_of K e f = MissingValue"
  by (auto simp: compared_fields_def field_value_of_def split: option.splits)

lemma field_changes:
  assumes "dict_get (entities branch c) i = Some x" and "dict_get (entities destination c) i = Some y"
  shows "change_at K c (Some i) (Some f) (field_value_of K (dict_get (entities base c) i) f)
       (field_value_of K (Some x) f) (field_value_of K (Some y) f)
       \<in> set (fst (compare_entity K base branch destination c i)) \<longleftrightarrow>
     \<not> merge_eq (merge_value_of K (Some x)) (merge_value_of K (dict_get (entities base c) i))
     \<and> \<not> merge_eq (merge_value_of K (Some x)) (merge_value_of K (Some y))
     \<and> \<not> merge_eq (field_value_of K (Some x) f) (field_value_of K (dict_get (entities base c) i) f)
     \<and> \<not> merge_eq (field_value_of K (Some x) f) (field_value_of K (Some y) f)"
  (is "?ch \<in> _ \<longleftrightarrow> ?entity1 \<and> ?entity2 \<and> ?f1 \<and> ?f2")
proof -
  let ?es = "[dict_get (entities base c) i, Some x, Some y]"
  have "f \<in> set (compared_fields K ?es)" if ?f1
    using that field_outside [of f K ?es "dict_get (entities base c) i"] field_outside [of f K ?es "Some x"]
    by (cases "f \<in> set (compared_fields K ?es)") auto
  then show ?thesis
    using assms by (auto simp: compare_entity_def compare_field_def Let_def)
qed

lemma merge_value_eq_fields:
  assumes "merge_eq (merge_value_of K (Some x)) (merge_value_of K z)"
    and "\<And>w. z = Some w \<Longrightarrow> set (content_fields (mk_view K x)) = set (content_fields (mk_view K w))"
  shows "merge_eq (field_value_of K (Some x) f) (field_value_of K z f)"
proof -
  from assms(1) obtain w where w: "z = Some w"
      "py_eq (VDict (semantic_document (mk_view K x))) (VDict (semantic_document (mk_view K w)))"
    by (cases z) (auto simp: merge_value_of_def)
  have same: "set (content_fields (mk_view K x)) = set (content_fields (mk_view K w))" by (rule assms(2) [OF w(1)])
  have found: "\<exists>v. dict_get (semantic_document fs) n = Some v" if "n \<in> set (content_fields fs)" for fs n
  proof -
    have "n \<in> fst ` set (semantic_document fs)"
      using that by (induction fs) (force simp: content_fields_def split: if_splits)+
    then show ?thesis by (metis map_of_eq_None_iff not_None_eq)
  qed
  show ?thesis
  proof (cases "f \<in> set (content_fields (mk_view K x))")
    case True
    then obtain v where v: "dict_get (semantic_document (mk_view K x)) f = Some v" using found by blast
    with w(2) py_eq_items_lookup obtain u
      where "dict_get (semantic_document (mk_view K w)) f = Some u" "py_eq v u" by fastforce
    with v w(1) True same show ?thesis by (auto simp: field_value_of_def)
  qed (use w(1) same in \<open>simp add: field_value_of_def\<close>)
qed

section \<open>Conflicts\<close>

definition disputed :: "merge_change \<Rightarrow> bool" where
  "disputed ch = ((mc_field_name ch \<noteq> None \<or> mc_entity_id ch = None)
     \<and> \<not> merge_eq (mc_destination ch) (mc_base ch))"

definition field_disputes :: "merge_change list \<times> merge_conflict list \<Rightarrow> bool" where
  "field_disputes r = (\<forall>fc. FieldConflict fc \<in> set (snd r) \<longleftrightarrow>
     (\<exists>ch \<in> set (fst r). fc = field_conflict_of ch \<and> disputed ch))"

lemma field_disputes_gather: "(\<And>r. r \<in> set rs \<Longrightarrow> field_disputes r) \<Longrightarrow> field_disputes (gather rs)"
  by (force simp: field_disputes_def)

lemma field_disputes_field: "field_disputes (compare_field K c i old new current name)"
  by (auto simp: field_disputes_def compare_field_def Let_def disputed_def)

lemma field_disputes_entity: "field_disputes (compare_entity K base branch destination c i)"
  unfolding compare_entity_def Let_def
  by (auto simp: field_disputes_field intro!: field_disputes_gather)
     (auto simp: field_disputes_def compare_presence_def Let_def disputed_def)

lemma field_disputes_global: "field_disputes (compare_global K base branch destination c)"
  by (auto simp: field_disputes_def compare_global_def Let_def disputed_def)

lemma field_disputes_raw: "field_disputes (raw_comparison K base branch destination)"
  unfolding raw_comparison_def compare_collection_def
  by (auto intro!: field_disputes_gather simp: field_disputes_entity field_disputes_global)

lemma field_disputes_graphs: "field_disputes (compare_graphs K base branch destination)"
  using field_disputes_raw [of K base branch destination]
  by (auto simp: compare_graphs_raw field_disputes_def field_conflict_of_def)

section \<open>Unchanged sides\<close>

text \<open>The documents of a graph repeat no key, so each is equal to itself.\<close>

definition documents_once :: "merge_codec \<Rightarrow> graph_state \<Rightarrow> bool" where
  "documents_once K st = (wf_dict (g_edges st)
     \<and> list_all (\<lambda>c. list_all (\<lambda>(_, x). keys_once (VDict (semantic_document (mk_view K x))))
          (entities st c)) MERGE_COLLECTIONS
     \<and> keys_once (VDict (semantic_document (mk_view K (O_ontology (g_ontology st))))))"

lemma entity_document_once:
  assumes "documents_once K st" "c \<in> set MERGE_COLLECTIONS" "dict_get (entities st c) i = Some x"
  shows "keys_once (VDict (semantic_document (mk_view K x)))"
  using assms map_of_SomeD [OF assms(3)] by (fastforce simp: documents_once_def list_all_iff)

lemma entity_eq_refl:
  assumes "documents_once K st" "c \<in> set MERGE_COLLECTIONS"
  shows "merge_eq (merge_value_of K (dict_get (entities st c) i)) (merge_value_of K (dict_get (entities st c) i))"
  using entity_document_once [OF assms] py_eq_refl
  by (auto simp: merge_value_of_def split: option.splits simp del: py_eq.simps)

lemma field_eq_refl:
  assumes "documents_once K st" "c \<in> set MERGE_COLLECTIONS"
  shows "merge_eq (field_value_of K (dict_get (entities st c) i) f) (field_value_of K (dict_get (entities st c) i) f)"
proof -
  have "py_eq v v" if "dict_get (entities st c) i = Some x" "dict_get (semantic_document (mk_view K x)) f = Some v"
    for x v
    using entity_document_once [OF assms that(1)] map_of_SomeD [OF that(2)]
    by (intro py_eq_refl) (auto simp: list_all_iff)
  then show ?thesis by (auto simp: field_value_of_def split: option.splits)
qed

lemma global_eq_refl:
  assumes "documents_once K st" shows "merge_eq (global_value K st c) (global_value K st c)"
proof -
  have "py_eq (VList (map VStr xs)) (VList (map VStr xs))" for xs
    by (rule py_eq_refl) (simp add: list_all_iff)
  moreover have "py_eq (VDict (semantic_document (mk_view K (O_ontology (g_ontology st)))))
      (VDict (semantic_document (mk_view K (O_ontology (g_ontology st)))))"
    using assms by (intro py_eq_refl) (simp add: documents_once_def)
  ultimately show ?thesis by (simp add: global_value_def del: py_eq.simps)
qed

lemma entities_edges: "entities st ''edges'' = map (\<lambda>(i, e). (i, O_edge e)) (g_edges st)"
  by (simp add: entities_def slots_of_def table_of_def)

lemma edge_value_entities: "edge_value K st i = merge_value_of K (dict_get (entities st ''edges'') i)"
  by (simp add: edge_value_def entities_edges map_of_map)

lemma no_incident_changes:
  assumes "documents_once K base" "(if removed_on = On_branch then destination else branch) = base"
  shows "incident_changes K i base branch destination removed_on = []"
proof -
  have "merge_eq (edge_value K base j) (merge_value_of K (Some (O_edge e)))" if "(j, e) \<in> set (g_edges base)" for j e
  proof -
    have "dict_get (g_edges base) j = Some e"
      using that assms(1) by (simp add: documents_once_def)
    then have "merge_value_of K (Some (O_edge e)) = edge_value K base j" by (simp add: edge_value_def)
    then show ?thesis
      using entity_eq_refl [OF assms(1), of "''edges''" j] by (simp add: edge_value_entities MERGE_COLLECTIONS_def)
  qed
  then show ?thesis
    using assms(2) by (auto simp: incident_changes_def Let_def filter_empty_conv)
qed

lemma unchanged_branch_entity:
  assumes "documents_once K base" "c \<in> set MERGE_COLLECTIONS"
  shows "compare_entity K base base destination c i = ([], [])"
proof -
  note refl = entity_eq_refl [OF assms, of i]
  have "incident_changes K i base base destination On_destination = []"
    by (rule no_incident_changes [OF assms(1)]) simp
  with refl show ?thesis
    by (auto simp: compare_entity_def compare_presence_def Let_def)
qed

lemma unchanged_destination_entity:
  assumes "documents_once K base" "c \<in> set MERGE_COLLECTIONS"
  shows "snd (compare_entity K base branch base c i) = []"
proof -
  have "incident_changes K i base branch base On_branch = []"
    by (rule no_incident_changes [OF assms(1)]) simp
  with entity_eq_refl [OF assms, of i] field_eq_refl [OF assms, of i] show ?thesis
    by (auto simp: compare_entity_def compare_presence_def compare_field_def Let_def
        intro!: gather_no_conflict)
qed

section \<open>Properties\<close>

text \<open>Two entities with equal documents declare the same content fields.\<close>

definition same_model :: "merge_codec \<Rightarrow> state_object option \<Rightarrow> state_object option \<Rightarrow> bool" where
  "same_model K entity other = (case (entity, other) of
     (Some x, Some y) \<Rightarrow>
       py_eq (VDict (semantic_document (mk_view K x))) (VDict (semantic_document (mk_view K y)))
         \<longrightarrow> set (content_fields (mk_view K x)) = set (content_fields (mk_view K y))
   | _ \<Rightarrow> True)"


text \<open>
  Three versions of a hypothesis: the branch rewrote its statement and its title, the destination
  its title and its rationale. Nodes are seen with the roles their classes declare.
\<close>

fun sample_view :: "state_object \<Rightarrow> model_fields" where
  "sample_view (O_node n) = map (\<lambda>(k, v). (k,
     if k \<in> set (graph_fields (class_fields (n_type n)) (Some Engine) None None) then Engine
     else if k \<in> set (graph_fields (class_fields (n_type n)) (Some Identity) None None) then Identity
     else Content, Leaf v)) (node_model_dump n)"
| "sample_view _ = []"

definition sample_merge :: merge_codec where
  "sample_merge = \<lparr>mk_view = sample_view, mk_digest = (\<lambda>c i f. c @ or_empty i @ or_empty f)\<rparr>"

definition versioned :: "string \<Rightarrow> string \<Rightarrow> string \<Rightarrow> graph_state" where
  "versioned title statement rationale = (initial_graph_state [''scope''])\<lparr>g_nodes := [(''hyp/h1'',
     (sample_node ''hyp/h1'' ''hypothesis'' [(''statement'', VStr statement), (''rationale'', VStr rationale),
        (''predictions'', VList []), (''scope'', VStr []), (''status'', VStr ''active'')])
       \<lparr>n_title := title\<rparr>)]\<rparr>"

abbreviation base_version :: graph_state where "base_version \<equiv> versioned ''T'' ''S'' ''R''"
abbreviation branch_version :: graph_state where "branch_version \<equiv> versioned ''T1'' ''S1'' ''R''"
abbreviation main_version :: graph_state where "main_version \<equiv> versioned ''T2'' ''S'' ''R2''"

abbreviation hypothesis_in :: "graph_state \<Rightarrow> state_object option" where
  "hypothesis_in st \<equiv> dict_get (entities st ''nodes'') ''hyp/h1''"

lemma sample_titles:
  "field_value_of sample_merge (hypothesis_in base_version) ''title'' = PresentValue (VStr ''T'')
   \<and> field_value_of sample_merge (hypothesis_in branch_version) ''title'' = PresentValue (VStr ''T1'')
   \<and> field_value_of sample_merge (hypothesis_in main_version) ''title'' = PresentValue (VStr ''T2'')"
  by code_simp

lemma sample_models:
  "same_model sample_merge (hypothesis_in branch_version) (hypothesis_in base_version)
   \<and> same_model sample_merge (hypothesis_in branch_version) (hypothesis_in main_version)"
  by code_simp


text \<open>
  A merge with an unchanged side. A branch that is still its base brings no change and no
  conflict to any destination, and a destination that is still the base disputes nothing.
\<close>

theorem unchanged_side_merges:
  assumes "documents_once K base"
  shows "compare_graphs K base base destination = ([], []) \<and> snd (compare_graphs K base branch base) = []"
proof
  note refl = global_eq_refl [OF assms]
  have "compare_collection K base base destination c = ([], [])" if "c \<in> set MERGE_COLLECTIONS" for c
    unfolding compare_collection_def by (rule gather_empty) (auto simp: unchanged_branch_entity [OF assms that])
  with refl have "raw_comparison K base base destination = ([], [])"
    unfolding raw_comparison_def by (intro gather_empty) (auto simp: compare_global_def)
  then show "compare_graphs K base base destination = ([], [])" by (simp add: compare_graphs_raw)
  have "snd (compare_collection K base branch base c) = []" if "c \<in> set MERGE_COLLECTIONS" for c
    unfolding compare_collection_def
    by (rule gather_no_conflict) (auto simp: unchanged_destination_entity [OF assms that])
  with refl have "snd (raw_comparison K base branch base) = []"
    unfolding raw_comparison_def by (intro gather_no_conflict) (auto simp: compare_global_def Let_def)
  then show "snd (compare_graphs K base branch base) = []" by (simp add: compare_graphs_raw)
qed


theorem unchanged_side_merges_witness:
  "compare_graphs sample_merge base_version base_version main_version = ([], [])
     \<and> snd (compare_graphs sample_merge base_version branch_version base_version) = []"
  by (rule unchanged_side_merges) code_simp

end
