(* ===== verification/Merge_Review.thy ===== *)
theory Merge_Review
  imports Merge_Compare Materialize "HOL-Library.Product_Lexorder"
begin

text \<open>
  The context a merge is planned in and the reconciliation of its changes with earlier merge
  reviews that are still pending (\<open>runs/merge_contract.py\<close>, \<open>runs/merge_plan.py\<close>). The preparation
  contract is a document of generated schemas that planning only carries.
\<close>

section \<open>The planning context\<close>

record source_human_fact =
  sf_revision :: int
  sf_operation_index :: int
  sf_operation :: proposal_operation

record prior_review =
  pv_subject_key :: string
  pv_proposal :: proposal
  pv_outstanding :: "merge_change list"
  pv_provenance :: branch_merge_provenance
  pv_effect_digest :: string

record planning_context =
  pl_context_id :: string
  pl_captured_authority :: captured_change_authority
  pl_merge_task_id :: string
  pl_authorized_by :: authorized_human
  pl_profile :: profile
  pl_provenance :: branch_merge_provenance
  pl_base_head :: graph_head_ref
  pl_source_head :: graph_head_ref
  pl_destination_head :: graph_head_ref
  pl_base_graph :: graph_state
  pl_source_graph :: graph_state
  pl_destination_graph :: graph_state
  pl_run_truth_scope :: "string list"
  pl_source_human_facts :: "source_human_fact list"
  pl_previous_merge_receipt :: "branch_merge_receipt option"
  pl_previous_source_graph :: "graph_state option"
  pl_prior_reviews :: "prior_review list"
  pl_preparation_contract :: val

definition delivery_mismatch :: "planning_context \<Rightarrow> branch_merge_receipt \<Rightarrow> graph_state \<Rightarrow> bool" where
  "delivery_mismatch x previous snapshot =
     (let provenance = mr_provenance previous; head = mp_branch_head provenance in
      mp_branch_id provenance \<noteq> mp_branch_id (pl_provenance x)
      \<or> mp_branch_base_head provenance \<noteq> pl_base_head x
      \<or> gh_revision head \<noteq> g_revision snapshot
      \<or> gh_revision head > gh_revision (pl_source_head x)
      \<or> gh_target (mr_result_main_head previous) \<noteq> gh_target (pl_destination_head x)
      \<or> gh_revision (mr_result_main_head previous) > gh_revision (pl_destination_head x))"

definition review_matches :: "planning_context \<Rightarrow> prior_review \<Rightarrow> bool" where
  "review_matches x r = (mp_branch_id (pv_provenance r) = mp_branch_id (pl_provenance x)
     \<and> gh_target (mp_rebased_main_head (pv_provenance r)) = gh_target (pl_destination_head x))"

definition authority_mismatch :: "planning_context \<Rightarrow> bool" where
  "authority_mismatch x =
     (let template = ca_patch_template (pl_captured_authority x) in
      ca_apply_target (pl_captured_authority x) \<noteq> gh_target (pl_destination_head x)
      \<or> pa_authorized_by template \<noteq> Some (pl_authorized_by x)
      \<or> pa_branch_merge template \<noteq> Some (pl_provenance x)
      \<or> pa_profile template \<noteq> Some (pl_profile x)
      \<or> pa_task_id template \<noteq> Some (pl_merge_task_id x)
      \<or> pa_run_truth_scope template \<noteq> pl_run_truth_scope x)"

definition require_bound_inputs :: "planning_context \<Rightarrow> planning_context result" where
  "require_bound_inputs x =
     (if gh_revision (pl_base_head x) \<noteq> g_revision (pl_base_graph x)
         \<or> gh_revision (pl_source_head x) \<noteq> g_revision (pl_source_graph x)
         \<or> gh_revision (pl_destination_head x) \<noteq> g_revision (pl_destination_graph x)
        then Inl (ValueError ''merge head does not match its snapshot revision'')
      else if pl_source_head x \<noteq> mp_branch_head (pl_provenance x)
         \<or> pl_destination_head x \<noteq> mp_rebased_main_head (pl_provenance x)
         \<or> pl_base_head x \<noteq> mp_branch_base_head (pl_provenance x)
         \<or> pl_merge_task_id x \<noteq> mp_merge_task_id (pl_provenance x)
        then Inl (ValueError ''merge plan does not match its canonical provenance'')
      else if (pl_previous_merge_receipt x = None) \<noteq> (pl_previous_source_graph x = None)
        then Inl (ValueError ''previous delivery requires both receipt and source snapshot'')
      else if (case (pl_previous_merge_receipt x, pl_previous_source_graph x) of
            (Some previous, Some snapshot) \<Rightarrow> delivery_mismatch x previous snapshot | _ \<Rightarrow> False)
        then Inl (ValueError ''previous delivery does not match this source and destination'')
      else if list_ex (\<lambda>r. \<not> review_matches x r) (pl_prior_reviews x)
        then Inl (ValueError ''prior review belongs to another source or destination'')
      else if pl_run_truth_scope x \<noteq> sorted_set (pl_run_truth_scope x)
        then Inl (ValueError ''merge truth scope must be sorted and unique'')
      else if authority_mismatch x
        then Inl (ValueError ''merge inputs do not match captured dispatch authority'')
      else Inr x)"

definition merge_baseline :: "planning_context \<Rightarrow> graph_state" where
  "merge_baseline x = (case pl_previous_source_graph x of Some g \<Rightarrow> g | None \<Rightarrow> pl_base_graph x)"

section \<open>Earlier reviews\<close>

definition pending_reviews :: "planning_context \<Rightarrow> prior_review list" where
  "pending_reviews x =
     (let ordered = sort_key (\<lambda>r. (gh_revision (mp_branch_head (pv_provenance r)),
            p_raised_rev (pv_proposal r), p_id (pv_proposal r))) (pl_prior_reviews x);
          latest = fold (\<lambda>r d. if review_matches x r then AList.update (pv_subject_key r) r d else d) ordered []
      in filter (\<lambda>r. p_status (pv_proposal r) = Pending
             \<and> \<not> proposal_is_stale (pl_destination_graph x) (pv_proposal r))
           (map snd (sort_key fst latest)))"

definition outstanding_review_changes ::
  "node_adapter \<Rightarrow> merge_codec \<Rightarrow> graph_state \<Rightarrow> graph_state \<Rightarrow> proposal \<Rightarrow> int \<Rightarrow> merge_change list result" where
  "outstanding_review_changes A K filing_graph destination q created_at =
     (if proposal_is_stale destination q then Inr []
      else bind_r (graph_operations_from_proposal (p_ops q)) (\<lambda>ops.
        bind_r (apply_valid_patch A filing_graph
          ((synthetic_approval (g_revision filing_graph + 1) ops None)
             \<lparr>pa_summary := ''Inspect outstanding merge work'', pa_created_at := created_at\<rparr>)) (\<lambda>proposed.
        Inr (fst (compare_graphs K filing_graph proposed destination)))))"

definition coordinate_value :: "merge_codec \<Rightarrow> graph_state \<Rightarrow> merge_change \<Rightarrow> merge_value" where
  "coordinate_value K st c = (case mc_entity_id c of
     None \<Rightarrow> global_value K st (mc_collection c)
   | Some i \<Rightarrow>
       (let entity = dict_get (entities st (mc_collection c)) i in
        case mc_field_name c of Some (ch # f) \<Rightarrow> field_value_of K entity (ch # f)
        | _ \<Rightarrow> merge_value_of K entity))"

definition merge_subject :: "merge_change \<Rightarrow> string \<times> string option" where
  "merge_subject c = (mc_collection c, mc_entity_id c)"

text \<open>Undelivered work that went back to the fork value is cancelled, not undone.\<close>

definition rebased_change :: "merge_codec \<Rightarrow> planning_context \<Rightarrow> merge_change \<Rightarrow> merge_change" where
  "rebased_change K x c =
     (let v = coordinate_value K (pl_destination_graph x) c in
      c\<lparr>mc_base := v,
        mc_branch := (if merge_eq (mc_branch c) (coordinate_value K (pl_base_graph x) c) then v else mc_branch c),
        mc_destination := v\<rparr>)"

definition source_changes :: "merge_codec \<Rightarrow> planning_context \<Rightarrow> merge_change list" where
  "source_changes K x = fst (compare_graphs K (merge_baseline x) (pl_source_graph x) (merge_baseline x))"

definition retain_review ::
  "merge_codec \<Rightarrow> planning_context \<Rightarrow> prior_review \<Rightarrow> merge_change dict \<times> merge_change dict \<Rightarrow>
   merge_change dict \<times> merge_change dict" where
  "retain_review K x r = (\<lambda>(retained, rebased).
     let sources = source_changes K x; outstanding = pv_outstanding r in
     if merge_subject ` set outstanding \<inter> merge_subject ` set sources = {} then (retained, rebased)
     else
       (let kept = fold (\<lambda>c. AList.update (mc_change_id c) c)
              (filter (\<lambda>c. mc_change_id c \<notin> mc_change_id ` set sources) outstanding) retained;
            moved = map (\<lambda>c. (mc_change_id c, rebased_change K x c))
              (filter (\<lambda>c. mc_change_id c \<in> mc_change_id ` set outstanding) sources)
        in (fold (\<lambda>(k, c). AList.update k c) moved kept, fold (\<lambda>(k, c). AList.update k c) moved rebased)))"

text \<open>A change of a whole entity supersedes older fields of it.\<close>

definition retain_change ::
  "merge_change dict \<Rightarrow> merge_change \<Rightarrow> merge_change dict \<Rightarrow> merge_change dict" where
  "retain_change rebased c retained =
     AList.update (mc_change_id c) (case dict_get rebased (mc_change_id c) of None \<Rightarrow> c | Some r \<Rightarrow> r)
       (if mc_field_name c = None then filter (\<lambda>(_, r). merge_subject r \<noteq> merge_subject c) retained
        else retained)"

text \<open>
  An older removal and a newer edit of the same entity compete: the edits become part of the
  entity that survives when the removal is refused. An \<open>assert\<close> of the source that fails is
  \<open>AssertionError\<close>.
\<close>

datatype assertion = AssertionError

definition surviving_field :: "merge_change \<Rightarrow> val dict \<Rightarrow> val dict" where
  "surviving_field c d = (let f = (case mc_field_name c of None \<Rightarrow> [] | Some f \<Rightarrow> f) in
     case mc_branch c of PresentValue v \<Rightarrow> AList.update f v d | MissingValue \<Rightarrow> AList.delete f d)"

definition competing_edits :: "merge_change list \<Rightarrow> merge_change \<Rightarrow> merge_change dict \<Rightarrow> merge_change dict" where
  "competing_edits sources removal retained = fold (\<lambda>c. AList.update (mc_change_id c) c)
     (filter (\<lambda>c. merge_subject c = merge_subject removal \<and> mc_field_name c \<noteq> None)
       (sources @ map snd retained)) []"

definition absorb_removal ::
  "merge_change list \<Rightarrow> merge_change \<Rightarrow> merge_change dict \<Rightarrow> assertion + merge_change dict" where
  "absorb_removal sources removal retained =
     (if mc_field_name removal \<noteq> None \<or> mc_branch removal \<noteq> MissingValue then Inr retained
      else
        (let edits = map snd (competing_edits sources removal retained) in
         if edits = [] then Inr retained
         else (case mc_destination removal of
             PresentValue (VDict d) \<Rightarrow>
               Inr (AList.update (mc_change_id removal)
                 (removal\<lparr>mc_destination := PresentValue (VDict (fold surviving_field edits d))\<rparr>)
                 (fold (\<lambda>c. AList.delete (mc_change_id c)) edits retained))
           | _ \<Rightarrow> Inl AssertionError)))"

fun absorb_removals ::
  "merge_change list \<Rightarrow> merge_change list \<Rightarrow> merge_change dict \<Rightarrow> assertion + merge_change dict" where
  "absorb_removals sources [] retained = Inr retained"
| "absorb_removals sources (c # cs) retained =
     bind_r (absorb_removal sources c retained) (absorb_removals sources cs)"

definition coordinate_order :: "merge_change \<Rightarrow> string \<times> string \<times> string" where
  "coordinate_order c = (mc_collection c, or_empty (mc_entity_id c), or_empty (mc_field_name c))"

definition retain_pending_effects ::
  "merge_codec \<Rightarrow> planning_context \<Rightarrow> merge_change list \<Rightarrow> assertion + merge_change list" where
  "retain_pending_effects K x changes =
     (let (earlier, rebased) = fold (retain_review K x) (pending_reviews x) ([], []);
          retained = fold (retain_change rebased) changes earlier
      in bind_r (absorb_removals (source_changes K x) (map snd retained) retained) (\<lambda>final.
         Inr (sort_key coordinate_order (map snd final))))"

section \<open>Conflicts with pending work\<close>

definition pending_conflict ::
  "merge_change dict \<Rightarrow> merge_conflict \<Rightarrow> merge_conflict list" where
  "pending_conflict by_id conflict = (case conflict of
     FieldConflict fc \<Rightarrow> (case dict_get by_id (fc_conflict_id fc) of
         None \<Rightarrow> []
       | Some c \<Rightarrow> if merge_eq (mc_destination c) (mc_base c) \<or> merge_eq (mc_branch c) (mc_destination c)
           then [] else [FieldConflict (field_conflict_of c)])
   | _ \<Rightarrow> [conflict])"

definition edited_since :: "merge_codec \<Rightarrow> planning_context \<Rightarrow> merge_change \<Rightarrow> bool" where
  "edited_since K x c =
     (let entity = (\<lambda>g. Option.bind (mc_entity_id c) (dict_get (entities g (mc_collection c))));
          previous = entity (merge_baseline x); source = entity (pl_source_graph x)
      in previous \<noteq> None \<and> source \<noteq> None
         \<and> \<not> merge_eq (merge_value_of K previous) (merge_value_of K source))"

definition removal_conflict ::
  "merge_codec \<Rightarrow> planning_context \<Rightarrow> string list \<Rightarrow> merge_change \<Rightarrow> merge_conflict list" where
  "removal_conflict K x present c = (case mc_entity_id c of
     None \<Rightarrow> []
   | Some i \<Rightarrow>
       if mc_field_name c = None \<and> mc_branch c = MissingValue \<and> mc_destination c \<noteq> MissingValue
          \<and> mc_change_id c \<notin> set present
          \<and> \<not> (merge_eq (mc_destination c) (mc_base c) \<and> \<not> edited_since K x c)
       then [PresenceConflict \<lparr>pc_conflict_id = mc_change_id c, pc_collection = mc_collection c,
         pc_entity_id = i, pc_base = mc_base c, pc_branch = mc_branch c,
         pc_destination = mc_destination c, pc_removed_on = On_branch\<rparr>]
       else [])"

definition pending_conflicts ::
  "merge_codec \<Rightarrow> planning_context \<Rightarrow> merge_change list \<Rightarrow> merge_conflict list \<Rightarrow> merge_conflict list" where
  "pending_conflicts K x changes conflicts =
     (let by_id = fold (\<lambda>c. AList.update (mc_change_id c) c) changes [];
          kept = concat (map (pending_conflict by_id) conflicts)
      in kept @ concat (map (removal_conflict K x (map conflict_id kept)) changes))"

text \<open>Source resolutions never resolve a Proposal of the destination.\<close>

definition source_for_comparison :: "planning_context \<Rightarrow> graph_state \<Rightarrow> graph_state" where
  "source_for_comparison x baseline = (let source = pl_source_graph x in
     source\<lparr>g_proposals := fold (\<lambda>(i, q) d.
       if p_status q \<noteq> Pending \<or> proposal_is_stale source q then
         (case dict_get (g_proposals baseline) i of
            Some old \<Rightarrow> AList.update i old d | None \<Rightarrow> AList.delete i d)
       else d) (g_proposals source) (g_proposals source)\<rparr>)"

definition planned_changes ::
  "merge_codec \<Rightarrow> planning_context \<Rightarrow> assertion + merge_change list \<times> merge_conflict list" where
  "planned_changes K x =
     (let baseline = merge_baseline x;
          (changes, conflicts) = compare_graphs K baseline (source_for_comparison x baseline)
            (pl_destination_graph x)
      in bind_r (retain_pending_effects K x changes) (\<lambda>kept.
         Inr (kept, pending_conflicts K x kept conflicts)))"

end
