(* ===== verification/Review_Properties.thy ===== *)
theory Review_Properties
  imports Merge_Review Merge_Properties
begin

text \<open>
  Reconciling the changes of a merge with pending reviews loses none of them: each keeps its
  coordinate, or a change of the whole entity takes its place.
\<close>

section \<open>Coordinates in a dictionary of changes\<close>

definition coordinate_of :: "merge_change \<Rightarrow> string \<times> (string \<times> string option) \<times> string option" where
  "coordinate_of c = (mc_change_id c, merge_subject c, mc_field_name c)"

text \<open>Distinct coordinates have distinct ids.\<close>

definition ids_faithful :: "merge_change list \<Rightarrow> bool" where
  "ids_faithful cs = list_all (\<lambda>a. list_all (\<lambda>b. mc_change_id a = mc_change_id b \<longrightarrow>
     coordinate_of a = coordinate_of b) cs) cs"

definition known :: "merge_change list \<Rightarrow> merge_change dict \<Rightarrow> bool" where
  "known cs d = (wf_dict d \<and> (\<forall>(k, r) \<in> set d. k = mc_change_id r \<and> coordinate_of r \<in> coordinate_of ` set cs))"

definition covers :: "merge_change \<Rightarrow> merge_change \<Rightarrow> bool" where
  "covers r c = (coordinate_of r = coordinate_of c
     \<or> (mc_field_name r = None \<and> merge_subject r = merge_subject c))"

definition covered :: "merge_change dict \<Rightarrow> merge_change \<Rightarrow> bool" where
  "covered d c = (\<exists>(k, r) \<in> set d. covers r c)"

lemma same_id:
  assumes "ids_faithful cs" "coordinate_of a \<in> coordinate_of ` set cs" "coordinate_of b \<in> coordinate_of ` set cs"
    "mc_change_id a = mc_change_id b"
  shows "coordinate_of a = coordinate_of b"
proof -
  from assms(2,3) obtain a' b' where "a' \<in> set cs" "b' \<in> set cs" "coordinate_of a = coordinate_of a'"
    "coordinate_of b = coordinate_of b'" by blast
  moreover from calculation(3,4) assms(4) have "mc_change_id a' = mc_change_id b'"
    unfolding coordinate_of_def by simp
  moreover from assms(1) have "\<forall>a \<in> set cs. \<forall>b \<in> set cs. mc_change_id a = mc_change_id b \<longrightarrow>
      coordinate_of a = coordinate_of b"
    unfolding ids_faithful_def list_all_iff .
  ultimately show ?thesis by metis
qed

lemma covers_subject: "covers r c \<Longrightarrow> merge_subject r = merge_subject c"
  by (auto simp: covers_def coordinate_of_def)

lemma covers_coordinate: "coordinate_of r = coordinate_of s \<Longrightarrow> covers r c \<Longrightarrow> covers s c"
  by (auto simp: covers_def coordinate_of_def)

lemma update_member: "(k, v) \<in> set (AList.update k v d)"
  by (induction d) auto

lemma update_entries: "set (AList.update k v d) \<subseteq> insert (k, v) (set d)"
  by (induction d) auto

lemma update_other: "(k', r) \<in> set d \<Longrightarrow> k' \<noteq> k \<Longrightarrow> (k', r) \<in> set (AList.update k v d)"
  by (induction d) auto

lemma known_update:
  assumes "known cs d" "coordinate_of c \<in> coordinate_of ` set cs"
  shows "known cs (AList.update (mc_change_id c) c d)"
  using assms update_entries [of "mc_change_id c" c d] by (auto simp: known_def)

lemma known_filter: "known cs d \<Longrightarrow> known cs (filter P d)"
  by (auto simp: known_def)

lemma known_delete: "known cs d \<Longrightarrow> known cs (AList.delete k d)"
  by (auto simp: known_def AList.delete_eq)

lemma known_deletes: "known cs d \<Longrightarrow> known cs (fold (\<lambda>c. AList.delete (mc_change_id c)) es d)"
  by (induction es arbitrary: d) (auto intro: known_delete)

lemma known_updates:
  assumes "known cs d" "\<And>k c. (k, c) \<in> set ps \<Longrightarrow> k = mc_change_id c \<and> coordinate_of c \<in> coordinate_of ` set cs"
  shows "known cs (fold (\<lambda>(k, c). AList.update k c) ps d)"
  using assms
proof (induction ps arbitrary: d)
  case (Cons p ps)
  from Cons.prems(2) [of "fst p" "snd p"]
  have p: "fst p = mc_change_id (snd p)" "coordinate_of (snd p) \<in> coordinate_of ` set cs" by simp_all
  have "known cs (AList.update (fst p) (snd p) d)"
    unfolding p(1) by (rule known_update [OF Cons.prems(1) p(2)])
  then have "known cs (fold (\<lambda>(k, c). AList.update k c) ps (AList.update (fst p) (snd p) d))"
    by (rule Cons.IH) (rule Cons.prems(2), simp)
  then show ?case by (cases p) simp
qed simp

lemma covered_update:
  assumes "ids_faithful cs" "known cs d" "coordinate_of v \<in> coordinate_of ` set cs" "covered d c"
  shows "covered (AList.update (mc_change_id v) v d) c"
proof -
  from assms(4) obtain k r where r: "(k, r) \<in> set d" "covers r c" by (auto simp: covered_def)
  show ?thesis
  proof (cases "k = mc_change_id v")
    case True
    with assms(2) r(1) have "mc_change_id r = mc_change_id v" "coordinate_of r \<in> coordinate_of ` set cs"
      by (auto simp: known_def)
    from same_id [OF assms(1) this(2) assms(3) this(1)] r(2) have "covers v c" by (rule covers_coordinate)
    with update_member show ?thesis by (fastforce simp: covered_def)
  next
    case False
    from update_other [OF r(1) this] r(2) show ?thesis by (auto simp: covered_def)
  qed
qed

section \<open>The three passes\<close>

lemma rebased_coordinate [simp]: "coordinate_of (rebased_change K x c) = coordinate_of c"
  by (simp add: rebased_change_def coordinate_of_def merge_subject_def Let_def)

definition involved :: "merge_codec \<Rightarrow> planning_context \<Rightarrow> merge_change list \<Rightarrow> merge_change list" where
  "involved K x changes = changes @ source_changes K x @ concat (map pv_outstanding (pending_reviews x))"

lemma retain_review_known:
  assumes "known cs (fst d)" "known cs (snd d)" "set (pv_outstanding r) \<subseteq> set cs" "set (source_changes K x) \<subseteq> set cs"
  shows "known cs (fst (retain_review K x r d))" "known cs (snd (retain_review K x r d))"
proof -
  have kept: "known cs (fold (\<lambda>c. AList.update (mc_change_id c) c) ys e)" if "known cs e" "set ys \<subseteq> set cs" for ys e
    using that by (induction ys arbitrary: e) (auto intro: known_update)
  have id: "mc_change_id (rebased_change K x c) = mc_change_id c" for c
    by (simp add: rebased_change_def Let_def)
  have moved: "known cs (fold (\<lambda>(k, c). AList.update k c)
      (map (\<lambda>c. (mc_change_id c, rebased_change K x c)) ys) e)" if "known cs e" "set ys \<subseteq> set cs" for ys e
    using that by (intro known_updates) (auto simp: id)
  show "known cs (fst (retain_review K x r d))" "known cs (snd (retain_review K x r d))"
    using assms unfolding retain_review_def by (auto simp: Let_def case_prod_beta intro!: moved kept)
qed

lemma retain_reviews_known:
  assumes "\<And>r. r \<in> set rs \<Longrightarrow> set (pv_outstanding r) \<subseteq> set cs" "set (source_changes K x) \<subseteq> set cs"
    and "known cs (fst d)" "known cs (snd d)"
  shows "known cs (fst (fold (retain_review K x) rs d)) \<and> known cs (snd (fold (retain_review K x) rs d))"
  using assms
proof (induction rs arbitrary: d)
  case (Cons r rs)
  have "known cs (fst (retain_review K x r d))" "known cs (snd (retain_review K x r d))"
    using Cons.prems by (intro retain_review_known; simp)+
  from Cons.IH [OF _ _ this] Cons.prems(1,2) show ?case by simp
qed simp

lemma retain_change_step:
  assumes "ids_faithful cs" "known cs rebased" "known cs d" "c \<in> set cs"
  shows "known cs (retain_change rebased c d)" "covered (retain_change rebased c d) c"
    "covered d b \<Longrightarrow> covered (retain_change rebased c d) b"
proof -
  define v where "v = (case dict_get rebased (mc_change_id c) of None \<Rightarrow> c | Some r \<Rightarrow> r)"
  have v: "coordinate_of v = coordinate_of c"
  proof (cases "dict_get rebased (mc_change_id c)")
    case (Some r)
    with map_of_SomeD [OF Some] assms(2) have "mc_change_id c = mc_change_id r"
      "coordinate_of r \<in> coordinate_of ` set cs" by (auto simp: known_def)
    with same_id [OF assms(1), of r c] assms(4) Some show ?thesis by (simp add: v_def)
  qed (simp add: v_def)
  then have vid: "mc_change_id v = mc_change_id c" and in_cs: "coordinate_of v \<in> coordinate_of ` set cs"
    using assms(4) by (auto simp: coordinate_of_def)
  define e where "e = (if mc_field_name c = None
    then filter (\<lambda>(_, r). merge_subject r \<noteq> merge_subject c) d else d)"
  have e: "known cs e" using assms(3) by (simp add: e_def known_filter)
  have step: "retain_change rebased c d = AList.update (mc_change_id v) v e"
    by (simp add: retain_change_def v_def [symmetric] vid e_def)
  show "known cs (retain_change rebased c d)" unfolding step by (rule known_update [OF e in_cs])
  have here: "(mc_change_id v, v) \<in> set (retain_change rebased c d)" unfolding step by (rule update_member)
  with v show "covered (retain_change rebased c d) c" by (force simp: covered_def covers_def)
  show "covered (retain_change rebased c d) b" if "covered d b"
  proof -
    from that obtain k r where r: "(k, r) \<in> set d" "covers r b" by (auto simp: covered_def)
    show ?thesis
    proof (cases "(k, r) \<in> set e")
      case True
      with r(2) have "covered e b" by (auto simp: covered_def)
      then show ?thesis unfolding step by (rule covered_update [OF assms(1) e in_cs])
    next
      case False
      with r(1) have "mc_field_name c = None" "merge_subject r = merge_subject c"
        by (auto simp: e_def split: if_splits)
      with v covers_subject [OF r(2)] have "covers v b" by (auto simp: covers_def coordinate_of_def)
      with here show ?thesis by (force simp: covered_def)
    qed
  qed
qed

lemma retain_changes_cover:
  assumes "ids_faithful cs" "known cs rebased" "known cs d" "set changes \<subseteq> set cs"
  shows "known cs (fold (retain_change rebased) changes d)
     \<and> (\<forall>c. c \<in> set changes \<or> covered d c \<longrightarrow> covered (fold (retain_change rebased) changes d) c)"
  using assms(3,4)
proof (induction changes arbitrary: d)
  case (Cons a changes)
  note step = retain_change_step [OF assms(1,2) Cons.prems(1), of a]
  have "known cs (retain_change rebased a d)" using step(1) Cons.prems(2) by simp
  from Cons.IH [OF this] Cons.prems(2) step(2,3) show ?case by auto
qed simp

lemma delete_other: "(k, r) \<in> set d \<Longrightarrow> k \<notin> mc_change_id ` set es \<Longrightarrow>
  (k, r) \<in> set (fold (\<lambda>c. AList.delete (mc_change_id c)) es d)"
  by (induction es arbitrary: d) (auto simp: AList.delete_eq)

lemma updated_values:
  "snd ` set (fold (\<lambda>c. AList.update (mc_change_id c) c) ys e) \<subseteq> snd ` set e \<union> set ys"
proof (induction ys arbitrary: e)
  case (Cons y ys)
  have "snd ` set (AList.update (mc_change_id y) y e) \<subseteq> insert y (snd ` set e)"
    using update_entries [of "mc_change_id y" y e] by auto
  with Cons.IH [of "AList.update (mc_change_id y) y e"] show ?case by auto
qed simp

lemma competing_edits_of:
  assumes "c \<in> set (map snd (competing_edits sources removal d))"
  shows "c \<in> set sources \<union> snd ` set d" "merge_subject c = merge_subject removal"
  using assms updated_values [of "filter (\<lambda>c. merge_subject c = merge_subject removal \<and> mc_field_name c \<noteq> None)
      (sources @ map snd d)" "[]"]
  unfolding competing_edits_def by auto

lemma absorb_removal_step:
  assumes "ids_faithful cs" "known cs d" "coordinate_of removal \<in> coordinate_of ` set cs"
    "set sources \<subseteq> set cs" "absorb_removal sources removal d = Inr e"
  shows "known cs e" "covered d c \<Longrightarrow> covered e c"
proof -
  define edits where "edits = map snd (competing_edits sources removal d)"
  consider "e = d" | w where "mc_field_name removal = None"
      "e = AList.update (mc_change_id removal) (removal\<lparr>mc_destination := w\<rparr>)
         (fold (\<lambda>c. AList.delete (mc_change_id c)) edits d)"
    using assms(5) unfolding absorb_removal_def edits_def [symmetric] Let_def
    by (auto split: if_splits merge_value.splits val.splits)
  then consider "e = d" | v where "coordinate_of v = coordinate_of removal" "mc_field_name v = None"
      "e = AList.update (mc_change_id v) v (fold (\<lambda>c. AList.delete (mc_change_id c)) edits d)"
  proof cases
    case (2 w)
    then show ?thesis
      by (intro that(2) [of "removal\<lparr>mc_destination := w\<rparr>"]) (simp_all add: coordinate_of_def merge_subject_def)
  qed
  then have "known cs e \<and> (covered d c \<longrightarrow> covered e c)"
  proof cases
    case (2 v)
    have kept: "known cs (fold (\<lambda>c. AList.delete (mc_change_id c)) edits d)" by (rule known_deletes [OF assms(2)])
    have v: "coordinate_of v \<in> coordinate_of ` set cs" using 2(1) assms(3) by simp
    have "covered e c" if "covered d c"
    proof -
      from that obtain k r where r: "(k, r) \<in> set d" "covers r c" by (auto simp: covered_def)
      show ?thesis
      proof (cases "k \<in> mc_change_id ` set edits")
        case True
        then obtain a where a: "a \<in> set edits" "mc_change_id r = mc_change_id a"
          using r(1) assms(2) by (auto simp: known_def)
        from a(1) competing_edits_of [of a sources removal d] assms(2,4)
        have "coordinate_of a \<in> coordinate_of ` set cs" "merge_subject a = merge_subject removal"
          by (auto simp: edits_def known_def)
        moreover from r(1) assms(2) have "coordinate_of r \<in> coordinate_of ` set cs" by (auto simp: known_def)
        ultimately have "merge_subject r = merge_subject removal"
          using same_id [OF assms(1) _ _ a(2)] by (auto simp: coordinate_of_def)
        with 2(1,2) covers_subject [OF r(2)] have "covers v c" by (auto simp: covers_def coordinate_of_def)
        with update_member show ?thesis unfolding 2(3) covered_def by fastforce
      next
        case False
        from delete_other [OF r(1) this] r(2)
        have "covered (fold (\<lambda>c. AList.delete (mc_change_id c)) edits d) c" by (auto simp: covered_def)
        then show ?thesis unfolding 2(3) by (rule covered_update [OF assms(1) kept v])
      qed
    qed
    with known_update [OF kept v] 2(3) show ?thesis by simp
  qed (use assms(2) in simp)
  then show "known cs e" "covered d c \<Longrightarrow> covered e c" by simp_all
qed

lemma absorb_removals_cover:
  assumes "ids_faithful cs" "set sources \<subseteq> set cs"
  shows "absorb_removals sources rs d = Inr e \<Longrightarrow> known cs d \<Longrightarrow> coordinate_of ` set rs \<subseteq> coordinate_of ` set cs \<Longrightarrow>
     known cs e \<and> (covered d c \<longrightarrow> covered e c)"
proof (induction rs arbitrary: d)
  case (Cons r rs)
  then obtain d' where d': "absorb_removal sources r d = Inr d'" "absorb_removals sources rs d' = Inr e"
    by (auto simp: result_simps)
  from absorb_removal_step [OF assms(1) Cons.prems(2) _ assms(2) d'(1)] Cons.prems(3)
  have "known cs d'" "covered d c \<longrightarrow> covered d' c" by auto
  with Cons.IH [OF d'(2)] Cons.prems(3) show ?case by auto
qed simp

section \<open>Property\<close>


text \<open>
  An earlier merge asked to rename a hypothesis; the branch has since rewritten its statement.
\<close>

definition title_review :: proposal where
  "title_review = sample_proposal\<lparr>p_id := ''pr2'', p_base_rev := 0,
     p_ops := [ProposalContentChangeOperation False [\<lparr>nu_id = ''hyp/h1'',
       nu_changes = [(''title'', VStr ''T0'')], nu_cause = None, nu_base_updated_rev = None\<rparr>]]\<rparr>"

fun brief_view :: "state_object \<Rightarrow> model_fields" where
  "brief_view (O_node n) = [(''title'', Content, Leaf (VStr (n_title n))),
     (''statement'', Content, Leaf (case node_attr n ''statement'' of Some v \<Rightarrow> v | None \<Rightarrow> VNone))]"
| "brief_view _ = []"

definition brief_merge :: merge_codec where
  "brief_merge = \<lparr>mk_view = brief_view, mk_digest = (\<lambda>c i f. c @ or_empty i @ or_empty f)\<rparr>"

definition main_head :: "int \<Rightarrow> graph_head_ref" where
  "main_head r = \<lparr>gh_target = \<lparr>gt_kind = Main_target, gt_branch_id = None\<rparr>, gh_revision = r, gh_transition_id = None\<rparr>"

definition live_author :: authorized_human where
  "live_author = \<lparr>ah_space_id = ''s'', ah_user_id = ''u'', ah_display_name = ''U''\<rparr>"

definition sample_provenance :: branch_merge_provenance where
  "sample_provenance = \<lparr>mp_merge_id = ''m'', mp_branch_id = ''b'', mp_episode_id = None,
     mp_branch_base_head = main_head 0, mp_branch_head = \<lparr>gh_target = \<lparr>gt_kind = Branch_target, gt_branch_id = Some ''b''\<rparr>,
       gh_revision = 0, gh_transition_id = None\<rparr>,
     mp_rebased_main_head = main_head 0, mp_merge_task_id = ''t''\<rparr>"

definition sample_review :: prior_review where
  "sample_review = \<lparr>pv_subject_key = ''k'', pv_proposal = title_review,
     pv_outstanding = fst (compare_graphs brief_merge base_version (versioned ''T0'' ''S'' ''R'') base_version),
     pv_provenance = sample_provenance, pv_effect_digest = ''d''\<rparr>"

definition sample_planning :: planning_context where
  "sample_planning = \<lparr>pl_context_id = ''c'', pl_captured_authority = \<lparr>ca_project_id = None,
       ca_apply_target = gh_target (main_head 0),
       ca_patch_template = (sample_patch 0 Work [])\<lparr>pa_authorized_by := Some live_author, pa_branch_merge := Some sample_provenance,
         pa_profile := Some Orchestrator, pa_task_id := Some ''t'', pa_run_truth_scope := [''scope'']\<rparr>\<rparr>,
     pl_merge_task_id = ''t'', pl_authorized_by = live_author, pl_profile = Orchestrator,
     pl_provenance = sample_provenance, pl_base_head = main_head 0, pl_source_head = mp_branch_head sample_provenance,
     pl_destination_head = main_head 0, pl_base_graph = base_version,
     pl_source_graph = versioned ''T'' ''S1'' ''R'', pl_destination_graph = base_version,
     pl_run_truth_scope = [''scope''], pl_source_human_facts = [], pl_previous_merge_receipt = None,
     pl_previous_source_graph = None, pl_prior_reviews = [sample_review], pl_preparation_contract = VDict []\<rparr>"

definition sample_edits :: "merge_change list" where
  "sample_edits = source_changes brief_merge sample_planning"

definition sample_kept :: "merge_change list" where
  "sample_kept = (case retain_pending_effects brief_merge sample_planning sample_edits of Inr r \<Rightarrow> r | Inl _ \<Rightarrow> [])"

lemma sample_retained:
  "\<not> isl (require_bound_inputs sample_planning)
   \<and> \<not> isl (retain_pending_effects brief_merge sample_planning sample_edits)
   \<and> ids_faithful (involved brief_merge sample_planning sample_edits)
   \<and> map mc_field_name sample_edits = [Some ''statement'']"
  by code_simp


end
