(* ===== verification/Semantic_Delta.thy ===== *)
theory Semantic_Delta
  imports Merge_Compare History_Heads Validation_Context
begin

text \<open>
  What changed between two graphs (\<open>semantic_delta\<close> of \<open>history/delta.py\<close>) and the changes of
  entities that history answers list (\<open>entity_changes\<close> of \<open>history/pages.py\<close>). Documents are read
  through the views of \<open>Merge_Compare\<close>; equality and the dump of an ontology are those of the
  codec of \<open>State_Delta\<close>.
\<close>

section \<open>Semantic deltas\<close>

datatype change_kind = Created | Updated | Removed

record entity_delta =
  dl_change :: change_kind
  dl_id :: string
  dl_before :: "state_object option"
  dl_after :: "state_object option"

record global_delta =
  gd_field :: string
  gd_before :: val
  gd_after :: val

record semantic_delta =
  se_nodes :: "entity_delta list"
  se_edges :: "entity_delta list"
  se_proposals :: "entity_delta list"
  se_ambiguities :: "entity_delta list"
  se_glossary :: "entity_delta list"
  se_globals :: "global_delta list"

definition delta_is_empty :: "semantic_delta \<Rightarrow> bool" where
  "delta_is_empty d = (se_nodes d = [] \<and> se_edges d = [] \<and> se_proposals d = []
     \<and> se_ambiguities d = [] \<and> se_glossary d = [] \<and> se_globals d = [])"

text \<open>\<open>getattr(value, id_field)\<close>\<close>

fun object_id :: "state_object \<Rightarrow> string" where
  "object_id (O_node n) = n_id n"
| "object_id (O_edge e) = e_id e"
| "object_id (O_proposal q) = p_id q"
| "object_id (O_ambiguity a) = am_id a"
| "object_id (O_term t) = gl_term t"
| "object_id _ = []"

definition require_change_shape :: "entity_delta \<Rightarrow> entity_delta result" where
  "require_change_shape d =
     (let before = dl_before d; after = dl_after d in
      if dl_change d = Created \<and> (before \<noteq> None \<or> after = None)
        then Inl (ValueError ''created semantic deltas require only an after value'')
      else if dl_change d = Updated \<and> (before = None \<or> after = None)
        then Inl (ValueError ''updated semantic deltas require before and after values'')
      else if dl_change d = Removed \<and> (before = None \<or> after \<noteq> None)
        then Inl (ValueError ''removed semantic deltas require only a before value'')
      else if list_ex (\<lambda>v. case v of None \<Rightarrow> False | Some x \<Rightarrow> object_id x \<noteq> dl_id d) [before, after]
        then Inl (ValueError ''semantic delta identity does not match its payload'')
      else Inr d)"

definition document_changed :: "merge_codec \<Rightarrow> state_object \<Rightarrow> state_object \<Rightarrow> bool" where
  "document_changed K old new =
     (\<not> py_eq (VDict (semantic_document (mk_view K old))) (VDict (semantic_document (mk_view K new))))"

definition entity_delta_of ::
  "merge_codec \<Rightarrow> string \<Rightarrow> state_object option \<Rightarrow> state_object option \<Rightarrow> entity_delta list" where
  "entity_delta_of K i old new = (case (old, new) of
     (None, None) \<Rightarrow> []
   | (None, Some _) \<Rightarrow> [\<lparr>dl_change = Created, dl_id = i, dl_before = None, dl_after = new\<rparr>]
   | (Some _, None) \<Rightarrow> [\<lparr>dl_change = Removed, dl_id = i, dl_before = old, dl_after = None\<rparr>]
   | (Some x, Some y) \<Rightarrow> if document_changed K x y
       then [\<lparr>dl_change = Updated, dl_id = i, dl_before = old, dl_after = new\<rparr>] else [])"

definition typed_collection_delta ::
  "merge_codec \<Rightarrow> state_object dict \<Rightarrow> state_object dict \<Rightarrow> entity_delta list result" where
  "typed_collection_delta K before after = map_r require_change_shape
     (concat (map (\<lambda>i. entity_delta_of K i (dict_get before i) (dict_get after i))
       (sorted_set (keys before @ keys after))))"

definition global_delta_of :: "string \<Rightarrow> val \<Rightarrow> val \<Rightarrow> global_delta result" where
  "global_delta_of f before after = (if py_eq before after
     then Inl (ValueError ''a global semantic delta must change its field'')
     else Inr \<lparr>gd_field = f, gd_before = before, gd_after = after\<rparr>)"

definition global_deltas :: "state_codec \<Rightarrow> graph_state \<Rightarrow> graph_state \<Rightarrow> global_delta list result" where
  "global_deltas C base branch =
     (let scope = (\<lambda>g. VList (map VStr (g_project_truth_scope g)));
          ontology = (\<lambda>g. O_ontology (g_ontology g)) in
      bind_r (if g_project_truth_scope base = g_project_truth_scope branch then Inr []
        else bind_r (global_delta_of ''project_truth_scope'' (scope base) (scope branch)) (\<lambda>d. Inr [d])) (\<lambda>first.
      bind_r (if sc_equal C (ontology base) (ontology branch) then Inr []
        else bind_r (global_delta_of ''ontology'' (sc_dump C ''ontology'' (ontology base))
          (sc_dump C ''ontology'' (ontology branch))) (\<lambda>d. Inr [d])) (\<lambda>second.
      Inr (first @ second))))"

definition semantic_delta_of ::
  "merge_codec \<Rightarrow> state_codec \<Rightarrow> graph_state \<Rightarrow> graph_state \<Rightarrow> semantic_delta result" where
  "semantic_delta_of K C base branch =
     (let collection = (\<lambda>c. typed_collection_delta K (entities base c) (entities branch c)) in
      bind_r (global_deltas C base branch) (\<lambda>globals.
      bind_r (collection ''nodes'') (\<lambda>nodes.
      bind_r (collection ''edges'') (\<lambda>edges.
      bind_r (collection ''proposals'') (\<lambda>proposals.
      bind_r (collection ''ambiguities'') (\<lambda>ambiguities.
      bind_r (collection ''glossary'') (\<lambda>glossary.
      Inr \<lparr>se_nodes = nodes, se_edges = edges, se_proposals = proposals, se_ambiguities = ambiguities,
           se_glossary = glossary, se_globals = globals\<rparr>)))))))"

section \<open>Changes of entities\<close>

datatype entity_kind = Node_kind | Edge_kind | Proposal_kind | Ambiguity_kind | Glossary_kind | Global_kind

record field_change =
  fh_field :: string
  fh_before :: val
  fh_after :: val
  fh_continued :: bool

record entity_change =
  ec_kind :: entity_kind
  ec_id :: string
  ec_type :: "val option"
  ec_title :: "val option"
  ec_change :: change_kind
  ec_fields :: "field_change list"

text \<open>\<open>model_dump(mode="json", exclude=bookkeeping)\<close>: the fields of nested models are all kept.\<close>

fun dump_nested :: "model_value \<Rightarrow> val"
  and dump_fields :: "model_fields \<Rightarrow> val dict" where
  "dump_nested (Leaf v) = v"
| "dump_nested (Sequence vs) = VList (map dump_nested vs)"
| "dump_nested (Dictionary d) = VDict (map (\<lambda>(k, v). (k, dump_nested v)) d)"
| "dump_nested (Model fs) = VDict (dump_fields fs)"
| "dump_fields [] = []"
| "dump_fields ((name, _, v) # fs) = (name, dump_nested v) # dump_fields fs"

definition engine_fields :: "model_fields \<Rightarrow> string list" where
  "engine_fields fs = map fst (filter (\<lambda>(_, role, _). role = Engine) fs)"

text \<open>The engine fields of any class of node are left out of every node.\<close>

definition NODE_BOOKKEEPING :: "string list" where
  "NODE_BOOKKEEPING = concat (map (\<lambda>t. graph_fields (class_fields t) (Some Engine) None None)
     [''research_question'', ''hypothesis'', ''decision'', ''experiment'', ''evidence'', ''blocker''])"

definition entity_dump :: "merge_codec \<Rightarrow> entity_kind \<Rightarrow> state_object option \<Rightarrow> val dict" where
  "entity_dump K kind entity = (case entity of None \<Rightarrow> []
     | Some x \<Rightarrow> filter (\<lambda>(k, _). k \<notin> set (if kind = Node_kind then NODE_BOOKKEEPING
         else engine_fields (mk_view K x))) (dump_fields (mk_view K x)))"

text \<open>\<open>label.get(a) or label.get(b) or ...\<close>\<close>

fun first_truthy :: "val dict \<Rightarrow> string list \<Rightarrow> val option" where
  "first_truthy d [] = None"
| "first_truthy d [k] = dict_get d k"
| "first_truthy d (k # ks) = (case dict_get d k of
     Some v \<Rightarrow> if truthy_val v then Some v else first_truthy d ks | None \<Rightarrow> first_truthy d ks)"

definition changed_fields :: "val dict \<Rightarrow> val dict \<Rightarrow> field_change list" where
  "changed_fields before after = map (\<lambda>k. \<lparr>fh_field = k, fh_before = get_default before k VNone,
       fh_after = get_default after k VNone, fh_continued = False\<rparr>)
     (filter (\<lambda>k. case (dict_get before k, dict_get after k) of
         (Some v, Some w) \<Rightarrow> \<not> py_eq v w | _ \<Rightarrow> True)
       (sorted_set (keys before @ keys after)))"

definition change_of :: "merge_codec \<Rightarrow> entity_kind \<Rightarrow> entity_delta \<Rightarrow> entity_change" where
  "change_of K kind d =
     (let before = entity_dump K kind (dl_before d); after = entity_dump K kind (dl_after d);
          shown = (if after \<noteq> [] then after else before)
      in \<lparr>ec_kind = kind, ec_id = dl_id d, ec_type = first_truthy shown [''type'', ''relation''],
          ec_title = first_truthy shown [''title'', ''question'', ''term''],
          ec_change = dl_change d, ec_fields = changed_fields before after\<rparr>)"

definition global_change_of :: "global_delta \<Rightarrow> entity_change" where
  "global_change_of d = \<lparr>ec_kind = Global_kind, ec_id = gd_field d, ec_type = None, ec_title = None,
     ec_change = Updated, ec_fields = [\<lparr>fh_field = gd_field d, fh_before = gd_before d,
       fh_after = gd_after d, fh_continued = False\<rparr>]\<rparr>"

definition delta_collections :: "semantic_delta \<Rightarrow> (entity_kind \<times> entity_delta list) list" where
  "delta_collections d = [(Node_kind, se_nodes d), (Edge_kind, se_edges d), (Proposal_kind, se_proposals d),
     (Ambiguity_kind, se_ambiguities d), (Glossary_kind, se_glossary d)]"

definition entity_changes :: "merge_codec \<Rightarrow> semantic_delta \<Rightarrow> string list \<Rightarrow> entity_change list" where
  "entity_changes K d ids =
     (let wanted = (\<lambda>i. ids = [] \<or> i \<in> set ids) in
      concat (map (\<lambda>(kind, items). map (change_of K kind) (filter (\<lambda>x. wanted (dl_id x)) items))
        (delta_collections d))
      @ map global_change_of (filter (\<lambda>g. wanted (gd_field g)) (se_globals d)))"

end
