(* ===== verification/History_Pages.thy ===== *)
theory History_Pages
  imports Semantic_Delta
begin

text \<open>
  History answers in bounded pages (\<open>history/pages.py\<close>). A long value is cut into chunks of text, a
  change with many fields into fragments, and an answer into pages linked by cursors. The unit of
  a page is a serialised record: its text is Pydantic's, so its length is an argument. A cursor is
  the base64 text of the JSON of a query key and a position; here it is that pair, or a text that
  encodes none, and its length is computed from the JSON.
\<close>

definition PAGE_MAX_ENTRIES :: nat where "PAGE_MAX_ENTRIES = 128"
definition PAGE_MAX_BYTES :: nat where "PAGE_MAX_BYTES = 65536"
definition VALUE_CHUNK_BYTES :: nat where "VALUE_CHUNK_BYTES = 8192"
definition CURSOR_MAX_BYTES :: nat where "CURSOR_MAX_BYTES = 1024"

section \<open>JSON text\<close>

definition utf8_length :: "string \<Rightarrow> nat" where
  "utf8_length s = sum_list (map (\<lambda>c. if of_char c < (128 :: nat) then 1 else 2) s)"

text \<open>\<open>json.dumps\<close> with sorted keys, no spaces and no ASCII escapes. A datetime is no JSON value.\<close>

definition json_escape :: "char \<Rightarrow> string" where
  "json_escape c = (let n = of_char c :: nat in
     if n = 34 then [CHR 0x5C, c]
     else if n = 92 then [CHR 0x5C, c]
     else if n = 8 then [CHR 0x5C, CHR ''b'']
     else if n = 12 then [CHR 0x5C, CHR ''f'']
     else if n = 10 then [CHR 0x5C, CHR ''n'']
     else if n = 13 then [CHR 0x5C, CHR ''r'']
     else if n = 9 then [CHR 0x5C, CHR ''t'']
     else if n < 32 then [CHR 0x5C, CHR ''u'', CHR ''0'', CHR ''0'', hex_digit (n div 16), hex_digit (n mod 16)]
     else [c])"

definition json_string :: "string \<Rightarrow> string" where
  "json_string s = CHR 0x22 # concat (map json_escape s) @ [CHR 0x22]"

fun json_text :: "val \<Rightarrow> string" where
  "json_text VNone = ''null''"
| "json_text (VBool b) = (if b then ''true'' else ''false'')"
| "json_text (VInt i) = int_text i"
| "json_text (VFloat t) = t"
| "json_text (VStr s) = json_string s"
| "json_text (VTime _) = []"
| "json_text (VList vs) = ''['' @ join_with '','' (map json_text vs) @ '']''"
| "json_text (VDict d) = ''{'' @ join_with '','' (map (\<lambda>(k, t). json_string k @ '':'' @ t)
     (sort_key fst (map (\<lambda>(k, v). (k, json_text v)) d))) @ ''}''"

section \<open>Chunks\<close>

definition char_width :: "char \<Rightarrow> nat" where
  "char_width c = (let n = of_char c :: nat in
     if n \<in> {34, 92, 8, 12, 10, 13, 9} then 2 else if n < 32 then 6 else if n < 128 then 1 else 2)"

fun text_chunks :: "string \<Rightarrow> nat \<Rightarrow> string \<Rightarrow> string list" where
  "text_chunks chunk used [] = [chunk]"
| "text_chunks chunk used (c # cs) =
     (if used + char_width c > VALUE_CHUNK_BYTES then chunk # text_chunks [c] (char_width c) cs
      else text_chunks (chunk @ [c]) (used + char_width c) cs)"

definition value_text :: "val \<Rightarrow> string" where
  "value_text v = (case v of VStr s \<Rightarrow> s | _ \<Rightarrow> json_text v)"

definition value_parts :: "val \<Rightarrow> val list" where
  "value_parts v = (if utf8_length (json_text v) \<le> VALUE_CHUNK_BYTES then [v]
     else map VStr (text_chunks [] 0 (value_text v)))"

section \<open>Fragments\<close>

definition part_at :: "val list \<Rightarrow> nat \<Rightarrow> val" where
  "part_at parts i = (if i < length parts then parts ! i else VNone)"

definition field_fragments :: "field_change \<Rightarrow> field_change list" where
  "field_fragments f =
     (let before = value_parts (fh_before f); after = value_parts (fh_after f);
          n = max (length before) (length after)
      in map (\<lambda>i. \<lparr>fh_field = fh_field f, fh_before = part_at before i, fh_after = part_at after i,
           fh_continued = (i + 1 < n)\<rparr>) [0..<n])"

text \<open>A title that is too long to show is left out; it is among the changed fields.\<close>

definition shown_title :: "entity_change \<Rightarrow> val option" where
  "shown_title c = (case ec_title c of
     Some t \<Rightarrow> if utf8_length (json_text t) > VALUE_CHUNK_BYTES then None else Some t
   | None \<Rightarrow> None)"

definition fragment_with :: "entity_change \<Rightarrow> field_change list \<Rightarrow> entity_change" where
  "fragment_with c fs = c\<lparr>ec_title := shown_title c, ec_fields := fs\<rparr>"

text \<open>The loop state: the fragments yielded so far and the fields that wait for the next one.\<close>

definition add_fragment ::
  "(entity_change \<Rightarrow> nat) \<Rightarrow> entity_change \<Rightarrow> bool \<Rightarrow> field_change \<Rightarrow> entity_change list \<times> field_change list \<Rightarrow>
   entity_change list \<times> field_change list" where
  "add_fragment bytes c alone f = (\<lambda>(yielded, pending).
     let full = pending \<noteq> [] \<and> bytes (fragment_with c (pending @ [f])) > 3 * VALUE_CHUNK_BYTES;
         yielded1 = (if full then yielded @ [fragment_with c pending] else yielded);
         pending1 = (if full then [] else pending) @ [f]
     in if alone then (yielded1 @ [fragment_with c pending1], []) else (yielded1, pending1))"

definition add_field ::
  "(entity_change \<Rightarrow> nat) \<Rightarrow> entity_change \<Rightarrow> field_change \<Rightarrow> entity_change list \<times> field_change list \<Rightarrow>
   entity_change list \<times> field_change list" where
  "add_field bytes c f s = (let parts = field_fragments f in
     fold (add_fragment bytes c (length parts > 1)) parts s)"

definition change_fragments :: "(entity_change \<Rightarrow> nat) \<Rightarrow> entity_change \<Rightarrow> entity_change list" where
  "change_fragments bytes c =
     (let (yielded, pending) = fold (add_field bytes c) (ec_fields c) ([], [])
      in if pending = [] then yielded else yielded @ [fragment_with c pending])"

section \<open>Cursors\<close>

datatype history_cursor = Position string int | Unreadable nat

definition cursor_length :: "history_cursor \<Rightarrow> nat" where
  "cursor_length c = (case c of
     Position key offset \<Rightarrow> (4 * utf8_length (json_text (VList [VStr key, VInt offset])) + 2) div 3
   | Unreadable n \<Rightarrow> n)"

definition cursor_position :: "history_cursor \<Rightarrow> (string \<times> int) result" where
  "cursor_position c = (case c of
     Position key offset \<Rightarrow> if cursor_length c > CURSOR_MAX_BYTES \<or> offset < 0
       then Inl (ValueError ''invalid history cursor'') else Inr (key, offset)
   | Unreadable _ \<Rightarrow> Inl (ValueError ''invalid history cursor''))"

definition cursor_offset :: "history_cursor option \<Rightarrow> string \<Rightarrow> nat result" where
  "cursor_offset cursor key = (case cursor of
     None \<Rightarrow> Inr 0
   | Some c \<Rightarrow> bind_r (cursor_position c) (\<lambda>(stored, offset).
       if stored \<noteq> key then Inl (ValueError ''history cursor does not match this query'')
       else Inr (nat offset)))"

section \<open>Pages\<close>

text \<open>
  A page of a diff lists changes, then steps; a page of a log has one list, which is the second.
\<close>

record 'u history_page =
  hp_changes :: "'u list"
  hp_steps :: "'u list"
  hp_cursor :: "history_cursor option"

definition add_unit :: "bool \<Rightarrow> 'u \<Rightarrow> 'u history_page \<Rightarrow> 'u history_page" where
  "add_unit is_change u p = (if is_change then p\<lparr>hp_changes := hp_changes p @ [u]\<rparr>
     else p\<lparr>hp_steps := hp_steps p @ [u]\<rparr>)"

definition needs_comma :: "bool \<Rightarrow> 'u history_page \<Rightarrow> nat" where
  "needs_comma is_change p = (if (if is_change then hp_changes p else hp_steps p) = [] then 0 else 1)"

text \<open>The cursor replaces the \<open>null\<close> of the empty page.\<close>

definition cursor_size :: "history_cursor option \<Rightarrow> nat" where
  "cursor_size c = (case c of None \<Rightarrow> 4 | Some x \<Rightarrow> cursor_length x + 2)"

definition cursor_before :: "string \<Rightarrow> nat \<Rightarrow> nat \<Rightarrow> history_cursor option" where
  "cursor_before key index count_all = (if index < count_all then Some (Position key (int index)) else None)"

fun fill_from ::
  "('u \<Rightarrow> nat) \<Rightarrow> string \<Rightarrow> nat \<Rightarrow> nat \<Rightarrow> nat \<Rightarrow> nat \<Rightarrow> nat \<Rightarrow> 'u history_page \<Rightarrow> 'u list \<Rightarrow>
   'u history_page result" where
  "fill_from len key count_all changes offset index used page [] = Inr (page\<lparr>hp_cursor := None\<rparr>)"
| "fill_from len key count_all changes offset index used page (u # us) =
     (if index - offset \<ge> PAGE_MAX_ENTRIES
        then Inr (page\<lparr>hp_cursor := Some (Position key (int index))\<rparr>)
      else
        (let is_change = index < changes;
             next_size = used + len u + needs_comma is_change page
         in if next_size + cursor_size (cursor_before key (index + 1) count_all) > PAGE_MAX_BYTES + 4
            then if index = offset then Inl (ValueError ''history entry metadata exceeds page size'')
                 else Inr (page\<lparr>hp_cursor := Some (Position key (int index))\<rparr>)
            else fill_from len key count_all changes offset (index + 1) next_size (add_unit is_change u page) us))"

definition fill_page ::
  "('u \<Rightarrow> nat) \<Rightarrow> nat \<Rightarrow> string \<Rightarrow> nat \<Rightarrow> 'u list \<Rightarrow> history_cursor option \<Rightarrow> 'u history_page result" where
  "fill_page len envelope key changes units cursor =
     bind_r (cursor_offset cursor key) (\<lambda>offset.
     if cursor \<noteq> None \<and> offset \<ge> length units then Inl (ValueError ''history cursor is out of range'')
     else fill_from len key (length units) changes offset offset envelope
            \<lparr>hp_changes = [], hp_steps = [], hp_cursor = None\<rparr> (drop offset units))"

section \<open>Answers\<close>

record step_attribution =
  sa_head :: string
  sa_producer :: producer
  sa_task_id :: "string option"
  sa_episode_id :: "string option"
  sa_summary :: val
  sa_inherited :: bool

record history_step =
  st_before_head :: graph_head_ref
  st_after_head :: graph_head_ref
  st_patch :: patch
  st_delta :: semantic_delta
  st_changed_node_ids :: "string list"
  st_changed_edge_ids :: "string list"
  st_accepted :: bool
  st_inherited :: bool

definition attribution :: "history_step \<Rightarrow> step_attribution" where
  "attribution s = \<lparr>sa_head = format_head (st_after_head s), sa_producer = pa_producer (st_patch s),
     sa_task_id = pa_task_id (st_patch s), sa_episode_id = pa_episode_id (st_patch s),
     sa_summary = VStr (pa_summary (st_patch s)), sa_inherited = st_inherited s\<rparr>"

definition step_key :: "history_step \<Rightarrow> string \<times> int \<times> string option" where
  "step_key s = (let h = st_after_head s in (target_key (gh_target h), gh_revision h, gh_transition_id h))"

definition delta_coordinates :: "semantic_delta \<Rightarrow> (entity_kind \<times> string) list" where
  "delta_coordinates d = concat (map (\<lambda>(kind, items). map (\<lambda>x. (kind, dl_id x)) items) (delta_collections d))
     @ map (\<lambda>g. (Global_kind, gd_field g)) (se_globals d)"

definition supports_change :: "semantic_delta \<Rightarrow> (entity_kind \<times> string) list \<Rightarrow> bool" where
  "supports_change d changed = list_ex (\<lambda>k. k \<in> set changed) (delta_coordinates d)"

definition matches_ids :: "history_step \<Rightarrow> string list \<Rightarrow> bool" where
  "matches_ids s ids = (ids = [] \<or> set ids \<inter> set (st_changed_node_ids s) \<noteq> {}
     \<or> set ids \<inter> set (st_changed_edge_ids s) \<noteq> {}
     \<or> list_ex (\<lambda>(kind, i). kind \<notin> {Node_kind, Edge_kind} \<and> i \<in> set ids) (delta_coordinates (st_delta s)))"

datatype history_unit = Change_unit entity_change | Step_unit step_attribution
  | Log_unit step_attribution entity_change

definition step_units :: "history_step \<Rightarrow> history_unit list" where
  "step_units s = (let item = attribution s in
     map (\<lambda>part. Step_unit (item\<lparr>sa_summary := part\<rparr>)) (value_parts (sa_summary item)))"

text \<open>The units of a diff and how many of them are changes.\<close>

definition compute_diff ::
  "merge_codec \<Rightarrow> state_codec \<Rightarrow> (entity_change \<Rightarrow> nat) \<Rightarrow> graph_state \<Rightarrow> graph_state \<Rightarrow> history_step list \<Rightarrow>
   history_step list \<Rightarrow> string list \<Rightarrow> (history_unit list \<times> nat) result" where
  "compute_diff K C bytes before after from_steps to_steps ids =
     bind_r (semantic_delta_of K C before after) (\<lambda>delta.
     (let changes = entity_changes K delta ids;
          changed = map (\<lambda>c. (ec_kind c, ec_id c)) changes;
          common = step_key ` set from_steps \<inter> step_key ` set to_steps;
          units = map Change_unit (concat (map (change_fragments bytes) changes));
          steps = filter (\<lambda>s. st_accepted s \<and> step_key s \<notin> common \<and> matches_ids s ids
            \<and> supports_change (st_delta s) changed) (from_steps @ to_steps)
      in Inr (units @ concat (map step_units steps), length units)))"

definition log_units ::
  "merge_codec \<Rightarrow> (entity_change \<Rightarrow> nat) \<Rightarrow> history_step \<Rightarrow> string \<Rightarrow> history_unit list" where
  "log_units K bytes s i =
     (if \<not> st_accepted s \<or> \<not> matches_ids s [i] then []
      else concat (map (\<lambda>c.
        (let item = attribution s; fragments = change_fragments bytes c;
             summaries = value_parts (sa_summary item)
         in map (\<lambda>n. Log_unit (item\<lparr>sa_summary := (if n < length summaries then summaries ! n else VStr [])\<rparr>)
              (if n < length fragments then fragments ! n else c\<lparr>ec_fields := [], ec_title := None\<rparr>))
            [0..<max (length fragments) (length summaries)]))
        (entity_changes K (st_delta s) [i])))"

definition compute_log ::
  "merge_codec \<Rightarrow> (entity_change \<Rightarrow> nat) \<Rightarrow> string \<Rightarrow> history_step list \<Rightarrow> history_unit list" where
  "compute_log K bytes i steps = concat (map (\<lambda>s. log_units K bytes s i) (rev steps))"

end
