(* ===== verification/Page_Properties.thy ===== *)
theory Page_Properties
  imports History_Pages Merge_Properties
begin

text \<open>
  Cutting loses nothing: the chunks of a value restore its text within their bound, the fragments
  of a change list all of its fields, and the pages of an answer, followed by their cursors,
  deliver every unit once and in order within the bounds of a page.
\<close>

section \<open>Chunks\<close>

lemma utf8_length_append [simp]: "utf8_length (xs @ ys) = utf8_length xs + utf8_length ys"
  by (simp add: utf8_length_def)

lemma utf8_length_Nil [simp]: "utf8_length [] = 0"
  by (simp add: utf8_length_def)

lemma escape_width: "utf8_length (json_escape c) = char_width c"
proof -
  have small: "of_char (hex_digit k) < (128 :: nat)" if "k < 16" for k
    using that by (auto simp: hex_digit_def digit_def)
  have "of_char c div 16 < (16 :: nat)" if "of_char c < (32 :: nat)" using that by simp
  then show ?thesis
    using small [of "of_char c div 16"] small [of "of_char c mod 16"]
    by (auto simp: json_escape_def char_width_def utf8_length_def Let_def)
qed

lemma escaped_length: "utf8_length (concat (map json_escape s)) = sum_list (map char_width s)"
  by (induction s) (simp_all add: escape_width)

lemma char_width_small: "char_width c \<le> VALUE_CHUNK_BYTES"
  by (simp add: char_width_def VALUE_CHUNK_BYTES_def Let_def)

lemma text_chunks_concat: "concat (text_chunks chunk used s) = chunk @ s"
  by (induction chunk used s rule: text_chunks.induct) auto

lemma text_chunks_width:
  "sum_list (map char_width chunk) \<le> VALUE_CHUNK_BYTES \<Longrightarrow>
   t \<in> set (text_chunks chunk (sum_list (map char_width chunk)) s) \<Longrightarrow>
   sum_list (map char_width t) \<le> VALUE_CHUNK_BYTES"
proof (induction s arbitrary: chunk)
  case (Cons c s)
  then show ?case
    using Cons.IH [of "[c]"] Cons.IH [of "chunk @ [c]"] char_width_small [of c]
    by (auto split: if_splits)
qed simp

section \<open>Fragments\<close>

definition fragment_fields :: "entity_change list \<times> field_change list \<Rightarrow> field_change list" where
  "fragment_fields s = concat (map ec_fields (fst s)) @ snd s"

lemma fragment_with_fields [simp]: "ec_fields (fragment_with c fs) = fs"
  by (simp add: fragment_with_def)

lemma add_fragment_fields: "fragment_fields (add_fragment bytes c alone f s) = fragment_fields s @ [f]"
  by (cases s) (simp add: add_fragment_def fragment_fields_def Let_def)

lemma add_field_fields: "fragment_fields (add_field bytes c f s) = fragment_fields s @ field_fragments f"
proof -
  have "fragment_fields (fold (add_fragment bytes c alone) fs s) = fragment_fields s @ fs" for alone fs
    by (induction fs arbitrary: s) (simp_all add: add_fragment_fields)
  then show ?thesis by (simp add: add_field_def Let_def)
qed

lemma change_fragments_fields:
  "concat (map ec_fields (change_fragments bytes c)) = concat (map field_fragments (ec_fields c))"
proof -
  have "fragment_fields (fold (add_field bytes c) fs s) = fragment_fields s @ concat (map field_fragments fs)" for fs s
    by (induction fs arbitrary: s) (simp_all add: add_field_fields)
  from this [of "ec_fields c" "([], [])"] show ?thesis
    by (auto simp: change_fragments_def fragment_fields_def Let_def case_prod_beta split: prod.splits)
qed

section \<open>One page\<close>

definition page_units :: "'u history_page \<Rightarrow> 'u list" where
  "page_units p = hp_changes p @ hp_steps p"

text \<open>The serialised size of a page: the empty page, its units, their commas and the cursor.\<close>

definition list_bytes :: "('u \<Rightarrow> nat) \<Rightarrow> 'u list \<Rightarrow> nat" where
  "list_bytes len us = sum_list (map len us) + (length us - 1)"

definition page_bytes :: "('u \<Rightarrow> nat) \<Rightarrow> nat \<Rightarrow> 'u history_page \<Rightarrow> nat" where
  "page_bytes len envelope p = envelope + list_bytes len (hp_changes p) + list_bytes len (hp_steps p)
     + cursor_size (hp_cursor p) - 4"

definition content_bytes :: "('u \<Rightarrow> nat) \<Rightarrow> nat \<Rightarrow> 'u history_page \<Rightarrow> nat" where
  "content_bytes len envelope p = envelope + list_bytes len (hp_changes p) + list_bytes len (hp_steps p)"

lemma add_unit_bytes:
  "content_bytes len envelope (add_unit is_change u p) = content_bytes len envelope p + len u + needs_comma is_change p"
  by (cases "hp_changes p"; cases "hp_steps p")
     (auto simp: add_unit_def needs_comma_def content_bytes_def list_bytes_def)

text \<open>
  Filling from an index takes some units, the changes among them into the first list, and stops
  with the position of the first unit it left.
\<close>

definition page_split :: "nat \<Rightarrow> nat \<Rightarrow> 'u list \<Rightarrow> 'u list \<times> 'u list" where
  "page_split changes index us = (take (changes - index) us, drop (changes - index) us)"

lemma fill_from_takes:
  assumes "fill_from len key count_all changes offset index used page us = Inr p"
    and "index + length us = count_all" and "used = content_bytes len envelope page"
    and "index < changes \<Longrightarrow> hp_steps page = []"
    and "index - offset = length (hp_changes page @ hp_steps page)"
    and "length (hp_changes page @ hp_steps page) \<le> PAGE_MAX_ENTRIES"
    and "used + cursor_size (cursor_before key index count_all) \<le> PAGE_MAX_BYTES + 4" and "offset \<le> index"
  shows "\<exists>n \<le> length us. hp_changes p = hp_changes page @ fst (page_split changes index (take n us))
     \<and> hp_steps p = hp_steps page @ snd (page_split changes index (take n us))
     \<and> hp_cursor p = cursor_before key (index + n) count_all
     \<and> length (page_units p) \<le> PAGE_MAX_ENTRIES \<and> page_bytes len envelope p \<le> PAGE_MAX_BYTES
     \<and> (us \<noteq> [] \<and> index = offset \<longrightarrow> n > 0)"
  using assms
proof (induction len key count_all changes offset index used page us rule: fill_from.induct)
  case (1 len key count_all changes offset index used page)
  then show ?case
    by (auto simp: page_split_def cursor_before_def page_units_def page_bytes_def content_bytes_def)
next
  case (2 len key count_all changes offset index used page u us)
  let ?is = "index < changes"
  let ?next = "used + len u + needs_comma ?is page"
  have here: "cursor_before key index count_all = Some (Position key (int index))"
    using 2(3) by (auto simp: cursor_before_def)
  consider (stop) "p = page\<lparr>hp_cursor := Some (Position key (int index))\<rparr>" "index \<noteq> offset"
    | (go) "\<not> index - offset \<ge> PAGE_MAX_ENTRIES"
       "\<not> ?next + cursor_size (cursor_before key (index + 1) count_all) > PAGE_MAX_BYTES + 4"
       "fill_from len key count_all changes offset (index + 1) ?next (add_unit ?is u page) us = Inr p"
    using 2(2) by (auto simp: Let_def PAGE_MAX_ENTRIES_def split: if_splits)
  then show ?case
  proof cases
    case stop
    then show ?thesis
      using 2 here by (intro exI [of _ 0])
        (auto simp: page_split_def page_units_def page_bytes_def content_bytes_def)
  next
    case go
    have "\<exists>n\<le>length us. hp_changes p = hp_changes (add_unit ?is u page) @ fst (page_split changes (index + 1) (take n us))
       \<and> hp_steps p = hp_steps (add_unit ?is u page) @ snd (page_split changes (index + 1) (take n us))
       \<and> hp_cursor p = cursor_before key (index + 1 + n) count_all
       \<and> length (page_units p) \<le> PAGE_MAX_ENTRIES \<and> page_bytes len envelope p \<le> PAGE_MAX_BYTES
       \<and> (us \<noteq> [] \<and> index + 1 = offset \<longrightarrow> n > 0)"
    proof (rule 2(1) [OF _ refl refl _ go(3)])
      show "?next = content_bytes len envelope (add_unit ?is u page)" by (simp add: 2(4) add_unit_bytes)
    qed (use go 2 in \<open>auto simp: add_unit_def\<close>)
    then obtain n where n: "n \<le> length us"
      "hp_changes p = hp_changes (add_unit ?is u page) @ fst (page_split changes (index + 1) (take n us))"
      "hp_steps p = hp_steps (add_unit ?is u page) @ snd (page_split changes (index + 1) (take n us))"
      "hp_cursor p = cursor_before key (index + 1 + n) count_all"
      "length (page_units p) \<le> PAGE_MAX_ENTRIES" "page_bytes len envelope p \<le> PAGE_MAX_BYTES" by blast
    have "changes - index = Suc (changes - (index + 1))" if ?is using that by simp
    with n 2(5) show ?thesis
      by (intro exI [of _ "Suc n"]) (auto simp: page_split_def add_unit_def)
  qed
qed

section \<open>Following the cursors\<close>

inductive answered ::
  "('u \<Rightarrow> nat) \<Rightarrow> nat \<Rightarrow> string \<Rightarrow> nat \<Rightarrow> 'u list \<Rightarrow> history_cursor option \<Rightarrow> 'u history_page list \<Rightarrow> bool"
  for len envelope key changes units where
  final_page: "fill_page len envelope key changes units cursor = Inr p \<Longrightarrow> hp_cursor p = None \<Longrightarrow>
    answered len envelope key changes units cursor [p]"
| next_page: "fill_page len envelope key changes units cursor = Inr p \<Longrightarrow> hp_cursor p = Some c \<Longrightarrow>
    answered len envelope key changes units (Some c) ps \<Longrightarrow>
    answered len envelope key changes units cursor (p # ps)"

text \<open>Every unit fits a page of its own, and every cursor can be read back.\<close>

definition units_fit :: "('u \<Rightarrow> nat) \<Rightarrow> nat \<Rightarrow> string \<Rightarrow> 'u list \<Rightarrow> bool" where
  "units_fit len envelope key units = (list_all (\<lambda>i.
       envelope + len (units ! i) + cursor_size (cursor_before key (i + 1) (length units)) \<le> PAGE_MAX_BYTES + 4
       \<and> envelope + cursor_size (cursor_before key i (length units)) \<le> PAGE_MAX_BYTES + 4
       \<and> cursor_length (Position key (int i)) \<le> CURSOR_MAX_BYTES) [0..<length units]
     \<and> envelope \<le> PAGE_MAX_BYTES)"

lemma fill_from_later:
  "offset < index \<Longrightarrow> \<exists>p. fill_from len key count_all changes offset index used page us = Inr p"
  by (induction us arbitrary: index used page) (auto simp: Let_def)

lemma filled_page:
  assumes "units_fit len envelope key units" and "cursor_offset cursor key = Inr offset"
    and "cursor \<noteq> None \<Longrightarrow> offset < length units" "cursor = None \<Longrightarrow> offset = 0"
  shows "\<exists>p n. fill_page len envelope key changes units cursor = Inr p
     \<and> offset + n \<le> length units \<and> (offset < length units \<longrightarrow> n > 0)
     \<and> hp_changes p = fst (page_split changes offset (take n (drop offset units)))
     \<and> hp_steps p = snd (page_split changes offset (take n (drop offset units)))
     \<and> hp_cursor p = cursor_before key (offset + n) (length units)
     \<and> length (page_units p) \<le> PAGE_MAX_ENTRIES \<and> page_bytes len envelope p \<le> PAGE_MAX_BYTES"
proof -
  let ?empty = "\<lparr>hp_changes = [], hp_steps = [], hp_cursor = None\<rparr> :: 'a history_page"
  let ?fill = "fill_from len key (length units) changes offset offset envelope ?empty (drop offset units)"
  have bounds: "offset \<le> length units" using assms(3,4) by (cases cursor) auto
  have page: "fill_page len envelope key changes units cursor = ?fill"
    using assms(2,3) by (cases cursor) (auto simp: fill_page_def not_le)
  have "\<exists>p. ?fill = Inr p"
  proof (cases "offset < length units")
    case True
    then have "drop offset units = units ! offset # drop (offset + 1) units" by (simp add: Cons_nth_drop_Suc)
    moreover have "envelope + len (units ! offset) + cursor_size (cursor_before key (offset + 1) (length units))
        \<le> PAGE_MAX_BYTES + 4"
      using assms(1) True by (simp add: units_fit_def list_all_iff)
    ultimately show ?thesis
      using fill_from_later [of offset "offset + 1"]
      by (auto simp: Let_def needs_comma_def PAGE_MAX_ENTRIES_def)
  qed (use bounds in simp)
  then obtain p where p: "?fill = Inr p" by blast
  have "envelope + cursor_size (cursor_before key offset (length units)) \<le> PAGE_MAX_BYTES + 4"
    using assms(1) by (cases "offset < length units")
      (auto simp: units_fit_def list_all_iff cursor_before_def cursor_size_def)
  with fill_from_takes [OF p, of envelope] bounds obtain n where "n \<le> length (drop offset units)"
     "hp_changes p = fst (page_split changes offset (take n (drop offset units)))"
     "hp_steps p = snd (page_split changes offset (take n (drop offset units)))"
     "hp_cursor p = cursor_before key (offset + n) (length units)"
     "length (page_units p) \<le> PAGE_MAX_ENTRIES" "page_bytes len envelope p \<le> PAGE_MAX_BYTES"
     "drop offset units \<noteq> [] \<longrightarrow> n > 0"
    by (auto simp: content_bytes_def list_bytes_def)
  with p page bounds show ?thesis by (intro exI [of _ p] exI [of _ n]) auto
qed

lemma page_split_join:
  "fst (page_split changes offset (take n us)) @ fst (page_split changes (offset + n) (drop n us))
     = fst (page_split changes offset us)"
  "n \<le> length us \<Longrightarrow> snd (page_split changes offset (take n us)) @ snd (page_split changes (offset + n) (drop n us))
     = snd (page_split changes offset us)"
proof -
  let ?k = "changes - offset"
  have "take ?k us = take ?k (take n us @ drop n us)" by simp
  also have "\<dots> = take ?k (take n us) @ take (?k - length (take n us)) (drop n us)" by (rule take_append)
  finally show "fst (page_split changes offset (take n us)) @ fst (page_split changes (offset + n) (drop n us))
     = fst (page_split changes offset us)"
    by (cases "n \<le> length us") (simp_all add: page_split_def)
  assume "n \<le> length us"
  moreover have "drop ?k us = drop ?k (take n us @ drop n us)" by simp
  moreover have "drop ?k (take n us @ drop n us) = drop ?k (take n us) @ drop (?k - length (take n us)) (drop n us)"
    by (rule drop_append)
  ultimately show "snd (page_split changes offset (take n us)) @ snd (page_split changes (offset + n) (drop n us))
     = snd (page_split changes offset us)"
    by (simp add: page_split_def)
qed

lemma answered_from:
  assumes "units_fit len envelope key units"
  shows "cursor_offset cursor key = Inr offset \<Longrightarrow> (cursor \<noteq> None \<Longrightarrow> offset < length units) \<Longrightarrow>
     (cursor = None \<Longrightarrow> offset = 0) \<Longrightarrow>
     \<exists>ps. answered len envelope key changes units cursor ps
       \<and> concat (map hp_changes ps) = fst (page_split changes offset (drop offset units))
       \<and> concat (map hp_steps ps) = snd (page_split changes offset (drop offset units))
       \<and> (\<forall>p \<in> set ps. length (page_units p) \<le> PAGE_MAX_ENTRIES \<and> page_bytes len envelope p \<le> PAGE_MAX_BYTES)"
proof (induction "length units - offset" arbitrary: offset cursor rule: less_induct)
  case less
  from filled_page [OF assms less.prems, of changes] obtain p n where
    p: "fill_page len envelope key changes units cursor = Inr p"
      "offset + n \<le> length units" "offset < length units \<longrightarrow> n > 0"
      "hp_changes p = fst (page_split changes offset (take n (drop offset units)))"
      "hp_steps p = snd (page_split changes offset (take n (drop offset units)))"
      "hp_cursor p = cursor_before key (offset + n) (length units)"
      "length (page_units p) \<le> PAGE_MAX_ENTRIES" "page_bytes len envelope p \<le> PAGE_MAX_BYTES" by blast
  show ?case
  proof (cases "offset + n < length units")
    case False
    then have "hp_cursor p = None" "take n (drop offset units) = drop offset units"
      using p(2,6) by (simp_all add: cursor_before_def)
    with p show ?thesis by (intro exI [of _ "[p]"]) (auto intro: answered.final_page)
  next
    case True
    let ?c = "Position key (int (offset + n))"
    have c: "hp_cursor p = Some ?c" using True p(6) by (simp add: cursor_before_def)
    have "\<forall>i < length units. cursor_length (Position key (int i)) \<le> CURSOR_MAX_BYTES"
      using assms by (simp add: units_fit_def list_all_iff)
    with True have "cursor_length ?c \<le> CURSOR_MAX_BYTES" by blast
    then have "cursor_offset (Some ?c) key = Inr (offset + n)"
      by (simp add: cursor_offset_def cursor_position_def)
    note rest = less.hyps [OF _ this]
    have "length units - (offset + n) < length units - offset" using True p(3) by simp
    from rest [OF this] True obtain ps where
      ps: "answered len envelope key changes units (Some ?c) ps"
        "concat (map hp_changes ps) = fst (page_split changes (offset + n) (drop (offset + n) units))"
        "concat (map hp_steps ps) = snd (page_split changes (offset + n) (drop (offset + n) units))"
        "\<forall>p \<in> set ps. length (page_units p) \<le> PAGE_MAX_ENTRIES \<and> page_bytes len envelope p \<le> PAGE_MAX_BYTES"
      by blast
    have "drop (offset + n) units = drop n (drop offset units)" by (simp add: add.commute)
    moreover have "n \<le> length (drop offset units)" using p(2) by simp
    ultimately have "concat (map hp_changes (p # ps)) = fst (page_split changes offset (drop offset units))"
      "concat (map hp_steps (p # ps)) = snd (page_split changes offset (drop offset units))"
      using ps(2,3) p(4,5) page_split_join [where changes = changes and offset = offset and n = n and us = "drop offset units"] by simp_all
    with ps(4) p(7,8) answered.next_page [OF p(1) c ps(1)] show ?thesis
      by (intro exI [of _ "p # ps"]) auto
  qed
qed

section \<open>Properties\<close>

text \<open>
  (C23) Pages deliver the whole answer. When every unit fits a page of its own, asking for the first
  page and following the cursors never fails and ends; the pages together list every change,
  then every step, each once and in order, and no page exceeds its bounds on entries and bytes.
\<close>

theorem pages_deliver_answer:
  assumes "units_fit len envelope key units"
  shows "\<exists>ps. answered len envelope key changes units None ps
     \<and> concat (map hp_changes ps) = take changes units \<and> concat (map hp_steps ps) = drop changes units
     \<and> (\<forall>p \<in> set ps. length (page_units p) \<le> PAGE_MAX_ENTRIES \<and> page_bytes len envelope p \<le> PAGE_MAX_BYTES)"
  using answered_from [OF assms, of None 0 changes] by (simp add: cursor_offset_def page_split_def)

text \<open>Two large changes and a step: the second change does not fit the first page.\<close>

theorem pages_deliver_answer_witness:
  "\<exists>ps. answered (\<lambda>n :: nat. n) 100 ''key'' 2 [40000, 30000, 500] None ps
     \<and> concat (map hp_changes ps) = [40000, 30000] \<and> concat (map hp_steps ps) = [500]
     \<and> list_all (\<lambda>p. length (page_units p) \<le> PAGE_MAX_ENTRIES
          \<and> page_bytes (\<lambda>n. n) 100 p \<le> PAGE_MAX_BYTES) ps"
proof -
  have cursors: "cursor_length (Position ''key'' 0) = 12" "cursor_length (Position ''key'' 1) = 12"
    "cursor_length (Position ''key'' 2) = 12" by code_simp+
  have "units_fit (\<lambda>n :: nat. n) 100 ''key'' [40000, 30000, 500]"
    by (simp add: units_fit_def upt_rec cursor_before_def cursor_size_def cursors
        PAGE_MAX_BYTES_def CURSOR_MAX_BYTES_def)
  from pages_deliver_answer [OF this, of 2] show ?thesis by (simp add: list_all_iff)
qed


section \<open>Semantic deltas\<close>

definition keyed_objects :: "state_object dict \<Rightarrow> bool" where
  "keyed_objects d = list_all (\<lambda>(k, x). object_id x = k) d"

lemma map_r_same: "(\<And>x. x \<in> set xs \<Longrightarrow> f x = Inr x) \<Longrightarrow> map_r f xs = Inr xs"
  by (induction xs) auto

lemma entity_delta_shape:
  assumes "keyed_objects d" "keyed_objects e" "x \<in> set (entity_delta_of K i (dict_get d i) (dict_get e i))"
  shows "require_change_shape x = Inr x"
proof -
  have "object_id y = i" if "dict_get d i = Some y \<or> dict_get e i = Some y" for y
    using that assms(1,2) by (auto simp: keyed_objects_def list_all_iff dest: map_of_SomeD)
  with assms(3) show ?thesis
    by (cases "dict_get d i"; cases "dict_get e i")
       (auto simp: entity_delta_of_def require_change_shape_def Let_def split: if_splits)
qed

lemma entity_delta_ids: "x \<in> set (entity_delta_of K i old new) \<Longrightarrow> dl_id x = i"
  by (auto simp: entity_delta_of_def split: option.splits if_splits)

lemma filter_by_id:
  assumes "distinct is" "\<And>j x. x \<in> set (f j) \<Longrightarrow> dl_id x = j" "i \<notin> set is \<Longrightarrow> f i = []"
  shows "filter (\<lambda>x. dl_id x = i) (concat (map f is)) = f i"
proof -
  have "filter (\<lambda>x. dl_id x = i) (f j) = (if j = i then f i else [])" for j
    using assms(2) [of _ j] by (auto simp: filter_id_conv filter_empty_conv)
  then have "filter (\<lambda>x. dl_id x = i) (concat (map f js)) = (if i \<in> set js then f i else [])" if "distinct js" for js
    using that by (induction js) auto
  with assms(1,3) show ?thesis by auto
qed

text \<open>What a list of deltas must be for two versions of a collection.\<close>

definition exact_deltas ::
  "merge_codec \<Rightarrow> state_object dict \<Rightarrow> state_object dict \<Rightarrow> entity_delta list \<Rightarrow> bool" where
  "exact_deltas K d e xs = (distinct (map dl_id xs)
     \<and> (\<forall>x \<in> set xs. dl_before x = dict_get d (dl_id x) \<and> dl_after x = dict_get e (dl_id x))
     \<and> (\<forall>i. i \<in> dl_id ` set xs \<longleftrightarrow> (case (dict_get d i, dict_get e i) of
          (None, None) \<Rightarrow> False | (Some x, Some y) \<Rightarrow> document_changed K x y | _ \<Rightarrow> True)))"

lemma distinct_by_filter: "(\<And>i. length (filter (\<lambda>x. f x = i) xs) \<le> 1) \<Longrightarrow> distinct (map f xs)"
proof (induction xs)
  case (Cons a xs)
  have "f a \<notin> f ` set xs"
  proof
    assume "f a \<in> f ` set xs"
    then obtain b where "b \<in> set xs" "f b = f a" by auto
    then have "filter (\<lambda>x. f x = f a) xs \<noteq> []" by (auto simp: filter_empty_conv)
    with Cons.prems [of "f a"] show False by simp
  qed
  moreover have "length (filter (\<lambda>x. f x = i) xs) \<le> 1" for i
    using Cons.prems [of i] by (auto split: if_splits)
  ultimately show ?case using Cons.IH by simp
qed simp

lemma exact_deltas_filter:
  assumes "\<And>i. filter (\<lambda>x. dl_id x = i) xs = entity_delta_of K i (dict_get d i) (dict_get e i)"
  shows "exact_deltas K d e xs"
proof -
  have "length (entity_delta_of K i old new) \<le> 1" for i old new
    by (simp add: entity_delta_of_def split: option.splits)
  then have "distinct (map dl_id xs)" by (intro distinct_by_filter) (simp add: assms)
  moreover have here: "x \<in> set (entity_delta_of K (dl_id x) (dict_get d (dl_id x)) (dict_get e (dl_id x)))"
    if "x \<in> set xs" for x
    using that by (simp flip: assms)
  moreover have "dl_before x = old \<and> dl_after x = new" if "x \<in> set (entity_delta_of K i old new)" for x i old new
    using that by (auto simp: entity_delta_of_def split: option.splits if_splits)
  moreover have "i \<in> dl_id ` set xs \<longleftrightarrow> entity_delta_of K i (dict_get d i) (dict_get e i) \<noteq> []" for i
    by (simp flip: assms add: filter_empty_conv) (auto simp: image_iff)
  moreover have "entity_delta_of K i old new \<noteq> [] \<longleftrightarrow> (case (old, new) of
      (None, None) \<Rightarrow> False | (Some x, Some y) \<Rightarrow> document_changed K x y | _ \<Rightarrow> True)" for i old new
    by (simp add: entity_delta_of_def split: option.splits)
  ultimately show ?thesis unfolding exact_deltas_def by blast
qed

lemma collection_delta_exact:
  assumes "keyed_objects d" "keyed_objects e"
  shows "\<exists>xs. typed_collection_delta K d e = Inr xs \<and> exact_deltas K d e xs"
proof -
  let ?f = "\<lambda>i. entity_delta_of K i (dict_get d i) (dict_get e i)"
  let ?xs = "concat (map ?f (sorted_set (keys d @ keys e)))"
  have "typed_collection_delta K d e = Inr ?xs"
    unfolding typed_collection_delta_def by (rule map_r_same) (auto dest: entity_delta_shape [OF assms])
  moreover have "filter (\<lambda>x. dl_id x = i) ?xs = ?f i" for i
  proof (rule filter_by_id)
    assume "i \<notin> set (sorted_set (keys d @ keys e))"
    then have "dict_get d i = None" "dict_get e i = None" by (auto simp: map_of_eq_None_iff)
    then show "?f i = []" by (simp add: entity_delta_of_def)
  qed (auto dest: entity_delta_ids)
  ultimately show ?thesis using exact_deltas_filter by blast
qed


text \<open>An ontology dumped as the names of its relations.\<close>

definition relation_names :: "state_object \<Rightarrow> val" where
  "relation_names x = (case x of O_ontology os \<Rightarrow> VList (map (VStr \<circ> or_name) (os_relations os)) | _ \<Rightarrow> VNone)"

definition brief_codec :: state_codec where
  "brief_codec = \<lparr>sc_dump = (\<lambda>_. relation_names), sc_validate = (\<lambda>_ _. Inl (ValueError [])),
     sc_equal = (\<lambda>x y. py_eq (relation_names x) (relation_names y)), sc_layer = (\<lambda>_. Inl (ValueError []))\<rparr>"


end
