(* ===== verification/Approval_Rules.thy ===== *)
theory Approval_Rules
  imports Proposal_Rules
begin

text \<open>
  The shape of a human patch (\<open>core/validation/approval.py\<close>): a direct edit, a direct Decision
  choice, the release of an attempt, and the replay of a Proposal. Every refusal is one message
  with its code and, where the program names it, the node.
\<close>

section \<open>Human edits\<close>

definition HUMAN_EDITABLE_NODE_FIELDS :: "string list dict" where
  "HUMAN_EDITABLE_NODE_FIELDS = [
     (''research_question'', [''title'', ''question'', ''motivation'', ''scope'']),
     (''hypothesis'', [''title'', ''statement'', ''rationale'', ''predictions'', ''scope'']),
     (''decision'', [''title'', ''question'', ''options'', ''rationale'', ''consequences'', ''status'']),
     (''experiment'', [''title'', ''objective'', ''design'', ''expected_outcomes'',
        ''interpretation_rules'', ''completion_criteria'', ''attempt_ceiling'', ''invocation_ceiling'',
        ''proxies'', ''limitations'', ''current_summary'', ''next_action'']),
     (''evidence'', [''title'', ''observation'', ''interpretation'']),
     (''blocker'', [''title'', ''description'', ''status'', ''resolution_condition'',
        ''recommended_action''])]"

definition HUMAN_QUEUE_DECISION_STATUSES :: "string list" where
  "HUMAN_QUEUE_DECISION_STATUSES = [''open'', ''ready'', ''revisit'']"

definition decided_change :: "val dict \<Rightarrow> bool" where
  "decided_change changes = (dict_get changes ''status'' = Some (VStr ''decided''))"

text \<open>The non-empty option chosen from the resulting list, if there is one.\<close>

definition effective_choice :: "project_node \<Rightarrow> val dict \<Rightarrow> string option" where
  "effective_choice d changes =
     (case get_default changes ''selected_option'' (attr_val d ''selected_option'') of
        VStr s \<Rightarrow> if strip s \<noteq> []
            \<and> in_options (VStr s) (get_default changes ''options'' (attr_val d ''options''))
          then Some s else None
      | _ \<Rightarrow> None)"

definition checked_human_decision_choice :: "project_node \<Rightarrow> val dict \<Rightarrow> string option result" where
  "checked_human_decision_choice node changes =
     (if \<not> is_decision node then Inr None
      else
        bind_r (if ''status'' \<in> set (keys changes) \<and> \<not> is_decision_choice changes
                  then in_frozenset (dict_get changes ''status'') HUMAN_QUEUE_DECISION_STATUSES
                else Inr True) (\<lambda>queues.
        if \<not> queues then Inl (ValueError ''direct edits may queue it as open, ready, or revisit'')
        else if \<not> is_decision_choice changes then Inr None
        else if attr_val node ''status'' = VStr ''superseded''
          then Inl (ValueError ''superseded and cannot be decided again'')
        else if \<not> decided_change changes
          then Inl (ValueError ''direct choice must set status exactly to decided'')
        else (case effective_choice node changes of
            None \<Rightarrow> Inl (ValueError ''direct choice must select one non-empty option'')
          | Some s \<Rightarrow> Inr (Some s))))"

section \<open>Releasing an attempt\<close>

text \<open>Whether one attempt record is untouched, released, or changed in any other way.\<close>

datatype attempt_change = Untouched | Released | Refused_change

definition attempt_release :: "node_adapter \<Rightarrow> val dict \<Rightarrow> val \<Rightarrow> attempt_change" where
  "attempt_release A before after = (case after of
     VDict d \<Rightarrow>
       (let unchanged = json_dict A before;
            expected = AList.update ''failure_reason'' (get_default d ''failure_reason'' VNone)
              (AList.update ''finished_at'' (get_default d ''finished_at'' VNone)
                (AList.update ''status'' (VStr ''cancelled'') unchanged))
        in if py_eq (VDict d) (VDict unchanged) then Untouched
           else if attempt_status_in before ACTIVE_EXPERIMENT_ATTEMPT_STATUSES
               \<and> py_eq (VDict d) (VDict expected) \<and> given_not_none d ''finished_at''
             then Released
           else Refused_change)
   | _ \<Rightarrow> Refused_change)"

definition attempt_release_error :: "node_adapter \<Rightarrow> project_node \<Rightarrow> val \<Rightarrow> bool" where
  "attempt_release_error A node raw = (case (node_attr node ''attempts'', raw) of
     (Some _, VList items) \<Rightarrow>
       (let changes = map2 (attempt_release A) (attempts_of node) items
        in length items \<noteq> length (attempts_of node) \<or> Refused_change \<in> set changes
           \<or> Released \<notin> set changes)
   | _ \<Rightarrow> True)"

section \<open>Direct edits\<close>

text \<open>
  \<open>getattr(node, field, object()) == value\<close>: an attribute that holds model instances equals a
  list of plain values only when both are empty.
\<close>

definition MODEL_LIST_FIELDS :: "string list" where
  "MODEL_LIST_FIELDS = [''source_refs'', ''attempts'', ''proxies'']"

definition attr_equals :: "project_node \<Rightarrow> string \<Rightarrow> val \<Rightarrow> bool" where
  "attr_equals n field v = (case dict_get (node_model_dump n) field of
     None \<Rightarrow> False
   | Some w \<Rightarrow> if field \<in> set MODEL_LIST_FIELDS then w = VList [] \<and> v = VList [] else py_eq w v)"

definition unchanged_by :: "project_node \<Rightarrow> val dict \<Rightarrow> bool" where
  "unchanged_by n changes = list_all (\<lambda>(field, v). attr_equals n field v) changes"

definition editable_fields :: "project_node \<Rightarrow> string list \<Rightarrow> string list" where
  "editable_fields n extra = (case dict_get HUMAN_EDITABLE_NODE_FIELDS (n_type n) of
     None \<Rightarrow> extra | Some fs \<Rightarrow> fs @ extra)"

definition validate_direct_changes ::
  "node_adapter \<Rightarrow> validation_mode \<Rightarrow> int option \<Rightarrow> project_node \<Rightarrow> val dict \<Rightarrow> report \<Rightarrow> report" where
  "validate_direct_changes A mode rv node changes r =
     (let r1 = reject_if (mode = Admission \<and> is_decision node \<and> is_decision_choice changes)
            ''unnamed-decision-action'' rv [n_id node] [] r
      in if set (keys changes) = {''attempts''}
           then reject_if (attempt_release_error A node (get_default changes ''attempts'' VNone))
                  ''invalid-attempt-release'' rv [n_id node] [] r1
         else reject_if (unchanged_by node changes) ''empty-node-edit'' rv [] []
           (reject_if (\<not> set (keys changes) \<subseteq> set (editable_fields node [''extension_fields'']))
              ''non-prose-node-edit'' rv [] [] r1))"

definition validate_direct_node_edit ::
  "node_adapter \<Rightarrow> graph_state \<Rightarrow> validation_mode \<Rightarrow> int option \<Rightarrow> node_update list \<Rightarrow> report \<Rightarrow> report" where
  "validate_direct_node_edit A st mode rv updates r = (case updates of
     [u] \<Rightarrow>
       (let r1 = reject_if (nu_base_updated_rev u = None \<or> nu_cause u \<noteq> None)
              ''invalid-direct-node-edit'' rv [] [] r
        in case dict_get (g_nodes st) (nu_id u) of
             None \<Rightarrow> reject ''unknown-node'' rv [] [] r1
           | Some node \<Rightarrow>
               (let r2 = reject_if (nu_base_updated_rev u \<noteq> Some (n_updated_rev node))
                      ''stale-node-edit'' rv [] [] r1
                in if nu_changes u = [] then reject ''empty-node-edit'' rv [] [] r2
                   else validate_direct_changes A mode rv node (nu_changes u) r2))
   | _ \<Rightarrow> reject ''invalid-direct-node-edit'' rv [] [] r)"

section \<open>The direct Decision choice\<close>

fun is_set_standing :: "graph_operation \<Rightarrow> bool" where
  "is_set_standing (SetStandingOperation _ _) = True"
| "is_set_standing _ = False"

fun standing_target :: "graph_operation \<Rightarrow> string list" where
  "standing_target (SetStandingOperation i _) = [i]"
| "standing_target _ = []"

fun update_groups :: "graph_operation \<Rightarrow> node_update list list" where
  "update_groups (UpdateNodesOperation us) = [us]"
| "update_groups _ = []"

fun resolution_groups :: "graph_operation \<Rightarrow> proposal_resolution list list" where
  "resolution_groups (ResolveProposalsOperation rs) = [rs]"
| "resolution_groups _ = []"

definition refuse_choice :: "bool \<Rightarrow> int option \<Rightarrow> string list \<Rightarrow> report \<Rightarrow> report" where
  "refuse_choice c rv nodes r = reject_if c ''invalid-direct-decision-choice'' rv nodes [] r"

text \<open>One withdrawal of the Proposals a choice supersedes; \<open>seen\<close> are the ids before it.\<close>

definition check_withdrawal ::
  "graph_state \<Rightarrow> int option \<Rightarrow> string \<Rightarrow> proposal_resolution \<Rightarrow> string list \<times> report \<Rightarrow>
   string list \<times> report" where
  "check_withdrawal st rv node_id res = (\<lambda>(seen, r).
     (let nodes = (if node_id = [] then [] else [node_id]);
          wrong = (pr_id res \<in> set seen
            \<or> (case dict_get (g_proposals st) (pr_id res) of
                 None \<Rightarrow> True
               | Some q \<Rightarrow> p_status q \<noteq> Pending \<or> \<not> proposal_updates_node q node_id));
          r1 = refuse_choice wrong rv nodes r;
          r2 = refuse_choice (pr_status res \<noteq> Withdraw) rv nodes r1;
          r3 = refuse_choice (case pr_reason res of None \<Rightarrow> True | Some t \<Rightarrow> strip t = []) rv nodes r2
      in (pr_id res # seen, r3)))"

definition check_withdrawals ::
  "graph_state \<Rightarrow> int option \<Rightarrow> string \<Rightarrow> proposal_resolution list \<Rightarrow> string list \<times> report \<Rightarrow>
   string list \<times> report" where
  "check_withdrawals st rv node_id rs = (\<lambda>(seen, r).
     if rs = [] then (seen, refuse_choice True rv (if node_id = [] then [] else [node_id]) r)
     else fold (check_withdrawal st rv node_id) rs (seen, r))"

definition superseded_proposals :: "graph_state \<Rightarrow> string \<Rightarrow> string list" where
  "superseded_proposals st node_id = map p_id (filter (\<lambda>q. p_status q = Pending
     \<and> proposal_updates_node q node_id) (map snd (g_proposals st)))"

text \<open>The rules on the one update of a choice, once it names a Decision.\<close>

definition validate_choice ::
  "graph_state \<Rightarrow> int option \<Rightarrow> string list \<Rightarrow> proposal_resolution list list \<Rightarrow> node_update \<Rightarrow>
   project_node \<Rightarrow> report \<Rightarrow> report" where
  "validate_choice st rv standing resolutions u node r =
     (let nodes = (if n_id node = [] then [] else [n_id node]);
          changes = nu_changes u;
          r1 = refuse_choice (attr_val node ''status'' = VStr ''superseded'') rv nodes r;
          r2 = refuse_choice (nu_base_updated_rev u \<noteq> Some (n_updated_rev node)) rv nodes r1
      in if changes = [] then refuse_choice True rv nodes r2
         else
           (let r3 = refuse_choice (\<not> set (keys changes) \<subseteq> set (editable_fields node
                  [''extension_fields'', ''selected_option'', ''status''])) rv nodes r2;
                r4 = refuse_choice (\<not> decided_change changes) rv nodes r3;
                r5 = refuse_choice (effective_choice node changes = None) rv nodes r4;
                r6 = refuse_choice (standing \<noteq> [] \<and> hd standing \<noteq> n_id node) rv nodes r5;
                (seen, r7) = fold (check_withdrawals st rv (n_id node)) resolutions ([], r6)
            in refuse_choice (set seen \<noteq> set (superseded_proposals st (n_id node))) rv nodes r7))"

definition validate_direct_decision_choice ::
  "graph_state \<Rightarrow> patch \<Rightarrow> int option \<Rightarrow> report \<Rightarrow> report" where
  "validate_direct_decision_choice st p rv r =
     (let names = map op_name (pa_ops p);
          updates = concat (map update_groups (pa_ops p));
          standing = concat (map standing_target (pa_ops p));
          resolutions = concat (map resolution_groups (pa_ops p))
      in if names = [] \<or> \<not> set names \<subseteq> {''update_nodes'', ''resolve_proposals'', ''set_standing''}
            \<or> length standing > 1
           then refuse_choice True rv [] r
         else (case updates of
             [[u]] \<Rightarrow>
               if nu_base_updated_rev u = None \<or> nu_cause u \<noteq> None then refuse_choice True rv [] r
               else (case dict_get (g_nodes st) (nu_id u) of
                   None \<Rightarrow> refuse_choice True rv [] r
                 | Some node \<Rightarrow> if \<not> is_decision node then refuse_choice True rv [] r
                     else validate_choice st rv standing resolutions u node r)
           | _ \<Rightarrow> refuse_choice True rv [] r))"

section \<open>Replaying a Proposal\<close>

text \<open>
  Equality of operations: the values of a change are compared as Python does, and what was
  left out counts as its default.
\<close>

definition update_eq :: "node_update \<Rightarrow> node_update \<Rightarrow> bool" where
  "update_eq u v = (nu_id u = nu_id v \<and> py_eq (VDict (nu_changes u)) (VDict (nu_changes v))
     \<and> nu_cause u = nu_cause v \<and> nu_base_updated_rev u = nu_base_updated_rev v)"

definition edge_fields :: "new_edge \<Rightarrow> new_edge" where
  "edge_fields e = e\<lparr>ne_id := Some (field_value (ne_id e)), ne_fields_set := [],
     ne_assessment_fields_set := []\<rparr>"

definition payload_eq :: "node_payload \<Rightarrow> node_payload \<Rightarrow> bool" where
  "payload_eq a b = py_eq (VDict (node_model_dump (np_node a))) (VDict (node_model_dump (np_node b)))"

fun operation_eq :: "graph_operation \<Rightarrow> graph_operation \<Rightarrow> bool" where
  "operation_eq (UpdateNodesOperation us) op = (case op of
     UpdateNodesOperation vs \<Rightarrow> list_all2 update_eq us vs | _ \<Rightarrow> False)"
| "operation_eq (CreateEdgesOperation es) op = (case op of
     CreateEdgesOperation fs \<Rightarrow> map edge_fields es = map edge_fields fs | _ \<Rightarrow> False)"
| "operation_eq (CreateNodesOperation ns) op = (case op of
     CreateNodesOperation ms \<Rightarrow> list_all2 payload_eq ns ms | _ \<Rightarrow> False)"
| "operation_eq op op' = (op = op')"

definition operations_eq :: "graph_operation list \<Rightarrow> graph_operation list \<Rightarrow> bool" where
  "operations_eq xs ys = list_all2 operation_eq xs ys"

definition check_approved_update :: "graph_state \<Rightarrow> int option \<Rightarrow> node_update \<Rightarrow> report \<Rightarrow> report" where
  "check_approved_update st rv u r = (case dict_get (g_nodes st) (nu_id u) of
     None \<Rightarrow> r
   | Some n \<Rightarrow> reject_if (is_decision n \<and> decision_transition_error n (nu_changes u))
       ''incoherent-decision-approval'' rv [n_id n] [] r)"

definition validate_approved_decision_result ::
  "graph_state \<Rightarrow> graph_operation list \<Rightarrow> int option \<Rightarrow> report \<Rightarrow> report" where
  "validate_approved_decision_result st ops rv r =
     fold (check_approved_update st rv) (concat (map op_updates ops)) r"

definition proposes_standing :: "proposal \<Rightarrow> bool" where
  "proposes_standing q = list_ex (\<lambda>op. case op of
     ProposalStandingChangeOperation _ _ \<Rightarrow> True | _ \<Rightarrow> False) (p_ops q)"

definition semantic_operations :: "proposal \<Rightarrow> patch \<Rightarrow> graph_operation list" where
  "semantic_operations q p = filter (\<lambda>op. resolution_groups op = []
     \<and> (proposes_standing q \<or> \<not> is_set_standing op)) (pa_ops p)"

text \<open>What an approval must be: the stored operations, normalized and as they are.\<close>

definition replayed_operations ::
  "graph_state \<Rightarrow> proposal \<Rightarrow> (graph_operation list \<times> graph_operation list) result" where
  "replayed_operations st q =
     bind_r (normalized_decision_proposal_ops st q) (\<lambda>normalized.
     bind_r (graph_operations_from_proposal (p_ops q)) (\<lambda>stored.
     if proposes_standing q then
       bind_r (proposal_approval_operations st q None) (\<lambda>ops.
       (let implicit = drop (Suc (length normalized)) ops
        in Inr (normalized @ implicit, stored @ implicit)))
     else Inr (normalized, stored)))"

definition validate_approved ::
  "graph_state \<Rightarrow> proposal \<Rightarrow> writer \<Rightarrow> validation_mode \<Rightarrow> int option \<Rightarrow> graph_operation list \<Rightarrow>
   report \<Rightarrow> report result" where
  "validate_approved st q w mode rv semantic r =
     bind_r (replayed_operations st q) (\<lambda>(normalized, stored).
     (let is_verbatim = operations_eq semantic stored;
          requires_normalization = (\<not> operations_eq normalized stored);
          r1 = (if \<not> is_verbatim \<and> \<not> operations_eq semantic normalized
                  then reject ''proposal-replay-mismatch'' rv [] [] r
                else if is_verbatim \<and> requires_normalization \<and> mode = Admission
                  then reject ''unnormalized-decision-approval'' rv [] [] r
                else if \<not> (is_verbatim \<and> requires_normalization)
                  then validate_approved_decision_result st semantic rv r
                else r);
          writes = writes_decision_outcome st semantic
      in Inr (if mode = Admission \<and> writes
                then reject_if (w_human_action w \<noteq> Some Decision_choice)
                       ''unnamed-decision-action'' rv [] [] r1
              else reject_if (w_human_action w = Some Decision_choice \<and> \<not> writes)
                       ''invalid-direct-decision-choice'' rv [] [] r1)))"

definition validate_resolution ::
  "graph_state \<Rightarrow> patch \<Rightarrow> writer \<Rightarrow> validation_mode \<Rightarrow> proposal_resolution \<Rightarrow> report \<Rightarrow> report result" where
  "validate_resolution st p w mode res r = (case dict_get (g_proposals st) (pr_id res) of
     None \<Rightarrow> Inr (reject ''proposal-not-pending'' (patch_rev p) [] [] r)
   | Some q \<Rightarrow>
       if p_status q \<noteq> Pending then Inr (reject ''proposal-not-pending'' (patch_rev p) [] [] r)
       else
         (let rv = patch_rev p;
              status = pr_status res;
              is_stale = proposal_is_stale st q;
              semantic = semantic_operations q p;
              r1 = reject_if (is_stale \<and> status \<noteq> Withdraw) ''stale-proposal'' rv [] [] r
          in bind_r (if status = Approve then validate_approved st q w mode rv semantic r1
                     else Inr r1) (\<lambda>r2.
             Inr (reject_if (status = Withdraw \<and> \<not> is_stale) ''invalid-stale-withdrawal'' rv [] []
                   (reject_if (status \<noteq> Approve \<and> semantic \<noteq> [])
                      ''rejected-proposal-has-ops'' rv [] [] r2)))))"

section \<open>The shape of an approval\<close>

fun standalone :: "graph_operation \<Rightarrow> bool" where
  "standalone (SetStandingOperation _ _) = True"
| "standalone (RemoveNodesOperation _) = True"
| "standalone (SetOntologyOperation _) = True"
| "standalone (SetProjectTruthScopeOperation _ _) = True"
| "standalone _ = False"

definition direct_create_error :: "node_payload list \<Rightarrow> bool" where
  "direct_create_error raws = (case raws of
     [raw] \<Rightarrow> n_standing (np_node raw) \<noteq> ASSERTED
       \<or> truthy_val (get_default (node_model_dump (np_node raw)) ''source_refs'' VNone)
   | _ \<Rightarrow> True)"

definition validate_staged_review ::
  "node_adapter \<Rightarrow> graph_state \<Rightarrow> patch \<Rightarrow> validation_mode \<Rightarrow> report \<Rightarrow> report" where
  "validate_staged_review A st p mode r =
     (let rv = patch_rev p;
          standing = concat (map standing_target (pa_ops p))
      in case concat (map update_groups (pa_ops p)) of
           [us] \<Rightarrow>
             if length standing > 1 then reject ''invalid-standalone-review'' rv [] [] r
             else reject_if (standing \<noteq> [] \<and> us \<noteq> [] \<and> hd standing \<noteq> nu_id (hd us))
                    ''invalid-standalone-review'' rv [] []
                    (validate_direct_node_edit A st mode rv us r)
         | _ \<Rightarrow> reject ''invalid-standalone-review'' rv [] [] r)"

definition validate_standalone ::
  "node_adapter \<Rightarrow> graph_state \<Rightarrow> patch \<Rightarrow> validation_mode \<Rightarrow> report \<Rightarrow> report" where
  "validate_standalone A st p mode r =
     (let names = map op_name (pa_ops p); rv = patch_rev p in
      if (case pa_ops p of [op] \<Rightarrow> standalone op
            \<or> (mode = Replay_mode \<and> op_name op = ''resolve_ambiguities'') | _ \<Rightarrow> False) then r
      else if names = [''create_nodes''] then
        reject_if (direct_create_error (concat (map (\<lambda>op. case op of
            CreateNodesOperation raws \<Rightarrow> raws | _ \<Rightarrow> []) (pa_ops p))))
          ''invalid-direct-node-create'' rv [] [] r
      else if names \<noteq> [] \<and> set names \<subseteq> {''create_edges'', ''remove_edges''} \<and> distinct names then r
      else if names \<noteq> [] \<and> set names \<subseteq> {''update_nodes'', ''set_standing''}
        then validate_staged_review A st p mode r
      else reject ''invalid-standalone-review'' rv [] [] r)"

definition validate_approval_shape ::
  "node_adapter \<Rightarrow> graph_state \<Rightarrow> patch \<Rightarrow> writer \<Rightarrow> validation_mode \<Rightarrow> report \<Rightarrow> report result" where
  "validate_approval_shape A st p w mode r =
     (let resolutions = concat (map resolution_groups (pa_ops p));
          approved = list_ex (\<lambda>res. pr_status res = Approve) (concat resolutions)
      in if w_human_action w = Some Decision_choice \<and> \<not> approved
           then Inr (validate_direct_decision_choice st p (patch_rev p) r)
         else if resolutions = [] then Inr (validate_standalone A st p mode r)
         else (case resolutions of
             [[res]] \<Rightarrow> validate_resolution st p w mode res r
           | _ \<Rightarrow> Inr (reject ''invalid-proposal-resolution'' (patch_rev p) [] [] r)))"

end
