(* ===== verification/Proposal_Validation.thy ===== *)
theory Proposal_Validation
  imports Approval_Rules
begin

text \<open>
  The validation of a filed Proposal (\<open>validate_proposal\<close> and the intent validators of
  \<open>core/validation/proposals.py\<close>). An intent validator is the truth value of \<open>error is not
  None\<close>. The operations of the Proposal are validated as a human approval by the argument
  \<open>run\<close>, the loop over the operations of a context that the patch rules define.
\<close>

type_synonym op_runner = "op_context \<Rightarrow> op_context result"

section \<open>Intents\<close>

definition is_branch_merge :: "patch \<Rightarrow> writer \<Rightarrow> bool" where
  "is_branch_merge p w = (w_author w = Some Agent \<and> w_profile w = Some Orchestrator
     \<and> pa_branch_merge p \<noteq> None)"

definition one_update :: "proposal_operation \<Rightarrow> node_update option" where
  "one_update op = (case proposal_updates op of [u] \<Rightarrow> Some u | _ \<Rightarrow> None)"

definition content_change_error :: "graph_state \<Rightarrow> proposal_operation \<Rightarrow> bool" where
  "content_change_error st op = (case one_update op of
     None \<Rightarrow> True
   | Some u \<Rightarrow>
       nu_cause u \<noteq> None \<or> nu_base_updated_rev u \<noteq> None
       \<or> (case existing_protected_node st (nu_id u) of
            None \<Rightarrow> True
          | Some n \<Rightarrow> nu_changes u = []
              \<or> (''status'' \<in> set (keys (nu_changes u)) \<and> is_hypothesis n)
              \<or> unchanged_by n (nu_changes u)))"

definition status_change_error ::
  "graph_state \<Rightarrow> patch \<Rightarrow> writer \<Rightarrow> proposal_operation \<Rightarrow> bool" where
  "status_change_error st p w op = (case one_update op of
     None \<Rightarrow> True
   | Some u \<Rightarrow>
       (case dict_get (g_nodes st) (nu_id u) of
          None \<Rightarrow> True
        | Some n \<Rightarrow>
            \<not> is_hypothesis n \<or> nu_cause u = None \<or> nu_base_updated_rev u \<noteq> None
            \<or> set (keys (nu_changes u)) \<noteq> {''status''}
            \<or> py_eq (get_default (nu_changes u) ''status'' VNone) (attr_val n ''status'')
            \<or> (case nu_cause u of
                 Some HumanEditCause \<Rightarrow> \<not> is_branch_merge p w
               | Some (EvidenceEdgeCause i) \<Rightarrow> i = []
               | _ \<Rightarrow> True)))"

definition standing_change_error ::
  "graph_state \<Rightarrow> patch \<Rightarrow> writer \<Rightarrow> string \<Rightarrow> standing \<Rightarrow> bool" where
  "standing_change_error st p w node_id s =
     (\<not> is_branch_merge p w
      \<or> (case dict_get (g_nodes st) node_id of None \<Rightarrow> True | Some n \<Rightarrow> n_standing n = s))"

definition removal_error :: "graph_state \<Rightarrow> patch \<Rightarrow> writer \<Rightarrow> string list \<Rightarrow> bool" where
  "removal_error st p w ids = (case ids of
     [i] \<Rightarrow> existing_protected_node st i = None
       \<and> \<not> (is_branch_merge p w
            \<and> (case dict_get (g_nodes st) i of None \<Rightarrow> False | Some n \<Rightarrow> n_standing n = ACCEPTED))
   | _ \<Rightarrow> True)"

text \<open>The protected type a node has in the graph or would have by the patch.\<close>

definition protected_node_type :: "graph_state \<Rightarrow> patch \<Rightarrow> string \<Rightarrow> string option" where
  "protected_node_type st p node_id = (case existing_protected_node st node_id of
     Some n \<Rightarrow> Some (n_type n)
   | None \<Rightarrow> Option.bind (created_node_type p node_id)
       (\<lambda>t. if t \<in> {''research_question'', ''hypothesis''} then Some t else None))"

definition retirement_error :: "graph_state \<Rightarrow> patch \<Rightarrow> string \<Rightarrow> string option \<Rightarrow> bool" where
  "retirement_error st p retired successor = (case existing_protected_node st retired of
     None \<Rightarrow> True
   | Some n \<Rightarrow> (case successor of
       None \<Rightarrow> True
     | Some s \<Rightarrow> s = [] \<or> s = retired \<or> protected_node_type st p s \<noteq> Some (n_type n)))"

definition supersede_error :: "graph_state \<Rightarrow> patch \<Rightarrow> supersede_node list \<Rightarrow> bool" where
  "supersede_error st p items = (case items of
     [i] \<Rightarrow> sn_cause i \<noteq> None \<or> retirement_error st p (sn_id i) (sn_superseded_by i)
   | _ \<Rightarrow> True)"

definition merge_error :: "graph_state \<Rightarrow> patch \<Rightarrow> node_merge list \<Rightarrow> bool" where
  "merge_error st p items = (case items of
     [i] \<Rightarrow> nm_cause i \<noteq> None \<or> retirement_error st p (nm_duplicate i) (Some (nm_canonical i))
   | _ \<Rightarrow> True)"

text \<open>
  A retirement relation may be created only to restate an edge that an earlier operation of the
  same Proposal removes, in a canonical merge under dependency rule 3.
\<close>

definition replaces_existing ::
  "graph_state \<Rightarrow> patch \<Rightarrow> writer \<Rightarrow> int \<Rightarrow> proposal_operation list \<Rightarrow> new_edge \<Rightarrow> bool" where
  "replaces_existing st p w dependency_rule preceding e =
     (is_branch_merge p w \<and> dependency_rule \<ge> 3
      \<and> (case field_value (ne_id e) of
           None \<Rightarrow> False
         | Some i \<Rightarrow> (case dict_get (g_edges st) i of
             None \<Rightarrow> False
           | Some old \<Rightarrow> (e_source old, e_target old, e_relation old)
                 = (ne_source e, ne_target e, ne_relation e)
               \<and> list_ex (\<lambda>op. i \<in> set (removed_edge_ids op)) preceding)))"

definition touches_protected :: "graph_state \<Rightarrow> string \<Rightarrow> string \<Rightarrow> bool" where
  "touches_protected st source target =
     (existing_protected_node st source \<noteq> None \<or> existing_protected_node st target \<noteq> None)"

definition relation_change_error ::
  "graph_state \<Rightarrow> patch \<Rightarrow> writer \<Rightarrow> int \<Rightarrow> proposal_operation list \<Rightarrow> protected_relation \<Rightarrow> bool" where
  "relation_change_error st p w dependency_rule preceding change = (case px_op change of
     Create_edges \<Rightarrow> (case case_option [] id (field_value (px_edges change)) of
         [e] \<Rightarrow> ne_relation e \<notin> set protected_epistemic_relations
           \<or> (ne_relation e \<in> set LIFECYCLE_RELATIONS
               \<and> \<not> replaces_existing st p w dependency_rule preceding e)
           \<or> \<not> touches_protected st (ne_source e) (ne_target e)
       | _ \<Rightarrow> True)
   | Remove_edges \<Rightarrow> (case case_option [] id (field_value (px_edge_ids change)) of
         [i] \<Rightarrow> (case dict_get (g_edges st) i of
             None \<Rightarrow> True
           | Some e \<Rightarrow> e_relation e \<notin> set protected_epistemic_relations
               \<or> \<not> touches_protected st (e_source e) (e_target e))
       | _ \<Rightarrow> True))"

text \<open>The validator of an operation's intent; \<open>preceding\<close> are the operations before it.\<close>

fun intent_error ::
  "graph_state \<Rightarrow> patch \<Rightarrow> writer \<Rightarrow> int \<Rightarrow> proposal_operation list \<Rightarrow> proposal_operation \<Rightarrow> bool" where
  "intent_error st p w rule preceding (ProposalContentChangeOperation l us) =
     content_change_error st (ProposalContentChangeOperation l us)"
| "intent_error st p w rule preceding (ProposalStatusChangeOperation l us) =
     status_change_error st p w (ProposalStatusChangeOperation l us)"
| "intent_error st p w rule preceding (ProposalStandingChangeOperation i s) =
     standing_change_error st p w i s"
| "intent_error st p w rule preceding (ProposalRemovalOperation _ ids) = removal_error st p w ids"
| "intent_error st p w rule preceding (ProposalSupersedeOperation _ ss) = supersede_error st p ss"
| "intent_error st p w rule preceding (ProposalMergeOperation _ ms) = merge_error st p ms"
| "intent_error st p w rule preceding (ProposalProtectedRelationOperation _ change) =
     relation_change_error st p w rule preceding change"
| "intent_error st p w rule preceding _ = True"

section \<open>The form of an agent's Proposal\<close>

definition is_connected_merge_bundle ::
  "node_adapter \<Rightarrow> digests \<Rightarrow> graph_state \<Rightarrow> patch \<Rightarrow> proposal \<Rightarrow> writer \<Rightarrow> bool" where
  "is_connected_merge_bundle A D st p q w =
     (is_branch_merge p w \<and> p_dependency_rule q \<ge> 3
      \<and> (case connected_proposal_operation_groups A D st q of
           Inl _ \<Rightarrow> False | Inr groups \<Rightarrow> length groups = 1))"

text \<open>The one node a standing, content or status change of a bundle is about.\<close>

fun bundle_target :: "proposal_operation \<Rightarrow> string option" where
  "bundle_target (ProposalStandingChangeOperation i _) = Some i"
| "bundle_target op = map_option nu_id (one_update op)"

definition is_same_node_merge_bundle ::
  "graph_state \<Rightarrow> patch \<Rightarrow> proposal \<Rightarrow> writer \<Rightarrow> bool" where
  "is_same_node_merge_bundle st p q w =
     (is_branch_merge p w \<and> 2 \<le> length (p_ops q) \<and> length (p_ops q) \<le> 3
      \<and> distinct (map intent (p_ops q))
      \<and> list_all (\<lambda>op. bundle_target op \<noteq> None) (p_ops q)
      \<and> (case remdups (List.map_filter bundle_target (p_ops q)) of
           [i] \<Rightarrow> existing_protected_node st i \<noteq> None | _ \<Rightarrow> False))"

definition admitted_form :: "node_adapter \<Rightarrow> digests \<Rightarrow> graph_state \<Rightarrow> patch \<Rightarrow> proposal \<Rightarrow> writer \<Rightarrow> bool" where
  "admitted_form A D st p q w =
     (length (p_ops q) = 1
      \<or> (if p_dependency_rule q \<ge> 3 then is_connected_merge_bundle A D st p q w
         else is_same_node_merge_bundle st p q w))"

definition check_intent :: "proposal \<Rightarrow> nat \<times> proposal_operation \<Rightarrow> op_context \<Rightarrow> op_context" where
  "check_intent q = (\<lambda>(i, op) cx.
     cx_reject_if (intent op \<notin> set PROPOSAL_INTENTS
         \<or> intent_error (cx_state cx) (cx_patch cx) (cx_writer cx) (p_dependency_rule q)
             (take i (p_ops q)) op)
       ''invalid-agent-proposal-shape'' [] [] cx)"

definition validate_agent_proposal_boundary ::
  "node_adapter \<Rightarrow> digests \<Rightarrow> proposal \<Rightarrow> op_context \<Rightarrow> op_context" where
  "validate_agent_proposal_boundary A D q cx =
     (if \<not> admitted_form A D (cx_state cx) (cx_patch cx) q (cx_writer cx)
        then cx_reject ''invalid-agent-proposal-shape'' [] [] cx
      else fold (check_intent q) (enumerate 0 (p_ops q)) cx)"

section \<open>The operations a Proposal would apply\<close>

fun content_updates :: "proposal_operation \<Rightarrow> node_update list" where
  "content_updates (ProposalContentChangeOperation _ us) = us"
| "content_updates _ = []"

definition check_proposed_sources ::
  "node_adapter \<Rightarrow> op_context \<Rightarrow> node_update \<Rightarrow> report \<Rightarrow> report result" where
  "check_proposed_sources A cx u r =
     (if truthy_get (nu_changes u) ''source_refs''
        then validate_source_refs A (patch_rev (cx_patch cx)) (cx_writer cx) (cx_repositories cx)
               (get_default (nu_changes u) ''source_refs'' VNone) r
      else Inr r)"

definition creates_proposal :: "string \<Rightarrow> graph_operation \<Rightarrow> bool" where
  "creates_proposal i op = (case op of
     CreateProposalsOperation qs \<Rightarrow> list_ex (\<lambda>q. p_id q = i) qs | _ \<Rightarrow> False)"

definition filing_index :: "patch \<Rightarrow> string \<Rightarrow> int option" where
  "filing_index p i = map_option (int \<circ> fst)
     (find (\<lambda>(_, op). creates_proposal i op) (enumerate 0 (pa_ops p)))"

definition replayed_rejects :: "patch \<Rightarrow> string \<Rightarrow> report \<Rightarrow> report" where
  "replayed_rejects p i r =
     map (\<lambda>m. m\<lparr>vm_rule_id := Some PROPOSAL_REPLAY_RULE_ID, vm_operation_index := filing_index p i\<rparr>)
       (filter (\<lambda>m. vm_level m = Reject_level) r)"

definition replay_context :: "validation_mode \<Rightarrow> graph_operation list \<Rightarrow> op_context \<Rightarrow> op_context" where
  "replay_context mode ops cx =
     (let p = synthetic_approval (case cx_revision cx of
            None \<Rightarrow> g_revision (cx_state cx) + 1
          | Some r \<Rightarrow> if r = 0 then g_revision (cx_state cx) + 1 else r) ops None
      in \<lparr>cx_state = cx_state cx, cx_initial_state = cx_state cx, cx_patch = p,
          cx_writer = writer_from_patch p, cx_report = [], cx_revision = cx_revision cx,
          cx_project_truth_scope = cx_project_truth_scope cx, cx_repositories = cx_repositories cx,
          cx_machines = cx_machines cx, cx_state_repository = cx_state_repository cx,
          cx_mode = mode, cx_experiment_control_node_id = None,
          cx_reference_patch = Some (cx_patch cx), cx_merge_source = None\<rparr>)"

definition validate_proposal_ops ::
  "node_adapter \<Rightarrow> op_runner \<Rightarrow> validation_mode \<Rightarrow> proposal \<Rightarrow> op_context \<Rightarrow> op_context result" where
  "validate_proposal_ops A run mode q cx =
     bind_r (if mode = Admission
               then on_report_r (fold_r (check_proposed_sources A cx)
                      (concat (map content_updates (p_ops q)))) cx
             else Inr cx) (\<lambda>cx1.
     bind_r (graph_operations_from_proposal (p_ops q)) (\<lambda>ops.
     bind_r (run (replay_context mode ops cx1)) (\<lambda>replayed.
       Inr (on_report (\<lambda>r. r @ replayed_rejects (cx_patch cx) (p_id q) (cx_report replayed)) cx1))))"

section \<open>Filing\<close>

definition card_values :: "gated_card \<Rightarrow> string list" where
  "card_values c = [gc_situation_cold c, gc_why_human_now c, gc_consequences c, gc_decision_needed c]"

definition flag_card :: "proposal \<Rightarrow> op_context \<Rightarrow> op_context" where
  "flag_card q cx =
     (let values = card_values (p_card q);
          unresolved = filter (\<lambda>t. dict_get (g_glossary (cx_state cx)) t = None)
            (find_identifiers False (join_with '' '' values));
          flag_if = (\<lambda>c code. on_report (\<lambda>r. if c then flag code (cx_revision cx) [] [] r else r))
      in flag_if (unresolved \<noteq> []) ''missing-glossary-term''
           (flag_if (list_ex (\<lambda>v. strip v = []) values) ''incomplete-gated-card'' cx))"

definition validate_proposal ::
  "node_adapter \<Rightarrow> digests \<Rightarrow> op_runner \<Rightarrow> validation_mode \<Rightarrow> bool \<Rightarrow> proposal \<Rightarrow>
   op_context \<Rightarrow> op_context result" where
  "validate_proposal A D run mode include_card_flags q cx =
     (if dict_get (g_proposals (cx_state cx)) (p_id q) \<noteq> None
        then Inr (cx_reject ''duplicate-proposal-id'' [] [] cx)
      else
        (let cx1 = cx_reject_if (mode = Admission \<and> p_base_rev q \<noteq> g_revision (cx_state cx))
               ''proposal-base-revision'' [] [] cx;
             cx2 = (if include_card_flags then flag_card q cx1 else cx1);
             cx3 = (if mode = Admission \<and> w_author (cx_writer cx) = Some Agent
                    then validate_agent_proposal_boundary A D q cx2 else cx2)
         in validate_proposal_ops A run mode q cx3))"

end
