(* ===== verification/Validation_Ops.thy ===== *)
theory Validation_Ops
  imports Proposal_Validation
begin

text \<open>
  One rule per operation (\<open>core/validation/ops.py\<close>) and the registry that pairs them with the
  operations (\<open>core/validation/registry.py\<close>). A rule takes the context of the patch and
  returns it with a longer report; the only other part of the context a rule changes is the set
  of repositories, to which a scope change adds the repository it introduces.
\<close>

section \<open>Nodes\<close>

definition validate_created_node ::
  "node_adapter \<Rightarrow> node_payload \<Rightarrow> op_context \<Rightarrow> op_context result" where
  "validate_created_node A raw cx =
     (let node_id = n_id (np_node raw);
          doc = dump_exclude_unset raw;
          rv = patch_rev (cx_patch cx);
          cx1 = cx_reject_if (cx_mode cx = Admission \<and> node_id \<in> set (keys (g_nodes (cx_initial_state cx))))
                  ''initial-node-id-replacement'' [node_id] [] cx;
          cx2 = on_report (validate_new_node A (cx_state cx) rv (cx_writer cx) doc) cx1
      in on_report_r (validate_source_refs A rv (cx_writer cx) (cx_repositories cx)
           (get_default doc ''source_refs'' (VList []))) cx2)"

definition validate_create_nodes ::
  "node_adapter \<Rightarrow> node_payload list \<Rightarrow> op_context \<Rightarrow> op_context result" where
  "validate_create_nodes A raws = fold_r (validate_created_node A) raws"

definition author_created_node ::
  "node_adapter \<Rightarrow> node_payload \<Rightarrow> op_context \<Rightarrow> op_context result" where
  "author_created_node A raw cx =
     (let carried = carries_new_node A cx raw;
          cx1 = (if carried then cx
                 else on_report (reject_live_legacy_new_node raw (cx_revision cx)) cx)
      in on_report_r (validate_new_node_authoring (cx_state cx) (patch_rev (cx_patch cx))
           (cx_writer cx) carried (dump_exclude_unset raw)) cx1)"

definition author_create_nodes ::
  "node_adapter \<Rightarrow> node_payload list \<Rightarrow> op_context \<Rightarrow> op_context result" where
  "author_create_nodes A raws = fold_r (author_created_node A) raws"

definition CLASH_OPERATION_REFUSALS :: "string list" where
  "CLASH_OPERATION_REFUSALS = [''incoherent-decision-transition'']"

definition legacy_replay :: "op_context \<Rightarrow> bool" where
  "legacy_replay cx = (cx_mode cx = Replay_mode \<and> pa_schema_generation (cx_patch cx) = 1)"

definition immutable_changes :: "op_context \<Rightarrow> bool \<Rightarrow> val dict \<Rightarrow> string list" where
  "immutable_changes cx live_legacy_strength changes =
     filter (\<lambda>f. f \<in> set IMMUTABLE_NODE_UPDATE_FIELDS
       \<and> (if legacy_replay cx then f \<notin> set LEGACY_COMPATIBILITY_UPDATE_FIELDS
          else \<not> (live_legacy_strength \<and> f = ''legacy_strength''))) (keys changes)"

text \<open>The refusal, if any, of a change that needs a Proposal or a decision, and the node it names.\<close>

definition gated_update_refusal ::
  "op_context \<Rightarrow> string \<Rightarrow> project_node \<Rightarrow> val dict \<Rightarrow> (string \<times> string) option" where
  "gated_update_refusal cx node_id node changes =
     (let is_control_update = (pa_kind (cx_patch cx) = Experiment_loop
            \<and> Some node_id = cx_experiment_control_node_id cx
            \<and> set (keys changes) \<subseteq> {''attempts'', ''status''})
      in if is_control_update \<or> \<not> requires_proposal node changes then None
         else if is_chooser project_type_of (Some (n_type node)) then
           (if cx_mode cx = Admission \<and> \<not> is_human cx \<and> w_profile (cx_writer cx) \<noteq> Some Orchestrator
              then Some (''decision-action-refused'', n_id node) else None)
         else if \<not> is_human cx then Some (''gated-transition'', node_id) else None)"

text \<open>The rules on an update that changes no system field.\<close>

definition validate_candidate ::
  "node_adapter \<Rightarrow> string \<Rightarrow> project_node \<Rightarrow> val dict \<Rightarrow> op_context \<Rightarrow> op_context result" where
  "validate_candidate A node_id node changes cx =
     (let candidate = dict_update (node_model_dump node) changes;
          rv = patch_rev (cx_patch cx);
          cx1 = cx_reject_if (case (if legacy_replay cx then ad_validate A candidate
                    else strict_project_node A candidate) of Inl _ \<Rightarrow> True | Inr _ \<Rightarrow> False)
                  ''invalid-node-update'' [] [] cx;
          cx2 = on_report (validate_extension_update (cx_state cx) rv node changes False (cx_writer cx)) cx1;
          cx3 = (case gated_update_refusal cx node_id node changes of
              None \<Rightarrow> cx2 | Some (code, related) \<Rightarrow> cx_reject code [related] [] cx2);
          cx4 = cx_reject_if (cx_mode cx = Admission \<and> is_chooser project_type_of (Some (n_type node))
                    \<and> decision_transition_error node changes)
                  ''incoherent-decision-transition'' [n_id node] [] cx3
      in on_report_r (validate_source_refs A rv (cx_writer cx) (cx_repositories cx)
           (get_default changes ''source_refs'' (VList []))) cx4)"

definition validate_updated_node ::
  "node_adapter \<Rightarrow> node_update \<Rightarrow> op_context \<Rightarrow> op_context result" where
  "validate_updated_node A u cx = (case dict_get (g_nodes (cx_state cx)) (nu_id u) of
     None \<Rightarrow> Inr (cx_reject ''unknown-node'' [] [] cx)
   | Some node \<Rightarrow>
       (let changes = nu_changes u;
            admission = (cx_mode cx = Admission \<and> \<not> carries_update A cx (nu_id u) changes [])
        in bind_r (reject_live_legacy_update node changes (cx_revision cx) admission (cx_report cx))
             (\<lambda>(phase, strength, r).
             (let cx1 = cx\<lparr>cx_report := r\<rparr> in
              if immutable_changes cx strength changes \<noteq> []
                then Inr (cx_reject ''immutable-node-field'' [] [] cx1)
              else if strength \<or> phase then Inr cx1
              else validate_candidate A (nu_id u) node changes cx1))))"

definition validate_update_nodes ::
  "node_adapter \<Rightarrow> node_update list \<Rightarrow> op_context \<Rightarrow> op_context result" where
  "validate_update_nodes A us = fold_r (validate_updated_node A) us"

section \<open>Belief causes\<close>

definition evidence_cause_holds :: "op_context \<Rightarrow> string \<Rightarrow> string \<Rightarrow> bool" where
  "evidence_cause_holds cx hypothesis_id ref = (case edge_in_context cx ref of
     None \<Rightarrow> False
   | Some e \<Rightarrow> e_target e = hypothesis_id
       \<and> e_relation e \<in> set (pt_belief_outcome_relations project_type_of)
       \<and> is_outcome project_type_of (cx_node_type cx (e_source e)))"

fun op_resolutions :: "graph_operation \<Rightarrow> proposal_resolution list" where
  "op_resolutions (ResolveProposalsOperation rs) = rs"
| "op_resolutions _ = []"

definition patch_resolved_ids :: "patch \<Rightarrow> string list" where
  "patch_resolved_ids p = map pr_id (concat (map op_resolutions (pa_ops p)))"

definition pending_merge_review :: "op_context \<Rightarrow> bool" where
  "pending_merge_review cx = (cx_mode cx = Admission \<and> w_profile (cx_writer cx) = Some Orchestrator
     \<and> pa_branch_merge (cx_patch cx) \<noteq> None)"

fun validate_belief_cause ::
  "string \<Rightarrow> belief_cause option \<Rightarrow> op_context \<Rightarrow> op_context" where
  "validate_belief_cause h None cx = cx_reject ''missing-belief-cause'' [h] [] cx"
| "validate_belief_cause h (Some HumanEditCause) cx = cx_reject_if (\<not> is_human cx)
     (if pending_merge_review cx then ''merge-belief-review-required'' else ''invalid-belief-cause'')
     [h] [] cx"
| "validate_belief_cause h (Some (DecisionCause ref)) cx =
     cx_reject_if (\<not> is_chooser project_type_of (cx_node_type cx ref))
       ''invalid-belief-cause'' [h, ref] [] cx"
| "validate_belief_cause h (Some (ProposalResolutionCause ref)) cx =
     cx_reject_if (ref \<notin> set (patch_resolved_ids (cx_patch cx))) ''invalid-belief-cause'' [h] [] cx"
| "validate_belief_cause h (Some (EvidenceEdgeCause ref)) cx =
     cx_reject_if (\<not> evidence_cause_holds cx h ref) ''invalid-belief-cause'' [h] [ref] cx"

definition is_direct_human_edit :: "op_context \<Rightarrow> bool" where
  "is_direct_human_edit cx =
     (is_human cx \<and> cx_reference_patch cx = None \<and> \<not> resolves_proposals (cx_patch cx))"

definition author_updated_node ::
  "node_adapter \<Rightarrow> node_update \<Rightarrow> op_context \<Rightarrow> op_context result" where
  "author_updated_node A u cx = (case dict_get (g_nodes (cx_state cx)) (nu_id u) of
     None \<Rightarrow> Inr cx
   | Some node \<Rightarrow>
       (let changes = nu_changes u in
        bind_r (if \<not> is_direct_human_edit cx \<and> \<not> carries_update A cx (nu_id u) changes [''source_refs'']
                  then on_report_r (validate_updated_node_authoring node changes (cx_revision cx)) cx
                else Inr cx) (\<lambda>cx1.
        (let cx2 = on_report (validate_extension_update (cx_state cx) (patch_rev (cx_patch cx)) node
                 changes True (cx_writer cx)) cx1
         in Inr (if is_belief project_type_of (Some (n_type node)) \<and> ''status'' \<in> set (keys changes)
                    \<and> dict_get changes ''status'' \<noteq> node_attr node ''status''
                   then validate_belief_cause (n_id node) (nu_cause u) cx2 else cx2)))))"

definition author_update_nodes ::
  "node_adapter \<Rightarrow> node_update list \<Rightarrow> op_context \<Rightarrow> op_context result" where
  "author_update_nodes A us = fold_r (author_updated_node A) us"

section \<open>Edges\<close>

definition assessment_applies :: "string \<Rightarrow> string option \<Rightarrow> string option \<Rightarrow> bool" where
  "assessment_applies relation source_type target_type =
     (relation \<in> set (pt_belief_outcome_relations project_type_of)
      \<and> opt_member source_type (pt_outcome_types project_type_of)
      \<and> opt_member target_type (pt_belief_types project_type_of))"

definition known_endpoint :: "op_context \<Rightarrow> string \<Rightarrow> bool" where
  "known_endpoint cx i = (i \<in> set (keys (g_nodes (cx_state cx))) \<or> cx_created_node_id cx i)"

text \<open>What an edge may say of its endpoints: outcome relation, expectation and assessment.\<close>

definition validate_edge_claims :: "new_edge \<Rightarrow> op_context \<Rightarrow> op_context" where
  "validate_edge_claims e cx =
     (let relation = ne_relation e;
          source_type = cx_node_type cx (ne_source e);
          target_type = cx_node_type cx (ne_target e);
          applies = assessment_applies relation source_type target_type;
          nodes = [ne_source e, ne_target e];
          edges = [new_edge_id e];
          authored = (cx_mode cx = Admission \<and> \<not> carries_edge cx e);
          cx1 = cx_reject_if (authored
                  \<and> relation \<in> set (pt_belief_outcome_relations project_type_of)
                  \<and> source_type \<noteq> None \<and> target_type \<noteq> None
                  \<and> evidence_relation_endpoint_error relation source_type target_type)
                ''invalid-evidence-relation-endpoints'' nodes edges cx;
          cx2 = cx_reject_if (ne_expectation e \<noteq> None
                  \<and> \<not> expectation_applies relation source_type target_type)
                ''inapplicable-edge-expectation'' nodes edges cx1;
          cx3 = cx_reject_if (ne_expectation e \<in> {Some Matched, Some Diverged}
                  \<and> strip (ne_explanation e) = [])
                ''unexplained-edge-expectation'' nodes edges cx2
      in if ne_assessment e \<noteq> None \<and> \<not> applies
           then cx_reject ''inapplicable-evidence-assessment'' nodes edges cx3
         else cx_reject_if (authored \<and> applies \<and> ne_assessment e = None)
                ''missing-evidence-assessment'' nodes edges cx3)"

text \<open>The id an edge is validated under: absent only when it is given as null.\<close>

definition data_edge_id :: "new_edge \<Rightarrow> string option" where
  "data_edge_id e = (case ne_id e of
     None \<Rightarrow> Some (edge_default_id (ne_source e) (ne_relation e) (ne_target e)) | Some i \<Rightarrow> i)"

definition validate_new_edge ::
  "val dict list \<Rightarrow> new_edge \<Rightarrow> string list \<times> op_context \<Rightarrow> string list \<times> op_context" where
  "validate_new_edge created e = (\<lambda>(seen, cx).
     (let nodes = [ne_source e, ne_target e];
          cx1 = cx_reject_if (\<not> known_endpoint cx (ne_target e)) ''unknown-edge-target'' [] []
                  (cx_reject_if (\<not> known_endpoint cx (ne_source e)) ''unknown-edge-source'' [] [] cx);
          cx2 = validate_edge_claims e cx1;
          custom = custom_relation (g_ontology (cx_state cx)) (ne_relation e);
          base = (dict_get RELATION_SPEC (ne_relation e) \<noteq> None)
      in if \<not> base \<and> custom = None then (seen, cx_reject ''invalid-edge'' nodes [] cx2)
         else
           (let cx3 = (case custom of
                  None \<Rightarrow> cx2
                | Some rel \<Rightarrow> cx_reject_if (\<not> base
                      \<and> \<not> edge_matches_relation (cx_state cx) (ne_source e) (ne_target e) rel created)
                    ''custom-relation-type-mismatch'' nodes [] cx2);
                edge_id = data_edge_id e;
                ids = (case edge_id of None \<Rightarrow> [] | Some i \<Rightarrow> [i])
            in if cx_mode cx = Admission \<and> list_ex (\<lambda>i. i \<in> set seen) ids
                 then (seen, cx_reject ''duplicate-edge-id'' [] ids cx3)
               else (if cx_mode cx = Admission then seen @ ids else seen,
                     cx_reject_if (case edge_of_payload (g_ontology (cx_state cx)) 0 e of
                         Inl _ \<Rightarrow> True | Inr _ \<Rightarrow> False) ''invalid-edge'' nodes ids cx3))))"

fun op_payloads :: "graph_operation \<Rightarrow> node_payload list" where
  "op_payloads (CreateNodesOperation raws) = raws"
| "op_payloads _ = []"

definition validate_create_edges :: "new_edge list \<Rightarrow> op_context \<Rightarrow> op_context" where
  "validate_create_edges es cx =
     (let created = map dump_exclude_unset (concat (map op_payloads (pa_ops (cx_patch cx))))
      in snd (fold (validate_new_edge created) es (keys (g_edges (cx_state cx)), cx)))"

text \<open>A refusal of an edge's shape: its code and whether it names the endpoints.\<close>

definition edge_shape_refusals ::
  "ontology_state \<Rightarrow> string \<Rightarrow> string option \<Rightarrow> string option \<Rightarrow> (string \<times> bool) list" where
  "edge_shape_refusals ontology relation source_type target_type =
     (let deprecated = (case custom_relation ontology relation of
            None \<Rightarrow> [] | Some c \<Rightarrow> if or_deprecated c then [(''deprecated-custom-relation'', False)] else [])
      in case dict_get RELATION_SPEC relation of
           None \<Rightarrow> deprecated
         | Some spec \<Rightarrow>
             if \<not> rs_authorable spec then deprecated @ [(''retired-relation'', True)]
             else (case (source_type, target_type) of
                 (Some s, Some t) \<Rightarrow>
                   if s \<notin> set (rs_source_types spec) \<or> t \<notin> set (rs_target_types spec)
                      \<or> (rs_same_type spec \<and> s \<noteq> t)
                     then deprecated @ [(''relation-type-mismatch'', True)] else deprecated
               | _ \<Rightarrow> deprecated))"

definition author_new_edge :: "new_edge \<Rightarrow> op_context \<Rightarrow> op_context" where
  "author_new_edge e cx =
     (let carried = carries_edge cx e in
      fold (\<lambda>(code, related) cx.
          if carried \<and> code \<noteq> ''deprecated-custom-relation'' then cx
          else cx_reject code (if related then [ne_source e, ne_target e] else [])
                 (if related then [new_edge_id e] else []) cx)
        (edge_shape_refusals (g_ontology (cx_state cx)) (ne_relation e)
           (cx_node_type cx (ne_source e)) (cx_node_type cx (ne_target e))) cx)"

definition author_create_edges :: "new_edge list \<Rightarrow> op_context \<Rightarrow> op_context" where
  "author_create_edges es cx = fold author_new_edge es cx"

definition invalid_id_list :: "string list \<Rightarrow> bool" where
  "invalid_id_list ids = (ids = [] \<or> list_ex (\<lambda>i. i = []) ids \<or> \<not> distinct ids)"

definition validate_remove_edges :: "string list \<Rightarrow> op_context \<Rightarrow> op_context" where
  "validate_remove_edges ids cx =
     cx_reject_if (invalid_id_list ids) ''invalid-remove-edges-operation'' [] [] cx"

section \<open>Removing and retiring nodes\<close>

definition REVIEWABLE_OPERATION_REFUSALS :: "string list" where
  "REVIEWABLE_OPERATION_REFUSALS =
     [''accepted-node-removal'', ''gated-transition'', ''merge-belief-review-required'']"

definition is_proposal_approval :: "op_context \<Rightarrow> bool" where
  "is_proposal_approval cx =
     (is_human cx \<and> (cx_reference_patch cx \<noteq> None \<or> resolves_proposals (cx_patch cx)))"

definition validate_removed_node :: "string \<Rightarrow> op_context \<Rightarrow> op_context" where
  "validate_removed_node i cx = (case dict_get (g_nodes (cx_state cx)) i of
     None \<Rightarrow> cx_reject ''unknown-node'' [i] [] cx
   | Some node \<Rightarrow>
       (let initial = (case dict_get (g_nodes (cx_initial_state cx)) i of None \<Rightarrow> node | Some n \<Rightarrow> n)
        in cx_reject_if (has_active_experiment_attempt [initial, node]) ''active-experiment-removal'' [i] []
             (cx_reject_if (n_standing initial = ACCEPTED \<and> \<not> is_proposal_approval cx)
                ''accepted-node-removal'' [i] [] cx)))"

definition validate_remove_nodes :: "string list \<Rightarrow> op_context \<Rightarrow> op_context" where
  "validate_remove_nodes ids cx =
     (if invalid_id_list ids then cx_reject ''invalid-remove-nodes-operation'' [] [] cx
      else fold validate_removed_node ids cx)"

definition validate_generated_relation_endpoints ::
  "string \<Rightarrow> string \<Rightarrow> string \<Rightarrow> op_context \<Rightarrow> op_context" where
  "validate_generated_relation_endpoints relation source target cx =
     (let edge_id = edge_default_id source relation target in
      if source = target then cx_reject ''invalid-generated-relation'' [source] [] cx
      else if cx_mode cx = Admission \<and> dict_get (g_edges (cx_state cx)) edge_id \<noteq> None
        then cx_reject ''duplicate-edge-id'' [] [edge_id] cx
      else cx_reject_if (case (cx_node_type cx source, cx_node_type cx target) of
            (Some s, Some t) \<Rightarrow> s \<noteq> t | _ \<Rightarrow> False)
          ''generated-relation-type-mismatch'' [source, target] [] cx)"

definition validate_supersede_node :: "supersede_node \<Rightarrow> op_context \<Rightarrow> op_context" where
  "validate_supersede_node item cx =
     (let cx1 = cx_reject_if (dict_get (g_nodes (cx_state cx)) (sn_id item) = None) ''unknown-node'' [] [] cx
      in case sn_superseded_by item of
           None \<Rightarrow> cx1
         | Some target \<Rightarrow>
             (let cx2 = cx_reject_if (target \<noteq> [] \<and> \<not> known_endpoint cx target
                    \<and> cx_node_type cx target = None) ''unknown-node'' [] [] cx1
              in if cx_mode cx = Admission
                   then validate_generated_relation_endpoints ''supersedes'' (sn_id item) target cx2
                 else cx2))"

definition validate_supersede_nodes :: "supersede_node list \<Rightarrow> op_context \<Rightarrow> op_context" where
  "validate_supersede_nodes items cx = fold validate_supersede_node items cx"

definition validate_merge_node :: "node_merge \<Rightarrow> op_context \<Rightarrow> op_context" where
  "validate_merge_node item cx =
     (let cx1 = cx_reject_if (dict_get (g_nodes (cx_state cx)) (nm_duplicate item) = None)
            ''unknown-node'' [] [] cx;
          cx2 = cx_reject_if (cx_node_type cx (nm_canonical item) = None) ''unknown-node'' [] [] cx1
      in if cx_mode cx = Admission
           then validate_generated_relation_endpoints ''duplicate_of'' (nm_duplicate item)
                  (nm_canonical item) cx2
         else cx2)"

definition validate_merge_nodes :: "node_merge list \<Rightarrow> op_context \<Rightarrow> op_context" where
  "validate_merge_nodes items cx = fold validate_merge_node items cx"

section \<open>Review, standing and settings\<close>

definition validate_resolve_ambiguities :: "ambiguity_resolution list \<Rightarrow> op_context \<Rightarrow> op_context" where
  "validate_resolve_ambiguities rs cx =
     fold (\<lambda>res cx. cx_reject_if (dict_get (g_ambiguities (cx_state cx)) (ar_id res) = None)
       ''unknown-ambiguity'' [] [] cx) rs cx"

definition require_pending :: "string \<Rightarrow> op_context \<Rightarrow> op_context" where
  "require_pending i cx = (case dict_get (g_proposals (cx_state cx)) i of
     None \<Rightarrow> cx_reject ''unknown-proposal'' [] [] cx
   | Some q \<Rightarrow> cx_reject_if (p_status q \<noteq> Pending) ''proposal-not-pending'' [] [] cx)"

definition validate_resolve_proposals :: "proposal_resolution list \<Rightarrow> op_context \<Rightarrow> op_context" where
  "validate_resolve_proposals rs cx = fold (\<lambda>res. require_pending (pr_id res)) rs cx"

definition validate_withdraw_proposals :: "proposal_withdrawal list \<Rightarrow> op_context \<Rightarrow> op_context" where
  "validate_withdraw_proposals ws cx = fold (\<lambda>w. require_pending (pw_id w)) ws cx"

definition validate_created_proposal ::
  "node_adapter \<Rightarrow> digests \<Rightarrow> op_runner \<Rightarrow> proposal \<Rightarrow> string list \<times> op_context \<Rightarrow>
   (string list \<times> op_context) result" where
  "validate_created_proposal A D run q = (\<lambda>(seen, cx).
     bind_r (validate_proposal A D run Replay_mode False q
         (cx_reject_if (cx_mode cx = Admission \<and> p_id q \<in> set seen) ''duplicate-proposal-id'' [] [] cx))
       (\<lambda>cx1. Inr (p_id q # seen, cx1)))"

definition validate_create_proposals ::
  "node_adapter \<Rightarrow> digests \<Rightarrow> op_runner \<Rightarrow> proposal list \<Rightarrow> op_context \<Rightarrow> op_context result" where
  "validate_create_proposals A D run qs cx =
     bind_r (fold_r (validate_created_proposal A D run) qs ([], cx)) (\<lambda>(_, cx1). Inr cx1)"

definition author_create_proposals ::
  "node_adapter \<Rightarrow> digests \<Rightarrow> op_runner \<Rightarrow> proposal list \<Rightarrow> op_context \<Rightarrow> op_context result" where
  "author_create_proposals A D run qs cx = fold_r (validate_proposal A D run Admission True) qs cx"

definition validate_set_standing :: "string \<Rightarrow> op_context \<Rightarrow> op_context" where
  "validate_set_standing i cx =
     cx_reject_if (dict_get (g_nodes (cx_state cx)) i = None) ''unknown-node'' [] [] cx"

definition admit_repository :: "repository_descriptor \<Rightarrow> op_context \<Rightarrow> op_context" where
  "admit_repository d cx =
     (if rd_alias d = [] \<or> rd_path d = [] then cx_reject ''incomplete-repository'' [] [] cx
      else
        (let cx1 = cx_reject_if (rd_machine d \<noteq> []
               \<and> (case cx_machines cx of None \<Rightarrow> False | Some ms \<Rightarrow> rd_machine d \<notin> set ms))
             ''unknown-repository-machine'' [] [] cx
         in cx1\<lparr>cx_repositories := List.insert (rd_alias d) (cx_repositories cx1)\<rparr>))"

definition validate_set_project_truth_scope ::
  "string list \<Rightarrow> repository_descriptor option \<Rightarrow> op_context \<Rightarrow> op_context" where
  "validate_set_project_truth_scope scope repository cx =
     (let cx1 = (case repository of None \<Rightarrow> cx | Some d \<Rightarrow> admit_repository d cx);
          cx2 = cx_reject_if (\<not> set scope \<subseteq> set (cx_repositories cx1))
                  ''unknown-project-repository'' [] [] cx1
      in cx_reject_if (case cx_state_repository cx of
            None \<Rightarrow> False | Some s \<Rightarrow> s \<noteq> [] \<and> s \<notin> set scope) ''remove-state-repository'' [] [] cx2)"

definition validate_set_ontology :: "ontology_state \<Rightarrow> op_context \<Rightarrow> op_context" where
  "validate_set_ontology os cx =
     (let cx1 = on_report (validate_ontology_structure os (cx_revision cx) (cx_mode cx = Replay_mode)) cx
      in if cx_mode cx = Admission
           then on_report (validate_ontology_change (cx_state cx) os (cx_revision cx)) cx1
         else cx1)"

section \<open>The registry\<close>

fun structural_validate ::
  "node_adapter \<Rightarrow> digests \<Rightarrow> op_runner \<Rightarrow> graph_operation \<Rightarrow> op_context \<Rightarrow> op_context result" where
  "structural_validate A D run (CreateNodesOperation raws) cx = validate_create_nodes A raws cx"
| "structural_validate A D run (UpdateNodesOperation us) cx = validate_update_nodes A us cx"
| "structural_validate A D run (CreateEdgesOperation es) cx = Inr (validate_create_edges es cx)"
| "structural_validate A D run (RemoveEdgesOperation ids) cx = Inr (validate_remove_edges ids cx)"
| "structural_validate A D run (RemoveNodesOperation ids) cx = Inr (validate_remove_nodes ids cx)"
| "structural_validate A D run (SupersedeNodesOperation ss) cx = Inr (validate_supersede_nodes ss cx)"
| "structural_validate A D run (MergeNodesOperation ms) cx = Inr (validate_merge_nodes ms cx)"
| "structural_validate A D run (ResolveAmbiguitiesOperation rs) cx =
     Inr (validate_resolve_ambiguities rs cx)"
| "structural_validate A D run (CreateProposalsOperation qs) cx = validate_create_proposals A D run qs cx"
| "structural_validate A D run (ResolveProposalsOperation rs) cx = Inr (validate_resolve_proposals rs cx)"
| "structural_validate A D run (WithdrawProposalsOperation ws) cx =
     Inr (validate_withdraw_proposals ws cx)"
| "structural_validate A D run (SetStandingOperation i _) cx = Inr (validate_set_standing i cx)"
| "structural_validate A D run (SetProjectTruthScopeOperation scope repository) cx =
     Inr (validate_set_project_truth_scope scope repository cx)"
| "structural_validate A D run (SetOntologyOperation os) cx = Inr (validate_set_ontology os cx)"
| "structural_validate A D run _ cx = Inr cx"

fun authoring_validate ::
  "node_adapter \<Rightarrow> digests \<Rightarrow> op_runner \<Rightarrow> graph_operation \<Rightarrow> op_context \<Rightarrow> op_context result" where
  "authoring_validate A D run (CreateNodesOperation raws) cx = author_create_nodes A raws cx"
| "authoring_validate A D run (UpdateNodesOperation us) cx = author_update_nodes A us cx"
| "authoring_validate A D run (CreateEdgesOperation es) cx = Inr (author_create_edges es cx)"
| "authoring_validate A D run (CreateProposalsOperation qs) cx = author_create_proposals A D run qs cx"
| "authoring_validate A D run _ cx = Inr cx"

end
