(* ===== verification/Experiment_Loop.thy ===== *)
theory Experiment_Loop
  imports Proposal_Rules
begin

text \<open>
  What an experiment-loop patch may do (\<open>core/validation/experiment_loop.py\<close>): update its own
  experiment, queue a pinned Decision, attach what it creates, and propose one belief change
  that rests on evidence of the same patch. Attempts are the dictionaries they are dumped to.
\<close>

definition ATTEMPT_CLOSE_FIELDS :: "string list" where
  "ATTEMPT_CLOSE_FIELDS = [''status'', ''source_refs'', ''outcome'', ''failure_reason'', ''finished_at'']"

definition PINNED_DECISION_BALLOT_FIELDS :: "string list" where
  "PINNED_DECISION_BALLOT_FIELDS = [''title'', ''question'', ''options'', ''rationale'', ''consequences'']"

definition TERMINAL_ATTEMPT_STATUSES :: "string list" where
  "TERMINAL_ATTEMPT_STATUSES = [''failed'', ''completed'', ''cancelled'', ''superseded'']"

definition allowed_experiment_fields :: "patch \<Rightarrow> validation_mode \<Rightarrow> string list" where
  "allowed_experiment_fields p mode =
     [''attempts'', ''status'', ''current_summary'', ''next_action'']
     @ (if mode = Replay_mode \<and> pa_schema_generation p = 1
          then LEGACY_COMPATIBILITY_UPDATE_FIELDS else [])"

section \<open>Attempts\<close>

definition fixed_part :: "val dict \<Rightarrow> val dict" where
  "fixed_part d = filter (\<lambda>(k, _). k \<notin> set ATTEMPT_CLOSE_FIELDS) d"

text \<open>The refusal of a change to an attempt the experiment already has.\<close>

definition attempt_change_refusal :: "val dict \<Rightarrow> val dict \<Rightarrow> string option" where
  "attempt_change_refusal before after =
     (if \<not> py_eq (VDict (fixed_part before)) (VDict (fixed_part after))
        then Some ''experiment-loop-attempt-mutation''
      else if \<not> py_eq (VDict before) (VDict after)
          \<and> (attempt_status_in before TERMINAL_ATTEMPT_STATUSES
             \<or> \<not> attempt_status_in after TERMINAL_ATTEMPT_STATUSES)
        then Some ''experiment-loop-attempt-close''
      else None)"

definition pin_dump :: "experiment_decision_pin \<Rightarrow> val" where
  "pin_dump pin = VDict [(''decision_id'', VStr (dp_decision_id pin)),
     (''decision_revision'', VInt (dp_decision_revision pin)),
     (''selected_option'', VStr (dp_selected_option pin))]"

definition proposal_only :: "val dict \<Rightarrow> bool" where
  "proposal_only d = (dict_get d ''attempt_kind'' = Some (VStr ''proposal_only''))"

definition check_appended_attempt ::
  "int option \<Rightarrow> string \<Rightarrow> experiment_decision_pin list \<Rightarrow> val dict \<Rightarrow> report \<Rightarrow> report" where
  "check_appended_attempt rv experiment_id pinned d r =
     reject_if (proposal_only d \<and> \<not> attempt_status_in d TERMINAL_ATTEMPT_STATUSES)
       ''experiment-loop-proposal-status'' rv [experiment_id] []
     (reject_if (proposal_only d \<and> truthy_get d ''job_refs'')
       ''experiment-loop-proposal-job'' rv [experiment_id] []
     (reject_if (\<not> py_eq (get_default d ''decision_bundle'' VNone) (VList (map pin_dump pinned)))
       ''experiment-loop-pinned-bundle'' rv (experiment_id # map dp_decision_id pinned) [] r))"

definition check_attempts ::
  "int option \<Rightarrow> project_node \<Rightarrow> experiment_decision_pin list \<Rightarrow> bool \<Rightarrow> val dict list \<Rightarrow> report \<Rightarrow> report" where
  "check_attempts rv experiment pinned has_proposals attempts r =
     (let previous = attempts_of experiment;
          eid = n_id experiment;
          appended = drop (length previous) attempts;
          r1 = fold (\<lambda>(before, after) r. case attempt_change_refusal before after of
                 None \<Rightarrow> r | Some code \<Rightarrow> reject code rv [eid] [] r) (zip previous attempts) r;
          r2 = fold (check_appended_attempt rv eid pinned) appended r1;
          r3 = reject_if (list_ex proposal_only appended \<and> \<not> has_proposals)
                 ''experiment-loop-proposal-attempt'' rv [eid] [] r2
      in if length attempts < length previous
           then reject ''experiment-loop-attempt-removal'' rv [eid] [] r
         else reject_if (\<not> distinct (map (\<lambda>d. dict_get d ''id'') attempts))
                ''experiment-loop-duplicate-attempt'' rv [eid] [] r3)"

text \<open>Attempts that are no list, or do not validate, are left to the node's own rules.\<close>

definition validate_attempts ::
  "node_adapter \<Rightarrow> int option \<Rightarrow> project_node \<Rightarrow> experiment_decision_pin list \<Rightarrow> bool \<Rightarrow> val \<Rightarrow>
   report \<Rightarrow> report" where
  "validate_attempts A rv experiment pinned has_proposals raw r = (case raw of
     VList items \<Rightarrow> (case map_r (ad_attempt A) items of
         Inl _ \<Rightarrow> r | Inr attempts \<Rightarrow> check_attempts rv experiment pinned has_proposals attempts r)
   | _ \<Rightarrow> r)"

section \<open>Updates\<close>

definition queue_pinned_decision ::
  "graph_state \<Rightarrow> int option \<Rightarrow> string \<Rightarrow> node_update \<Rightarrow> report \<Rightarrow> report result" where
  "queue_pinned_decision st rv experiment_id u r =
     (let changes = nu_changes u;
          forbidden = (\<not> set (keys changes) \<subseteq> set (''status'' # PINNED_DECISION_BALLOT_FIELDS))
      in bind_r (if forbidden then Inr False
                 else in_frozenset (dict_get changes ''status'') [''open'', ''ready'', ''revisit''])
           (\<lambda>queued.
             Inr (if \<not> queued
                    then reject ''experiment-loop-decision-action'' rv [experiment_id, nu_id u] [] r
                  else reject_if (node_type_of st (nu_id u) \<noteq> Some ''decision'')
                         ''experiment-loop-foreign-update'' rv [experiment_id, nu_id u] [] r)))"

definition validate_loop_update ::
  "node_adapter \<Rightarrow> graph_state \<Rightarrow> int option \<Rightarrow> project_node \<Rightarrow> experiment_decision_pin list \<Rightarrow> bool \<Rightarrow>
   string list \<Rightarrow> node_update \<Rightarrow> report \<Rightarrow> report result" where
  "validate_loop_update A st rv experiment pinned has_proposals allowed u r =
     (let eid = n_id experiment; changes = nu_changes u in
      if nu_id u \<in> dp_decision_id ` set pinned then queue_pinned_decision st rv eid u r
      else if nu_id u \<noteq> eid
        then Inr (reject ''experiment-loop-foreign-update'' rv [eid, nu_id u] [] r)
      else
        (let r1 = reject_if (\<not> set (keys changes) \<subseteq> set allowed)
               ''experiment-loop-experiment-field'' rv [eid] [] r
         in Inr (case dict_get changes ''attempts'' of
              None \<Rightarrow> r1
            | Some raw \<Rightarrow> validate_attempts A rv experiment pinned has_proposals raw r1)))"

section \<open>What the loop creates\<close>

definition validate_loop_nodes :: "int option \<Rightarrow> string \<Rightarrow> node_payload list \<Rightarrow> report \<Rightarrow> report" where
  "validate_loop_nodes rv eid raws r =
     fold (\<lambda>raw. reject_if (n_type (np_node raw) \<notin> {''evidence'', ''blocker''})
       ''experiment-loop-created-node'' rv [eid] []) raws r"

text \<open>The last type a patch creates an id with.\<close>

definition created_type :: "patch \<Rightarrow> string \<Rightarrow> string option" where
  "created_type p i = map_option n_type (find (\<lambda>n. n_id n = i) (rev (patch_created_nodes p)))"

definition type_here :: "graph_state \<Rightarrow> patch \<Rightarrow> string \<Rightarrow> string option" where
  "type_here st p i = (case node_type_of st i of None \<Rightarrow> created_type p i | Some t \<Rightarrow> Some t)"

definition SELF_ATTACHMENT_RELATIONS :: "string dict" where
  "SELF_ATTACHMENT_RELATIONS = [(''produces'', ''evidence''), (''blocked_by'', ''blocker'')]"

definition EVIDENCE_HANDOFF_RELATIONS :: "string dict" where
  "EVIDENCE_HANDOFF_RELATIONS = [(''informs'', ''decision''), (''addresses'', ''blocker'')]"

definition declared_layer :: "graph_state \<Rightarrow> string \<Rightarrow> relation_layer option" where
  "declared_layer st relation = (case dict_get RELATION_SPEC relation of
     Some spec \<Rightarrow> Some (rs_layer spec)
   | None \<Rightarrow> map_option or_layer (custom_relation (g_ontology st) relation))"

definition validate_loop_edge ::
  "graph_state \<Rightarrow> patch \<Rightarrow> int option \<Rightarrow> string \<Rightarrow> new_edge \<Rightarrow> report \<Rightarrow> report" where
  "validate_loop_edge st p rv eid e r =
     (case (dict_get SELF_ATTACHMENT_RELATIONS (ne_relation e),
            dict_get EVIDENCE_HANDOFF_RELATIONS (ne_relation e)) of
        (Some t, _) \<Rightarrow>
          reject_if (ne_source e \<noteq> eid \<or> created_type p (ne_target e) \<noteq> Some t)
            ''experiment-loop-self-attachment'' rv [eid, ne_target e] [] r
      | (None, Some t) \<Rightarrow>
          reject_if (created_type p (ne_source e) \<noteq> Some ''evidence''
              \<or> type_here st p (ne_target e) \<noteq> Some t)
            ''experiment-loop-evidence-handoff'' rv [eid, ne_source e, ne_target e] [] r
      | (None, None) \<Rightarrow>
          reject_if (declared_layer st (ne_relation e) \<noteq> Some Epistemic)
            ''experiment-loop-edge-layer'' rv [eid] [] r)"

section \<open>Belief proposals\<close>

definition tested_hypothesis_ids :: "graph_state \<Rightarrow> string \<Rightarrow> string list" where
  "tested_hypothesis_ids st eid = map e_target (filter (\<lambda>e. e_source e = eid \<and> e_relation e = ''tests'')
     (map snd (g_edges st)))"

text \<open>The same-patch evidence edges into a hypothesis.\<close>

definition grounding_edge_ids :: "graph_state \<Rightarrow> patch \<Rightarrow> string \<Rightarrow> string list" where
  "grounding_edge_ids st p target = map new_edge_id (filter (\<lambda>e. ne_target e = target
     \<and> ne_relation e \<in> set (pt_belief_outcome_relations project_type_of)
     \<and> type_here st p (ne_source e) = Some ''evidence'') (concat (map op_new_edges (pa_ops p))))"

fun is_update_intent :: "proposal_operation \<Rightarrow> bool" where
  "is_update_intent (ProposalContentChangeOperation _ _) = True"
| "is_update_intent (ProposalStatusChangeOperation _ _) = True"
| "is_update_intent _ = False"

definition proposal_update_targets :: "proposal_operation list \<Rightarrow> string list" where
  "proposal_update_targets ops =
     (if list_all (\<lambda>op. is_update_intent op \<and> proposal_updates op \<noteq> []) ops
        then sorted_set (map nu_id (concat (map proposal_updates ops))) else [])"

definition belief_update_refusal ::
  "string list \<Rightarrow> node_update \<Rightarrow> string option" where
  "belief_update_refusal grounding u =
     (if set (keys (nu_changes u)) \<noteq> {''status''} then Some ''experiment-loop-belief-proposal-operations''
      else (case nu_cause u of
          Some (EvidenceEdgeCause i) \<Rightarrow>
            if i \<in> set grounding then None else Some ''experiment-loop-belief-cause''
        | _ \<Rightarrow> Some ''experiment-loop-belief-cause''))"

definition validate_belief_proposal ::
  "graph_state \<Rightarrow> patch \<Rightarrow> int option \<Rightarrow> string \<Rightarrow> proposal \<Rightarrow> report \<Rightarrow> report" where
  "validate_belief_proposal st p rv eid q r =
     (let targets = proposal_update_targets (p_ops q); related = eid # targets in
      case targets of
        [h] \<Rightarrow>
          (let grounding = grounding_edge_ids st p h;
               r1 = reject_if (grounding = []) ''experiment-loop-belief-grounding'' rv related [] r
           in fold (\<lambda>u r. case belief_update_refusal grounding u of
                  None \<Rightarrow> r | Some code \<Rightarrow> reject code rv related [] r)
                (concat (map proposal_updates (p_ops q))) r1)
      | _ \<Rightarrow> reject ''experiment-loop-belief-proposal-scope'' rv related [] r)"

definition validate_loop_proposal ::
  "graph_state \<Rightarrow> patch \<Rightarrow> int option \<Rightarrow> string \<Rightarrow> proposal \<Rightarrow> report \<Rightarrow> report" where
  "validate_loop_proposal st p rv eid q r =
     (let targets = proposal_update_targets (p_ops q) in
      if targets \<noteq> [] \<and> set targets \<subseteq> set (tested_hypothesis_ids st eid)
        then validate_belief_proposal st p rv eid q r
      else reject ''experiment-loop-proposal-operations'' rv (eid # targets) [] r)"

section \<open>The whole patch\<close>

definition files_proposals :: "patch \<Rightarrow> bool" where
  "files_proposals p = list_ex (\<lambda>op. case op of
     CreateProposalsOperation qs \<Rightarrow> qs \<noteq> [] | _ \<Rightarrow> False) (pa_ops p)"

fun validate_loop_operation ::
  "node_adapter \<Rightarrow> graph_state \<Rightarrow> patch \<Rightarrow> validation_mode \<Rightarrow> project_node \<Rightarrow>
   experiment_decision_pin list \<Rightarrow> graph_operation \<Rightarrow> report \<Rightarrow> report result" where
  "validate_loop_operation A st p mode experiment pinned (UpdateNodesOperation us) r =
     fold_r (validate_loop_update A st (patch_rev p) experiment pinned (files_proposals p)
       (allowed_experiment_fields p mode)) us r"
| "validate_loop_operation A st p mode experiment pinned (CreateNodesOperation raws) r =
     Inr (validate_loop_nodes (patch_rev p) (n_id experiment) raws r)"
| "validate_loop_operation A st p mode experiment pinned (CreateEdgesOperation es) r =
     Inr (fold (validate_loop_edge st p (patch_rev p) (n_id experiment)) es r)"
| "validate_loop_operation A st p mode experiment pinned (CreateProposalsOperation qs) r =
     Inr (fold (validate_loop_proposal st p (patch_rev p) (n_id experiment)) qs r)"
| "validate_loop_operation A st p mode experiment pinned (UpsertGlossaryOperation _) r = Inr r"
| "validate_loop_operation A st p mode experiment pinned op r =
     Inr (reject ''experiment-loop-operation'' (patch_rev p) [n_id experiment] [] r)"

definition controlled_experiment :: "graph_state \<Rightarrow> string option \<Rightarrow> project_node option" where
  "controlled_experiment st control_node_id = (case control_node_id of
     None \<Rightarrow> None
   | Some i \<Rightarrow> if i = [] then None else (case dict_get (g_nodes st) i of
       None \<Rightarrow> None | Some n \<Rightarrow> if is_experiment n then Some n else None))"

definition validate_experiment_loop_authority ::
  "node_adapter \<Rightarrow> graph_state \<Rightarrow> patch \<Rightarrow> string option \<Rightarrow> experiment_decision_pin list \<Rightarrow>
   validation_mode \<Rightarrow> report \<Rightarrow> report result" where
  "validate_experiment_loop_authority A st p control_node_id pinned mode r =
     (case controlled_experiment st control_node_id of
        None \<Rightarrow> Inr (reject ''experiment-loop-control-node'' (patch_rev p)
          (case control_node_id of None \<Rightarrow> [] | Some i \<Rightarrow> if i = [] then [] else [i]) [] r)
      | Some experiment \<Rightarrow>
          (let ids = map dp_decision_id pinned;
               r1 = reject_if (\<not> distinct ids) ''experiment-loop-decision-bundle'' (patch_rev p)
                      (n_id experiment # ids) [] r
           in fold_r (validate_loop_operation A st p mode experiment pinned) (pa_ops p) r1))"

end
