(* ===== verification/Validation_Patch.thy ===== *)
theory Validation_Patch
  imports Validation_Ops Experiment_Loop
begin

text \<open>
  The validation of a patch as a whole (\<open>core/validation/patch.py\<close>): its identity, attribution,
  declared action and scope, its operations staged one after the other, the ballots it queues,
  and whether the Proposals it files are still current at its end. The two exception handlers
  catch every error of the model but \<open>IndexError\<close>, which passes through.
\<close>

section \<open>Identity, attribution and scope\<close>

definition has_run_scope :: "patch \<Rightarrow> bool" where
  "has_run_scope p = (pa_run_truth_scope p \<noteq> [] \<or> pa_repositories_read p \<noteq> []
     \<or> pa_run_read_scope p \<noteq> None)"

definition has_attribution :: "patch \<Rightarrow> bool" where
  "has_attribution p = (pa_authorized_by p \<noteq> None \<or> pa_profile p \<noteq> None \<or> pa_task_id p \<noteq> None)"

definition validate_identity_shape :: "op_context \<Rightarrow> op_context" where
  "validate_identity_shape cx =
     (let p = cx_patch cx;
          identity = (pa_project_identity p \<noteq> None);
          transfer = (pa_project_home_transfer p \<noteq> None);
          check = (\<lambda>c code. cx_reject_if c code [] [])
      in if pa_kind p \<noteq> Identity_patch then
           check transfer ''unexpected-project-home-transfer''
           (check identity ''unexpected-project-identity'' cx)
         else
           check (has_attribution p) ''identity-has-attribution''
           (check (pa_experiment_control_node_id p \<noteq> None \<or> pa_experiment_decision_bundle p \<noteq> [])
             ''identity-has-experiment-control''
           (check (pa_agent_action p \<noteq> None) ''identity-has-agent-action''
           (check (pa_human_action p \<noteq> None) ''identity-has-human-action''
           (check (pa_source_operation_id p \<noteq> None \<or> pa_source_effect_id p \<noteq> None
               \<or> pa_source_effect_sha256 p \<noteq> None) ''identity-has-operation-id''
           (check (pa_processed_cursors p \<noteq> []) ''identity-has-cursors''
           (check (has_run_scope p) ''identity-has-run-scope''
           (check (pa_ops p \<noteq> []) ''identity-has-operations''
           (if \<not> identity \<and> \<not> transfer then cx_reject ''missing-project-identity'' [] [] cx
            else check (identity \<and> transfer) ''conflicting-identity-payloads'' cx)))))))))"

definition validate_attribution_shape :: "op_context \<Rightarrow> op_context" where
  "validate_attribution_shape cx =
     (let p = cx_patch cx in
      if pa_kind p = Identity_patch then cx
      else
        (let cx1 = cx_reject_if ((pa_source_effect_id p = None) \<noteq> (pa_source_effect_sha256 p = None))
               ''invalid-source-effect'' [] [] cx;
             cx2 = cx_reject_if (pa_source_effect_id p \<noteq> None
                 \<and> (pa_author p \<noteq> Some Agent \<or> \<not> truthy (pa_source_operation_id p)))
               ''invalid-source-effect'' [] [] cx1
         in if \<not> has_attribution p then cx2
            else if pa_kind p = Approval then
              cx_reject_if (pa_authorized_by p = None \<or> pa_profile p \<noteq> None \<or> pa_task_id p \<noteq> None)
                ''invalid-human-attribution'' [] [] cx2
            else cx_reject_if (pa_authorized_by p = None \<or> pa_profile p = None
                   \<or> \<not> truthy (pa_task_id p)) ''invalid-agent-attribution'' [] [] cx2))"

definition patch_has_decision_outcome :: "graph_state \<Rightarrow> patch \<Rightarrow> bool" where
  "patch_has_decision_outcome st p =
     (let chooses = (\<lambda>n. is_chooser project_type_of (Some (n_type n)));
          decisions = map n_id (filter chooses (map snd (g_nodes st)))
            @ map n_id (filter chooses (patch_created_nodes p))
      in list_ex (\<lambda>u. nu_id u \<in> set decisions \<and> chooses_decision (nu_changes u))
           (concat (map op_updates (pa_ops p))))"

definition validate_declared_agent_action :: "op_context \<Rightarrow> op_context" where
  "validate_declared_agent_action cx =
     (let w = cx_writer cx;
          outcome = patch_has_decision_outcome (cx_initial_state cx) (cx_patch cx)
      in if w_human_action w \<noteq> None \<and> w_agent_action w \<noteq> None
           then cx_reject ''conflicting-authority-actions'' [] [] cx
         else
           cx_reject_if (w_agent_action w \<noteq> None \<and> \<not> outcome) ''unused-agent-action'' [] []
           (cx_reject_if (w_author w = Some Agent \<and> w_profile w = Some Orchestrator \<and> outcome
               \<and> w_agent_action w \<noteq> Some Decision_choice) ''missing-decision-action'' [] [] cx))"

definition validate_declared_scope :: "op_context \<Rightarrow> op_context" where
  "validate_declared_scope cx =
     (let p = cx_patch cx;
          readable = (case pa_run_read_scope p of None \<Rightarrow> cx_repositories cx | Some s \<Rightarrow> s)
      in if pa_kind p = Identity_patch then cx
         else if pa_kind p = Approval
           then cx_reject_if (has_run_scope p) ''approval-has-run-scope'' [] [] cx
         else
           cx_reject_if (\<not> set (pa_repositories_read p) \<subseteq> set readable) ''read-outside-run-scope'' [] []
           (cx_reject_if (\<not> set (pa_run_truth_scope p) \<subseteq> set (cx_project_truth_scope cx))
              ''run-scope-outside-project'' [] []
           (cx_reject_if (pa_run_truth_scope p = []) ''empty-run-scope'' [] [] cx)))"

section \<open>Staging the operations\<close>

definition reject_count :: "report \<Rightarrow> nat" where
  "reject_count r = length (filter (\<lambda>m. vm_level m = Reject_level) r)"

text \<open>An operation that its rules accept is applied to the staged graph.\<close>

definition stage_operation :: "node_adapter \<Rightarrow> graph_operation \<Rightarrow> op_context \<Rightarrow> op_context" where
  "stage_operation A op cx = (case apply_valid_operation A (cx_state cx) (cx_patch cx) op of
     Inl _ \<Rightarrow> cx_reject ''malformed-operation'' [] [] cx
   | Inr st \<Rightarrow> cx\<lparr>cx_state := st\<rparr>)"

definition validate_operation ::
  "node_adapter \<Rightarrow> digests \<Rightarrow> op_runner \<Rightarrow> graph_operation \<Rightarrow> op_context \<Rightarrow> op_context result" where
  "validate_operation A D run op cx =
     (if cx_mode cx = Admission \<and> legacy_only op
        then Inr (cx_reject ''legacy-only-operation'' [] [] cx)
      else
        bind_r (structural_validate A D run op cx) (\<lambda>cx1.
        bind_r (if cx_mode cx = Admission then authoring_validate A D run op cx1 else Inr cx1) (\<lambda>cx2.
          Inr (if reject_count (cx_report cx2) \<noteq> reject_count (cx_report cx) then cx2
               else stage_operation A op cx2))))"

definition run_operations ::
  "node_adapter \<Rightarrow> digests \<Rightarrow> op_runner \<Rightarrow> op_context \<Rightarrow> op_context result" where
  "run_operations A D run cx = fold_r (validate_operation A D run) (pa_ops (cx_patch cx)) cx"

text \<open>
  The operations of a Proposal contain no \<open>create_proposals\<close>, so the loop over them calls no
  further loop; the argument given to it is never used.
\<close>

definition validate_operations ::
  "node_adapter \<Rightarrow> digests \<Rightarrow> op_context \<Rightarrow> op_context result" where
  "validate_operations A D = run_operations A D (run_operations A D Inr)"

section \<open>At the end of the patch\<close>

definition CLASH_PATCH_REFUSALS :: "string list" where
  "CLASH_PATCH_REFUSALS = [''incomplete-decision-ballot'']"

fun touched_ids :: "graph_operation \<Rightarrow> string list" where
  "touched_ids (CreateNodesOperation raws) = map (\<lambda>raw. n_id (np_node raw)) raws"
| "touched_ids (UpdateNodesOperation us) = map nu_id us"
| "touched_ids (SupersedeNodesOperation ss) = map sn_id ss"
| "touched_ids (MergeNodesOperation ms) = map nm_duplicate ms"
| "touched_ids (SetStandingOperation i _) = [i]"
| "touched_ids _ = []"

definition validate_queued_decision_options :: "node_adapter \<Rightarrow> op_context \<Rightarrow> op_context" where
  "validate_queued_decision_options A cx =
     (if cx_mode cx \<noteq> Admission then cx
      else fold (\<lambda>i cx. if carries_staged_node A cx i then cx
             else on_report (reject_incomplete_decision_ballot (dict_get (g_nodes (cx_state cx)) i)
                    (cx_revision cx)) cx)
           (sorted_set (concat (map touched_ids (pa_ops (cx_patch cx))))) cx)"

fun created_edges :: "graph_operation \<Rightarrow> (string \<times> string \<times> string) list" where
  "created_edges (CreateEdgesOperation es) =
     map (\<lambda>e. (new_edge_id e, ne_source e, ne_target e)) es"
| "created_edges (SupersedeNodesOperation ss) = List.map_filter (\<lambda>s. map_option
     (\<lambda>t. (edge_default_id (sn_id s) ''supersedes'' t, sn_id s, t)) (sn_superseded_by s)) ss"
| "created_edges (MergeNodesOperation ms) = map (\<lambda>m.
     (edge_default_id (nm_duplicate m) ''duplicate_of'' (nm_canonical m), nm_duplicate m,
      nm_canonical m)) ms"
| "created_edges _ = []"

type_synonym presence = "string list \<times> (string \<times> string) dict"

definition update_resource_presence :: "graph_operation \<Rightarrow> presence \<Rightarrow> presence" where
  "update_resource_presence op = (\<lambda>(nodes, edges).
     (let (nodes1, edges1) = (case op of
          CreateNodesOperation raws \<Rightarrow> (nodes @ map (\<lambda>raw. n_id (np_node raw)) raws, edges)
        | RemoveNodesOperation ids \<Rightarrow> (filter (\<lambda>i. i \<notin> set ids) nodes,
            filter (\<lambda>(_, s, t). s \<notin> set ids \<and> t \<notin> set ids) edges)
        | RemoveEdgesOperation ids \<Rightarrow> (nodes, fold AList.delete ids edges)
        | _ \<Rightarrow> (nodes, edges))
      in (nodes1, fold (\<lambda>(i, ends). AList.update i ends) (created_edges op) edges1)))"

fun changed_nodes :: "graph_operation \<Rightarrow> string list" where
  "changed_nodes (UpdateNodesOperation us) = map nu_id us"
| "changed_nodes (SupersedeNodesOperation ss) = map sn_id ss"
| "changed_nodes (MergeNodesOperation ms) = map nm_duplicate ms"
| "changed_nodes (RemoveNodesOperation ids) = ids"
| "changed_nodes (SetStandingOperation i _) = [i]"
| "changed_nodes _ = []"

fun removed_edges :: "graph_operation \<Rightarrow> string list" where
  "removed_edges (RemoveEdgesOperation ids) = ids"
| "removed_edges _ = []"

fun config_key :: "graph_operation \<Rightarrow> string list" where
  "config_key (SetOntologyOperation _) = [''ontology'']"
| "config_key (SetProjectTruthScopeOperation _ _) = [''project_truth_scope'']"
| "config_key _ = []"

definition later_dependency_mutations ::
  "op_context \<Rightarrow> nat \<Rightarrow> string list \<Rightarrow> string list \<Rightarrow> string list \<Rightarrow>
   string list \<times> string list \<times> string list" where
  "later_dependency_mutations cx position nodes edges config =
     (let ops = pa_ops (cx_patch cx);
          later = drop (Suc position) ops;
          start = (keys (g_nodes (cx_initial_state cx)),
            fold (\<lambda>e. AList.update (e_id e) (e_source e, e_target e))
              (map snd (g_edges (cx_initial_state cx))) []);
          (present_nodes, present_edges) = fold update_resource_presence (take position ops) start;
          created = map n_id (concat (map op_created_nodes later));
          recreated = map fst (concat (map created_edges later));
          changed = concat (map changed_nodes later);
          removed = concat (map removed_edges later);
          keys_set = concat (map config_key later)
      in (filter (\<lambda>i. i \<in> set changed \<or> (i \<in> set created \<and> i \<in> set present_nodes)) (sorted_set nodes),
          filter (\<lambda>i. i \<in> set removed \<or> (i \<in> set recreated \<and> i \<in> set (keys present_edges)))
            (sorted_set edges),
          filter (\<lambda>k. k \<in> set keys_set) (sorted_set config)))"

definition proposal_positions :: "patch \<Rightarrow> (string \<times> nat) list" where
  "proposal_positions p = sort_key fst (fold (\<lambda>(index, op) d.
     case op of CreateProposalsOperation qs \<Rightarrow> fold (\<lambda>q. AList.update (p_id q) index) qs d | _ \<Rightarrow> d)
     (enumerate 0 (pa_ops p)) [])"

definition check_created_proposal :: "string \<times> nat \<Rightarrow> op_context \<Rightarrow> op_context" where
  "check_created_proposal = (\<lambda>(i, position) cx. case dict_get (g_proposals (cx_state cx)) i of
     None \<Rightarrow> cx
   | Some q \<Rightarrow>
       (let (nodes, edges, config) = (if cx_mode cx = Admission
              then later_dependency_mutations cx position
                (p_related_node_ids q @ map snd (proposal_cause_evidence_sources (cx_state cx) q))
                (p_related_edge_ids q) (p_related_config_keys q)
              else ([], [], []))
        in if nodes \<noteq> [] \<or> edges \<noteq> [] \<or> config \<noteq> []
             then cx_reject ''stale-created-proposal'' nodes edges cx
           else cx_reject_if (proposal_is_stale (cx_state cx) q) ''stale-created-proposal''
                  (p_related_node_ids q) [] cx))"

definition validate_created_proposal_liveness :: "op_context \<Rightarrow> op_context" where
  "validate_created_proposal_liveness cx =
     fold check_created_proposal (proposal_positions (cx_patch cx)) cx"

section \<open>A patch\<close>

definition or_list :: "string list option \<Rightarrow> string list \<Rightarrow> string list" where
  "or_list given other = (case given of None \<Rightarrow> other | Some [] \<Rightarrow> other | Some xs \<Rightarrow> xs)"

definition initial_context ::
  "graph_state \<Rightarrow> patch \<Rightarrow> validation_context \<Rightarrow> writer \<Rightarrow> string option \<Rightarrow> op_context" where
  "initial_context st p context w control_node_id =
     \<lparr>cx_state = st, cx_initial_state = st, cx_patch = p, cx_writer = w, cx_report = [],
      cx_revision = patch_rev p, cx_project_truth_scope = vc_project_truth_scope context,
      cx_repositories = or_list (vc_repository_aliases context) (vc_project_truth_scope context),
      cx_machines = vc_machine_aliases context, cx_state_repository = vc_state_repository context,
      cx_mode = vc_mode context, cx_experiment_control_node_id = control_node_id,
      cx_reference_patch = None, cx_merge_source = vc_merge_source context\<rparr>"

text \<open>The rules that judge the patch before its operations.\<close>

definition validate_envelope :: "graph_state \<Rightarrow> patch \<Rightarrow> op_context \<Rightarrow> op_context" where
  "validate_envelope st p cx =
     validate_declared_scope (validate_declared_agent_action (validate_attribution_shape
       (validate_identity_shape
         (on_report (validate_writer_actions p (cx_mode cx = Replay_mode))
           (on_report (validate_authorship p)
             (cx_reject_if (pa_revision p \<noteq> 0 \<and> pa_revision p \<noteq> g_revision st + 1)
               ''non-monotonic-revision'' [] []
               (cx_reject_if (cx_mode cx = Admission \<and> pa_schema_generation p \<noteq> 2)
                 ''legacy-schema-write'' [] [] cx)))))))"

text \<open>\<open>_validate_patch\<close>; no operation of the model has a name that starts with \<open>delete\<close>.\<close>

definition validate_patch_rules ::
  "node_adapter \<Rightarrow> digests \<Rightarrow> graph_state \<Rightarrow> patch \<Rightarrow> validation_context \<Rightarrow> writer \<Rightarrow> string option \<Rightarrow>
   experiment_decision_pin list option \<Rightarrow> op_context result" where
  "validate_patch_rules A D st p context w control_node_id bundle =
     (let control = (if truthy control_node_id then control_node_id else pa_experiment_control_node_id p);
          pins = (case bundle of None \<Rightarrow> pa_experiment_decision_bundle p | Some pins \<Rightarrow> pins);
          mode = vc_mode context;
          cx1 = validate_envelope st p (initial_context st p context w control)
      in bind_r (if pa_kind p = Experiment_loop
                   then on_report_r (validate_experiment_loop_authority A st p control pins mode) cx1
                 else Inr (cx_reject_if (truthy control \<or> pins \<noteq> []) ''unexpected-experiment-control''
                        [] [] cx1)) (\<lambda>cx2.
         bind_r (if pa_kind p = Approval then on_report_r (validate_approval_shape A st p w mode) cx2
                 else Inr cx2) (\<lambda>cx3.
         bind_r (validate_operations A D cx3) (\<lambda>cx4.
           Inr (validate_created_proposal_liveness (validate_queued_decision_options A cx4))))))"

definition caught :: "exn \<Rightarrow> bool" where
  "caught e = (case e of IndexError _ \<Rightarrow> False | _ \<Rightarrow> True)"

definition validate_source_patch ::
  "node_adapter \<Rightarrow> digests \<Rightarrow> graph_state \<Rightarrow> patch \<Rightarrow> validation_context \<Rightarrow> writer option \<Rightarrow> string option \<Rightarrow>
   experiment_decision_pin list option \<Rightarrow> report result" where
  "validate_source_patch A D st p context w control_node_id bundle =
     (case validate_patch_rules A D st p context
             (case w of None \<Rightarrow> writer_from_patch p | Some w \<Rightarrow> w) control_node_id bundle of
        Inr cx \<Rightarrow> Inr (cx_report cx)
      | Inl e \<Rightarrow> if caught e then Inr (reject ''malformed-operation'' (patch_rev p) [] [] []) else Inl e)"

text \<open>
  The initiating patches of a committed transition, validated in turn on the graph the earlier
  ones leave; the messages so far survive an error.
\<close>

fun validate_sources ::
  "node_adapter \<Rightarrow> digests \<Rightarrow> graph_state \<Rightarrow> validation_context \<Rightarrow> patch list \<Rightarrow> graph_state \<Rightarrow> report \<Rightarrow>
   report \<times> exn option" where
  "validate_sources A D st context [] staged r = (r, None)"
| "validate_sources A D st context (p # ps) staged r =
     (let here = staged\<lparr>g_revision := g_revision st\<rparr> in
      case validate_source_patch A D here p
             (context\<lparr>vc_project_truth_scope := g_project_truth_scope here\<rparr>) None None None of
        Inl e \<Rightarrow> (r, Some e)
      | Inr r1 \<Rightarrow>
          if rejected r1 then (r @ r1, None)
          else (case apply_valid_patch A here p of
              Inl e \<Rightarrow> (r @ r1, Some e)
            | Inr st1 \<Rightarrow>
                validate_sources A D st context ps (st1\<lparr>g_revision := g_revision st\<rparr>) (r @ r1)))"

definition validate_transition_patch ::
  "node_adapter \<Rightarrow> digests \<Rightarrow> graph_state \<Rightarrow> patch \<Rightarrow> validation_context \<Rightarrow> report result" where
  "validate_transition_patch A D st p context =
     (if vc_mode context \<noteq> Replay_mode
        then Inr (reject ''reserved-transition-trace'' (patch_rev p) [] [] [])
      else
        (let (r, failure) = (case validate_transition_trace A D st p of
             Inl e \<Rightarrow> ([], Some e)
           | Inr sources \<Rightarrow> validate_sources A D st context sources st [])
         in case failure of
              None \<Rightarrow> Inr r
            | Some e \<Rightarrow> if caught e then Inr (reject ''transition-trace-invalid'' (patch_rev p) [] [] r)
                else Inl e))"

definition validate_patch ::
  "node_adapter \<Rightarrow> digests \<Rightarrow> graph_state \<Rightarrow> patch \<Rightarrow> validation_context \<Rightarrow> writer option \<Rightarrow> string option \<Rightarrow>
   experiment_decision_pin list option \<Rightarrow> report result" where
  "validate_patch A D st p context w control_node_id bundle =
     (if pa_transition p \<noteq> None then validate_transition_patch A D st p context
      else validate_source_patch A D st p context w control_node_id bundle)"

section \<open>Reading a report\<close>

definition is_coherence_clash :: "report \<Rightarrow> bool" where
  "is_coherence_clash r =
     (let rejects = filter (\<lambda>m. vm_level m = Reject_level) r
      in rejects \<noteq> [] \<and> list_all (\<lambda>m.
           vm_code m \<in> set (CLASH_OPERATION_REFUSALS @ CLASH_PATCH_REFUSALS)
           \<and> vm_related_node_ids m \<noteq> [] \<and> vm_rule_id m \<noteq> Some PROPOSAL_REPLAY_RULE_ID) rejects)"

end
