(* ===== verification/Proposal_Effects.thy ===== *)
theory Proposal_Effects
  imports Validation_Patch
begin

text \<open>
  The reads and writes of a valid Proposal (\<open>proposal_dependencies_and_effects\<close> of
  \<open>validation/proposals.py\<close>): its approval is validated before its effects are computed, and every
  failure becomes diagnostics.
\<close>

datatype effect_error = ProposalEffectRejected report

definition validated_footprint ::
  "node_adapter \<Rightarrow> digests \<Rightarrow> graph_state \<Rightarrow> proposal \<Rightarrow> (report + proposal_footprint) result" where
  "validated_footprint A D st q =
     bind_r (approval_probe st q) (\<lambda>(before, p).
     bind_r (validate_patch A D before p
         \<lparr>vc_project_truth_scope = g_project_truth_scope st, vc_repository_aliases = None,
          vc_machine_aliases = None, vc_state_repository = None, vc_mode = Admission,
          vc_merge_source = None\<rparr> None None None) (\<lambda>r.
     if rejected r then Inr (Inl (filter (\<lambda>m. vm_level m = Reject_level) r))
     else bind_r (footprint_of A D st q (before, p)) (\<lambda>f. Inr (Inr f))))"

definition proposal_dependencies_and_effects ::
  "node_adapter \<Rightarrow> digests \<Rightarrow> graph_state \<Rightarrow> proposal \<Rightarrow> effect_error + proposal_footprint" where
  "proposal_dependencies_and_effects A D st q = (case validated_footprint A D st q of
     Inr (Inr f) \<Rightarrow> Inr f
   | Inr (Inl r) \<Rightarrow> Inl (ProposalEffectRejected r)
   | Inl _ \<Rightarrow> Inl (ProposalEffectRejected (reject ''malformed-operation'' (Some (g_revision st + 1)) [] [] [])))"

end
