(* ===== verification/Merge_Answers.thy ===== *)
theory Merge_Answers
  imports Merge_Review Semantic_Delta Proposal_Effects
begin

text \<open>
  The plan of a merge, the answers to its conflicts (\<open>runs/merge_contract.py\<close>), and the documents
  the answers lead to (the first half of \<open>runs/merge_patch.py\<close>). Answers select a value for every
  coordinate; the documents are the entities of the destination with those values written in.
  The strict Pydantic adapter of one field is the parameter \<open>V\<close>.
\<close>

section \<open>Errors\<close>

record merge_diagnostic =
  mg_code :: string
  mg_related_node_ids :: "string list"
  mg_conflict_ids :: "string list"

datatype merge_exn =
    MergeAnswersRejected "merge_diagnostic list"
  | MergeHiddenClash "string list" "merge_diagnostic list"
  | MergeRefused "merge_diagnostic list"
  | Effect_rejected report
  | RevisionConflict
  | Merge_error exn
  | Merge_assertion

definition merge_diagnostic_of :: "string \<Rightarrow> string list \<Rightarrow> merge_diagnostic" where
  "merge_diagnostic_of code nodes = \<lparr>mg_code = code, mg_related_node_ids = nodes, mg_conflict_ids = []\<rparr>"

definition merge_refuse :: "string \<Rightarrow> string list \<Rightarrow> merge_exn + 'a" where
  "merge_refuse code nodes = Inl (MergeRefused [merge_diagnostic_of code nodes])"

definition answer_error :: "string \<Rightarrow> merge_exn + 'a" where
  "answer_error i = Inl (MergeAnswersRejected
     [(merge_diagnostic_of ''invalid-merge-answer'' [i])\<lparr>mg_conflict_ids := [i]\<rparr>])"

definition merge_lift :: "'a result \<Rightarrow> merge_exn + 'a" where
  "merge_lift r = (case r of Inl e \<Rightarrow> Inl (Merge_error e) | Inr x \<Rightarrow> Inr x)"

section \<open>Plans and answers\<close>

record review_group =
  rg_subject_key :: string
  rg_changes :: "merge_change list"
  rg_footprint :: proposal_footprint
  rg_effect_digest :: string
  rg_replaces_proposal_ids :: "string list"
  rg_carried_proposal_ids :: "string list"

text \<open>A plan extends its context; its identity is a digest of the rest.\<close>

record merge_plan =
  pn_context :: planning_context
  pn_plan_id :: string
  pn_direct_changes :: "merge_change list"
  pn_conflicts :: "merge_conflict list"
  pn_review_groups :: "review_group list"

datatype presence_choice = Keep_removal | Keep_node

datatype conflict_answer = SideAnswer side | MergedAnswer val | PresenceAnswer presence_choice

record review_card =
  vw_situation_cold :: string
  vw_why_human_now :: string
  vw_consequences :: string
  vw_decision_needed :: string

record merge_answers =
  an_answers :: "conflict_answer dict"
  an_cards :: "review_card dict"

fun answer_side :: "side \<Rightarrow> field_answer_kind" where
  "answer_side On_branch = Branch_answer"
| "answer_side On_destination = Destination_answer"

text \<open>Whether the kind of an answer is among the kinds its conflict allows.\<close>

fun answer_allowed :: "merge_conflict \<Rightarrow> conflict_answer \<Rightarrow> bool" where
  "answer_allowed (FieldConflict c) (SideAnswer s) = (answer_side s \<in> set (fc_allowed_answer_kinds c))"
| "answer_allowed (FieldConflict c) (MergedAnswer _) = (Merged_answer \<in> set (fc_allowed_answer_kinds c))"
| "answer_allowed (NodeGroupConflict c) (SideAnswer _) = True"
| "answer_allowed (NodeGroupConflict c) (MergedAnswer _) = True"
| "answer_allowed (PresenceConflict c) (PresenceAnswer _) = True"
| "answer_allowed (IncidentEdgeConflict c) (PresenceAnswer _) = True"
| "answer_allowed _ _ = False"

section \<open>The value of an answered field\<close>

type_synonym coordinate = "string \<times> string option \<times> string option"

fun subject_of :: "coordinate \<Rightarrow> string \<times> string option" where
  "subject_of (c, i, _) = (c, i)"

fun field_of :: "coordinate \<Rightarrow> string option" where
  "field_of (_, _, f) = f"

definition change_coordinate :: "merge_change \<Rightarrow> coordinate" where
  "change_coordinate c = (mc_collection c, mc_entity_id c, mc_field_name c)"

definition conflict_coordinate :: "field_conflict \<Rightarrow> coordinate" where
  "conflict_coordinate c = (fc_collection c, fc_entity_id c, Some (fc_field_name c))"

datatype field_owner = Graph_owner | Object_owner state_object

type_synonym field_adapter = "field_owner \<Rightarrow> string \<Rightarrow> val \<Rightarrow> bool"

text \<open>The content fields of \<open>GraphState\<close>, of \<open>OntologyState\<close> and of an entity.\<close>

definition owner_fields :: "merge_codec \<Rightarrow> field_owner \<Rightarrow> string list" where
  "owner_fields K owner = (case owner of
     Graph_owner \<Rightarrow> ''project_truth_scope'' # MERGE_COLLECTIONS @ [''ontology'']
   | Object_owner (O_ontology _) \<Rightarrow> [''types'', ''fields'', ''relations'']
   | Object_owner x \<Rightarrow> content_fields (mk_view K x))"

definition owner_of :: "planning_context \<Rightarrow> field_conflict \<Rightarrow> field_owner option" where
  "owner_of x c = (case fc_entity_id c of
     Some i \<Rightarrow> (case List.map_filter (\<lambda>g. dict_get (entities g (fc_collection c)) i)
         [pl_destination_graph x, pl_source_graph x, pl_base_graph x] of
         [] \<Rightarrow> None | entity # _ \<Rightarrow> Some (Object_owner entity))
   | None \<Rightarrow> Some (if fc_collection c = ''ontology''
       then Object_owner (O_ontology (g_ontology (pl_destination_graph x))) else Graph_owner))"

definition answered_value :: "field_conflict \<Rightarrow> conflict_answer \<Rightarrow> merge_value" where
  "answered_value c a = (case a of
     MergedAnswer v \<Rightarrow> PresentValue v
   | SideAnswer On_branch \<Rightarrow> fc_branch c
   | SideAnswer On_destination \<Rightarrow> fc_destination c
   | PresenceAnswer _ \<Rightarrow> MissingValue)"

definition field_answer ::
  "merge_codec \<Rightarrow> field_adapter \<Rightarrow> planning_context \<Rightarrow> field_conflict \<Rightarrow> conflict_answer \<Rightarrow> merge_exn + merge_value" where
  "field_answer K V x c a =
     (if \<not> answer_allowed (FieldConflict c) a then answer_error (fc_conflict_id c)
      else (case answered_value c a of
          MissingValue \<Rightarrow> answer_error (fc_conflict_id c)
        | PresentValue v \<Rightarrow> (case owner_of x c of
            None \<Rightarrow> answer_error (fc_conflict_id c)
          | Some owner \<Rightarrow>
              if fc_field_name c \<notin> set (owner_fields K owner) \<or> \<not> V owner (fc_field_name c) v
              then answer_error (fc_conflict_id c) else Inr (PresentValue v))))"

section \<open>Resolving the conflicts\<close>

text \<open>The merged answer of a node group: node id, field name, answer.\<close>

definition parse_field_answer :: "val \<Rightarrow> conflict_answer option" where
  "parse_field_answer v = (case v of
     VDict d \<Rightarrow> (case dict_get d ''kind'' of
         Some (VStr k) \<Rightarrow>
           if k = ''branch'' \<and> keys d = [''kind''] then Some (SideAnswer On_branch)
           else if k = ''destination'' \<and> keys d = [''kind''] then Some (SideAnswer On_destination)
           else if k = ''merged'' \<and> set (keys d) = {''kind'', ''value''}
             then map_option MergedAnswer (dict_get d ''value'')
           else None
       | _ \<Rightarrow> None)
   | _ \<Rightarrow> None)"

fun parse_all :: "('a \<Rightarrow> 'b option) \<Rightarrow> 'a dict \<Rightarrow> 'b dict option" where
  "parse_all f [] = Some []"
| "parse_all f ((k, v) # d) = (case (f v, parse_all f d) of
     (Some w, Some e) \<Rightarrow> Some ((k, w) # e) | _ \<Rightarrow> None)"

definition parse_group_answer :: "val \<Rightarrow> conflict_answer dict dict option" where
  "parse_group_answer v = (case v of
     VDict d \<Rightarrow> parse_all (\<lambda>fields. case fields of VDict e \<Rightarrow> parse_all parse_field_answer e | _ \<Rightarrow> None) d
   | _ \<Rightarrow> None)"

type_synonym selection = "(coordinate \<times> merge_value) list"

definition select_field ::
  "merge_codec \<Rightarrow> field_adapter \<Rightarrow> planning_context \<Rightarrow> field_conflict \<times> conflict_answer \<Rightarrow> selection \<Rightarrow>
   merge_exn + selection" where
  "select_field K V x = (\<lambda>(c, a) s.
     bind_r (field_answer K V x c a) (\<lambda>v. Inr (AList.update (conflict_coordinate c) v s)))"

definition group_nested ::
  "node_group_conflict \<Rightarrow> conflict_answer \<Rightarrow> merge_exn + conflict_answer dict dict option" where
  "group_nested c a = (case a of
     MergedAnswer v \<Rightarrow> (case parse_group_answer v of
         None \<Rightarrow> answer_error (nc_conflict_id c)
       | Some nested \<Rightarrow>
           if (\<lambda>(n, f). (Some n, f)) ` set (concat (map (\<lambda>(n, fs). map (Pair n) (keys fs)) nested))
                \<noteq> (\<lambda>f. (fc_entity_id f, fc_field_name f)) ` set (nc_fields c)
             then answer_error (nc_conflict_id c)
           else Inr (Some nested))
   | _ \<Rightarrow> Inr None)"

definition select_group_field ::
  "merge_codec \<Rightarrow> field_adapter \<Rightarrow> planning_context \<Rightarrow> node_group_conflict \<Rightarrow> conflict_answer \<Rightarrow>
   conflict_answer dict dict option \<Rightarrow> field_conflict \<Rightarrow> selection \<Rightarrow> merge_exn + selection" where
  "select_group_field K V x c a nested f s = (case fc_entity_id f of
     None \<Rightarrow> answer_error (nc_conflict_id c)
   | Some i \<Rightarrow> (case nested of
       None \<Rightarrow> select_field K V x (f, a) s
     | Some d \<Rightarrow> (case Option.bind (dict_get d i) (\<lambda>fs. dict_get fs (fc_field_name f)) of
         None \<Rightarrow> Inl (Merge_error (KeyError i))
       | Some item \<Rightarrow> select_field K V x (f, item) s)))"

text \<open>Presence decides all fields of an entity.\<close>

definition select_presence ::
  "string \<Rightarrow> string \<Rightarrow> presence_choice \<Rightarrow> merge_value \<Rightarrow> selection \<Rightarrow> selection" where
  "select_presence c i choice surviving s =
     filter (\<lambda>(k, _). \<not> (subject_of k = (c, Some i) \<and> field_of k \<noteq> None))
       (AList.update (c, Some i, None) (if choice = Keep_removal then MissingValue else surviving) s)"

definition select_incident_edge ::
  "presence_choice \<Rightarrow> side \<Rightarrow> merge_change \<Rightarrow> selection \<Rightarrow> selection" where
  "select_incident_edge choice removed_on e s =
     (if choice = Keep_removal
      then AList.update (''edges'', mc_entity_id e, None) MissingValue
             (filter (\<lambda>(k, _). subject_of k \<noteq> (''edges'', mc_entity_id e)) s)
      else AList.update (change_coordinate e)
             (if removed_on = On_branch then mc_destination e else mc_branch e) s)"

definition resolve_conflict ::
  "merge_codec \<Rightarrow> field_adapter \<Rightarrow> planning_context \<Rightarrow> merge_answers \<Rightarrow> merge_conflict \<Rightarrow> selection \<Rightarrow>
   merge_exn + selection" where
  "resolve_conflict K V x answers conflict s = (case dict_get (an_answers answers) (conflict_id conflict) of
     None \<Rightarrow> Inl (Merge_error (KeyError (conflict_id conflict)))
   | Some a \<Rightarrow>
       if \<not> answer_allowed conflict a then answer_error (conflict_id conflict)
       else (case conflict of
           FieldConflict c \<Rightarrow> select_field K V x (c, a) s
         | NodeGroupConflict c \<Rightarrow> bind_r (group_nested c a) (\<lambda>nested.
             fold_r (select_group_field K V x c a nested) (nc_fields c) s)
         | PresenceConflict c \<Rightarrow> Inr (case a of
               PresenceAnswer choice \<Rightarrow> select_presence (pc_collection c) (pc_entity_id c) choice
                 (if pc_removed_on c = On_branch then pc_destination c else pc_branch c) s
             | _ \<Rightarrow> s)
         | IncidentEdgeConflict c \<Rightarrow> Inr (case a of
               PresenceAnswer choice \<Rightarrow>
                 fold (select_incident_edge choice (ic_removed_on c)) (ic_incident_edges c)
                   (select_presence ''nodes'' (ic_node_id c) choice
                     (if ic_removed_on c = On_branch then ic_destination c else ic_branch c) s)
             | _ \<Rightarrow> s)))"

definition planned_selection :: "merge_plan \<Rightarrow> selection" where
  "planned_selection plan = fold (\<lambda>c. AList.update (change_coordinate c) (mc_branch c))
     (pn_direct_changes plan @ concat (map rg_changes (pn_review_groups plan))) []"

definition resolved_changes ::
  "merge_codec \<Rightarrow> field_adapter \<Rightarrow> merge_plan \<Rightarrow> merge_answers \<Rightarrow> merge_exn + selection" where
  "resolved_changes K V plan answers =
     (let unknown = filter (\<lambda>k. k \<notin> rg_subject_key ` set (pn_review_groups plan)) (keys (an_cards answers)) in
      if set (keys (an_answers answers)) \<noteq> conflict_id ` set (pn_conflicts plan) then answer_error ''answers''
      else if unknown \<noteq> [] then answer_error (hd (sort unknown))
      else fold_r (resolve_conflict K V (pn_context plan) answers) (pn_conflicts plan) (planned_selection plan))"

section \<open>Documents\<close>

text \<open>\<open>model_dump(mode="json")\<close> of an entity; the current value of a subject, \<open>None\<close> when absent.\<close>

definition object_dump :: "merge_codec \<Rightarrow> state_object \<Rightarrow> val" where
  "object_dump K x = VDict (dump_fields (mk_view K x))"

definition current_document :: "merge_codec \<Rightarrow> graph_state \<Rightarrow> string \<times> string option \<Rightarrow> val" where
  "current_document K st = (\<lambda>(c, i). case i of
     Some k \<Rightarrow> (case dict_get (entities st c) k of None \<Rightarrow> VNone | Some x \<Rightarrow> object_dump K x)
   | None \<Rightarrow> if c = ''ontology'' then object_dump K (O_ontology (g_ontology st))
       else VList (map VStr (g_project_truth_scope st)))"

type_synonym document = "val \<times> coordinate list"
type_synonym documents = "((string \<times> string option) \<times> document) list"

definition coordinate_key :: "coordinate \<Rightarrow> string \<times> string \<times> string" where
  "coordinate_key = (\<lambda>(c, i, f). (c, or_empty i, or_empty f))"

text \<open>Assigning a field of a document: only a dictionary has named fields.\<close>

definition write_field :: "val \<Rightarrow> string \<Rightarrow> val \<Rightarrow> merge_exn + val" where
  "write_field raw f v = (case raw of
     VDict d \<Rightarrow> Inr (VDict (AList.update f v d))
   | _ \<Rightarrow> Inl (Merge_error (TypeError ''item assignment'')))"

definition write_coordinate ::
  "merge_codec \<Rightarrow> graph_state \<Rightarrow> coordinate \<times> merge_value \<Rightarrow> documents \<Rightarrow> merge_exn + documents" where
  "write_coordinate K st = (\<lambda>(k, value) docs.
     let key = subject_of k;
         (raw, coordinates) = (case map_of docs key of Some d \<Rightarrow> d | None \<Rightarrow> (current_document K st key, []))
     in bind_r (case field_of k of
            None \<Rightarrow> Inr (case value of PresentValue v \<Rightarrow> v | MissingValue \<Rightarrow> VNone)
          | Some f \<Rightarrow> (case value of
              PresentValue v \<Rightarrow> if raw = VNone
                then merge_refuse ''invalid-merge-change'' (filter (\<lambda>i. i \<noteq> []) [or_empty (snd key)])
                else write_field raw f v
            | MissingValue \<Rightarrow> merge_refuse ''invalid-merge-change'' (filter (\<lambda>i. i \<noteq> []) [or_empty (snd key)])))
        (\<lambda>written. Inr (AList.update key (written, coordinates @ [k]) docs)))"

definition merge_documents ::
  "merge_codec \<Rightarrow> graph_state \<Rightarrow> selection \<Rightarrow> merge_exn + documents" where
  "merge_documents K st selected =
     fold_r (write_coordinate K st) (sort_key (\<lambda>(k, _). coordinate_key k) selected) []"

end
