(* ===== verification/Answer_Properties.thy ===== *)
theory Answer_Properties
  imports Merge_Answers Review_Properties
begin

text \<open>
  What the answers of a merge can do: a field value enters the merge only from the plan or through
  the strict adapter of its field. A conflict over the ontology has no acceptable answer.
\<close>

section \<open>Typed answers\<close>

lemma map_sum_Inr: "map_sum id f m = Inr y \<Longrightarrow> \<exists>x. m = Inr x \<and> f x = y"
  by (cases m) auto

lemma list_all_update: "P (k, v) \<Longrightarrow> list_all P d \<Longrightarrow> list_all P (AList.update k v d)"
  by (induction d) auto

lemma list_all_filter: "list_all P d \<Longrightarrow> list_all P (filter Q d)"
  by (induction d) auto

text \<open>The field conflicts of a plan, on their own or in a group; the edges its incident conflicts own.\<close>

fun conflict_fields :: "merge_conflict \<Rightarrow> field_conflict list" where
  "conflict_fields (FieldConflict c) = [c]"
| "conflict_fields (NodeGroupConflict c) = nc_fields c"
| "conflict_fields _ = []"

fun owned_changes :: "merge_conflict \<Rightarrow> merge_change list" where
  "owned_changes (IncidentEdgeConflict c) = ic_incident_edges c"
| "owned_changes _ = []"

definition typed_entry ::
  "merge_codec \<Rightarrow> field_adapter \<Rightarrow> planning_context \<Rightarrow> field_conflict list \<Rightarrow> selection \<Rightarrow> coordinate \<times> merge_value \<Rightarrow> bool" where
  "typed_entry K V x fs planned = (\<lambda>(k, m). field_of k = None \<or> (k, m) \<in> set planned
     \<or> (\<exists>c \<in> set fs. \<exists>owner v. k = conflict_coordinate c \<and> m = PresentValue v \<and> owner_of x c = Some owner
          \<and> fc_field_name c \<in> set (owner_fields K owner) \<and> V owner (fc_field_name c) v))"

lemma select_field_typed:
  assumes "select_field K V x (c, a) s = Inr t" and "c \<in> set fs" and "list_all (typed_entry K V x fs planned) s"
  shows "list_all (typed_entry K V x fs planned) t"
proof -
  from assms(1) obtain v where v: "field_answer K V x c a = Inr v" "t = AList.update (conflict_coordinate c) v s"
    by (auto simp: select_field_def result_simps)
  from v(1) have "typed_entry K V x fs planned (conflict_coordinate c, v)"
    using assms(2) by (auto simp: field_answer_def answer_error_def typed_entry_def
        split: if_splits merge_value.splits option.splits)
  with assms(3) show ?thesis unfolding v(2) by (intro list_all_update)
qed

lemma select_presence_typed:
  assumes "list_all (typed_entry K V x fs planned) s"
  shows "list_all (typed_entry K V x fs planned) (select_presence c i choice surviving s)"
proof -
  have "typed_entry K V x fs planned ((c, Some i, None), v)" for v by (simp add: typed_entry_def)
  with assms show ?thesis unfolding select_presence_def by (intro list_all_filter list_all_update)
qed

lemma select_incident_typed:
  assumes "list_all (typed_entry K V x fs planned) s" and "mc_field_name e = None"
  shows "list_all (typed_entry K V x fs planned) (select_incident_edge choice side e s)"
proof -
  have new: "typed_entry K V x fs planned ((''edges'', mc_entity_id e, None), v)"
    "typed_entry K V x fs planned (change_coordinate e, v)" for v
    using assms(2) by (simp_all add: typed_entry_def change_coordinate_def)
  with assms(1) show ?thesis unfolding select_incident_edge_def
    by (cases "choice = Keep_removal") (simp_all add: list_all_filter list_all_update)
qed

lemma select_incidents_typed:
  "list_all (typed_entry K V x fs planned) u \<Longrightarrow> (\<And>e. e \<in> set es \<Longrightarrow> mc_field_name e = None) \<Longrightarrow>
   list_all (typed_entry K V x fs planned) (fold (select_incident_edge choice side) es u)"
  by (induction es arbitrary: u) (auto intro: select_incident_typed)

lemma resolve_conflict_typed:
  assumes "resolve_conflict K V x answers conflict s = Inr t" and "set (conflict_fields conflict) \<subseteq> set fs"
    and "\<And>e. e \<in> set (owned_changes conflict) \<Longrightarrow> mc_field_name e = None"
    and "list_all (typed_entry K V x fs planned) s"
  shows "list_all (typed_entry K V x fs planned) t"
proof -
  from assms(1) obtain a where a: "dict_get (an_answers answers) (conflict_id conflict) = Some a"
    and ok: "answer_allowed conflict a"
    by (auto simp: resolve_conflict_def answer_error_def split: option.splits if_splits)
  have run: "(case conflict of
           FieldConflict c \<Rightarrow> select_field K V x (c, a) s
         | NodeGroupConflict c \<Rightarrow> bind_r (group_nested c a) (\<lambda>nested.
             fold_r (select_group_field K V x c a nested) (nc_fields c) s)
         | PresenceConflict c \<Rightarrow> Inr (case a of
               PresenceAnswer choice \<Rightarrow> select_presence (pc_collection c) (pc_entity_id c) choice
                 (if pc_removed_on c = On_branch then pc_destination c else pc_branch c) s
             | _ \<Rightarrow> s)
         | IncidentEdgeConflict c \<Rightarrow> Inr (case a of
               PresenceAnswer choice \<Rightarrow>
                 fold (select_incident_edge choice (ic_removed_on c)) (ic_incident_edges c)
                   (select_presence ''nodes'' (ic_node_id c) choice
                     (if ic_removed_on c = On_branch then ic_destination c else ic_branch c) s)
             | _ \<Rightarrow> s)) = Inr t"
    using assms(1) ok by (simp add: resolve_conflict_def a)
  show ?thesis
  proof (cases conflict)
    case (FieldConflict c)
    then show ?thesis using run assms(2,4) by (auto intro: select_field_typed)
  next
    case (NodeGroupConflict c)
    with run obtain nested where fold: "fold_r (select_group_field K V x c a nested) (nc_fields c) s = Inr t"
      by (auto simp: result_simps)
    show ?thesis
    proof (rule fold_r_invariant [where P = "list_all (typed_entry K V x fs planned)", OF _ assms(4) fold])
      fix f u u'
      assume "f \<in> set (nc_fields c)" and "list_all (typed_entry K V x fs planned) u"
        and "select_group_field K V x c a nested f u = Inr u'"
      then show "list_all (typed_entry K V x fs planned) u'"
        using assms(2) NodeGroupConflict
        by (auto simp: select_group_field_def answer_error_def intro: select_field_typed split: option.splits)
    qed
  next
    case (PresenceConflict c)
    then show ?thesis using run assms(4) by (auto intro: select_presence_typed split: conflict_answer.splits)
  next
    case (IncidentEdgeConflict c)
    with ok obtain choice where choice: "a = PresenceAnswer choice" by (cases a) auto
    have "t = fold (select_incident_edge choice (ic_removed_on c)) (ic_incident_edges c)
        (select_presence ''nodes'' (ic_node_id c) choice
          (if ic_removed_on c = On_branch then ic_destination c else ic_branch c) s)"
      using run unfolding IncidentEdgeConflict choice by simp
    then show ?thesis using assms(3,4) IncidentEdgeConflict
      by (auto simp del: fold.simps intro!: select_incidents_typed select_presence_typed)
  qed
qed


text \<open>Branch and destination renamed a hypothesis; the answer merges the titles.\<close>

definition title_conflict :: field_conflict where
  "title_conflict = field_conflict_of (change_at brief_merge ''nodes'' (Some ''hyp/h1'') (Some ''title'')
     (PresentValue (VStr ''T'')) (PresentValue (VStr ''T1'')) (PresentValue (VStr ''T2'')))"

definition title_plan :: merge_plan where
  "title_plan = \<lparr>pn_context = sample_planning, pn_plan_id = [], pn_direct_changes = [],
     pn_conflicts = [FieldConflict title_conflict], pn_review_groups = []\<rparr>"

definition title_answers :: merge_answers where
  "title_answers = \<lparr>an_answers = [(fc_conflict_id title_conflict, MergedAnswer (VStr ''T1 and T2''))], an_cards = []\<rparr>"

definition only_text :: field_adapter where
  "only_text owner f v = (case v of VStr _ \<Rightarrow> True | _ \<Rightarrow> False)"

definition title_selection :: "merge_exn + selection" where
  "title_selection = resolved_changes brief_merge only_text title_plan title_answers"

lemma title_resolved:
  "map_sum id (\<lambda>s. map_of s (conflict_coordinate title_conflict)) title_selection = Inr (Some (PresentValue (VStr ''T1 and T2'')))"
  by code_simp


section \<open>The ontology\<close>

lemma fold_r_stops: "x \<in> set xs \<Longrightarrow> (\<And>s. \<exists>e. f x s = Inl e) \<Longrightarrow> \<exists>e. fold_r f xs s = Inl e"
proof (induction xs arbitrary: s)
  case (Cons y ys)
  then show ?case by (cases "f y s") (force, metis Cons.IH Cons.prems bind_r.simps fold_r.simps(2) Inl_Inr_False set_ConsD)
qed simp

text \<open>
  (C34) A conflict over the ontology can never be answered. The comparison reports it as a conflict
  over a field named ontology with three answers allowed, and the builder looks that field up among
  the fields of the ontology itself, which has none of that name: every answer is rejected.
\<close>

theorem ontology_conflict_unanswerable:
  assumes "FieldConflict (field_conflict_of (change_at K ''ontology'' None None b s d)) \<in> set (pn_conflicts plan)"
  shows "\<exists>e. resolved_changes K V plan answers = Inl e"
proof -
  let ?c = "field_conflict_of (change_at K ''ontology'' None None b s d)"
  have "\<exists>e. field_answer K V x ?c a = Inl e" for x a
    by (auto simp: field_answer_def answer_error_def owner_of_def owner_fields_def field_conflict_of_def change_at_def
        split: merge_value.split)
  then have "\<exists>e. resolve_conflict K V x answers (FieldConflict ?c) t = Inl e" for x t
    by (auto simp: resolve_conflict_def answer_error_def select_field_def split: option.split) (metis bind_r.simps(1))
  from fold_r_stops [where f = "resolve_conflict K V (pn_context plan) answers", OF assms this] show ?thesis
    by (auto simp: resolved_changes_def Let_def answer_error_def)
qed

definition vocabulary_conflict :: field_conflict where
  "vocabulary_conflict = field_conflict_of (change_at brief_merge ''ontology'' None None
     (PresentValue (VDict [])) (PresentValue (VDict [(''types'', VList [])])) (PresentValue (VDict [(''relations'', VList [])])))"

theorem ontology_conflict_unanswerable_witness:
  "fc_allowed_answer_kinds vocabulary_conflict = [Branch_answer, Destination_answer, Merged_answer]
   \<and> (\<exists>e. resolved_changes brief_merge only_text (title_plan\<lparr>pn_conflicts := [FieldConflict vocabulary_conflict]\<rparr>)
        \<lparr>an_answers = [(fc_conflict_id vocabulary_conflict, SideAnswer On_branch)], an_cards = []\<rparr> = Inl e)"
proof
  show "fc_allowed_answer_kinds vocabulary_conflict = [Branch_answer, Destination_answer, Merged_answer]"
    by code_simp
qed (rule ontology_conflict_unanswerable, simp add: vocabulary_conflict_def)

end
