(* ===== verification/Merge_Effects.thy ===== *)
theory Merge_Effects
  imports Merge_Answers Validation_Ops
begin

text \<open>
  Turning the documents of a merge into graph operations (\<open>construct_effects\<close> of
  \<open>runs/merge_patch.py\<close>). An operation is written as a document and read by the Pydantic adapter of
  graph operations, the parameter \<open>P\<close>. Documents are dumps of validated entities, so the fields
  read as text are text.
\<close>

section \<open>Diagnostics on answered subjects\<close>

fun conflict_subjects :: "merge_conflict \<Rightarrow> string option list" where
  "conflict_subjects (NodeGroupConflict c) = map Some (nc_node_ids c)"
| "conflict_subjects (IncidentEdgeConflict c) = [Some (ic_node_id c)]"
| "conflict_subjects (PresenceConflict c) = [Some (pc_entity_id c)]"
| "conflict_subjects (FieldConflict c) = [fc_entity_id c]"

definition reject_answer_effect :: "merge_plan \<Rightarrow> merge_diagnostic list \<Rightarrow> merge_exn" where
  "reject_answer_effect plan ds =
     (let nodes = concat (map mg_related_node_ids ds);
          hit = map conflict_id (filter (\<lambda>c. nodes = [] \<or> list_ex (\<lambda>i. i \<in> Some ` set nodes) (conflict_subjects c))
            (pn_conflicts plan))
      in if hit = [] then MergeRefused ds
         else MergeAnswersRejected (map (\<lambda>d. d\<lparr>mg_conflict_ids := hit\<rparr>) ds))"

section \<open>Reading documents\<close>

definition doc_get :: "val \<Rightarrow> string \<Rightarrow> merge_exn + val" where
  "doc_get v k = (case v of
     VDict d \<Rightarrow> merge_lift (dict_get_or_raise d k)
   | _ \<Rightarrow> Inl (Merge_error (TypeError ''not subscriptable'')))"

definition doc_text :: "val \<Rightarrow> string \<Rightarrow> merge_exn + string" where
  "doc_text v k = bind_r (doc_get v k) (\<lambda>w. case w of
     VStr s \<Rightarrow> Inr s | _ \<Rightarrow> Inl (Merge_error (TypeError ''not text'')))"

text \<open>The type of a node as the merged destination will have it.\<close>

definition merged_node_type :: "merge_plan \<Rightarrow> documents \<Rightarrow> string \<Rightarrow> merge_exn + string option" where
  "merged_node_type plan docs i = (case map_of docs (''nodes'', Some i) of
     Some (raw, _) \<Rightarrow> if raw = VNone then Inr None else bind_r (doc_text raw ''type'') (\<lambda>t. Inr (Some t))
   | None \<Rightarrow> Inr (map_option n_type (dict_get (g_nodes (pl_destination_graph (pn_context plan))) i)))"

definition evidence_edges :: "graph_state \<Rightarrow> string \<Rightarrow> string list" where
  "evidence_edges st h = map e_id (filter (\<lambda>e. e_target e = h
       \<and> e_relation e \<in> set (pt_belief_outcome_relations project_type_of)
       \<and> is_outcome project_type_of (map_option n_type (dict_get (g_nodes st) (e_source e))))
     (sort_key (\<lambda>e. (e_created_rev e, e_id e)) (map snd (g_edges st))))"

definition merged_evidence_edge ::
  "merge_codec \<Rightarrow> merge_plan \<Rightarrow> documents \<Rightarrow> string \<Rightarrow> string \<Rightarrow> merge_exn + bool" where
  "merged_evidence_edge K plan docs edge_id h =
     (let edge = (case map_of docs (''edges'', Some edge_id) of
          Some (raw, _) \<Rightarrow> raw
        | None \<Rightarrow> current_document K (pl_destination_graph (pn_context plan)) (''edges'', Some edge_id))
      in if edge = VNone then Inr False
         else bind_r (doc_text edge ''target'') (\<lambda>target.
           if target \<noteq> h then Inr False
           else bind_r (doc_text edge ''source'') (\<lambda>source.
             bind_r (merged_node_type plan docs source) (\<lambda>source_type.
             if source_type = None then Inr False
             else bind_r (doc_text edge ''relation'') (\<lambda>relation.
               Inr (relation \<in> set (pt_belief_outcome_relations project_type_of)
                 \<and> is_outcome project_type_of source_type))))))"

section \<open>The cause of a carried status\<close>

fun cause_document :: "belief_cause \<Rightarrow> val" where
  "cause_document (EvidenceEdgeCause r) = VDict [(''kind'', VStr ''evidence_edge''), (''ref_id'', VStr r)]"
| "cause_document (DecisionCause r) = VDict [(''kind'', VStr ''decision''), (''ref_id'', VStr r)]"
| "cause_document (ProposalResolutionCause r) =
     VDict [(''kind'', VStr ''proposal_resolution''), (''ref_id'', VStr r)]"
| "cause_document HumanEditCause = VDict [(''kind'', VStr ''human_edit'')]"

text \<open>The latest of the transitions, the later one in the log among equals.\<close>

fun latest_transition :: "belief_transition list \<Rightarrow> belief_transition option" where
  "latest_transition [] = None"
| "latest_transition (t # ts) = (case latest_transition ts of
     Some u \<Rightarrow> if bt_revision u \<ge> bt_revision t then Some u else Some t
   | None \<Rightarrow> Some t)"

definition status_proven :: "planning_context \<Rightarrow> string \<Rightarrow> val \<Rightarrow> int \<Rightarrow> bool" where
  "status_proven x i status r = list_ex (\<lambda>f. sf_revision f = r \<and> (case sf_operation f of
       ProposalStatusChangeOperation _ us \<Rightarrow>
         list_ex (\<lambda>u. nu_id u = i \<and> py_eq (VDict (nu_changes u)) (VDict [(''status'', status)])) us
     | _ \<Rightarrow> False)) (pl_source_human_facts x)"

definition status_cause ::
  "merge_codec \<Rightarrow> merge_plan \<Rightarrow> documents \<Rightarrow> string \<Rightarrow> val \<Rightarrow> merge_exn + val" where
  "status_cause K plan docs i status =
     (let x = pn_context plan;
          from_source = (case dict_get (g_nodes (pl_source_graph x)) i of
            None \<Rightarrow> False
          | Some n \<Rightarrow> py_eq (case node_attr n ''status'' of None \<Rightarrow> VNone | Some v \<Rightarrow> v) status);
          graph = (if from_source then pl_source_graph x else pl_destination_graph x)
      in case latest_transition (filter (\<lambda>t. bt_hypothesis_id t = i
              \<and> py_eq (case bt_to_status t of None \<Rightarrow> VNone | Some v \<Rightarrow> v) status) (g_belief_transitions graph)) of
        None \<Rightarrow> merge_refuse ''missing-status-cause'' [i]
      | Some t \<Rightarrow>
          if bt_cause t = HumanEditCause \<and> \<not> (from_source \<and> status_proven x i status (bt_revision t))
            then merge_refuse ''unproven-human-judgment'' [i]
          else (case bt_cause t of
              EvidenceEdgeCause r \<Rightarrow>
                if from_source
                then bind_r (map_r (\<lambda>e. bind_r (merged_evidence_edge K plan docs e i) (\<lambda>b. Inr (e, b)))
                       (evidence_edges graph i)) (\<lambda>judged.
                     let live = map fst (filter snd judged) in
                     Inr (cause_document (if r \<notin> set live \<and> live \<noteq> [] then EvidenceEdgeCause (last live)
                          else bt_cause t)))
                else Inr (cause_document (bt_cause t))
            | _ \<Rightarrow> Inr (cause_document (bt_cause t))))"

section \<open>Operation documents\<close>

type_synonym operation_adapter = "val \<Rightarrow> graph_operation result"

definition op_document :: "string \<Rightarrow> val dict \<Rightarrow> val" where
  "op_document name body = VDict ((''op'', VStr name) # body)"

definition merge_ops :: "operation_adapter \<Rightarrow> val list \<Rightarrow> merge_exn + graph_operation list" where
  "merge_ops P raw = (case map_r P raw of
     Inl _ \<Rightarrow> merge_refuse ''malformed-operation'' [] | Inr ops \<Rightarrow> Inr ops)"

definition set_standing_document :: "string \<Rightarrow> val \<Rightarrow> val" where
  "set_standing_document i standing = op_document ''set_standing'' [(''node_id'', VStr i), (''standing'', standing)]"

definition update_document :: "val dict \<Rightarrow> val" where
  "update_document update = op_document ''update_nodes'' [(''nodes'', VList [VDict update])]"

definition retirement_operation :: "string \<Rightarrow> val dict \<Rightarrow> merge_exn + val" where
  "retirement_operation i edge =
     (let explanation = get_default edge ''explanation'' (VStr []) in
      bind_r (doc_get (VDict edge) ''relation'') (\<lambda>relation.
      bind_r (doc_get (VDict edge) ''target'') (\<lambda>target.
      Inr (if relation = VStr ''supersedes''
        then op_document ''supersede_nodes'' [(''nodes'', VList [VDict [(''id'', VStr i),
               (''superseded_by'', target), (''explanation'', explanation)]])]
        else op_document ''merge_nodes'' [(''merges'', VList [VDict [(''duplicate'', VStr i),
               (''canonical'', target), (''explanation'', explanation)]])]))))"

section \<open>Effects\<close>

record merge_effect =
  ef_operations :: "graph_operation list"
  ef_coordinates :: "coordinate list"
  ef_restore_standing :: "graph_operation option"

type_synonym retirements = "(val dict \<times> coordinate list) dict"

record effects_state =
  es_creates :: "merge_effect list"
  es_edges :: "merge_effect list"
  es_updates :: "merge_effect list"
  es_other :: "merge_effect list"
  es_flags :: report
  es_semantic :: retirements

definition plain_effect :: "graph_operation list \<Rightarrow> coordinate list \<Rightarrow> merge_effect" where
  "plain_effect ops ks = \<lparr>ef_operations = ops, ef_coordinates = ks, ef_restore_standing = None\<rparr>"

text \<open>An edge that retires its source node belongs to the retirement of that node.\<close>

definition note_retirement ::
  "documents \<Rightarrow> (string \<times> string option) \<times> document \<Rightarrow> retirements \<Rightarrow> merge_exn + retirements" where
  "note_retirement docs = (\<lambda>((c, _), (raw, ks)) semantic.
     case raw of
       VDict edge \<Rightarrow>
         if c \<noteq> ''edges'' \<or> dict_get edge ''relation'' \<notin> {Some (VStr ''supersedes''), Some (VStr ''duplicate_of'')}
           then Inr semantic
         else bind_r (doc_text raw ''source'') (\<lambda>source.
           case map_of docs (''nodes'', Some source) of
             Some (VDict node, node_ks) \<Rightarrow>
               bind_r (doc_text (VDict node) ''type'') (\<lambda>t.
               Inr (if dict_get node (lifecycle_field project_type_of t) = Some (VStr ''superseded'')
                 then AList.update source (edge, ks @ node_ks) semantic else semantic))
           | _ \<Rightarrow> Inr semantic)
     | _ \<Rightarrow> Inr semantic)"

text \<open>Validation errors of a node are refusals; those of the readers before it are not caught.\<close>

definition strict_merge_node :: "node_adapter \<Rightarrow> val dict \<Rightarrow> string \<Rightarrow> merge_exn + project_node" where
  "strict_merge_node A d i = (case strict_project_node A d of
     Inr n \<Rightarrow> Inr n
   | Inl e \<Rightarrow>
       (case bind_r (case dict_get d ''standing'' of Some (VStr s) \<Rightarrow> bind_r (Standing s) (\<lambda>_. Inr d) | _ \<Rightarrow> Inr d) (\<lambda>d1.
             bind_r (rewrite_field (adapt_source_ref_datetimes (ad_parse_time A)) ''source_refs'' d1)
               (adapt_wire_node_datetimes (ad_parse_time A))) of
          Inl before \<Rightarrow> Inl (Merge_error before)
        | Inr _ \<Rightarrow> merge_refuse ''malformed-operation'' [i]))"

definition payload_document :: "merge_codec \<Rightarrow> project_node \<Rightarrow> val dict" where
  "payload_document K n = (let model = class_fields (n_type n) in
     filter (\<lambda>(k, _). k \<notin> set (graph_fields model (Some Engine) None None
         @ graph_fields model None (Some Replay_only) None))
       (dump_fields (mk_view K (O_node n))))"

definition lifecycle_default :: "string \<Rightarrow> val" where
  "lifecycle_default t = get_default (lifecycle_defaults t) (lifecycle_field project_type_of t) VNone"

text \<open>
  A node that is new to the destination: created as a proposed belief or an open choice, then
  brought to its state by operations that may need review.
\<close>

definition create_node_effects ::
  "node_adapter \<Rightarrow> merge_codec \<Rightarrow> operation_adapter \<Rightarrow> merge_plan \<Rightarrow> documents \<Rightarrow> string \<Rightarrow> val dict \<Rightarrow>
   coordinate list \<Rightarrow> effects_state \<Rightarrow> merge_exn + effects_state" where
  "create_node_effects A K P plan docs i d ks s =
     bind_r (strict_merge_node A d i) (\<lambda>node.
     let full = payload_document K node;
         standing = get_default full ''standing'' (VStr ''asserted'');
         status = (case node_attr node ''status'' of None \<Rightarrow> VNone | Some v \<Rightarrow> v);
         lifecycle = lifecycle_field project_type_of (n_type node);
         retired = (node_attr node lifecycle = Some (VStr ''superseded''));
         choice = (is_chooser project_type_of (Some (n_type node))
           \<and> node_attr node ''selected_option'' \<noteq> None \<and> node_attr node ''selected_option'' \<noteq> Some VNone);
         belief = is_belief project_type_of (Some (n_type node));
         raw1 = AList.delete ''standing'' full;
         raw2 = (if retired then AList.update lifecycle (lifecycle_default (n_type node)) raw1 else raw1);
         chosen = get_default raw2 ''selected_option'' VNone;
         raw3 = (if choice then AList.update ''status'' (VStr ''open'') (AList.delete ''selected_option'' raw2) else raw2);
         raw4 = (if belief then AList.update ''status'' (VStr ''proposed'') raw3 else raw3);
         semantic = (if retired \<and> dict_get (es_semantic s) i = None
           then AList.update i ([(''relation'', VStr ''supersedes''), (''target'', VNone)], ks) (es_semantic s)
           else es_semantic s);
         creation = [op_document ''create_nodes'' [(''nodes'', VList [VDict raw4])]]
           @ (if choice then [update_document [(''id'', VStr i),
                (''changes'', VDict [(''status'', VStr ''decided''), (''selected_option'', chosen)])]] else [])
           @ (if choice \<and> \<not> retired \<and> \<not> py_eq status (VStr ''decided'')
              then [update_document [(''id'', VStr i), (''changes'', VDict [(''status'', status)])]] else [])
           @ (if \<not> belief \<and> \<not> retired \<and> \<not> py_eq standing (VStr ''asserted'')
              then [set_standing_document i standing] else []);
         raised = (if (belief \<or> retired) \<and> \<not> py_eq standing (VStr ''asserted'')
           then [set_standing_document i standing] else [])
     in bind_r (merge_ops P creation) (\<lambda>ops.
        let s1 = s\<lparr>es_semantic := semantic, es_creates := es_creates s @ [plain_effect ops ks]\<rparr> in
        bind_r (if retired then (case dict_get semantic i of
              None \<Rightarrow> Inl (Merge_error (KeyError i))
            | Some (edge, combined) \<Rightarrow> bind_r (retirement_operation i edge) (\<lambda>op. Inr ([op], ks @ combined)))
          else if belief \<and> \<not> py_eq status (VStr ''proposed'')
            then bind_r (status_cause K plan docs i status) (\<lambda>cause. Inr ([update_document [(''id'', VStr i),
              (''changes'', VDict [(''status'', status)]), (''cause'', cause)]], ks))
          else Inr ([], ks)) (\<lambda>(review, covered).
        if review @ raised = [] then Inr s1
        else bind_r (merge_ops P (review @ raised)) (\<lambda>ops.
          Inr (s1\<lparr>es_updates := es_updates s1 @ [plain_effect ops covered]\<rparr>)))))"

definition changed_content :: "merge_codec \<Rightarrow> project_node \<Rightarrow> val \<Rightarrow> val \<Rightarrow> merge_exn + val dict" where
  "changed_content K n raw before =
     bind_r (map_r (\<lambda>f. bind_r (doc_get raw f) (\<lambda>v. bind_r (doc_get before f) (\<lambda>w. Inr (f, v, w))))
       (sorted_set (filter (\<lambda>f. f \<noteq> ''standing'') (content_fields (mk_view K (O_node n)))))) (\<lambda>read.
     Inr (map (\<lambda>(f, v, _). (f, v)) (filter (\<lambda>(_, v, w). \<not> py_eq v w) read)))"

definition update_node_effects ::
  "merge_codec \<Rightarrow> operation_adapter \<Rightarrow> merge_plan \<Rightarrow> documents \<Rightarrow> string \<Rightarrow> project_node \<Rightarrow> val \<Rightarrow> val \<Rightarrow>
   coordinate list \<Rightarrow> effects_state \<Rightarrow> merge_exn + effects_state" where
  "update_node_effects K P plan docs i n raw before ks s =
     bind_r (changed_content K n raw before) (\<lambda>changes0.
     let lifecycle = lifecycle_field project_type_of (n_type n);
         semantic = (if dict_get changes0 lifecycle = Some (VStr ''superseded'') \<and> dict_get (es_semantic s) i = None
           then AList.update i ([(''relation'', VStr ''supersedes''), (''target'', VNone), (''explanation'', VStr [])], ks)
                  (es_semantic s)
           else es_semantic s)
     in bind_r (case dict_get semantic i of
            None \<Rightarrow> Inr ([], changes0, ks)
          | Some (edge, combined) \<Rightarrow> bind_r (retirement_operation i edge) (\<lambda>op.
              Inr ([op], AList.delete lifecycle changes0, ks @ combined))) (\<lambda>(retirement, changes, covered).
        bind_r (if changes = [] then Inr []
          else if is_belief project_type_of (Some (n_type n)) \<and> dict_get changes ''status'' \<noteq> None
            then bind_r (status_cause K plan docs i (get_default changes ''status'' VNone)) (\<lambda>cause.
              Inr [update_document [(''id'', VStr i), (''changes'', VDict changes), (''cause'', cause)]])
          else Inr [update_document [(''id'', VStr i), (''changes'', VDict changes)]]) (\<lambda>update.
        bind_r (doc_get raw ''standing'') (\<lambda>standing.
        bind_r (doc_get before ''standing'') (\<lambda>stood.
        let moved = \<not> py_eq standing stood;
            operations = retirement @ update @ (if moved then [set_standing_document i standing] else [])
        in bind_r (if \<not> moved \<and> operations \<noteq> [] \<and> \<not> py_eq standing (VStr ''asserted'')
             then merge_ops P [set_standing_document i standing] else Inr []) (\<lambda>restoration.
           let s1 = s\<lparr>es_semantic := semantic\<rparr> in
           if operations = [] then Inr s1
           else bind_r (merge_ops P operations) (\<lambda>ops.
             Inr (s1\<lparr>es_updates := es_updates s1 @ [\<lparr>ef_operations = ops, ef_coordinates = covered,
               ef_restore_standing = (case restoration of [] \<Rightarrow> None | op # _ \<Rightarrow> Some op)\<rparr>]\<rparr>))))))))"

section \<open>Edges\<close>

definition NEW_EDGE_FIELDS :: "string list" where
  "NEW_EDGE_FIELDS = [''id'', ''source'', ''target'', ''relation'', ''explanation'', ''assessment'', ''expectation'']"

text \<open>A shape one side admitted is carried; one an answer assembled meets today's rules.\<close>

definition check_answered_edge_shape ::
  "merge_plan \<Rightarrow> documents \<Rightarrow> string \<Rightarrow> val dict \<Rightarrow> merge_exn + unit" where
  "check_answered_edge_shape plan docs i d =
     bind_r (doc_text (VDict d) ''source'') (\<lambda>source.
     bind_r (doc_text (VDict d) ''relation'') (\<lambda>relation.
     bind_r (doc_text (VDict d) ''target'') (\<lambda>target.
     let x = pn_context plan in
     if list_ex (\<lambda>g. case dict_get (g_edges g) i of None \<Rightarrow> False
          | Some e \<Rightarrow> (e_source e, e_relation e, e_target e) = (source, relation, target))
          [pl_source_graph x, pl_destination_graph x]
       then Inr ()
     else bind_r (merged_node_type plan docs source) (\<lambda>source_type.
       bind_r (merged_node_type plan docs target) (\<lambda>target_type.
       let refusals = edge_shape_refusals (g_ontology (pl_destination_graph x)) relation source_type target_type
       in if refusals = [] then Inr ()
          else Inl (reject_answer_effect plan (map (\<lambda>(code, _). merge_diagnostic_of code [i]) refusals)))))))"

definition edge_effects ::
  "operation_adapter \<Rightarrow> merge_plan \<Rightarrow> documents \<Rightarrow> string list \<Rightarrow> string \<Rightarrow> val \<Rightarrow> val \<Rightarrow> coordinate list \<Rightarrow>
   effects_state \<Rightarrow> merge_exn + effects_state" where
  "edge_effects P plan docs semantic_edges i raw before ks s =
     (if i \<in> set semantic_edges then Inr s
      else
        (let removal = (if before = VNone then []
               else [op_document ''remove_edges'' [(''edge_ids'', VList [VStr i])]])
         in bind_r (case raw of
              VDict d \<Rightarrow>
                (let given = filter (\<lambda>(k, _). k \<in> set NEW_EDGE_FIELDS) d in
                 bind_r (check_answered_edge_shape plan docs i given) (\<lambda>_.
                 Inr [op_document ''create_edges'' [(''edges'', VList [VDict given])]]))
            | VNone \<Rightarrow> Inr []
            | _ \<Rightarrow> Inl (Merge_error (AttributeError ''items''))) (\<lambda>creation.
            if removal @ creation = [] then Inr s
            else bind_r (merge_ops P (removal @ creation)) (\<lambda>ops.
              Inr (s\<lparr>es_edges := es_edges s @ [plain_effect ops ks]\<rparr>)))))"

section \<open>Other collections\<close>

text \<open>\<open>graph_fields(Proposal, proposal_owner="filing")\<close>\<close>

definition PROPOSAL_FILING_FIELDS :: "string list" where
  "PROPOSAL_FILING_FIELDS = [''related_node_ids'', ''related_edge_ids'', ''related_config_keys'',
     ''dependency_rule'', ''base_rev'', ''created_by'', ''created_by_operation_id'', ''raised_rev'']"

definition picked_fields :: "val \<Rightarrow> string list \<Rightarrow> merge_exn + val dict" where
  "picked_fields raw fs = map_r (\<lambda>k. bind_r (doc_get raw k) (\<lambda>v. Inr (k, v))) fs"

text \<open>The fields of a document that differ from those of another.\<close>

definition differing_fields :: "val dict \<Rightarrow> val \<Rightarrow> merge_exn + string list" where
  "differing_fields d before =
     bind_r (map_r (\<lambda>(k, v). bind_r (doc_get before k) (\<lambda>w. Inr (k, \<not> py_eq v w))) d) (\<lambda>judged.
     Inr (map fst (filter snd judged)))"

definition ambiguity_operations :: "string \<Rightarrow> val \<Rightarrow> val \<Rightarrow> merge_exn + val list" where
  "ambiguity_operations i raw before = (case raw of
     VDict d \<Rightarrow>
       if before = VNone
       then Inr [op_document ''create_ambiguities'' [(''ambiguities'',
              VList [VDict (filter (\<lambda>(k, _). k \<noteq> ''raised_rev'') d)])]]
       else bind_r (differing_fields d before) (\<lambda>fs.
         if set fs \<subseteq> {''status''}
         then bind_r (doc_get raw ''status'') (\<lambda>status. Inr [op_document ''resolve_ambiguities''
                [(''resolutions'', VList [VDict [(''id'', VStr i), (''status'', status)]])]])
         else merge_refuse ''unsupported-merge-effect'' [])
   | _ \<Rightarrow> merge_refuse ''unsupported-merge-effect'' [])"

definition proposal_operations ::
  "merge_codec \<Rightarrow> planning_context \<Rightarrow> string \<Rightarrow> val \<Rightarrow> val list \<times> report" where
  "proposal_operations K x i before = (case dict_get (g_proposals (pl_source_graph x)) i of
     None \<Rightarrow> ([], [])
   | Some q \<Rightarrow>
       if p_status q \<noteq> Pending \<or> before \<noteq> VNone then ([], [])
       else if proposal_is_stale (pl_source_graph x) q
         then ([], [report_message Flag ''stale-source-proposal'' None [i] []])
       else ([op_document ''create_proposals'' [(''proposals'', VList [VDict
           (filter (\<lambda>(k, _). k \<notin> set PROPOSAL_FILING_FIELDS) (dump_fields (mk_view K (O_proposal q))))])]], []))"

definition other_operations ::
  "merge_codec \<Rightarrow> planning_context \<Rightarrow> string \<Rightarrow> string option \<Rightarrow> val \<Rightarrow> val \<Rightarrow> merge_exn + val list \<times> report" where
  "other_operations K x c i raw before =
     (if c = ''proposals'' then Inr (proposal_operations K x (or_empty i) before)
      else if c = ''glossary'' then
        if raw = VNone then merge_refuse ''unsupported-merge-effect'' []
        else bind_r (picked_fields raw [''term'', ''plain_definition'', ''where_defined'']) (\<lambda>term.
          Inr ([op_document ''upsert_glossary'' [(''terms'', VList [VDict term])]], []))
      else if c = ''ambiguities'' then
        bind_r (ambiguity_operations (or_empty i) raw before) (\<lambda>ops. Inr (ops, []))
      else if c = ''ontology'' then Inr ([op_document ''set_ontology'' [(''ontology'', raw)]], [])
      else if c = ''project_truth_scope''
        then Inr ([op_document ''set_project_truth_scope'' [(''truth_scope'', raw)]], [])
      else Inr ([], []))"

section \<open>All effects\<close>

definition document_effects ::
  "node_adapter \<Rightarrow> merge_codec \<Rightarrow> operation_adapter \<Rightarrow> merge_plan \<Rightarrow> documents \<Rightarrow> string list \<Rightarrow>
   (string \<times> string option) \<times> document \<Rightarrow> effects_state \<Rightarrow> merge_exn + effects_state" where
  "document_effects A K P plan docs semantic_edges = (\<lambda>((c, i), (raw, ks)) s.
     let x = pn_context plan; before = current_document K (pl_destination_graph x) (c, i) in
     if py_eq raw before then Inr s
     else if c = ''nodes'' then (case i of
         None \<Rightarrow> Inl Merge_assertion
       | Some k \<Rightarrow> (case raw of
           VNone \<Rightarrow> bind_r (merge_ops P [op_document ''remove_nodes'' [(''node_ids'', VList [VStr k])]]) (\<lambda>ops.
             Inr (s\<lparr>es_updates := es_updates s @ [plain_effect ops ks]\<rparr>))
         | _ \<Rightarrow> (case dict_get (g_nodes (pl_destination_graph x)) k of
             None \<Rightarrow> (case raw of
                 VDict d \<Rightarrow> create_node_effects A K P plan docs k d ks s
               | _ \<Rightarrow> merge_refuse ''malformed-operation'' [k])
           | Some n \<Rightarrow> update_node_effects K P plan docs k n raw before ks s)))
     else if c = ''edges'' then (case i of
         None \<Rightarrow> Inl Merge_assertion
       | Some k \<Rightarrow> edge_effects P plan docs semantic_edges k raw before ks s)
     else if c = ''proposals'' \<and> i = None then Inl Merge_assertion
     else bind_r (other_operations K x c i raw before) (\<lambda>(operations, flags).
       let s1 = s\<lparr>es_flags := es_flags s @ flags\<rparr> in
       if operations = [] then Inr s1
       else bind_r (merge_ops P operations) (\<lambda>ops.
         Inr (s1\<lparr>es_other := es_other s1 @ [plain_effect ops ks]\<rparr>))))"

definition construct_effects ::
  "node_adapter \<Rightarrow> merge_codec \<Rightarrow> operation_adapter \<Rightarrow> merge_plan \<Rightarrow> selection \<Rightarrow>
   merge_exn + merge_effect list \<times> report" where
  "construct_effects A K P plan selected =
     bind_r (merge_documents K (pl_destination_graph (pn_context plan)) selected) (\<lambda>docs.
     bind_r (fold_r (note_retirement docs) docs []) (\<lambda>semantic.
     bind_r (map_r (\<lambda>(_, edge, _). doc_text (VDict edge) ''id'') semantic) (\<lambda>semantic_edges.
     bind_r (fold_r (document_effects A K P plan docs semantic_edges) docs
       \<lparr>es_creates = [], es_edges = [], es_updates = [], es_other = [], es_flags = [], es_semantic = semantic\<rparr>) (\<lambda>s.
     Inr (es_creates s @ es_edges s @ es_updates s @ es_other s, es_flags s)))))"

end
