(* ===== verification/Change_Classification.thy ===== *)
theory Change_Classification
  imports Validation_Patch Replay
begin

text \<open>
  Sorting a batch of direct changes into what applies now, what a Proposal can carry, what
  clashes and what is refused (\<open>classify_graph_changes\<close> and its helpers in \<open>core/authority.py\<close>).
  Encoding an operation as a Proposal operation validates its values again.
\<close>

definition REVIEWABLE_GRAPH_ACTIONS :: "graph_action list" where
  "REVIEWABLE_GRAPH_ACTIONS = [UPDATE_PROTECTED_EPISTEMIC, REMOVE_PROTECTED_EPISTEMIC,
     SUPERSEDE_PROTECTED_EPISTEMIC, MERGE_PROTECTED_EPISTEMIC, RESTRUCTURE_PROTECTED_EPISTEMIC]"

datatype disposition = Admitted | Reviewable | Clash | Refused

record change_classification =
  cc_operation_indices :: "nat list"
  cc_disposition :: disposition
  cc_review_operations :: "proposal_operation list"
  cc_diagnostics :: report

definition derived_agent_action :: "graph_state \<Rightarrow> patch \<Rightarrow> declared_action option" where
  "derived_agent_action st p =
     (if patch_has_decision_outcome st p then Some Decision_choice else None)"

definition classification_diagnostics :: "report \<Rightarrow> nat list \<Rightarrow> report" where
  "classification_diagnostics messages indices = map (\<lambda>m. case vm_operation_index m of
       None \<Rightarrow> m
     | Some i \<Rightarrow> if i < int (length indices)
         then m\<lparr>vm_operation_index := Some (int (indices ! nat i))\<rparr> else m) messages"

section \<open>Review operations\<close>

text \<open>The status of a belief is reviewed apart from its content, and keeps the stated cause.\<close>

definition review_update :: "graph_state \<Rightarrow> node_update \<Rightarrow> proposal_operation list" where
  "review_update st u = (case (dict_get (g_nodes st) (nu_id u), dict_get (nu_changes u) ''status'') of
     (Some n, Some v) \<Rightarrow>
       if is_belief project_type_of (Some (n_type n)) then
         (let content = AList.delete ''status'' (nu_changes u)
          in ProposalStatusChangeOperation False [u\<lparr>nu_changes := [(''status'', v)]\<rparr>]
             # (if content = [] then []
                else [ProposalContentChangeOperation False [\<lparr>nu_id = nu_id u, nu_changes = content,
                        nu_cause = None, nu_base_updated_rev = None\<rparr>]]))
       else [ProposalContentChangeOperation False [u]]
   | _ \<Rightarrow> [ProposalContentChangeOperation False [u]])"

fun review_operation :: "graph_state \<Rightarrow> graph_operation \<Rightarrow> proposal_operation list option" where
  "review_operation st (UpdateNodesOperation us) = Some (concat (map (review_update st) us))"
| "review_operation st (RemoveNodesOperation ids) =
     Some (map (\<lambda>i. ProposalRemovalOperation False [i]) ids)"
| "review_operation st (SupersedeNodesOperation ss) =
     Some (map (\<lambda>s. ProposalSupersedeOperation False [s]) ss)"
| "review_operation st (MergeNodesOperation ms) =
     Some (map (\<lambda>m. ProposalMergeOperation False [m]) ms)"
| "review_operation st (CreateEdgesOperation es) =
     Some (map (\<lambda>e. ProposalProtectedRelationOperation False
       \<lparr>px_op = Create_edges, px_edges = Some (Some [e]), px_edge_ids = None\<rparr>) es)"
| "review_operation st (RemoveEdgesOperation ids) =
     Some (map (\<lambda>i. ProposalProtectedRelationOperation False
       \<lparr>px_op = Remove_edges, px_edges = None, px_edge_ids = Some (Some [i])\<rparr>) ids)"
| "review_operation st (SetStandingOperation i s) = Some [ProposalStandingChangeOperation i s]"
| "review_operation st _ = None"

fun review_operations :: "graph_state \<Rightarrow> graph_operation list \<Rightarrow> proposal_operation list option" where
  "review_operations st [] = Some []"
| "review_operations st (op # ops) = (case (review_operation st op, review_operations st ops) of
     (Some xs, Some ys) \<Rightarrow> Some (xs @ ys) | _ \<Rightarrow> None)"

text \<open>
  The constraints of the models a review operation is validated against: a revision is not
  negative, a relation is an identifier, an assessment can be normalised.
\<close>

definition valid_assessment :: "evidence_assessment \<Rightarrow> bool" where
  "valid_assessment a =
     ((case ea_scope a of None \<Rightarrow> True | Some s \<Rightarrow> \<not> isl (normalize_scope (VStr s)))
      \<and> \<not> isl (normalize_qualifications (VList (map VStr (ea_qualifications a)))))"

definition valid_update :: "node_update \<Rightarrow> bool" where
  "valid_update u = (case nu_base_updated_rev u of None \<Rightarrow> True | Some r \<Rightarrow> 0 \<le> r)"

definition valid_new_edge :: "new_edge \<Rightarrow> bool" where
  "valid_new_edge e = (is_identifier (ne_relation e)
     \<and> (case ne_assessment e of None \<Rightarrow> True | Some a \<Rightarrow> valid_assessment a))"

fun valid_review_operation :: "proposal_operation \<Rightarrow> bool" where
  "valid_review_operation (ProposalContentChangeOperation _ us) = list_all valid_update us"
| "valid_review_operation (ProposalStatusChangeOperation _ us) = list_all valid_update us"
| "valid_review_operation (ProposalProtectedRelationOperation _ x) =
     (\<not> isl (require_matching_payload x)
      \<and> (case px_edges x of Some (Some es) \<Rightarrow> list_all valid_new_edge es | _ \<Rightarrow> True))"
| "valid_review_operation _ = True"

text \<open>The id of the Proposal that is tried; no pending Proposal has it.\<close>

function free_probe_id :: "string list \<Rightarrow> string \<Rightarrow> string" where
  "free_probe_id taken i = (if i \<in> set taken then free_probe_id taken (i @ ''-probe'') else i)"
  by pat_completeness auto

termination
proof (relation "measure (\<lambda>(taken, i). card {k \<in> set taken. length i \<le> length k})", simp)
  fix taken :: "string list" and i :: string
  assume "i \<in> set taken"
  then have "i \<in> {k \<in> set taken. length i \<le> length k} - {k \<in> set taken. length (i @ ''-probe'') \<le> length k}"
    by simp
  moreover have "{k \<in> set taken. length (i @ ''-probe'') \<le> length k} \<subseteq> {k \<in> set taken. length i \<le> length k}"
    by auto
  ultimately have "{k \<in> set taken. length (i @ ''-probe'') \<le> length k} \<subset> {k \<in> set taken. length i \<le> length k}"
    by blast
  then show "((taken, i @ ''-probe''), taken, i)
      \<in> measure (\<lambda>(taken, i). card {k \<in> set taken. length i \<le> length k})"
    by (simp add: psubset_card_mono)
qed

declare free_probe_id.simps [simp del]

definition review_probe :: "graph_state \<Rightarrow> proposal_operation list \<Rightarrow> proposal" where
  "review_probe st ops = \<lparr>p_id = free_probe_id (keys (g_proposals st)) ''proposal/core-change-classification'',
     p_title = ''Review change'', p_card = \<lparr>gc_situation_cold = [], gc_why_human_now = [],
       gc_consequences = [], gc_decision_needed = []\<rparr>,
     p_ops = ops, p_related_node_ids = [], p_related_edge_ids = [], p_related_config_keys = [],
     p_dependency_rule = 1, p_base_rev = 0, p_status = Pending, p_created_by = Some Agent,
     p_created_by_operation_id = None, p_raised_rev = 0, p_resolved_rev = None,
     p_resolved_by = None, p_resolved_by_operation_id = None, p_resolution_reason = None,
     p_rejection_reason = None\<rparr>"

section \<open>The authority a classification runs under\<close>

datatype change_authority = Live write_authority | Captured captured_change_authority

text \<open>A patch without its operations and its declared action; a dictionary is compared by key.\<close>

definition envelope_dump :: "patch \<Rightarrow> patch" where
  "envelope_dump p = p\<lparr>pa_ops := [], pa_agent_action := None,
     pa_processed_cursors := sort_key fst (pa_processed_cursors p)\<rparr>"

definition change_gate ::
  "graph_state \<Rightarrow> patch \<Rightarrow> change_authority \<Rightarrow> string option \<Rightarrow> graph_target_ref \<Rightarrow>
   authorized_human option \<Rightarrow> authority_exn + patch \<times> writer \<times> report" where
  "change_gate st p authority project_id apply_target authorized_by = (case authority of
     Captured c \<Rightarrow>
       if project_id \<noteq> ca_project_id c \<or> apply_target \<noteq> ca_apply_target c
          \<or> envelope_dump p \<noteq> envelope_dump (ca_patch_template c)
          \<or> pa_agent_action p \<noteq> derived_agent_action st p
          \<or> (authorized_by \<noteq> None \<and> authorized_by \<noteq> pa_authorized_by p)
         then Inl (Other_error (ValueError ''candidate does not match captured authority''))
       else Inr (p, writer_from_patch p, validate_permissions st p)
   | Live wa \<Rightarrow> admit wa st p project_id authorized_by apply_target)"

section \<open>One group\<close>

record classification_state =
  cl_admitted_ops :: "graph_operation list"
  cl_admitted_indices :: "nat list"
  cl_staged :: graph_state
  cl_results :: "change_classification list"

definition classified ::
  "nat list \<Rightarrow> disposition \<Rightarrow> proposal_operation list \<Rightarrow> report \<Rightarrow> classification_state \<Rightarrow>
   classification_state" where
  "classified grp d ops diagnostics s = s\<lparr>cl_results := cl_results s @ [\<lparr>cc_operation_indices = grp,
     cc_disposition = d, cc_review_operations = ops, cc_diagnostics = diagnostics\<rparr>]\<rparr>"

definition candidate_patch ::
  "graph_state \<Rightarrow> patch \<Rightarrow> bool \<Rightarrow> graph_operation list \<Rightarrow> patch" where
  "candidate_patch st p grouped ops =
     (let c = p\<lparr>pa_ops := ops\<rparr>
      in if grouped \<and> pa_author p = Some Agent then c\<lparr>pa_agent_action := derived_agent_action st c\<rparr>
         else c)"

definition reviewable_report :: "report \<Rightarrow> bool" where
  "reviewable_report r = list_all (\<lambda>m. vm_level m = Reject_level \<longrightarrow>
     vm_code m \<in> set REVIEWABLE_OPERATION_REFUSALS \<and> vm_rule_id m \<noteq> Some PROPOSAL_REPLAY_RULE_ID) r"

text \<open>Whether a Proposal of the review operations could be filed after the admitted changes.\<close>

definition review_report ::
  "node_adapter \<Rightarrow> digests \<Rightarrow> graph_state \<Rightarrow> patch \<Rightarrow> writer \<Rightarrow> validation_context \<Rightarrow> graph_operation list \<Rightarrow>
   proposal_operation list \<Rightarrow> report result" where
  "review_report A D st p w context admitted review_ops =
     (let prepared = prepare_patch_bookkeeping st
            (p\<lparr>pa_ops := admitted @ [CreateProposalsOperation [review_probe st review_ops]]\<rparr>);
          candidate = (if pa_author p = Some Agent
            then prepared\<lparr>pa_agent_action := derived_agent_action st prepared\<rparr> else prepared);
          permission = validate_permissions st candidate
      in if rejected permission then Inr permission
         else validate_patch A D st candidate context
                (Some (w\<lparr>w_agent_action := pa_agent_action candidate\<rparr>)) None None)"

definition classify_review ::
  "node_adapter \<Rightarrow> digests \<Rightarrow> graph_state \<Rightarrow> patch \<Rightarrow> writer \<Rightarrow> validation_context \<Rightarrow> nat list \<Rightarrow> report \<Rightarrow>
   classification_state \<Rightarrow> classification_state result" where
  "classify_review A D st p w context grp diagnostics s =
     (case review_operations (cl_staged s) (map (\<lambda>i. pa_ops p ! i) grp) of
        None \<Rightarrow> Inr (classified grp Refused [] diagnostics s)
      | Some review_ops \<Rightarrow>
          if \<not> list_all valid_review_operation review_ops
          then Inr (classified grp Refused []
                 [report_message Reject_level ''malformed-operation'' (patch_rev p) [] []] s)
          else bind_r (review_report A D st p w context (cl_admitted_ops s) review_ops) (\<lambda>r.
          if rejected r then (case grp of
              [] \<Rightarrow> Inl (IndexError ''tuple index out of range'')
            | i # _ \<Rightarrow> Inr (classified grp Refused []
                (classification_diagnostics r (cl_admitted_indices s @ [i])) s))
          else Inr (classified grp Reviewable review_ops diagnostics s)))"

definition classify_refusal ::
  "node_adapter \<Rightarrow> digests \<Rightarrow> graph_state \<Rightarrow> patch \<Rightarrow> writer \<Rightarrow> validation_context \<Rightarrow> nat list \<Rightarrow> bool \<Rightarrow>
   report \<Rightarrow> classification_state \<Rightarrow> classification_state result" where
  "classify_refusal A D st p w context grp reviewable diagnostics s =
     (if \<not> reviewable
        then Inr (classified grp (if is_coherence_clash diagnostics then Clash else Refused) []
               diagnostics s)
      else classify_review A D st p w context grp diagnostics s)"

text \<open>
  A group that passes both gates joins the admitted prefix and is staged on it. The permission
  gate refuses by action, validation by message code; either may leave the group reviewable.
\<close>

definition classify_group ::
  "node_adapter \<Rightarrow> digests \<Rightarrow> graph_state \<Rightarrow> patch \<Rightarrow> writer \<Rightarrow> validation_context \<Rightarrow> bool \<Rightarrow> nat list \<Rightarrow>
   classification_state \<Rightarrow> classification_state result" where
  "classify_group A D st p w context grouped grp s =
     (let ops = map (\<lambda>i. pa_ops p ! i) grp;
          indices = cl_admitted_indices s @ grp;
          candidate = candidate_patch st p grouped (cl_admitted_ops s @ ops);
          permission = validate_permissions st candidate;
          judge = classify_refusal A D st p w context grp
      in bind_r (map_r (refused_actions st candidate) ops) (\<lambda>refused.
         if rejected permission then
           judge (concat refused \<noteq> [] \<and> set (concat refused) \<subseteq> set REVIEWABLE_GRAPH_ACTIONS)
             (classification_diagnostics permission indices) s
         else
           bind_r (validate_patch A D st candidate context
               (Some (w\<lparr>w_agent_action := pa_agent_action candidate\<rparr>)) None None) (\<lambda>r.
           (let diagnostics = classification_diagnostics r indices in
            if rejected r then judge (reviewable_report r) diagnostics s
            else
              bind_r (apply_valid_patch A (cl_staged s) (candidate\<lparr>pa_ops := ops\<rparr>)) (\<lambda>staged.
                Inr ((classified grp Admitted [] diagnostics s)
                  \<lparr>cl_admitted_ops := cl_admitted_ops s @ ops,
                   cl_admitted_indices := indices, cl_staged := staged\<rparr>))))))"

section \<open>A batch\<close>

definition refuse_all :: "nat list list \<Rightarrow> report \<Rightarrow> change_classification list" where
  "refuse_all groups diagnostics = map (\<lambda>grp. \<lparr>cc_operation_indices = grp, cc_disposition = Refused,
     cc_review_operations = [], cc_diagnostics = diagnostics\<rparr>) groups"

definition grouping_error :: "patch \<Rightarrow> validation_context \<Rightarrow> nat list list option \<Rightarrow> string option" where
  "grouping_error p context operation_groups =
     (if (case operation_groups of None \<Rightarrow> False | Some groups \<Rightarrow> [] \<in> set groups)
        then Some ''operation_groups cannot contain empty groups''
      else if (case operation_groups of None \<Rightarrow> False
               | Some groups \<Rightarrow> concat groups \<noteq> [0..<length (pa_ops p)])
        then Some ''operation_groups must partition Patch operations in written order''
      else if vc_mode context \<noteq> Admission
        then Some ''change classification requires admission validation''
      else None)"

definition classify_graph_changes ::
  "node_adapter \<Rightarrow> digests \<Rightarrow> graph_state \<Rightarrow> patch \<Rightarrow> change_authority \<Rightarrow> string option \<Rightarrow> graph_target_ref \<Rightarrow>
   validation_context \<Rightarrow> authorized_human option \<Rightarrow> nat list list option \<Rightarrow>
   change_classification list result" where
  "classify_graph_changes A D st p authority project_id apply_target context authorized_by operation_groups =
     (let groups = (case operation_groups of None \<Rightarrow> [[0..<length (pa_ops p)]] | Some gs \<Rightarrow> gs) in
      case grouping_error p context operation_groups of
        Some e \<Rightarrow> Inl (ValueError e)
      | None \<Rightarrow>
          (case change_gate st p authority project_id apply_target authorized_by of
             Inl (AuthorityRefusal diagnostics) \<Rightarrow> Inr (refuse_all groups diagnostics)
           | Inl (Other_error e) \<Rightarrow>
               if caught e then Inr (refuse_all groups
                 [report_message Reject_level ''write-authority-refused'' (patch_rev p) [] []])
               else Inl e
           | Inr (q, w, admission) \<Rightarrow>
               (let refusals = filter (\<lambda>m. vm_level m = Reject_level
                      \<and> vm_code m \<noteq> ''graph-action-refused'') admission
                in if refusals \<noteq> [] then Inr (refuse_all groups refusals)
                   else
                     bind_r (fold_r (classify_group A D st q w context (operation_groups \<noteq> None)) groups
                       \<lparr>cl_admitted_ops = [], cl_admitted_indices = [], cl_staged = st, cl_results = []\<rparr>)
                     (\<lambda>s. Inr (cl_results s)))))"

end
