(* ===== verification/Merge_Groups.thy ===== *)
theory Merge_Groups
  imports Merge_Effects Change_Classification
begin

text \<open>
  The review groups of a merge (\<open>runs/merge_plan.py\<close>): changes that need review are joined when the
  effect of one reaches the dependencies of another, and pending reviews of earlier merges that
  the new work touches join them. SHA-256 of canonical JSON is the parameter \<open>G\<close>
  (\<open>merge_digests\<close>).
\<close>

section \<open>Digests and drafts\<close>

datatype effect_value = Entity_effect merge_value | Incident_effect "string list"

record merge_digests =
  dg_plan :: "merge_plan \<Rightarrow> string"
  dg_subjects :: "(string \<times> string option) list \<Rightarrow> string"
  dg_effects :: "proposal_operation list \<Rightarrow> (proposal_resource \<times> effect_value) list \<Rightarrow> string"
  dg_open_effects :: "merge_change list \<Rightarrow> proposal_operation list \<Rightarrow> string"
  dg_node_group :: "string list \<Rightarrow> string"
  dg_review :: "graph_head_ref \<Rightarrow> graph_target_ref \<Rightarrow> string \<Rightarrow> proposal_operation list \<Rightarrow> string"

definition plan_identity :: "merge_digests \<Rightarrow> merge_plan \<Rightarrow> string" where
  "plan_identity G plan = dg_plan G (plan\<lparr>pn_plan_id := []\<rparr>)"

text \<open>\<open>MergePlan(**context, ...)\<close> with its validators.\<close>

definition require_bound_plan :: "merge_digests \<Rightarrow> merge_plan \<Rightarrow> merge_plan result" where
  "require_bound_plan G plan =
     (if \<not> distinct (map conflict_id (pn_conflicts plan)) \<or> \<not> distinct (map rg_subject_key (pn_review_groups plan))
        then Inl (ValueError ''conflict ids and review subject keys must be unique'')
      else if pn_plan_id plan \<noteq> [] \<and> pn_plan_id plan \<noteq> plan_identity G plan
        then Inl (ValueError ''merge plan identity does not match its content'')
      else Inr (plan\<lparr>pn_plan_id := plan_identity G plan\<rparr>))"

definition new_plan ::
  "merge_digests \<Rightarrow> planning_context \<Rightarrow> merge_change list \<Rightarrow> merge_conflict list \<Rightarrow> review_group list \<Rightarrow>
   merge_exn + merge_plan" where
  "new_plan G x direct conflicts groups =
     merge_lift (bind_r (require_bound_inputs x) (\<lambda>x.
       require_bound_plan G \<lparr>pn_context = x, pn_plan_id = [], pn_direct_changes = direct,
         pn_conflicts = conflicts, pn_review_groups = groups\<rparr>))"

definition merge_draft :: "proposal_operation list \<Rightarrow> proposal" where
  "merge_draft ops = \<lparr>p_id = ''proposal/merge-plan-probe'', p_title = ''Merge review'',
     p_card = \<lparr>gc_situation_cold = [], gc_why_human_now = [], gc_consequences = [], gc_decision_needed = []\<rparr>,
     p_ops = ops, p_related_node_ids = [], p_related_edge_ids = [], p_related_config_keys = [],
     p_dependency_rule = proposal_filing_dependency_rule (length ops) True, p_base_rev = 0,
     p_status = Pending, p_created_by = None, p_created_by_operation_id = None, p_raised_rev = 0,
     p_resolved_rev = None, p_resolved_by = None, p_resolved_by_operation_id = None,
     p_resolution_reason = None, p_rejection_reason = None\<rparr>"

definition merge_footprint ::
  "node_adapter \<Rightarrow> digests \<Rightarrow> graph_state \<Rightarrow> proposal \<Rightarrow> merge_exn + proposal_footprint" where
  "merge_footprint A D st q = (case proposal_dependencies_and_effects A D st q of
     Inl (ProposalEffectRejected r) \<Rightarrow> Inl (Effect_rejected r) | Inr f \<Rightarrow> Inr f)"

section \<open>Review groups\<close>

record review_candidate =
  rc_changes :: "merge_change list"
  rc_operations :: "proposal_operation list"
  rc_replaces_proposal_ids :: "string list"
  rc_carried_proposal_ids :: "string list"

record candidate_group =
  cg_changes :: "merge_change list"
  cg_operations :: "graph_operation list"

definition changes_by_id :: "merge_change list \<Rightarrow> merge_change list" where
  "changes_by_id cs = map snd (fold (\<lambda>c. AList.update (mc_change_id c) c) cs [])"

fun resource_key :: "proposal_resource \<Rightarrow> string \<times> string" where
  "resource_key (Node_resource i) = (''node'', i)"
| "resource_key (Edge_resource i) = (''edge'', i)"
| "resource_key (Config_resource i) = (''config'', i)"
| "resource_key (Incident_resource i) = (''incident_edges'', i)"

fun resource_value :: "merge_codec \<Rightarrow> graph_state \<Rightarrow> proposal_resource \<Rightarrow> effect_value" where
  "resource_value K st (Node_resource i) =
     Entity_effect (merge_value_of K (map_option O_node (dict_get (g_nodes st) i)))"
| "resource_value K st (Edge_resource i) = Entity_effect (edge_value K st i)"
| "resource_value K st (Incident_resource i) =
     Incident_effect (sort (map e_id (filter (\<lambda>e. i \<in> {e_source e, e_target e}) (map snd (g_edges st)))))"
| "resource_value K st (Config_resource i) = Entity_effect (global_value K st i)"

definition effect_digest ::
  "node_adapter \<Rightarrow> digests \<Rightarrow> merge_codec \<Rightarrow> merge_digests \<Rightarrow> graph_state \<Rightarrow> proposal_operation list \<Rightarrow>
   proposal_footprint \<Rightarrow> merge_exn + string" where
  "effect_digest A D K G st ops f =
     (let draft = merge_draft ops in
      bind_r (merge_lift (proposal_approval_operations st draft None)) (\<lambda>approval.
      bind_r (merge_lift (prepare_validated A D DEFAULT_MAX_RULE_FIRINGS (put_proposal draft st)
        [synthetic_approval (g_revision st + 1) approval None] None)) (\<lambda>(_, after).
      Inr (dg_effects G ops (map (\<lambda>r. (r, resource_value K after r))
        (sort_key resource_key (remdups (fp_effects f))))))))"

definition candidate_operations :: "review_candidate list \<Rightarrow> proposal_operation list" where
  "candidate_operations component = concat (map rc_operations component)"

definition review_group_of ::
  "node_adapter \<Rightarrow> digests \<Rightarrow> merge_codec \<Rightarrow> merge_digests \<Rightarrow> graph_state \<Rightarrow>
   review_candidate list \<times> proposal_footprint \<Rightarrow> merge_exn + review_group" where
  "review_group_of A D K G st = (\<lambda>(component, f).
     let changes = sort_key coordinate_order (changes_by_id (concat (map rc_changes component)));
         subjects = sort_key (\<lambda>(c, i). (c, or_empty i)) (remdups (map merge_subject changes))
     in bind_r (effect_digest A D K G st (candidate_operations component) f) (\<lambda>digest.
        if changes = [] then Inl (Merge_error (ValueError ''changes''))
        else Inr \<lparr>rg_subject_key = dg_subjects G subjects, rg_changes = changes, rg_footprint = f,
          rg_effect_digest = digest,
          rg_replaces_proposal_ids = sorted_set (concat (map rc_replaces_proposal_ids component)),
          rg_carried_proposal_ids = sorted_set (concat (map rc_carried_proposal_ids component))\<rparr>))"

definition group_reviews ::
  "node_adapter \<Rightarrow> digests \<Rightarrow> merge_codec \<Rightarrow> merge_digests \<Rightarrow> graph_state \<Rightarrow> review_candidate list \<Rightarrow>
   merge_exn + review_group list" where
  "group_reviews A D K G st candidates =
     bind_r (merge_lift (connected_proposal_groups A D st (map (merge_draft \<circ> rc_operations) candidates)
       (Some (map rc_replaces_proposal_ids candidates)))) (\<lambda>memberships.
     let components = map (map (\<lambda>i. candidates ! i)) memberships in
     bind_r (map_r (\<lambda>c. merge_footprint A D st (merge_draft (candidate_operations c))) components) (\<lambda>footprints.
     bind_r (map_r (review_group_of A D K G st) (zip components footprints)) (\<lambda>groups.
     Inr (sort_key rg_subject_key groups))))"

section \<open>Pending reviews the new work touches\<close>

definition pending_filing :: "planning_context \<Rightarrow> proposal_operation list \<Rightarrow> proposal" where
  "pending_filing x ops =
     (let p = (synthetic_approval (gh_revision (pl_destination_head x))
            [CreateProposalsOperation [merge_draft ops]] None)\<lparr>pa_kind := Work,
              pa_created_at := pa_created_at (ca_patch_template (pl_captured_authority x))\<rparr>
      in case pa_ops (prepare_patch_bookkeeping (pl_destination_graph x) p) of
           CreateProposalsOperation (q # _) # _ \<Rightarrow> q | _ \<Rightarrow> merge_draft ops)"

definition interferes ::
  "node_adapter \<Rightarrow> digests \<Rightarrow> planning_context \<Rightarrow> graph_state \<Rightarrow> review_group list \<Rightarrow> prior_review \<Rightarrow>
   merge_exn + bool" where
  "interferes A D x st groups r =
     (let ops = p_ops (pv_proposal r) in
      bind_r (merge_footprint A D (pl_destination_graph x) (merge_draft ops)) (\<lambda>f.
      Inr (proposal_is_stale st (pending_filing x ops) \<or> list_ex (\<lambda>g. coupled f (rg_footprint g)) groups)))"

fun first_interfering ::
  "(prior_review \<Rightarrow> merge_exn + bool) \<Rightarrow> prior_review list \<Rightarrow> merge_exn + prior_review option" where
  "first_interfering f [] = Inr None"
| "first_interfering f (r # rs) = bind_r (f r) (\<lambda>hit. if hit then Inr (Some r) else first_interfering f rs)"

lemma first_interfering_in [dest]: "first_interfering f rs = Inr (Some r) \<Longrightarrow> r \<in> set rs"
  by (induction rs) (auto simp: result_simps split: if_splits)

function connect_pending ::
  "node_adapter \<Rightarrow> digests \<Rightarrow> merge_codec \<Rightarrow> merge_digests \<Rightarrow> planning_context \<Rightarrow> graph_state \<Rightarrow>
   review_candidate list \<Rightarrow> prior_review list \<Rightarrow> merge_exn + review_group list" where
  "connect_pending A D K G x st reviews remaining =
     bind_r (group_reviews A D K G st reviews) (\<lambda>groups.
     bind_r (first_interfering (interferes A D x st groups) remaining) (\<lambda>hit.
     case hit of
       None \<Rightarrow> Inr groups
     | Some r \<Rightarrow> connect_pending A D K G x st
         (if pv_outstanding r = [] then reviews
          else reviews @ [\<lparr>rc_changes = pv_outstanding r, rc_operations = p_ops (pv_proposal r),
            rc_replaces_proposal_ids = [p_id (pv_proposal r)], rc_carried_proposal_ids = []\<rparr>])
         (remove1 r remaining)))"
  by pat_completeness auto

termination
proof (relation "measure (\<lambda>(_, _, _, _, _, _, _, remaining). length remaining)", simp)
  fix A D K G x st reviews groups hit r and remaining :: "prior_review list"
  assume "first_interfering (interferes A D x st groups) remaining = Inr hit" and "hit = Some r"
  then have "r \<in> set remaining" by blast
  then have "length (remove1 r remaining) < length remaining"
    using length_pos_if_in_set [of r remaining] by (simp add: length_remove1)
  then show "((A, D, K, G, x, st, if pv_outstanding r = [] then reviews
          else reviews @ [\<lparr>rc_changes = pv_outstanding r, rc_operations = p_ops (pv_proposal r),
            rc_replaces_proposal_ids = [p_id (pv_proposal r)], rc_carried_proposal_ids = []\<rparr>], remove1 r remaining),
        A, D, K, G, x, st, reviews, remaining)
      \<in> measure (\<lambda>(_, _, _, _, _, _, _, remaining). length remaining)"
    by simp
qed

declare connect_pending.simps [simp del]

definition connected_pending_reviews ::
  "node_adapter \<Rightarrow> digests \<Rightarrow> merge_codec \<Rightarrow> merge_digests \<Rightarrow> planning_context \<Rightarrow> graph_state \<Rightarrow>
   review_candidate list \<Rightarrow> merge_exn + review_group list" where
  "connected_pending_reviews A D K G x st reviews =
     (let included = concat (map rc_replaces_proposal_ids reviews) in
      connect_pending A D K G x st reviews
        (filter (\<lambda>r. p_id (pv_proposal r) \<notin> set included) (pending_reviews x)))"

end
