(* ===== verification/Merge_Plan.thy ===== *)
theory Merge_Plan
  imports Merge_Groups
begin

text \<open>
  Planning a merge (\<open>runs/merge_plan.py\<close>): the changes are encoded as operations, the core
  classifies each candidate on top of the admitted ones, and what it does not admit becomes a
  review. A clash between nodes becomes one conflict over them, and planning starts again; a node
  is in at most one such conflict, so that it ends.
\<close>

section \<open>Candidates\<close>

type_synonym by_coordinate = "(coordinate \<times> merge_change) list"

definition coordinate_changes :: "merge_change list \<Rightarrow> merge_conflict list \<Rightarrow> by_coordinate" where
  "coordinate_changes changes conflicts =
     fold (\<lambda>c. AList.update (change_coordinate c) c)
       (changes @ concat (map (\<lambda>conflict. case conflict of
            IncidentEdgeConflict c \<Rightarrow> if ic_removed_on c = On_destination then ic_incident_edges c else []
          | _ \<Rightarrow> []) conflicts)) []"

definition effect_candidate :: "by_coordinate \<Rightarrow> merge_effect \<Rightarrow> merge_exn + candidate_group" where
  "effect_candidate d e =
     bind_r (map_r (\<lambda>k. case map_of d k of None \<Rightarrow> Inl (Merge_error (KeyError (fst k))) | Some c \<Rightarrow> Inr c)
       (sort_key coordinate_key (remdups (ef_coordinates e)))) (\<lambda>changes.
     Inr \<lparr>cg_changes = changes, cg_operations = ef_operations e\<rparr>)"

fun op_creates :: "graph_operation \<Rightarrow> string list" where
  "op_creates (CreateNodesOperation ns) = map (n_id \<circ> np_node) ns"
| "op_creates _ = []"

text \<open>A creation and the edges that connect it are one candidate.\<close>

fun creation_operation :: "string list \<Rightarrow> graph_operation \<Rightarrow> bool" where
  "creation_operation created (CreateNodesOperation _) = True"
| "creation_operation created (CreateEdgesOperation es) =
     list_ex (\<lambda>e. ne_source e \<in> set created \<or> ne_target e \<in> set created) es"
| "creation_operation created _ = False"

definition join_creation :: "candidate_group list \<Rightarrow> candidate_group list" where
  "join_creation candidates =
     (let created = concat (map op_creates (concat (map cg_operations candidates)));
          creates = (\<lambda>c. list_ex (creation_operation created) (cg_operations c));
          creation = filter creates candidates
      in if creation = [] then candidates
         else \<lparr>cg_changes = changes_by_id (concat (map cg_changes creation)),
               cg_operations = concat (map cg_operations creation)\<rparr> # filter (\<lambda>c. \<not> creates c) candidates)"

definition encode_candidates ::
  "node_adapter \<Rightarrow> merge_codec \<Rightarrow> merge_digests \<Rightarrow> operation_adapter \<Rightarrow> planning_context \<Rightarrow> merge_change list \<Rightarrow>
   merge_conflict list \<Rightarrow> merge_exn + candidate_group list" where
  "encode_candidates A K G P x changes conflicts =
     (let d = coordinate_changes changes conflicts in
      bind_r (new_plan G x changes conflicts []) (\<lambda>provisional.
      bind_r (construct_effects A K P provisional (map (\<lambda>(k, c). (k, mc_branch c)) d)) (\<lambda>(effects, _).
      bind_r (map_r (effect_candidate d) effects) (\<lambda>candidates.
      let encoded = map mc_change_id (concat (map cg_changes candidates));
          unencoded = filter (\<lambda>c. mc_change_id c \<notin> set encoded) (map snd d)
      in if list_ex (\<lambda>c. \<not> merge_eq (mc_branch c) (mc_destination c)) unencoded
         then merge_refuse ''unencoded-merge-change'' (sorted_set (List.map_filter (\<lambda>c.
           if mc_collection c = ''nodes'' \<and> mc_entity_id c \<noteq> Some [] then mc_entity_id c else None) unencoded))
         else Inr (join_creation (candidates @
           (if unencoded = [] then [] else [\<lparr>cg_changes = unencoded, cg_operations = []\<rparr>])))))))"

section \<open>Routing\<close>

definition conflicted_ids :: "merge_conflict list \<Rightarrow> string list" where
  "conflicted_ids conflicts = concat (map (\<lambda>conflict. conflict_id conflict # (case conflict of
       IncidentEdgeConflict c \<Rightarrow> map mc_change_id (ic_incident_edges c)
     | NodeGroupConflict c \<Rightarrow> map fc_conflict_id (nc_fields c)
     | _ \<Rightarrow> [])) conflicts)"

definition merge_diagnostics :: "report \<Rightarrow> merge_diagnostic list" where
  "merge_diagnostics r = map (\<lambda>m. merge_diagnostic_of (vm_code m) (vm_related_node_ids m)) r"

definition merge_context :: "planning_context \<Rightarrow> validation_context" where
  "merge_context x = \<lparr>vc_project_truth_scope = g_project_truth_scope (pl_destination_graph x),
     vc_repository_aliases = None, vc_machine_aliases = None, vc_state_repository = None,
     vc_mode = Admission, vc_merge_source = Some (pl_source_graph x)\<rparr>"

fun group_indices :: "nat \<Rightarrow> 'a list list \<Rightarrow> nat list list" where
  "group_indices n [] = []"
| "group_indices n (g # gs) = [n..<n + length g] # group_indices (n + length g) gs"

text \<open>The captured template with operations and the action they imply.\<close>

definition merge_template :: "planning_context \<Rightarrow> graph_operation list \<Rightarrow> patch" where
  "merge_template x ops =
     (let p = (ca_patch_template (pl_captured_authority x))\<lparr>pa_ops := ops\<rparr>
      in p\<lparr>pa_agent_action := derived_agent_action (pl_destination_graph x) p\<rparr>)"

definition classify_merge ::
  "node_adapter \<Rightarrow> digests \<Rightarrow> planning_context \<Rightarrow> authorized_human option \<Rightarrow> graph_operation list list \<Rightarrow>
   merge_exn + change_classification list" where
  "classify_merge A D x authorized_by groups =
     (let captured = pl_captured_authority x; st = pl_destination_graph x in
      merge_lift (classify_graph_changes A D st (prepare_patch_bookkeeping st (merge_template x (concat groups)))
        (Captured captured) (ca_project_id captured) (gh_target (pl_destination_head x)) (merge_context x)
        authorized_by (Some (group_indices 0 groups))))"

record routing =
  ro_direct :: "merge_change list"
  ro_reviews :: "review_candidate list"
  ro_admitted :: "graph_operation list"
  ro_carried :: "review_candidate list"

definition withdrawn_reviews :: "merge_change list \<Rightarrow> string list \<Rightarrow> review_candidate list" where
  "withdrawn_reviews changes predecessors = (if predecessors = [] then []
     else [\<lparr>rc_changes = changes, rc_operations = [], rc_replaces_proposal_ids = predecessors,
            rc_carried_proposal_ids = []\<rparr>])"

definition carried_reviews :: "candidate_group \<Rightarrow> review_candidate list" where
  "carried_reviews c = concat (map (\<lambda>op. case op of
     CreateProposalsOperation qs \<Rightarrow> map (\<lambda>q.
       \<lparr>rc_changes = filter (\<lambda>ch. mc_collection ch = ''proposals'' \<and> mc_entity_id ch = Some (p_id q)) (cg_changes c),
        rc_operations = p_ops q, rc_replaces_proposal_ids = [], rc_carried_proposal_ids = [p_id q]\<rparr>) qs
   | _ \<Rightarrow> []) (cg_operations c))"

definition route_candidate ::
  "node_adapter \<Rightarrow> digests \<Rightarrow> planning_context \<Rightarrow> string list \<Rightarrow> candidate_group \<Rightarrow> routing \<Rightarrow> merge_exn + routing" where
  "route_candidate A D x conflicted c s =
     (let subjects = merge_subject ` set (cg_changes c);
          predecessors = map (p_id \<circ> pv_proposal) (filter (\<lambda>r.
            subjects \<inter> merge_subject ` set (pv_outstanding r) \<noteq> {}) (pending_reviews x))
      in if cg_operations c = [] then
           if list_ex (\<lambda>ch. \<not> merge_eq (mc_branch ch) (mc_destination ch)) (cg_changes c)
             then Inl (Merge_error (ValueError ''a nonempty effect must encode at least one operation''))
           else Inr (s\<lparr>ro_reviews := ro_reviews s @ withdrawn_reviews (cg_changes c) predecessors\<rparr>)
         else
           bind_r (classify_merge A D x (Some (pl_authorized_by x))
             ((if ro_admitted s = [] then [] else [ro_admitted s]) @ [cg_operations c])) (\<lambda>results.
           let result = (case find (\<lambda>r. cc_disposition r = Refused) results of Some r \<Rightarrow> r | None \<Rightarrow> last results)
           in case cc_disposition result of
             Admitted \<Rightarrow> Inr (s\<lparr>ro_direct := ro_direct s @
                   filter (\<lambda>ch. mc_change_id ch \<notin> set conflicted) (cg_changes c),
                 ro_admitted := ro_admitted s @ cg_operations c,
                 ro_carried := ro_carried s @ carried_reviews c,
                 ro_reviews := ro_reviews s @ withdrawn_reviews (cg_changes c) predecessors\<rparr>)
           | Reviewable \<Rightarrow> Inr (s\<lparr>ro_reviews := ro_reviews s @ [\<lparr>rc_changes = cg_changes c,
                 rc_operations = cc_review_operations result, rc_replaces_proposal_ids = predecessors,
                 rc_carried_proposal_ids = []\<rparr>]\<rparr>)
           | Clash \<Rightarrow> (let ds = merge_diagnostics (cc_diagnostics result);
                 nodes = sorted_set (concat (map mg_related_node_ids ds)) in
               if nodes = [] \<or> ds = [] then Inl (Merge_error (ValueError ''node_ids''))
               else Inl (MergeHiddenClash nodes ds))
           | Refused \<Rightarrow> Inl (MergeRefused (merge_diagnostics (cc_diagnostics result)))))"

definition routed_graph ::
  "node_adapter \<Rightarrow> digests \<Rightarrow> planning_context \<Rightarrow> graph_operation list \<Rightarrow> merge_exn + graph_state" where
  "routed_graph A D x admitted =
     (if admitted = [] then Inr (pl_destination_graph x)
      else bind_r (merge_lift (prepare_validated A D DEFAULT_MAX_RULE_FIRINGS (pl_destination_graph x)
        [(merge_template x admitted)\<lparr>pa_revision := gh_revision (pl_destination_head x) + 1\<rparr>]
        (Some (pl_destination_head x)))) (\<lambda>(_, graph). Inr graph))"

definition classify_candidates ::
  "node_adapter \<Rightarrow> digests \<Rightarrow> merge_codec \<Rightarrow> merge_digests \<Rightarrow> planning_context \<Rightarrow> candidate_group list \<Rightarrow>
   merge_conflict list \<Rightarrow> merge_exn + merge_change list \<times> review_group list" where
  "classify_candidates A D K G x candidates conflicts =
     (if candidates = [] then Inr ([], [])
      else
        bind_r (fold_r (route_candidate A D x (conflicted_ids conflicts)) candidates
          \<lparr>ro_direct = [], ro_reviews = [], ro_admitted = [], ro_carried = []\<rparr>) (\<lambda>s.
        bind_r (routed_graph A D x (ro_admitted s)) (\<lambda>staged.
        bind_r (connected_pending_reviews A D K G x staged (ro_reviews s @ ro_carried s)) (\<lambda>all_groups.
        let groups = filter (\<lambda>g. list_ex (\<lambda>c. mc_collection c \<noteq> ''proposals''
              \<or> mc_entity_id c \<notin> Some ` set (rg_carried_proposal_ids g)) (rg_changes g)) all_groups;
            absorbed = concat (map rg_carried_proposal_ids groups)
        in Inr (filter (\<lambda>c. \<not> (mc_collection c = ''proposals'' \<and> mc_entity_id c \<in> Some ` set absorbed)) (ro_direct s),
             groups)))))"

definition route_changes ::
  "node_adapter \<Rightarrow> digests \<Rightarrow> merge_codec \<Rightarrow> merge_digests \<Rightarrow> operation_adapter \<Rightarrow> planning_context \<Rightarrow>
   merge_change list \<Rightarrow> merge_conflict list \<Rightarrow> merge_exn + merge_change list \<times> review_group list" where
  "route_changes A D K G P x changes conflicts =
     (if changes = [] then Inr ([], [])
      else bind_r (encode_candidates A K G P x changes conflicts) (\<lambda>candidates.
        classify_candidates A D K G x candidates conflicts))"

section \<open>Promotion\<close>

definition promoted_fields :: "merge_codec \<Rightarrow> planning_context \<Rightarrow> string \<Rightarrow> merge_change list option" where
  "promoted_fields K x i =
     (let node = (\<lambda>g. map_option O_node (dict_get (g_nodes g) i));
          old = node (merge_baseline x); source = node (pl_source_graph x); target = node (pl_destination_graph x)
      in if source = None \<or> target = None then None
         else Some (filter (\<lambda>c. \<not> merge_eq (mc_branch c) (mc_base c) \<or> \<not> merge_eq (mc_destination c) (mc_base c))
           (map (\<lambda>f. change_at K ''nodes'' (Some i) (Some f) (field_value_of K old f) (field_value_of K source f)
              (field_value_of K target f)) (compared_fields K [old, source, target]))))"

fun all_promoted :: "merge_codec \<Rightarrow> planning_context \<Rightarrow> string list \<Rightarrow> merge_change list option" where
  "all_promoted K x [] = Some []"
| "all_promoted K x (i # is) = (case (promoted_fields K x i, all_promoted K x is) of
     (Some cs, Some ds) \<Rightarrow> Some (cs @ ds) | _ \<Rightarrow> None)"

definition reviewed_fields :: "string list \<Rightarrow> review_group list \<Rightarrow> merge_change list" where
  "reviewed_fields selected groups = filter (\<lambda>c. mc_collection c = ''nodes'' \<and> mc_entity_id c \<in> Some ` set selected
     \<and> mc_field_name c \<notin> {None, Some []}) (concat (map rg_changes groups))"

definition reopened_group ::
  "merge_digests \<Rightarrow> planning_context \<Rightarrow> string list \<Rightarrow> review_group \<Rightarrow> merge_exn + review_group" where
  "reopened_group G x opened g =
     (if \<not> list_ex (\<lambda>c. mc_change_id c \<in> set opened) (rg_changes g) then Inr g
      else
        (let predecessors = fold (\<lambda>r. AList.update (p_id (pv_proposal r)) r) (pending_reviews x) [];
             replaced = concat (map (\<lambda>i. case dict_get predecessors i of None \<Rightarrow> [] | Some r \<Rightarrow> p_ops (pv_proposal r))
               (sort (rg_replaces_proposal_ids g)))
         in bind_r (map_r (\<lambda>i. merge_lift (dict_get_or_raise (g_proposals (pl_source_graph x)) i))
              (rg_carried_proposal_ids g)) (\<lambda>carried.
            Inr (g\<lparr>rg_effect_digest := dg_open_effects G (rg_changes g)
                 (replaced @ concat (map p_ops carried))\<rparr>))))"

fun group_nodes :: "merge_conflict \<Rightarrow> string list" where
  "group_nodes (NodeGroupConflict c) = nc_node_ids c"
| "group_nodes _ = []"

definition promoted_conflict ::
  "merge_codec \<Rightarrow> merge_digests \<Rightarrow> planning_context \<Rightarrow> string list \<Rightarrow> merge_diagnostic list \<Rightarrow> field_conflict list \<Rightarrow>
   node_group_conflict" where
  "promoted_conflict K G x node_ids ds fs =
     (let node = (\<lambda>g i. (i, merge_value_of K (map_option O_node (dict_get (g_nodes g) i)))) in
      \<lparr>nc_conflict_id = dg_node_group G node_ids, nc_node_ids = node_ids,
       nc_fields = sort_key (\<lambda>f. (or_empty (fc_entity_id f), fc_field_name f)) fs,
       nc_base = map (node (merge_baseline x)) node_ids,
       nc_branch = map (node (pl_source_graph x)) node_ids,
       nc_destination = map (node (pl_destination_graph x)) node_ids,
       nc_diagnostic_codes = sorted_set (map mg_code ds)\<rparr>)"

text \<open>A group owns the conflicts over single fields of its nodes.\<close>

definition other_conflicts :: "string list \<Rightarrow> merge_conflict list \<Rightarrow> merge_conflict list" where
  "other_conflicts node_ids conflicts = filter (\<lambda>c. case c of
       FieldConflict f \<Rightarrow> \<not> (fc_collection f = ''nodes'' \<and> fc_entity_id f \<in> Some ` set node_ids)
     | _ \<Rightarrow> True) conflicts"

definition other_changes :: "string list \<Rightarrow> merge_change list \<Rightarrow> merge_change list" where
  "other_changes node_ids changes =
     filter (\<lambda>c. \<not> (mc_collection c = ''nodes'' \<and> mc_entity_id c \<in> Some ` set node_ids)) changes"

definition promote_node_group ::
  "merge_codec \<Rightarrow> merge_digests \<Rightarrow> merge_plan \<Rightarrow> string list \<Rightarrow> merge_diagnostic list \<Rightarrow> merge_exn + merge_plan" where
  "promote_node_group K G plan ids ds =
     bind_r (merge_lift (bind_r (require_bound_inputs (pn_context plan)) (\<lambda>_. require_bound_plan G plan))) (\<lambda>plan.
     let x = pn_context plan; node_ids = sorted_set ids in
     if list_ex (\<lambda>c. list_ex (\<lambda>i. i \<in> set node_ids) (group_nodes c)) (pn_conflicts plan) then Inl (MergeRefused ds)
     else (case all_promoted K x node_ids of
         None \<Rightarrow> Inl (MergeRefused ds)
       | Some moved \<Rightarrow>
           (let fields_by_id = changes_by_id (moved @ reviewed_fields node_ids (pn_review_groups plan)) in
            if fields_by_id = [] then Inl (MergeRefused ds)
            else
              (let grp = promoted_conflict K G x node_ids ds (map field_conflict_of fields_by_id)
               in bind_r (map_r (reopened_group G x (map mc_change_id fields_by_id)) (pn_review_groups plan))
                    (new_plan G x (other_changes node_ids (pn_direct_changes plan))
                      (other_conflicts node_ids (pn_conflicts plan) @ [NodeGroupConflict grp]))))))"

section \<open>The loop\<close>

text \<open>The changes after a promotion: the promoted fields replace or join the others.\<close>

definition promoted_changes :: "merge_codec \<Rightarrow> merge_change list \<Rightarrow> merge_conflict list \<Rightarrow> merge_change list" where
  "promoted_changes K changes conflicts =
     map snd (fold (\<lambda>f. AList.update (fc_conflict_id f)
         (change_at K (fc_collection f) (fc_entity_id f) (Some (fc_field_name f)) (fc_base f) (fc_branch f) (fc_destination f)))
       (concat (map (\<lambda>c. case c of NodeGroupConflict g \<Rightarrow> nc_fields g | _ \<Rightarrow> []) conflicts))
       (fold (\<lambda>c. AList.update (mc_change_id c) c) changes []))"

definition ungrouped_nodes :: "planning_context \<Rightarrow> merge_conflict list \<Rightarrow> string set" where
  "ungrouped_nodes x conflicts = set (keys (g_nodes (pl_destination_graph x))) - set (concat (map group_nodes conflicts))"

lemma require_bound_inputs_same: "require_bound_inputs x = Inr y \<Longrightarrow> y = x"
  by (auto simp: require_bound_inputs_def split: if_splits)

lemma merge_lift_Inr [simp]: "merge_lift r = Inr y \<longleftrightarrow> r = Inr y"
  by (cases r) (auto simp: merge_lift_def)

lemma require_bound_plan_same:
  "require_bound_plan G plan = Inr q \<Longrightarrow> pn_context q = pn_context plan \<and> pn_conflicts q = pn_conflicts plan
     \<and> pn_direct_changes q = pn_direct_changes plan \<and> pn_review_groups q = pn_review_groups plan"
  by (auto simp: require_bound_plan_def split: if_splits)

lemma new_plan_parts:
  assumes "new_plan G x direct conflicts groups = Inr plan"
  shows "pn_context plan = x" "pn_conflicts plan = conflicts" "pn_direct_changes plan = direct"
    "pn_review_groups plan = groups"
  using assms
  by (auto simp: new_plan_def result_simps dest!: require_bound_inputs_same require_bound_plan_same)

lemma all_promoted_present:
  "all_promoted K x is = Some cs \<Longrightarrow> i \<in> set is \<Longrightarrow> i \<in> set (keys (g_nodes (pl_destination_graph x)))"
proof (induction "is" arbitrary: cs)
  case (Cons k ks)
  then show ?case
    by (auto simp: promoted_fields_def Let_def split: option.splits if_splits)
      (metis domI dom_map_of_conv_image_fst)
qed simp

lemma promoted_group_nodes:
  assumes "promote_node_group K G plan ids ds = Inr q"
  shows "concat (map group_nodes (pn_conflicts q)) = concat (map group_nodes (pn_conflicts plan)) @ sorted_set ids"
    and "set ids \<inter> set (concat (map group_nodes (pn_conflicts plan))) = {}"
    and "set ids \<subseteq> set (keys (g_nodes (pl_destination_graph (pn_context plan))))" and "ids \<noteq> []"
proof -
  have kept: "concat (map group_nodes (other_conflicts is cs)) = concat (map group_nodes cs)" for "is" cs
    by (induction cs) (auto simp: other_conflicts_def split: merge_conflict.split)
  from assms obtain plan1 where plan1: "require_bound_plan G plan = Inr plan1"
    by (auto simp: promote_node_group_def result_simps)
  note run = assms [unfolded promote_node_group_def, simplified plan1 Let_def]
  from run obtain moved where
    apart: "\<not> list_ex (\<lambda>c. list_ex (\<lambda>i. i \<in> set ids) (group_nodes c)) (pn_conflicts plan1)"
    and moved: "all_promoted K (pn_context plan1) (sorted_set ids) = Some moved"
    and some: "changes_by_id (moved @ reviewed_fields (sorted_set ids) (pn_review_groups plan1)) \<noteq> []"
    by (auto simp: result_simps split: if_splits option.splits)
  with run obtain direct reviews fs where
    q: "new_plan G (pn_context plan1) direct (other_conflicts (sorted_set ids) (pn_conflicts plan1)
      @ [NodeGroupConflict (promoted_conflict K G (pn_context plan1) (sorted_set ids) ds fs)]) reviews = Inr q"
    by (auto simp: result_simps)
  note same = require_bound_plan_same [OF plan1]
  show "concat (map group_nodes (pn_conflicts q)) = concat (map group_nodes (pn_conflicts plan)) @ sorted_set ids"
    unfolding new_plan_parts(2) [OF q] map_append concat_append kept using same
    by (simp add: promoted_conflict_def Let_def)
  show "set ids \<inter> set (concat (map group_nodes (pn_conflicts plan))) = {}"
    using apart same by (auto simp: list_ex_iff)
  show "set ids \<subseteq> set (keys (g_nodes (pl_destination_graph (pn_context plan))))"
    using all_promoted_present [OF moved] same by auto
  show "ids \<noteq> []"
    using some moved by (auto simp: reviewed_fields_def changes_by_id_def sorted_set_def)
qed

lemma promotion_opens:
  assumes "promote_node_group K G plan ids ds = Inr q"
  shows "card (ungrouped_nodes (pn_context plan) (pn_conflicts q)) < card (ungrouped_nodes (pn_context plan) (pn_conflicts plan))"
proof (rule psubset_card_mono)
  show "finite (ungrouped_nodes (pn_context plan) (pn_conflicts plan))" by (simp add: ungrouped_nodes_def)
  obtain i where "i \<in> set ids" using promoted_group_nodes(4) [OF assms] by (cases ids) auto
  then have "i \<in> ungrouped_nodes (pn_context plan) (pn_conflicts plan) - ungrouped_nodes (pn_context plan) (pn_conflicts q)"
    using promoted_group_nodes(1-3) [OF assms] unfolding ungrouped_nodes_def by auto
  moreover have "ungrouped_nodes (pn_context plan) (pn_conflicts q) \<subseteq> ungrouped_nodes (pn_context plan) (pn_conflicts plan)"
    using promoted_group_nodes(1) [OF assms] unfolding ungrouped_nodes_def by auto
  ultimately show "ungrouped_nodes (pn_context plan) (pn_conflicts q) \<subset> ungrouped_nodes (pn_context plan) (pn_conflicts plan)"
    by blast
qed

function plan_loop ::
  "node_adapter \<Rightarrow> digests \<Rightarrow> merge_codec \<Rightarrow> merge_digests \<Rightarrow> operation_adapter \<Rightarrow> planning_context \<Rightarrow>
   merge_change list \<Rightarrow> merge_conflict list \<Rightarrow> merge_exn + merge_plan" where
  "plan_loop A D K G P x changes conflicts = (case route_changes A D K G P x changes conflicts of
     Inr (direct, groups) \<Rightarrow> new_plan G x direct conflicts groups
   | Inl (MergeHiddenClash ids ds) \<Rightarrow>
       bind_r (new_plan G x changes conflicts []) (\<lambda>provisional.
       bind_r (promote_node_group K G provisional ids ds) (\<lambda>promoted.
       plan_loop A D K G P x (promoted_changes K changes (pn_conflicts promoted)) (pn_conflicts promoted)))
   | Inl e \<Rightarrow> Inl e)"
  by pat_completeness auto

termination
  by (relation "measure (\<lambda>(_, _, _, _, _, x, _, conflicts). card (ungrouped_nodes x conflicts))")
    (auto dest!: promotion_opens, metis new_plan_parts(1,2))

declare plan_loop.simps [simp del]

definition plan_merge ::
  "node_adapter \<Rightarrow> digests \<Rightarrow> merge_codec \<Rightarrow> merge_digests \<Rightarrow> operation_adapter \<Rightarrow> planning_context \<Rightarrow>
   merge_exn + merge_plan" where
  "plan_merge A D K G P x =
     bind_r (merge_lift (require_bound_inputs x)) (\<lambda>x.
     case planned_changes K x of
       Inl _ \<Rightarrow> Inl Merge_assertion
     | Inr (changes, conflicts) \<Rightarrow> plan_loop A D K G P x changes conflicts)"

end
