(* ===== verification/Merge_Build.thy ===== *)
theory Merge_Build
  imports Merge_Plan Approval_Rules
begin

text \<open>
  Building and preparing the patch of a merge (the second half of \<open>runs/merge_patch.py\<close>): answers
  are resolved, effects encoded, every effect is routed through the classification of the core,
  reviews are filed as Proposals that do not affect one another, and the patch as a whole is
  classified once more. History is the parameter \<open>H\<close> of the preparation.
\<close>

section \<open>Classification of the parts\<close>

definition check_plan :: "merge_digests \<Rightarrow> merge_plan \<Rightarrow> merge_exn + unit" where
  "check_plan G plan = (if plan_identity G plan \<noteq> pn_plan_id plan then merge_refuse ''invalid-merge-plan'' []
     else Inr ())"

definition reject_diagnostics :: "report \<Rightarrow> merge_diagnostic list" where
  "reject_diagnostics r = merge_diagnostics (filter (\<lambda>m. vm_level m = Reject_level) r)"

definition reject_preparation :: "merge_plan \<Rightarrow> report \<Rightarrow> merge_exn" where
  "reject_preparation plan r =
     (let ds = reject_diagnostics r; nodes = concat (map mg_related_node_ids ds) in
      if \<not> is_coherence_clash r \<or> nodes = [] then MergeRefused ds
      else if set nodes \<inter> set (concat (map group_nodes (pn_conflicts plan))) \<noteq> {} then reject_answer_effect plan ds
      else MergeHiddenClash (sorted_set nodes) ds)"

definition require_admitted :: "merge_plan \<Rightarrow> change_classification \<Rightarrow> merge_exn + unit" where
  "require_admitted plan r = (case cc_disposition r of
     Admitted \<Rightarrow> Inr ()
   | Clash \<Rightarrow> Inl (reject_preparation plan (cc_diagnostics r))
   | _ \<Rightarrow> Inl (MergeRefused (reject_diagnostics (cc_diagnostics r))))"

definition require_all_admitted ::
  "node_adapter \<Rightarrow> digests \<Rightarrow> merge_plan \<Rightarrow> graph_operation list list \<Rightarrow> merge_exn + unit" where
  "require_all_admitted A D plan groups =
     bind_r (classify_merge A D (pn_context plan) None groups) (\<lambda>results.
     bind_r (map_r (require_admitted plan) results) (\<lambda>_. Inr ()))"

definition staged_graph ::
  "node_adapter \<Rightarrow> planning_context \<Rightarrow> graph_operation list \<Rightarrow> merge_exn + graph_state" where
  "staged_graph A x ops = (let st = pl_destination_graph x in
     merge_lift (apply_valid_patch A st (prepare_patch_bookkeeping st
       ((merge_template x ops)\<lparr>pa_revision := gh_revision (pl_destination_head x) + 1\<rparr>))))"

section \<open>Review operations\<close>

text \<open>Equality of Proposal operations, as of graph operations.\<close>

fun proposal_op_eq :: "proposal_operation \<Rightarrow> proposal_operation \<Rightarrow> bool" where
  "proposal_op_eq (ProposalContentChangeOperation l us) op = (case op of
     ProposalContentChangeOperation m vs \<Rightarrow> l = m \<and> list_all2 update_eq us vs | _ \<Rightarrow> False)"
| "proposal_op_eq (ProposalStatusChangeOperation l us) op = (case op of
     ProposalStatusChangeOperation m vs \<Rightarrow> l = m \<and> list_all2 update_eq us vs | _ \<Rightarrow> False)"
| "proposal_op_eq (ProposalProtectedRelationOperation l p) op = (case op of
     ProposalProtectedRelationOperation m q \<Rightarrow> l = m \<and> px_op p = px_op q
       \<and> map_option (map edge_fields) (field_value (px_edges p)) = map_option (map edge_fields) (field_value (px_edges q))
       \<and> field_value (px_edge_ids p) = field_value (px_edge_ids q)
   | _ \<Rightarrow> False)"
| "proposal_op_eq (LegacyProposalCreateNodesOperation ns) op = (case op of
     LegacyProposalCreateNodesOperation ms \<Rightarrow> list_all2 payload_eq ns ms | _ \<Rightarrow> False)"
| "proposal_op_eq op op' = (op = op')"

fun with_updates :: "proposal_operation \<Rightarrow> node_update list \<Rightarrow> proposal_operation" where
  "with_updates (ProposalContentChangeOperation l _) us = ProposalContentChangeOperation l us"
| "with_updates (ProposalStatusChangeOperation l _) us = ProposalStatusChangeOperation l us"
| "with_updates op us = op"

fun is_node_update :: "proposal_operation \<Rightarrow> bool" where
  "is_node_update (ProposalContentChangeOperation _ _) = True"
| "is_node_update (ProposalStatusChangeOperation _ _) = True"
| "is_node_update _ = False"

text \<open>Two updates of one node with one intent become one; the later value of a field wins.\<close>

definition joined_update :: "proposal_operation \<Rightarrow> proposal_operation \<Rightarrow> proposal_operation option" where
  "joined_update prior op = (case (proposal_updates prior, proposal_updates op) of
     ([u], [v]) \<Rightarrow>
       if is_node_update prior \<and> intent prior = intent op \<and> nu_id u = nu_id v
       then Some (with_updates op [v\<lparr>nu_changes := dict_update (nu_changes u) (nu_changes v)\<rparr>]) else None
   | _ \<Rightarrow> None)"

fun join_update :: "proposal_operation \<Rightarrow> proposal_operation list \<Rightarrow> proposal_operation list" where
  "join_update op [] = [op]"
| "join_update op (prior # rest) = (case joined_update prior op of
     Some joined \<Rightarrow> joined # rest | None \<Rightarrow> prior # join_update op rest)"

definition combine_review_op :: "proposal_operation \<Rightarrow> proposal_operation list \<Rightarrow> proposal_operation list" where
  "combine_review_op op result =
     (if list_ex (proposal_op_eq op) result then result
      else if is_node_update op then join_update op result
      else (case op of
          ProposalStandingChangeOperation i _ \<Rightarrow> filter (\<lambda>item. case item of
              ProposalStandingChangeOperation k _ \<Rightarrow> k \<noteq> i | _ \<Rightarrow> True) result @ [op]
        | _ \<Rightarrow> result @ [op]))"

definition combine_review_ops :: "proposal_operation list \<Rightarrow> proposal_operation list" where
  "combine_review_ops ops = fold combine_review_op ops []"

definition review_proposal ::
  "merge_digests \<Rightarrow> merge_plan \<Rightarrow> merge_answers \<Rightarrow> review_group \<Rightarrow> proposal_operation list \<Rightarrow> merge_exn + proposal" where
  "review_proposal G plan answers g ops =
     (let x = pn_context plan; st = pl_destination_graph x in
      case dict_get (an_cards answers) (rg_subject_key g) of
        None \<Rightarrow> answer_error (rg_subject_key g)
      | Some prose \<Rightarrow>
          (let q = (merge_draft ops)\<lparr>p_id := ''proposal/merge-'' @ dg_review G (pl_source_head x)
                     (gh_target (pl_destination_head x)) (rg_subject_key g) ops,
                 p_title := ''Review branch changes'',
                 p_card := \<lparr>gc_situation_cold = vw_situation_cold prose, gc_why_human_now = vw_why_human_now prose,
                   gc_consequences = vw_consequences prose, gc_decision_needed = vw_decision_needed prose\<rparr>\<rparr>
           in case pa_ops (prepare_patch_bookkeeping st (merge_template x [CreateProposalsOperation [q]])) of
                CreateProposalsOperation (filed # _) # _ \<Rightarrow> Inr filed
              | _ \<Rightarrow> Inl Merge_assertion))"

section \<open>The patch\<close>

text \<open>The review group an effect belongs to: at most one.\<close>

definition effect_group :: "merge_plan \<Rightarrow> merge_effect \<Rightarrow> merge_exn + string option" where
  "effect_group plan e =
     (case filter (\<lambda>g. set (map change_coordinate (rg_changes g)) \<inter> set (ef_coordinates e) \<noteq> {})
             (pn_review_groups plan) of
        [] \<Rightarrow> Inr None
      | [g] \<Rightarrow> Inr (Some (rg_subject_key g))
      | _ \<Rightarrow> Inl (reject_answer_effect plan [merge_diagnostic_of ''merge-review-groups-changed'' []]))"

record built_parts =
  bp_direct :: "graph_operation list"
  bp_reviews :: "proposal_operation list dict"
  bp_restorations :: "graph_operation list"

definition route_effect ::
  "merge_plan \<Rightarrow> (merge_effect \<times> string option) \<times> change_classification \<Rightarrow> built_parts \<Rightarrow> merge_exn + built_parts" where
  "route_effect plan = (\<lambda>((e, key), r) b.
     if cc_disposition r = Reviewable then (case key of
         None \<Rightarrow> merge_refuse ''merge-review-group-missing'' []
       | Some k \<Rightarrow> Inr (b\<lparr>bp_reviews := AList.update k
           ((case dict_get (bp_reviews b) k of None \<Rightarrow> [] | Some ops \<Rightarrow> ops) @ cc_review_operations r) (bp_reviews b)\<rparr>))
     else bind_r (require_admitted plan r) (\<lambda>_.
       Inr (b\<lparr>bp_direct := bp_direct b @ ef_operations e,
         bp_restorations := bp_restorations b @ (case ef_restore_standing e of None \<Rightarrow> [] | Some op \<Rightarrow> [op])\<rparr>)))"

text \<open>Only a live pending review of this merge may be replaced.\<close>

definition replaced_review :: "merge_plan \<Rightarrow> string \<Rightarrow> merge_exn + proposal_withdrawal" where
  "replaced_review plan i =
     (let x = pn_context plan in
      case (find (\<lambda>r. p_id (pv_proposal r) = i) (pl_prior_reviews x), dict_get (g_proposals (pl_destination_graph x)) i) of
        (Some r, Some live) \<Rightarrow>
          if p_status live = Pending \<and> live = pv_proposal r
          then Inr \<lparr>pw_id = i, pw_reason = ''Replaced by a newer branch merge review.''\<rparr>
          else merge_refuse ''invalid-merge-review-replacement'' []
      | _ \<Rightarrow> merge_refuse ''invalid-merge-review-replacement'' [])"

definition file_group ::
  "node_adapter \<Rightarrow> digests \<Rightarrow> merge_digests \<Rightarrow> merge_plan \<Rightarrow> merge_answers \<Rightarrow> graph_state \<Rightarrow> proposal_operation list dict \<Rightarrow>
   review_group \<Rightarrow> proposal list \<times> proposal_withdrawal list \<Rightarrow> merge_exn + proposal list \<times> proposal_withdrawal list" where
  "file_group A D G plan answers staged reviews g = (\<lambda>(proposals, withdrawals).
     bind_r (map_r (replaced_review plan) (sort (rg_replaces_proposal_ids g))) (\<lambda>replaced.
     bind_r (map_r (\<lambda>i. merge_lift (dict_get_or_raise (g_proposals (pl_source_graph (pn_context plan))) i))
       (rg_carried_proposal_ids g)) (\<lambda>carried.
     let combined = combine_review_ops
           ((case dict_get reviews (rg_subject_key g) of None \<Rightarrow> [] | Some ops \<Rightarrow> ops) @ concat (map p_ops carried))
     in if combined = [] then Inr (proposals, withdrawals @ replaced)
        else bind_r (review_proposal G plan answers g combined) (\<lambda>q.
          bind_r (merge_lift (connected_proposal_operation_groups A D staged q)) (\<lambda>components.
          bind_r (map_r (review_proposal G plan answers g) components) (\<lambda>filed.
          Inr (proposals @ filed, withdrawals @ replaced)))))))"

definition carried_proposals :: "graph_state \<Rightarrow> graph_operation list \<Rightarrow> merge_exn + proposal list" where
  "carried_proposals staged direct = map_r (\<lambda>q. merge_lift (dict_get_or_raise (g_proposals staged) (p_id q)))
     (concat (map (\<lambda>op. case op of CreateProposalsOperation qs \<Rightarrow> qs | _ \<Rightarrow> []) direct))"

text \<open>No review that is filed may change what another one depends on.\<close>

definition add_footprint ::
  "node_adapter \<Rightarrow> digests \<Rightarrow> merge_plan \<Rightarrow> graph_state \<Rightarrow> proposal \<Rightarrow> proposal_footprint list \<Rightarrow>
   merge_exn + proposal_footprint list" where
  "add_footprint A D plan staged q fs = (case proposal_dependencies_and_effects A D staged q of
     Inl (ProposalEffectRejected r) \<Rightarrow> Inl (reject_answer_effect plan (reject_diagnostics r))
   | Inr f \<Rightarrow> if list_ex (coupled f) fs
       then Inl (reject_answer_effect plan [merge_diagnostic_of ''merge-review-groups-changed'' []])
       else Inr (fs @ [f]))"

definition answered_effects ::
  "node_adapter \<Rightarrow> merge_codec \<Rightarrow> field_adapter \<Rightarrow> operation_adapter \<Rightarrow> merge_plan \<Rightarrow> merge_answers \<Rightarrow>
   merge_exn + merge_effect list \<times> report" where
  "answered_effects A K V P plan answers =
     bind_r (resolved_changes K V plan answers) (\<lambda>selected.
     let absorbed = concat (map rg_carried_proposal_ids (pn_review_groups plan)) in
     case construct_effects A K P plan (filter (\<lambda>((c, i, _), _).
            \<not> (c = ''proposals'' \<and> i \<in> Some ` set absorbed)) selected) of
       Inl (MergeRefused ds) \<Rightarrow> Inl (reject_answer_effect plan ds)
     | r \<Rightarrow> r)"

definition routed_parts ::
  "node_adapter \<Rightarrow> digests \<Rightarrow> merge_plan \<Rightarrow> merge_effect list \<Rightarrow> merge_exn + built_parts" where
  "routed_parts A D plan effects =
     bind_r (map_r (effect_group plan) effects) (\<lambda>groups.
     bind_r (classify_merge A D (pn_context plan) None (map ef_operations effects)) (\<lambda>results.
     bind_r (fold_r (route_effect plan) (zip (zip effects groups) results)
       \<lparr>bp_direct = [], bp_reviews = [], bp_restorations = []\<rparr>) (\<lambda>b.
     if bp_restorations b = [] then Inr b
     else bind_r (require_all_admitted A D plan [bp_direct b, bp_restorations b]) (\<lambda>_.
       Inr (b\<lparr>bp_direct := bp_direct b @ bp_restorations b\<rparr>)))))"

definition filed_reviews ::
  "node_adapter \<Rightarrow> digests \<Rightarrow> merge_digests \<Rightarrow> merge_plan \<Rightarrow> merge_answers \<Rightarrow> built_parts \<Rightarrow>
   merge_exn + proposal list \<times> proposal_withdrawal list" where
  "filed_reviews A D G plan answers b =
     bind_r (staged_graph A (pn_context plan) (bp_direct b)) (\<lambda>staged.
     bind_r (fold_r (file_group A D G plan answers staged (bp_reviews b))
       (sort_key rg_subject_key (pn_review_groups plan)) ([], [])) (\<lambda>(proposals, withdrawals).
     bind_r (if proposals = [] then Inr () else require_all_admitted A D plan
       ((if bp_direct b = [] then [] else [bp_direct b]) @ map (\<lambda>q. [CreateProposalsOperation [q]]) proposals)) (\<lambda>_.
     bind_r (carried_proposals staged (bp_direct b)) (\<lambda>carried.
     bind_r (fold_r (add_footprint A D plan staged) (carried @ proposals) []) (\<lambda>_.
     Inr (proposals, withdrawals))))))"

definition build_merge_patch ::
  "node_adapter \<Rightarrow> digests \<Rightarrow> merge_codec \<Rightarrow> field_adapter \<Rightarrow> operation_adapter \<Rightarrow> merge_digests \<Rightarrow> merge_plan \<Rightarrow>
   merge_answers \<Rightarrow> merge_exn + patch" where
  "build_merge_patch A D K V P G plan answers =
     bind_r (check_plan G plan) (\<lambda>_.
     bind_r (answered_effects A K V P plan answers) (\<lambda>(effects, flags).
     bind_r (routed_parts A D plan effects) (\<lambda>b.
     bind_r (filed_reviews A D G plan answers b) (\<lambda>(proposals, withdrawals).
     let x = pn_context plan;
         final = bp_direct b
           @ (if withdrawals = [] then [] else [WithdrawProposalsOperation withdrawals])
           @ (if proposals = [] then [] else [CreateProposalsOperation proposals]);
         candidate = prepare_patch_bookkeeping (pl_destination_graph x) (merge_template x final)
     in bind_r (if pa_ops candidate = [] then Inr () else require_all_admitted A D plan [pa_ops candidate]) (\<lambda>_.
        Inr (candidate\<lparr>pa_admission_messages := flags\<rparr>))))))"

section \<open>Preparation\<close>

datatype validated_candidate = PatchRejected report | Authority_refused report
  | Validated patch report graph_state

record merge_history =
  mh_head_ref :: graph_head_ref
  mh_validate_candidate :: "patch \<Rightarrow> validated_candidate"
  mh_head_ref_after :: graph_head_ref

definition join_messages :: "report \<Rightarrow> report \<Rightarrow> report" where
  "join_messages r messages = fold (\<lambda>m r. if m \<in> set r then r else r @ [m]) messages r"

definition finish_preparation ::
  "node_adapter \<Rightarrow> merge_plan \<Rightarrow> merge_history \<Rightarrow> patch \<Rightarrow> patch \<Rightarrow> report \<Rightarrow> graph_state \<Rightarrow>
   merge_exn + patch \<times> graph_state" where
  "finish_preparation A plan H candidate prepared r current =
     (let x = pn_context plan; head = pl_destination_head x in
      if g_revision current \<noteq> gh_revision head then Inl RevisionConflict
      else if rejected r then Inl (reject_preparation plan r)
      else if pa_branch_merge prepared \<noteq> Some (pl_provenance x) \<or> pa_authorized_by prepared \<noteq> Some (pl_authorized_by x)
        then merge_refuse ''merge-preparation-binding-changed'' []
      else
        (let final = prepared\<lparr>pa_admission_messages :=
               join_messages (pa_admission_messages prepared) (r @ pa_admission_messages candidate)\<rparr>
         in if pa_ops final = [] then
              if mh_head_ref_after H \<noteq> head then Inl RevisionConflict else Inr (final, current)
            else (case pa_transition final of
                None \<Rightarrow> merge_refuse ''missing-merge-transition'' []
              | Some trace \<Rightarrow>
                  if tt_pre_head trace \<noteq> head then Inl RevisionConflict
                  else bind_r (merge_lift (apply_valid_patch A current final)) (\<lambda>graph. Inr (final, graph)))))"

definition prepare_merge_candidate ::
  "node_adapter \<Rightarrow> digests \<Rightarrow> merge_codec \<Rightarrow> field_adapter \<Rightarrow> operation_adapter \<Rightarrow> merge_digests \<Rightarrow> val \<Rightarrow> merge_plan \<Rightarrow>
   merge_answers \<Rightarrow> merge_history \<Rightarrow> merge_exn + patch \<times> graph_state" where
  "prepare_merge_candidate A D K V P G current_contract plan answers H =
     bind_r (check_plan G plan) (\<lambda>_.
     if pl_preparation_contract (pn_context plan) \<noteq> current_contract
       then merge_refuse ''merge-preparation-contract-changed'' []
     else if mh_head_ref H \<noteq> pl_destination_head (pn_context plan) then Inl RevisionConflict
     else bind_r (build_merge_patch A D K V P G plan answers) (\<lambda>candidate.
       case mh_validate_candidate H candidate of
         PatchRejected r \<Rightarrow> Inl (reject_preparation plan r)
       | Authority_refused r \<Rightarrow> Inl (MergeRefused (reject_diagnostics r))
       | Validated prepared r current \<Rightarrow> finish_preparation A plan H candidate prepared r current))"

end
