(* ===== verification/Rule_Laws.thy ===== *)
theory Rule_Laws
  imports Validation_Patch "HOL-Library.Sublist"
begin

text \<open>
  What every validation rule has in common: it only adds to the report, it leaves the staged
  graph, the patch and the mode of its context alone, and if it raises, the exception is one
  that \<open>validate_patch\<close> turns into a message. The rules about a Proposal call the loop over
  operations; the locale \<open>operation_runner\<close> states what they rely on, and the two loops of the
  model interpret it.
\<close>

section \<open>Reports only grow\<close>

named_theorems report_grows \<open>a rule on the report extends it\<close>

lemma prefix_reject [report_grows]: "prefix r r' \<Longrightarrow> prefix r (reject code rv ns es r')"
  by (simp add: reject_def prefix_order.trans)

lemma prefix_flag [report_grows]: "prefix r r' \<Longrightarrow> prefix r (flag code rv ns es r')"
  by (simp add: flag_def prefix_order.trans)

lemma prefix_reject_if [report_grows]: "prefix r r' \<Longrightarrow> prefix r (reject_if c code rv ns es r')"
  by (simp add: reject_if_def prefix_reject)

lemma prefix_fold:
  assumes "\<And>x r. x \<in> set xs \<Longrightarrow> prefix r (f x r)" and "prefix r r'"
  shows "prefix r (fold f xs r')"
  using assms
proof (induction xs arbitrary: r')
  case (Cons x xs)
  have "prefix r (f x r')"
    using Cons.prems(1) [of x r'] Cons.prems(2) by (auto intro: prefix_order.trans)
  then show ?case using Cons by simp
qed simp

lemma grows_ontology_structure [report_grows]:
  "prefix r r' \<Longrightarrow> prefix r (validate_ontology_structure os rv b r')"
  unfolding validate_ontology_structure_def Let_def check_relation_definition_def
    check_inherited_fields_def check_field_definition_def check_type_definition_def
  by (intro prefix_fold report_grows) simp_all

lemma grows_require_deprecation [report_grows]:
  "prefix r r' \<Longrightarrow> prefix r (require_deprecation_before_removal a b c d rv r')"
  unfolding require_deprecation_before_removal_def
  by (intro prefix_fold) (auto intro!: report_grows)

lemma grows_ontology_change [report_grows]:
  "prefix r r' \<Longrightarrow> prefix r (validate_ontology_change st os rv r')"
  unfolding validate_ontology_change_def Let_def
  by (intro prefix_fold report_grows)
    (auto simp: check_relation_change_def check_field_change_def check_type_remap_def Let_def
      intro!: report_grows split: prod.splits option.splits)

lemma grows_one_field [report_grows]:
  "prefix r r' \<Longrightarrow> prefix r (validate_one_field rel d v rv a b c r')"
  unfolding validate_one_field_def by (intro report_grows)

lemma grows_extension_fields [report_grows]:
  "prefix r r' \<Longrightarrow> prefix r (validate_extension_fields rel fl ds rv a b c r')"
  unfolding validate_extension_fields_def Let_def
  by (intro prefix_fold report_grows) (auto intro!: report_grows split: option.splits)

lemma grows_new_node_extensions [report_grows]:
  "prefix r r' \<Longrightarrow> prefix r (validate_new_node_extensions st raw rv a b r')"
  unfolding validate_new_node_extensions_def Let_def
  by (auto intro!: report_grows split: option.splits val.splits if_splits)

lemma grows_updated_extension_fields [report_grows]:
  "prefix r r' \<Longrightarrow> prefix r (validate_updated_extension_fields st n c rv a b r')"
  unfolding validate_updated_extension_fields_def Let_def
  by (auto intro!: prefix_fold report_grows split: option.splits val.splits)

lemma grows_extension_update [report_grows]:
  "prefix r r' \<Longrightarrow> prefix r (validate_extension_update st rv n c a w r')"
  unfolding validate_extension_update_def by (rule report_grows)

lemma grows_new_node [report_grows]:
  "prefix r r' \<Longrightarrow> prefix r (validate_new_node A st rv w raw r')"
  unfolding validate_new_node_def Let_def by (intro report_grows)

lemma grows_live_legacy_new_node [report_grows]:
  "prefix r r' \<Longrightarrow> prefix r (reject_live_legacy_new_node raw rv r')"
  unfolding reject_live_legacy_new_node_def Let_def by (intro report_grows)

lemma grows_source_item [report_grows]:
  "prefix r r' \<Longrightarrow> prefix r (check_source_item A rv w rs i r')"
  unfolding check_source_item_def by (auto intro!: report_grows split: sum.splits)

lemma grows_incomplete_ballot [report_grows]:
  "prefix r r' \<Longrightarrow> prefix r (reject_incomplete_decision_ballot n rv r')"
  unfolding reject_incomplete_decision_ballot_def by (auto intro!: report_grows split: option.splits)

lemma grows_authorship [report_grows]: "prefix r r' \<Longrightarrow> prefix r (validate_authorship p r')"
  unfolding validate_authorship_def Let_def by (auto intro!: report_grows)

lemma grows_writer_actions [report_grows]: "prefix r r' \<Longrightarrow> prefix r (validate_writer_actions p b r')"
  unfolding validate_writer_actions_def
  by (intro prefix_fold report_grows) (auto intro!: report_grows split: option.splits)

lemma grows_refuse_choice [report_grows]: "prefix r r' \<Longrightarrow> prefix r (refuse_choice c rv ns r')"
  unfolding refuse_choice_def by (intro report_grows)

section \<open>Rules that may raise\<close>

text \<open>The result extends what was there, or the exception is one that is caught.\<close>

definition tame :: "('a \<Rightarrow> 'a \<Rightarrow> bool) \<Rightarrow> 'a \<Rightarrow> 'a result \<Rightarrow> bool" where
  "tame R x m = (case m of Inl e \<Rightarrow> caught e | Inr y \<Rightarrow> R x y)"

definition tame_val :: "'a result \<Rightarrow> bool" where
  "tame_val m = (case m of Inl e \<Rightarrow> caught e | Inr y \<Rightarrow> True)"

lemma tame_Inr [simp]: "tame R x (Inr y) = R x y"
  by (simp add: tame_def)

lemma tame_Inl [simp]: "tame R x (Inl e) = caught e"
  by (simp add: tame_def)

lemma tame_val_simps [simp]: "tame_val (Inr y)" "tame_val (Inl e) = caught e"
  by (simp_all add: tame_val_def)

lemma caught_simps [simp]:
  "caught (KeyError s)" "caught (ValueError s)" "caught (AttributeError s)" "caught (TypeError s)"
  by (simp_all add: caught_def)

lemma tame_bind_val:
  "tame_val m \<Longrightarrow> (\<And>y. m = Inr y \<Longrightarrow> tame R x (f y)) \<Longrightarrow> tame R x (bind_r m f)"
  by (cases m) simp_all

lemma tame_val_bind:
  "tame_val m \<Longrightarrow> (\<And>y. m = Inr y \<Longrightarrow> tame_val (f y)) \<Longrightarrow> tame_val (bind_r m f)"
  by (cases m) simp_all

lemma tame_bind:
  "tame R x m \<Longrightarrow> (\<And>y. m = Inr y \<Longrightarrow> R x y \<Longrightarrow> tame R x (f y)) \<Longrightarrow> tame R x (bind_r m f)"
  by (cases m) simp_all

lemma tame_fold_r:
  assumes "\<And>y. R y y" and "\<And>y z w. R y z \<Longrightarrow> R z w \<Longrightarrow> R y w"
    and "\<And>a y. a \<in> set as \<Longrightarrow> tame R y (f a y)"
  shows "tame R x (fold_r f as x)"
  using assms(3)
proof (induction as arbitrary: x)
  case (Cons a as)
  show ?case
  proof (cases "f a x")
    case (Inr y)
    then have "R x y" using Cons.prems [of a x] by simp
    moreover have "tame R y (fold_r f as y)" using Cons by simp
    ultimately show ?thesis using Inr assms(2) by (auto simp: tame_def split: sum.splits)
  qed (use Cons.prems [of a x] in simp)
qed (simp add: assms(1))

lemma tame_val_map_r: "(\<And>x. x \<in> set xs \<Longrightarrow> tame_val (f x)) \<Longrightarrow> tame_val (map_r f xs)"
  by (induction xs) (auto intro!: tame_val_bind)

lemma tame_val_py_iter [simp]: "tame_val (py_iter v)"
  by (cases v) simp_all

lemma tame_val_in_frozenset [simp]: "tame_val (in_frozenset v xs)"
  by (cases "(v, xs)" rule: in_frozenset.cases) simp_all

lemma tame_val_graph_operations [simp]: "tame_val (graph_operations_from_proposal ops)"
  unfolding graph_operations_from_proposal_def
proof (rule tame_val_map_r)
  show "tame_val (graph_operation_from_proposal op)" for op
    by (cases op) (auto simp: edge_operation_from_proposal_def split: edge_op.splits option.splits)
qed

lemma tame_source_refs: "tame prefix r (validate_source_refs A rv w rs v r)"
  unfolding validate_source_refs_def
  by (rule tame_bind_val) (auto intro!: prefix_fold report_grows)

lemma tame_grounded_scope: "prefix r r' \<Longrightarrow> tame prefix r (validate_grounded_scope raw rv r')"
  unfolding validate_grounded_scope_def
  by (rule tame_bind_val) (auto simp: Let_def intro!: report_grows)

lemma tame_possible_duplicate:
  "prefix r r' \<Longrightarrow> tame prefix r (flag_possible_duplicate i rv ks r')"
  by (induction ks) (auto intro!: report_grows)

lemma tame_new_node_authoring: "tame prefix r (validate_new_node_authoring st rv w c raw r)"
  unfolding validate_new_node_authoring_def Let_def
  by (rule tame_bind)
    (auto intro!: tame_grounded_scope tame_possible_duplicate report_grows split: option.splits)

lemma tame_updated_node_authoring: "tame prefix r (validate_updated_node_authoring n c rv r)"
  unfolding validate_updated_node_authoring_def by (auto intro: tame_grounded_scope)


section \<open>Rules on the context\<close>

text \<open>What a rule leaves of its context: everything but the report and the repositories.\<close>

definition rest_of :: "op_context \<Rightarrow> op_context" where
  "rest_of cx = cx\<lparr>cx_report := [], cx_repositories := []\<rparr>"

definition extends :: "op_context \<Rightarrow> op_context \<Rightarrow> bool" where
  "extends cx cx' = (prefix (cx_report cx) (cx_report cx') \<and> rest_of cx' = rest_of cx)"

lemma extends_refl [simp]: "extends cx cx"
  by (simp add: extends_def)

lemma extends_trans: "extends a b \<Longrightarrow> extends b c \<Longrightarrow> extends a c"
  by (auto simp: extends_def intro: prefix_order.trans)

lemma rest_of_simps [simp]:
  "rest_of (cx\<lparr>cx_report := r\<rparr>) = rest_of cx" "rest_of (cx\<lparr>cx_repositories := rs\<rparr>) = rest_of cx"
  by (simp_all add: rest_of_def)

lemma extends_report:
  "extends cx cx' \<Longrightarrow> prefix (cx_report cx') r \<Longrightarrow> extends cx (cx'\<lparr>cx_report := r\<rparr>)"
  by (auto simp: extends_def intro: prefix_order.trans)

lemma extends_repositories: "extends cx cx' \<Longrightarrow> extends cx (cx'\<lparr>cx_repositories := repos\<rparr>)"
  by (simp add: extends_def)

lemma rest_of_fields:
  "cx_state (rest_of cx) = cx_state cx" "cx_initial_state (rest_of cx) = cx_initial_state cx"
  "cx_patch (rest_of cx) = cx_patch cx" "cx_writer (rest_of cx) = cx_writer cx"
  "cx_mode (rest_of cx) = cx_mode cx" "cx_revision (rest_of cx) = cx_revision cx"
  "cx_reference_patch (rest_of cx) = cx_reference_patch cx"
  by (simp_all add: rest_of_def)

lemma extends_fields:
  assumes "extends cx cx'"
  shows "cx_state cx' = cx_state cx" and "cx_initial_state cx' = cx_initial_state cx"
    and "cx_patch cx' = cx_patch cx" and "cx_writer cx' = cx_writer cx"
    and "cx_mode cx' = cx_mode cx" and "cx_revision cx' = cx_revision cx"
    and "cx_reference_patch cx' = cx_reference_patch cx"
    and "prefix (cx_report cx) (cx_report cx')"
  using assms unfolding extends_def by (metis rest_of_fields)+

named_theorems context_grows \<open>a rule on the context extends it\<close>

lemma extends_reject [context_grows]: "extends cx cx' \<Longrightarrow> extends cx (cx_reject code ns es cx')"
  by (simp add: cx_reject_def extends_report prefix_reject)

lemma extends_reject_if [context_grows]:
  "extends cx cx' \<Longrightarrow> extends cx (cx_reject_if c code ns es cx')"
  by (simp add: cx_reject_if_def extends_reject)

lemma extends_on_report:
  "extends cx cx' \<Longrightarrow> (\<And>r. prefix r (f r)) \<Longrightarrow> extends cx (on_report f cx')"
  by (simp add: on_report_def extends_report)

lemma tame_on_report_r:
  assumes "extends cx cx'" and "\<And>r. tame prefix r (f r)"
  shows "tame extends cx (on_report_r f cx')"
proof (cases "f (cx_report cx')")
  case (Inl e)
  then show ?thesis using assms(2) [of "cx_report cx'"] by (simp add: on_report_r_def)
next
  case (Inr r)
  then show ?thesis
    using assms(2) [of "cx_report cx'"] by (simp add: on_report_r_def extends_report [OF assms(1)])
qed

lemma extends_fold:
  assumes "\<And>x c. x \<in> set xs \<Longrightarrow> extends c (f x c)" and "extends cx cx'"
  shows "extends cx (fold f xs cx')"
  using assms
proof (induction xs arbitrary: cx')
  case (Cons x xs)
  have "extends cx (f x cx')"
    using Cons.prems(1) [of x cx'] Cons.prems(2) by (auto intro: extends_trans)
  then show ?case using Cons by simp
qed simp

lemma tame_extends_fold_r:
  "(\<And>x c. x \<in> set xs \<Longrightarrow> tame extends c (f x c)) \<Longrightarrow> tame extends cx (fold_r f xs cx)"
  by (rule tame_fold_r) (auto intro: extends_trans)

lemma tame_extends_step:
  assumes "extends cx cx'" and "tame extends cx' m"
  shows "tame extends cx m"
  using assms by (auto simp: tame_def intro: extends_trans split: sum.splits)

section \<open>The rules of the registry\<close>

lemma tame_create_nodes: "tame extends cx (validate_create_nodes A raws cx)"
  unfolding validate_create_nodes_def
  by (rule tame_extends_fold_r)
    (auto simp: validate_created_node_def Let_def intro!: tame_on_report_r extends_on_report
      context_grows report_grows tame_source_refs)

lemma tame_author_create_nodes: "tame extends cx (author_create_nodes A raws cx)"
  unfolding author_create_nodes_def
  by (rule tame_extends_fold_r)
    (auto simp: author_created_node_def Let_def intro!: tame_on_report_r extends_on_report
      context_grows report_grows tame_new_node_authoring)

lemma tame_candidate: "extends c cx \<Longrightarrow> tame extends c (validate_candidate A i n ch cx)"
  unfolding validate_candidate_def Let_def
  by (auto intro!: tame_on_report_r extends_on_report context_grows report_grows tame_source_refs
      split: option.splits)

lemma live_legacy_update_grows:
  "reject_live_legacy_update n ch rv ad r = Inr (phase, strength, r') \<Longrightarrow> prefix r r'"
  by (auto simp: reject_live_legacy_update_def result_simps Let_def intro!: report_grows)

lemma tame_val_live_legacy_update [simp]: "tame_val (reject_live_legacy_update n ch rv ad r)"
  unfolding reject_live_legacy_update_def by (rule tame_val_bind) (auto simp: Let_def)

lemma tame_updated_node: "tame extends cx (validate_updated_node A u cx)"
proof (cases "dict_get (g_nodes (cx_state cx)) (nu_id u)")
  case None
  then show ?thesis by (auto simp: validate_updated_node_def intro!: context_grows)
next
  case (Some n)
  show ?thesis
    unfolding validate_updated_node_def Some Let_def option.case
    by (rule tame_bind_val)
      (auto split: prod.splits dest!: live_legacy_update_grows
        intro!: tame_candidate context_grows extends_report)
qed

lemma tame_update_nodes: "tame extends cx (validate_update_nodes A us cx)"
  unfolding validate_update_nodes_def by (rule tame_extends_fold_r) (rule tame_updated_node)

lemma extends_belief_cause [context_grows]:
  "extends c cx \<Longrightarrow> extends c (validate_belief_cause h cause cx)"
  by (cases "(h, cause, cx)" rule: validate_belief_cause.cases) (auto intro!: context_grows)

lemma tame_author_update_nodes: "tame extends cx (author_update_nodes A us cx)"
  unfolding author_update_nodes_def
proof (rule tame_extends_fold_r)
  show "tame extends c (author_updated_node A u c)" for u c
    unfolding author_updated_node_def Let_def
    by (auto split: option.splits intro!: tame_bind tame_on_report_r tame_updated_node_authoring
        context_grows extends_on_report report_grows)
qed

lemma extends_edge_claims: "extends c cx \<Longrightarrow> extends c (validate_edge_claims e cx)"
  unfolding validate_edge_claims_def Let_def by (auto intro!: context_grows)

lemma extends_new_edge:
  "extends c cx \<Longrightarrow> extends c (snd (validate_new_edge created e (seen, cx)))"
  by (auto simp: validate_new_edge_def Let_def intro!: context_grows extends_edge_claims
      split: option.split)

lemma extends_create_edges: "extends cx (validate_create_edges es cx)"
proof -
  have "extends cx (snd (fold (validate_new_edge created) es s))" if "extends cx (snd s)" for created s
    using that
  proof (induction es arbitrary: s)
    case (Cons e es)
    then show ?case using extends_new_edge [of cx "snd s" created e "fst s"] by simp
  qed simp
  then show ?thesis by (simp add: validate_create_edges_def Let_def)
qed

lemma extends_author_create_edges: "extends cx (author_create_edges es cx)"
  unfolding author_create_edges_def author_new_edge_def Let_def
  by (intro extends_fold) (auto intro!: context_grows)

lemma extends_remove_nodes: "extends cx (validate_remove_nodes ids cx)"
  unfolding validate_remove_nodes_def
  by (auto simp: validate_removed_node_def Let_def intro!: extends_fold context_grows split: option.splits)

lemma extends_generated_endpoints [context_grows]:
  "extends c cx \<Longrightarrow> extends c (validate_generated_relation_endpoints rel s t cx)"
  unfolding validate_generated_relation_endpoints_def Let_def by (auto intro!: context_grows)

lemma extends_supersede_nodes: "extends cx (validate_supersede_nodes ss cx)"
  unfolding validate_supersede_nodes_def
  by (intro extends_fold) (auto simp: validate_supersede_node_def Let_def intro!: context_grows split: option.splits)

lemma extends_merge_nodes: "extends cx (validate_merge_nodes ms cx)"
  unfolding validate_merge_nodes_def
  by (intro extends_fold) (auto simp: validate_merge_node_def Let_def intro!: context_grows)

lemma extends_require_pending [context_grows]: "extends cx (require_pending i cx)"
  unfolding require_pending_def by (auto intro!: context_grows split: option.splits)

lemma extends_truth_scope: "extends cx (validate_set_project_truth_scope scope repo cx)"
  unfolding validate_set_project_truth_scope_def admit_repository_def Let_def
  by (auto intro!: context_grows extends_repositories split: option.splits)

lemma extends_ontology: "extends cx (validate_set_ontology os cx)"
  unfolding validate_set_ontology_def Let_def
  by (auto intro!: extends_on_report report_grows)

section \<open>Filing a Proposal\<close>

text \<open>The loop over the operations of a Proposal, as the rules rely on it.\<close>

locale operation_runner =
  fixes A :: node_adapter and D :: digests and run :: op_runner
  assumes run_caught: "tame_val (run cx)"
begin

lemma extends_agent_boundary [context_grows]:
  "extends c cx \<Longrightarrow> extends c (validate_agent_proposal_boundary A D q cx)"
  unfolding validate_agent_proposal_boundary_def
  by (auto simp: check_intent_def intro!: context_grows extends_fold)

lemma tame_proposal_ops: "extends c cx \<Longrightarrow> tame extends c (validate_proposal_ops A run mode q cx)"
proof (rule tame_extends_step)
  have sources: "tame prefix r (check_proposed_sources A cx u r)" for u r
    by (simp add: check_proposed_sources_def tame_source_refs)
  have first: "tame extends cx (if mode = Admission
      then on_report_r (fold_r (check_proposed_sources A cx) (concat (map content_updates (p_ops q)))) cx
      else Inr cx)"
    by (auto intro!: tame_on_report_r tame_fold_r sources intro: prefix_order.trans)
  show "tame extends cx (validate_proposal_ops A run mode q cx)"
    unfolding validate_proposal_ops_def
    by (rule tame_bind [OF first]) (auto intro!: tame_bind_val run_caught extends_on_report)
qed

lemma tame_proposal: "extends c cx \<Longrightarrow> tame extends c (validate_proposal A D run mode fl q cx)"
  unfolding validate_proposal_def Let_def flag_card_def
  by (auto intro!: tame_proposal_ops context_grows extends_on_report report_grows)

lemma tame_create_proposals: "tame extends cx (validate_create_proposals A D run qs cx)"
proof -
  have "tame (\<lambda>s t. extends (snd s) (snd t)) s (validate_created_proposal A D run q s)" for q s
  proof (cases s)
    case (Pair seen c)
    have "tame extends c (validate_proposal A D run Replay_mode False q
        (cx_reject_if (cx_mode c = Admission \<and> p_id q \<in> set seen) ''duplicate-proposal-id'' [] [] c))"
      by (intro tame_proposal context_grows) simp
    then show ?thesis
      by (auto simp: Pair validate_created_proposal_def tame_def result_simps split: sum.splits)
  qed
  then have "tame (\<lambda>s t. extends (snd s) (snd t)) ([], cx)
      (fold_r (validate_created_proposal A D run) qs ([], cx))"
    by (intro tame_fold_r) (auto intro: extends_trans)
  then show ?thesis
    by (auto simp: validate_create_proposals_def tame_def result_simps split: sum.splits)
qed

lemma tame_author_create_proposals: "tame extends cx (author_create_proposals A D run qs cx)"
  unfolding author_create_proposals_def by (rule tame_extends_fold_r) (simp add: tame_proposal)

lemma tame_structural: "tame extends cx (structural_validate A D run op cx)"
  by (cases op)
    (auto intro!: tame_create_nodes tame_update_nodes tame_create_proposals extends_create_edges
      extends_remove_nodes extends_supersede_nodes extends_merge_nodes extends_truth_scope
      extends_ontology extends_fold context_grows
      simp: validate_remove_edges_def validate_resolve_ambiguities_def validate_resolve_proposals_def
        validate_withdraw_proposals_def validate_set_standing_def)

lemma tame_authoring: "tame extends cx (authoring_validate A D run op cx)"
  by (cases op)
    (auto intro!: tame_author_create_nodes tame_author_update_nodes extends_author_create_edges
      tame_author_create_proposals)

end

section \<open>The loop over the operations\<close>

text \<open>What staging leaves of its context: the patch, the mode and the graph it started from.\<close>

definition advances :: "op_context \<Rightarrow> op_context \<Rightarrow> bool" where
  "advances cx cx' = (prefix (cx_report cx) (cx_report cx') \<and> cx_patch cx' = cx_patch cx
     \<and> cx_mode cx' = cx_mode cx \<and> cx_initial_state cx' = cx_initial_state cx
     \<and> cx_writer cx' = cx_writer cx \<and> cx_revision cx' = cx_revision cx)"

lemma advances_refl [simp]: "advances cx cx"
  by (simp add: advances_def)

lemma advances_trans: "advances a b \<Longrightarrow> advances b c \<Longrightarrow> advances a c"
  by (auto simp: advances_def intro: prefix_order.trans)

lemma extends_advances: "extends cx cx' \<Longrightarrow> advances cx cx'"
  by (simp add: advances_def extends_fields)

lemma advances_stage: "advances cx (stage_operation A op cx)"
  by (auto simp: stage_operation_def advances_def cx_reject_def split: sum.splits intro!: report_grows)

context operation_runner
begin

lemma tame_operation: "tame advances cx (validate_operation A D run op cx)"
proof (cases "cx_mode cx = Admission \<and> legacy_only op")
  case True
  then show ?thesis
    by (auto simp: validate_operation_def intro!: extends_advances context_grows)
next
  case False
  have "tame extends cx (bind_r (structural_validate A D run op cx) (\<lambda>cx1.
      if cx_mode cx = Admission then authoring_validate A D run op cx1 else Inr cx1))"
    by (rule tame_bind [OF tame_structural]) (auto intro: tame_extends_step tame_authoring)
  then have "tame advances cx (bind_r (bind_r (structural_validate A D run op cx) (\<lambda>cx1.
      if cx_mode cx = Admission then authoring_validate A D run op cx1 else Inr cx1)) (\<lambda>cx2.
      Inr (if reject_count (cx_report cx2) \<noteq> reject_count (cx_report cx) then cx2
           else stage_operation A op cx2)))"
    (is "tame advances cx (bind_r ?m _)")
    by (cases ?m) (auto intro: advances_trans [OF extends_advances advances_stage] extends_advances)
  moreover have "bind_r (bind_r m f) g = bind_r m (\<lambda>x. bind_r (f x) g)"
    for m :: "op_context result" and f and g :: "op_context \<Rightarrow> op_context result"
    by (cases m) simp_all
  ultimately show ?thesis using False unfolding validate_operation_def by (simp only: if_False)
qed

lemma tame_run: "tame advances cx (run_operations A D run cx)"
  unfolding run_operations_def
  by (rule tame_fold_r) (auto intro: advances_trans tame_operation)

lemma run_again: "tame_val (run_operations A D run cx)"
  using tame_run [of cx] by (auto simp: tame_def tame_val_def split: sum.splits)

end

interpretation no_run: operation_runner A D Inr for A D
  by unfold_locales simp

interpretation proposal_run: operation_runner A D "run_operations A D Inr" for A D
  by unfold_locales (rule no_run.run_again)

lemma tame_operations: "tame advances cx (validate_operations A D cx)"
  unfolding validate_operations_def by (rule proposal_run.tame_run)

section \<open>Approvals and experiment loops\<close>

lemma tame_val_normalized_ops [simp]: "tame_val (normalized_decision_proposal_ops st q)"
  unfolding normalized_decision_proposal_ops_def by (rule tame_val_bind) simp_all

text \<open>
  An approval that proposes a standing has a standing target, so the rule for old Proposals
  never looks for a first subject.
\<close>

lemma tame_val_approval_operations:
  assumes "proposes_standing q"
  shows "tame_val (proposal_approval_operations st q reason)"
proof -
  have "standing_subject op \<noteq> []"
    if "case op of ProposalStandingChangeOperation _ _ \<Rightarrow> True | _ \<Rightarrow> False" for op
    using that by (cases op) auto
  then have "concat (map standing_subject (p_ops q)) \<noteq> []"
    using assms by (auto simp: proposes_standing_def list_ex_iff)
  then have "tame_val (proposal_approval_standing_targets q)"
    by (simp add: proposal_approval_standing_targets_def Let_def)
  then show ?thesis
    unfolding proposal_approval_operations_def by (intro tame_val_bind) simp_all
qed

lemma grows_approved_result [report_grows]:
  "prefix r r' \<Longrightarrow> prefix r (validate_approved_decision_result st ops rv r')"
  unfolding validate_approved_decision_result_def check_approved_update_def
  by (intro prefix_fold) (auto intro!: report_grows split: option.splits)

lemma tame_approved: "prefix r r' \<Longrightarrow> tame prefix r (validate_approved st q w mode rv ops r')"
  unfolding validate_approved_def
proof (rule tame_bind_val)
  show "tame_val (replayed_operations st q)"
    unfolding replayed_operations_def
    by (intro tame_val_bind) (auto intro!: tame_val_bind tame_val_approval_operations simp: Let_def)
qed (auto simp: Let_def intro!: report_grows split: prod.splits)

lemma tame_resolution: "tame prefix r (validate_resolution st p w mode res r)"
  unfolding validate_resolution_def Let_def
  by (auto split: option.splits intro!: tame_bind tame_approved report_grows)

lemma grows_withdrawal: "prefix r (snd s) \<Longrightarrow> prefix r (snd (check_withdrawal st rv i res s))"
  by (cases s) (auto simp: check_withdrawal_def Let_def intro!: report_grows)

lemma grows_snd_fold:
  assumes "\<And>x s. prefix r (snd s) \<Longrightarrow> prefix r (snd (f x s))" and "prefix r (snd s)"
  shows "prefix r (snd (fold f xs s))"
  using assms(2)
proof (induction xs arbitrary: s)
  case (Cons x xs)
  then show ?case using assms(1) by simp
qed simp

lemma grows_withdrawals: "prefix r (snd s) \<Longrightarrow> prefix r (snd (check_withdrawals st rv i rs s))"
proof -
  have "prefix r (snd (fold (check_withdrawal st rv i) rs s))" if "prefix r (snd s)" for s
    using grows_withdrawal that by (rule grows_snd_fold)
  then show "prefix r (snd s) \<Longrightarrow> prefix r (snd (check_withdrawals st rv i rs s))"
    by (cases s) (auto simp: check_withdrawals_def intro!: report_grows)
qed

lemma grows_choice [report_grows]:
  "prefix r r' \<Longrightarrow> prefix r (validate_choice st rv standing rss u n r')"
proof -
  have loop: "prefix r (snd (fold (check_withdrawals st rv i) rss (seen, r1)))"
    if "prefix r r1" for seen r1 i
    using that by (intro grows_snd_fold grows_withdrawals) simp_all
  show "prefix r r' \<Longrightarrow> prefix r (validate_choice st rv standing rss u n r')"
    unfolding validate_choice_def Let_def case_prod_beta by (auto intro!: loop report_grows)
qed

lemma grows_direct_choice [report_grows]:
  "prefix r r' \<Longrightarrow> prefix r (validate_direct_decision_choice st p rv r')"
  unfolding validate_direct_decision_choice_def Let_def
  by (auto split: list.splits option.splits intro!: report_grows)

lemma grows_direct_edit [report_grows]:
  "prefix r r' \<Longrightarrow> prefix r (validate_direct_node_edit A st mode rv us r')"
  unfolding validate_direct_node_edit_def validate_direct_changes_def Let_def
  by (auto split: list.splits option.splits intro!: report_grows)

lemma grows_standalone [report_grows]:
  "prefix r r' \<Longrightarrow> prefix r (validate_standalone A st p mode r')"
  unfolding validate_standalone_def validate_staged_review_def Let_def
  by (auto split: list.splits intro!: report_grows)

lemma tame_approval_shape: "tame prefix r (validate_approval_shape A st p w mode r)"
  unfolding validate_approval_shape_def Let_def
  by (auto split: list.splits intro!: report_grows tame_resolution)

lemma grows_attempts [report_grows]:
  "prefix r r' \<Longrightarrow> prefix r (validate_attempts A rv n pins b raw r')"
  unfolding validate_attempts_def check_attempts_def check_appended_attempt_def Let_def
  by (auto split: val.splits sum.splits option.splits intro!: prefix_fold report_grows)

lemma tame_loop_update: "tame prefix r (validate_loop_update A st rv n pins b fs u r)"
  unfolding validate_loop_update_def queue_pinned_decision_def Let_def
  by (auto split: option.splits intro!: tame_bind_val report_grows)

lemma grows_loop_edge [report_grows]: "prefix r r' \<Longrightarrow> prefix r (validate_loop_edge st p rv i e r')"
  unfolding validate_loop_edge_def by (auto split: option.splits intro!: report_grows)

lemma grows_loop_proposal [report_grows]:
  "prefix r r' \<Longrightarrow> prefix r (validate_loop_proposal st p rv i q r')"
  unfolding validate_loop_proposal_def validate_belief_proposal_def Let_def
  by (auto split: list.splits option.splits intro!: prefix_fold report_grows)

lemma tame_loop_operation: "tame prefix r (validate_loop_operation A st p mode n pins op r)"
  by (cases op)
    (auto simp: validate_loop_nodes_def intro!: tame_fold_r tame_loop_update prefix_fold report_grows
      intro: prefix_order.trans)

lemma tame_loop_authority: "tame prefix r (validate_experiment_loop_authority A st p c pins mode r)"
proof (cases "controlled_experiment st c")
  case (Some n)
  let ?r1 = "reject_if (\<not> distinct (map dp_decision_id pins)) ''experiment-loop-decision-bundle''
     (patch_rev p) (n_id n # map dp_decision_id pins) [] r"
  have "tame prefix ?r1 (fold_r (validate_loop_operation A st p mode n pins) (pa_ops p) ?r1)"
    by (intro tame_fold_r tame_loop_operation) (auto intro: prefix_order.trans)
  moreover have "prefix r ?r1" by (intro report_grows) simp
  ultimately show ?thesis
    by (auto simp: validate_experiment_loop_authority_def Some Let_def tame_def split: sum.splits
        intro: prefix_order.trans)
qed (auto simp: validate_experiment_loop_authority_def intro!: report_grows)

section \<open>A whole patch\<close>

lemma extends_identity_shape [context_grows]: "extends c cx \<Longrightarrow> extends c (validate_identity_shape cx)"
  unfolding validate_identity_shape_def Let_def by (auto intro!: context_grows)

lemma extends_attribution_shape [context_grows]:
  "extends c cx \<Longrightarrow> extends c (validate_attribution_shape cx)"
  unfolding validate_attribution_shape_def Let_def by (auto intro!: context_grows)

lemma extends_declared_action [context_grows]:
  "extends c cx \<Longrightarrow> extends c (validate_declared_agent_action cx)"
  unfolding validate_declared_agent_action_def Let_def by (auto intro!: context_grows)

lemma extends_declared_scope [context_grows]: "extends c cx \<Longrightarrow> extends c (validate_declared_scope cx)"
  unfolding validate_declared_scope_def Let_def by (auto intro!: context_grows)

lemma extends_envelope: "extends cx (validate_envelope st p cx)"
  unfolding validate_envelope_def
  by (intro context_grows extends_on_report report_grows) simp_all

lemma extends_queued_options: "extends cx (validate_queued_decision_options A cx)"
  unfolding validate_queued_decision_options_def
  by (auto intro!: extends_fold extends_on_report report_grows)

lemma extends_created_proposals: "extends cx (validate_created_proposal_liveness cx)"
  unfolding validate_created_proposal_liveness_def check_created_proposal_def Let_def
  by (intro extends_fold) (auto split: prod.splits option.splits intro!: context_grows)


lemma tame_advances_extends: "tame extends cx m \<Longrightarrow> tame advances cx m"
  by (auto simp: tame_def intro: extends_advances split: sum.splits)

text \<open>The context in which the operations of a patch are staged.\<close>

definition staging_context ::
  "node_adapter \<Rightarrow> graph_state \<Rightarrow> patch \<Rightarrow> validation_context \<Rightarrow> writer \<Rightarrow> string option \<Rightarrow>
   experiment_decision_pin list option \<Rightarrow> op_context result" where
  "staging_context A st p context w control_node_id bundle =
     (let control = (if truthy control_node_id then control_node_id else pa_experiment_control_node_id p);
          pins = (case bundle of None \<Rightarrow> pa_experiment_decision_bundle p | Some pins \<Rightarrow> pins);
          mode = vc_mode context;
          cx1 = validate_envelope st p (initial_context st p context w control)
      in bind_r (if pa_kind p = Experiment_loop
                   then on_report_r (validate_experiment_loop_authority A st p control pins mode) cx1
                 else Inr (cx_reject_if (truthy control \<or> pins \<noteq> []) ''unexpected-experiment-control''
                        [] [] cx1)) (\<lambda>cx2.
         if pa_kind p = Approval then on_report_r (validate_approval_shape A st p w mode) cx2
         else Inr cx2))"

lemma validate_patch_rules_staging:
  "validate_patch_rules A D st p context w control bundle =
     bind_r (staging_context A st p context w control bundle) (\<lambda>cx3.
     bind_r (validate_operations A D cx3) (\<lambda>cx4.
       Inr (validate_created_proposal_liveness (validate_queued_decision_options A cx4))))"
proof -
  have assoc: "bind_r (bind_r m f) g = bind_r m (\<lambda>x. bind_r (f x) g)"
    for m :: "op_context result" and f and g :: "op_context \<Rightarrow> op_context result"
    by (cases m) simp_all
  show ?thesis
    unfolding validate_patch_rules_def staging_context_def Let_def assoc ..
qed

lemma tame_staging_context:
  "\<exists>cx0. cx_state cx0 = st \<and> cx_initial_state cx0 = st \<and> cx_patch cx0 = p \<and> cx_writer cx0 = w
     \<and> cx_mode cx0 = vc_mode context \<and> cx_report cx0 = []
     \<and> tame extends cx0 (staging_context A st p context w control bundle)"
proof -
  let ?c = "if truthy control then control else pa_experiment_control_node_id p"
  let ?cx0 = "initial_context st p context w ?c"
  have "tame extends ?cx0 (staging_context A st p context w control bundle)"
    unfolding staging_context_def Let_def
    by (rule tame_bind)
      (auto intro!: tame_on_report_r tame_loop_authority tame_approval_shape context_grows
        extends_envelope)
  then show ?thesis by (intro exI [of _ ?cx0]) (simp add: initial_context_def)
qed

lemma tame_val_patch_rules: "tame_val (validate_patch_rules A D st p context w control bundle)"
proof -
  have "tame_val (staging_context A st p context w control bundle)"
    using tame_staging_context [of st p w "context" A control "bundle"]
    by (auto simp: tame_def tame_val_def split: sum.splits)
  moreover have "tame_val (validate_operations A D cx)" for cx
    using tame_operations [of cx A D] by (auto simp: tame_def tame_val_def split: sum.splits)
  ultimately show ?thesis
    unfolding validate_patch_rules_staging by (intro tame_val_bind) simp_all
qed

end
