(* ===== verification/Apply_Laws.thy ===== *)
theory Apply_Laws
  imports Materialize Node_Validator
begin

text \<open>
  What each operation of \<open>Materialize\<close> does to the graph, as inversion lemmas: if the
  operation returns, the state it returns is described by the node it found and the node the
  validator produced. The invariants and safety properties of the development rest on these
  lemmas. They hold for every node validator that meets the contract \<open>adapter\<close>.
\<close>

section \<open>Immutable fields\<close>

lemma set_immutable_fields:
  "set IMMUTABLE_NODE_UPDATE_FIELDS = {''id'', ''extension_type'', ''standing'', ''created_rev'',
     ''updated_rev'', ''type'', ''current_summary_stale'', ''next_action_stale'',
     ''legacy_strength''}"
  by code_simp

lemma set_legacy_fields:
  "set LEGACY_COMPATIBILITY_UPDATE_FIELDS =
     {''current_summary_stale'', ''next_action_stale'', ''legacy_strength''}"
  by code_simp

lemma immutable_core:
  assumes "k \<in> {''id'', ''type'', ''created_rev'', ''updated_rev'', ''standing'', ''extension_type''}"
  shows "k \<in> set (immutable_update_fields p g)"
  using assms
  by (auto simp: immutable_update_fields_def set_immutable_fields set_legacy_fields)

text \<open>Every node class declares its lifecycle field, and as a string.\<close>

lemma lifecycle_field_declared:
  assumes "t \<in> set ALL_NODE_TYPES"
  obtains f where "f \<in> set (own_fields t)" and "string_annotation (fd_annotation f)"
    and "fd_name f = lifecycle_field project_type_of t"
proof -
  have "list_all (\<lambda>t. list_ex (\<lambda>f. string_annotation (fd_annotation f) \<and>
      fd_name f = lifecycle_field project_type_of t) (own_fields t)) ALL_NODE_TYPES"
    by code_simp
  then show ?thesis using assms that by (auto simp: list_all_iff list_ex_iff)
qed

section \<open>Reading a dumped node back\<close>

lemma dump_simps [simp]:
  "dict_get (node_model_dump n) ''id'' = Some (VStr (n_id n))"
  "dict_get (node_model_dump n) ''type'' = Some (VStr (n_type n))"
  "dict_get (node_model_dump n) ''created_rev'' = Some (VInt (n_created_rev n))"
  by (simp_all add: node_model_dump_def)

text \<open>The fields an update or a retirement must leave alone.\<close>

definition same_identity :: "project_node \<Rightarrow> project_node \<Rightarrow> bool" where
  "same_identity n n' = (n_id n' = n_id n \<and> n_type n' = n_type n
     \<and> n_created_rev n' = n_created_rev n)"

context node_validator
begin

lemma revalidate:
  assumes "V d = Inr n'"
    and "\<And>k. k \<in> {''id'', ''type'', ''created_rev''} \<Longrightarrow> dict_get d k = dict_get (node_model_dump n) k"
    and "dict_get d ''updated_rev'' = Some (VInt r)"
    and "dict_get d ''standing'' = Some (VStr (standing_value s))"
  shows "same_identity n n'" and "n_updated_rev n' = r" and "n_standing n' = s"
    and "conforming_node n'"
proof -
  show "same_identity n n'"
    using id_given [OF assms(1)] type_given [OF assms(1)] created_given [OF assms(1)] assms(2)
    by (simp add: same_identity_def)
  show "n_updated_rev n' = r" by (rule updated_given [OF assms(1,3)])
  show "n_standing n' = s" by (rule standing_given [OF assms(1,4)])
  show "conforming_node n'" by (rule conforming [OF assms(1)])
qed

end

lemma immutable_frame:
  assumes "filter (\<lambda>f. f \<in> set (immutable_update_fields p g)) (keys changes) = []"
    and "k \<in> {''id'', ''type'', ''created_rev'', ''updated_rev'', ''standing'', ''extension_type''}"
  shows "dict_get (dict_update d changes) k = dict_get d k"
proof (rule dict_update_frame)
  show "k \<notin> set (keys changes)"
    using assms(1) immutable_core [OF assms(2), of p g] by (auto simp: filter_empty_conv)
qed

context adapter
begin

lemma update_node_Inr:
  assumes "update_node A p g u st = Inr st'"
  obtains node updated where "dict_get (g_nodes st) (nu_id u) = Some node"
    and "same_identity node updated" and "n_updated_rev updated = pa_revision p"
    and "n_standing updated = (if pa_kind p = Approval then n_standing node else ASSERTED)"
    and "conforming_node updated"
    and "\<And>k. k \<in> set (keys (nu_changes u)) \<Longrightarrow> k \<notin> set (immutable_update_fields p g)"
    and "(if pa_schema_generation p = 1 then ad_validate A else strict_project_node A)
        (AList.update ''standing'' (standing_after (pa_kind p = Approval) node)
        (AList.update ''updated_rev'' (VInt (pa_revision p))
          (dict_update (node_model_dump node) (nu_changes u)))) = Inr updated"
    and "st' = (record_belief_transition node updated (pa_revision p) (nu_cause u) st)
            \<lparr>g_nodes := AList.update (n_id node) updated (g_nodes st)\<rparr>"
proof -
  let ?V = "if pa_schema_generation p = 1 then ad_validate A else strict_project_node A"
  from assms obtain node updated where
    node: "dict_get (g_nodes st) (nu_id u) = Some node"
    and im: "filter (\<lambda>f. f \<in> set (immutable_update_fields p g)) (keys (nu_changes u)) = []"
    and V: "?V (AList.update ''standing'' (standing_after (pa_kind p = Approval) node)
        (AList.update ''updated_rev'' (VInt (pa_revision p))
          (dict_update (node_model_dump node) (nu_changes u)))) = Inr updated"
    and st': "st' = (record_belief_transition node updated (pa_revision p) (nu_cause u) st)
            \<lparr>g_nodes := AList.update (n_id node) updated (g_nodes st)\<rparr>"
    unfolding update_node_def
    by (auto simp: result_simps Let_def split: if_splits)
  have NV: "node_validator ?V"
    by (simp add: lax_mode strict_project_node_validator)
  have core: "dict_get (AList.update ''standing'' (standing_after (pa_kind p = Approval) node)
        (AList.update ''updated_rev'' (VInt (pa_revision p))
          (dict_update (node_model_dump node) (nu_changes u)))) k = dict_get (node_model_dump node) k"
    if "k \<in> {''id'', ''type'', ''created_rev''}" for k
    using that immutable_frame [OF im, of k] by auto
  note facts = node_validator.revalidate [OF NV V core, of "pa_revision p"
      "if pa_kind p = Approval then n_standing node else ASSERTED", simplified standing_after_def dict_get_update]
  have free: "k \<notin> set (immutable_update_fields p g)" if "k \<in> set (keys (nu_changes u))" for k
    using im that by (auto simp: filter_empty_conv)
  show ?thesis
    by (rule that [OF node facts free V st']) simp_all
qed

lemma create_node_Inr:
  assumes "create_node A r raw st = Inr st'"
  obtains node where "st' = put_node node st" and "n_created_rev node = r"
    and "n_updated_rev node = r" and "conforming_node node"
    and "''id'' \<in> set (np_fields_set raw) \<Longrightarrow> n_id node = n_id (np_node raw)"
    and "n_standing node = (if ''standing'' \<in> set (np_fields_set raw)
           then n_standing (np_node raw) else ASSERTED)"
proof -
  let ?d = "dump_exclude_unset raw"
  have get: "dict_get ?d k = (if k \<in> set (np_fields_set raw)
      then dict_get (node_model_dump (np_node raw)) k else None)" for k
    by (simp add: dump_exclude_unset_def dict_get_filter_key)
  have st: "dict_get (node_model_dump (np_node raw)) ''standing''
      = Some (VStr (standing_value (n_standing (np_node raw))))"
    by (simp add: node_model_dump_def)
  from assms obtain node where
    V: "ad_validate A (AList.update ''standing''
      (case dict_get ?d ''standing'' of Some s \<Rightarrow> s | None \<Rightarrow> VStr ''asserted'')
      (AList.update ''updated_rev'' (VInt r) (AList.update ''created_rev'' (VInt r) ?d))) = Inr node"
    and st': "st' = put_node node st"
    by (auto simp: create_node_def result_simps Let_def)
  show ?thesis
  proof (rule that [OF st'])
    show "n_created_rev node = r" and "n_updated_rev node = r" and "conforming_node node"
      using lax.created_given [OF V] lax.updated_given [OF V] lax.conforming [OF V] by auto
    show "n_id node = n_id (np_node raw)" if "''id'' \<in> set (np_fields_set raw)"
      using lax.id_given [OF V] that by (simp add: get)
    show "n_standing node = (if ''standing'' \<in> set (np_fields_set raw)
           then n_standing (np_node raw) else ASSERTED)"
      using lax.standing_given [OF V, of "n_standing (np_node raw)"]
        lax.standing_given [OF V, of ASSERTED] by (simp add: get st)
  qed
qed

lemma retire_and_record_Inr:
  assumes "retire_and_record A p i cause st = Inr st'"
  obtains node retired where "dict_get (g_nodes st) i = Some node"
    and "same_identity node retired" and "n_updated_rev retired = pa_revision p"
    and "n_standing retired = (if pa_kind p = Approval then n_standing node else ASSERTED)"
    and "conforming_node retired"
    and "node_attr retired (lifecycle_field project_type_of (n_type node)) = Some (VStr ''superseded'')"
    and "st' = record_belief_transition node retired (pa_revision p) cause
            (st\<lparr>g_nodes := AList.update i retired (g_nodes st)\<rparr>)"
proof -
  let ?f = "\<lambda>n. lifecycle_field project_type_of (n_type n)"
  from assms obtain node retired where
    node: "dict_get (g_nodes st) i = Some node"
    and V: "ad_validate A (AList.update ''standing'' (standing_after (pa_kind p = Approval) node)
        (AList.update ''updated_rev'' (VInt (pa_revision p))
        (AList.update (?f node) (VStr ''superseded'') (node_model_dump node)))) = Inr retired"
    and st': "st' = record_belief_transition node retired (pa_revision p) cause
            (st\<lparr>g_nodes := AList.update i retired (g_nodes st)\<rparr>)"
    unfolding retire_and_record_def retire_node_def
    by (auto simp: result_simps Let_def)
  have core: "dict_get (AList.update ''standing'' (standing_after (pa_kind p = Approval) node)
        (AList.update ''updated_rev'' (VInt (pa_revision p))
        (AList.update (?f node) (VStr ''superseded'') (node_model_dump node)))) k
      = dict_get (node_model_dump node) k" if "k \<in> {''id'', ''type'', ''created_rev''}" for k
    using that by (auto simp: lifecycle_field_research)
  note facts = lax.revalidate [OF V core, of "pa_revision p"
      "if pa_kind p = Approval then n_standing node else ASSERTED", simplified standing_after_def dict_get_update]
  have attr: "node_attr retired (?f node) = Some (VStr ''superseded'')"
  proof -
    have ty: "n_type retired = n_type node"
      using facts(1) by (simp add: same_identity_def)
    have "n_type retired \<in> set ALL_NODE_TYPES"
      using lax.conforming [OF V] by (simp add: conforming_node_def)
    then obtain f where f: "f \<in> set (own_fields (n_type retired))"
      "string_annotation (fd_annotation f)" "fd_name f = ?f retired"
      by (rule lifecycle_field_declared)
    then show ?thesis
      using lax.string_given [OF V f(1,2), of "''superseded''"] ty
      by (simp add: lifecycle_field_research split: if_splits)
  qed
  show ?thesis
    by (rule that [OF node facts attr st']) simp_all
qed

end

section \<open>Which part of the graph an operation touches\<close>

lemma record_belief_transition_frame [simp]:
  "g_nodes (record_belief_transition a b r c st) = g_nodes st"
  "g_edges (record_belief_transition a b r c st) = g_edges st"
  "g_proposals (record_belief_transition a b r c st) = g_proposals st"
  "g_ambiguities (record_belief_transition a b r c st) = g_ambiguities st"
  "g_glossary (record_belief_transition a b r c st) = g_glossary st"
  "g_ontology (record_belief_transition a b r c st) = g_ontology st"
  "g_revision (record_belief_transition a b r c st) = g_revision st"
  "g_last_refresh_at (record_belief_transition a b r c st) = g_last_refresh_at st"
  "g_validation_messages (record_belief_transition a b r c st) = g_validation_messages st"
  "g_replay_status (record_belief_transition a b r c st) = g_replay_status st"
  by (simp_all add: record_belief_transition_def split: option.split)

lemma put_simps [simp]:
  "g_nodes (put_node n st) = AList.update (n_id n) n (g_nodes st)"
  "g_edges (put_edge e st) = AList.update (e_id e) e (g_edges st)"
  "g_proposals (put_proposal q st) = AList.update (p_id q) q (g_proposals st)"
  by (simp_all add: put_node_def put_edge_def put_proposal_def)

lemma rederive_edge_frame [simp]:
  "g_nodes (rederive_edge i st) = g_nodes st"
  "g_proposals (rederive_edge i st) = g_proposals st"
  "g_belief_transitions (rederive_edge i st) = g_belief_transitions st"
  "g_ambiguities (rederive_edge i st) = g_ambiguities st"
  "g_glossary (rederive_edge i st) = g_glossary st"
  "g_revision (rederive_edge i st) = g_revision st"
  "g_last_refresh_at (rederive_edge i st) = g_last_refresh_at st"
  "g_validation_messages (rederive_edge i st) = g_validation_messages st"
  "g_replay_status (rederive_edge i st) = g_replay_status st"
  by (simp_all add: rederive_edge_def split: option.split)

lemma fold_rederive_frame [simp]:
  "g_nodes (fold rederive_edge is st) = g_nodes st"
  "g_proposals (fold rederive_edge is st) = g_proposals st"
  "g_belief_transitions (fold rederive_edge is st) = g_belief_transitions st"
  "g_ambiguities (fold rederive_edge is st) = g_ambiguities st"
  "g_glossary (fold rederive_edge is st) = g_glossary st"
  "g_revision (fold rederive_edge is st) = g_revision st"
  "g_last_refresh_at (fold rederive_edge is st) = g_last_refresh_at st"
  "g_validation_messages (fold rederive_edge is st) = g_validation_messages st"
  "g_replay_status (fold rederive_edge is st) = g_replay_status st"
  by (induction "is" arbitrary: st) simp_all

lemma apply_patch_Inr:
  assumes "apply_patch A idx p st = Inr (st', ds)"
  obtains s where "apply_operations A p (generated_operation_indexes idx p)
      \<lparr>ap_graph = st, ap_descriptors = [], ap_created_edge_ids = []\<rparr> = Inr s"
    and "st' = finish_patch p
      (fold rederive_edge (rev (remdups (rev (ap_created_edge_ids s)))) (ap_graph s))"
    and "ds = ap_descriptors s"
  using assms unfolding apply_patch_def by (auto simp: result_simps)

lemma snd_enumerate: "x \<in> set (enumerate n xs) \<Longrightarrow> snd x \<in> set xs"
  by (induction xs arbitrary: n) auto

text \<open>
  A property of the state that every operation of a patch keeps is kept by all of them.
\<close>

lemma apply_operations_invariant:
  assumes "\<And>g op s s'. op \<in> set (pa_ops p) \<Longrightarrow> P s \<Longrightarrow> apply_operation A p g op s = Inr s' \<Longrightarrow> P s'"
    and "P s" and "apply_operations A p generated s = Inr s'"
  shows "P s'"
proof (rule fold_r_invariant [where P = P])
  fix x t t'
  assume "x \<in> set (enumerate 0 (pa_ops p))" and "P t"
    and "(case x of (index, op) \<Rightarrow> apply_operation A p (int index \<in> set generated) op) t = Inr t'"
  moreover from this have "snd x \<in> set (pa_ops p)"
    using snd_enumerate by blast
  ultimately show "P t'" using assms(1) by (auto simp: case_prod_unfold)
qed (use assms(2,3) in \<open>simp_all add: apply_operations_def\<close>)

lemma on_graph_Inr [result_simps]:
  "on_graph f s = Inr s' \<longleftrightarrow> (\<exists>g. f (ap_graph s) = Inr g \<and> s' = s\<lparr>ap_graph := g\<rparr>)"
  by (auto simp: on_graph_def result_simps)

end
