(* ===== verification/Graph_Steps.thy ===== *)
theory Graph_Steps
  imports Apply_Laws
begin

text \<open>
  An abstract specification of what the operations of a patch may do to the graph: one
  \<open>graph_step\<close> per change an operation makes, without the node validator, the loops and the
  bookkeeping of \<open>_apply_patch\<close>. The refinement lemma \<open>apply_operation_steps\<close> shows that every
  operation that returns has made a sequence of such steps. The invariants of the graph are
  proved by rule induction over the steps.
\<close>

section \<open>The step relation\<close>

text \<open>What an update or a retirement makes of a node.\<close>

definition revised :: "patch \<Rightarrow> project_node \<Rightarrow> project_node \<Rightarrow> bool" where
  "revised p n n' = (same_identity n n' \<and> n_updated_rev n' = pa_revision p
     \<and> n_standing n' = (if pa_kind p = Approval then n_standing n else ASSERTED)
     \<and> conforming_node n')"

definition created :: "patch \<Rightarrow> node_payload \<Rightarrow> project_node \<Rightarrow> bool" where
  "created p raw n = (conforming_node n \<and> n_created_rev n = pa_revision p
     \<and> n_updated_rev n = pa_revision p
     \<and> (''id'' \<in> set (np_fields_set raw) \<longrightarrow> n_id n = n_id (np_node raw))
     \<and> n_standing n = (if ''standing'' \<in> set (np_fields_set raw)
          then n_standing (np_node raw) else ASSERTED))"

text \<open>The nodes an operation retires and the edges it draws from them.\<close>

fun retires :: "graph_operation \<Rightarrow> string set" where
  "retires (SupersedeNodesOperation items) = sn_id ` set items"
| "retires (MergeNodesOperation merges) = nm_duplicate ` set merges"
| "retires _ = {}"

fun updates :: "graph_operation \<Rightarrow> string set" where
  "updates (UpdateNodesOperation us) = nu_id ` set us"
| "updates _ = {}"

inductive graph_step :: "patch \<Rightarrow> graph_operation \<Rightarrow> graph_state \<Rightarrow> graph_state \<Rightarrow> bool" for p where
  node_created: "raw \<in> set nodes \<Longrightarrow> created p raw n \<Longrightarrow>
     graph_step p (CreateNodesOperation nodes) st (put_node n st)"
| node_updated: "i \<in> updates op \<Longrightarrow> dict_get (g_nodes st) i = Some n \<Longrightarrow> revised p n n' \<Longrightarrow>
     graph_step p op st ((record_belief_transition n n' (pa_revision p) cause st)
       \<lparr>g_nodes := AList.update (n_id n) n' (g_nodes st)\<rparr>)"
| node_retired: "i \<in> retires op \<Longrightarrow> dict_get (g_nodes st) i = Some n \<Longrightarrow> revised p n n' \<Longrightarrow>
     node_attr n' (lifecycle_field project_type_of (n_type n)) = Some (VStr ''superseded'') \<Longrightarrow>
     graph_step p op st (record_belief_transition n n' (pa_revision p) cause
       (st\<lparr>g_nodes := AList.update i n' (g_nodes st)\<rparr>))"
| edge_generated: "i \<in> retires op \<Longrightarrow> relation \<in> {''supersedes'', ''duplicate_of''} \<Longrightarrow>
     graph_step p op st (put_edge (generated_edge i relation target explanation (pa_revision p)) st)"
| edge_created: "raw \<in> set edges \<Longrightarrow> edge_of_payload (g_ontology st) (pa_revision p) raw = Inr e \<Longrightarrow>
     graph_step p (CreateEdgesOperation edges) st (put_edge (derive_layer st e) st)"
| edges_removed: "graph_step p (RemoveEdgesOperation edge_ids) st
     (st\<lparr>g_edges := fold AList.delete edge_ids (g_edges st)\<rparr>)"
| nodes_removed: "graph_step p (RemoveNodesOperation node_ids) st (remove_nodes node_ids st)"
| ambiguity_created: "raw \<in> set as \<Longrightarrow>
     graph_step p (CreateAmbiguitiesOperation as) st (create_ambiguity (pa_revision p) raw st)"
| ambiguity_resolved: "r \<in> set rs \<Longrightarrow> resolve_ambiguity r st = Inr st' \<Longrightarrow>
     graph_step p (ResolveAmbiguitiesOperation rs) st st'"
| proposal_created: "q \<in> set qs \<Longrightarrow>
     graph_step p (CreateProposalsOperation qs) st (create_proposal p q st)"
| proposal_resolved: "r \<in> set rs \<Longrightarrow> resolve_proposal p r st = Inr st' \<Longrightarrow>
     graph_step p (ResolveProposalsOperation rs) st st'"
| proposal_withdrawn: "w \<in> set ws \<Longrightarrow> withdraw_proposal p w st = Inr st' \<Longrightarrow>
     graph_step p (WithdrawProposalsOperation ws) st st'"
| term_upserted: "t \<in> set terms \<Longrightarrow>
     graph_step p (UpsertGlossaryOperation terms) st (upsert_term (pa_revision p) t st)"
| standing_set: "dict_get (g_nodes st) i = Some n \<Longrightarrow>
     graph_step p (SetStandingOperation i s) st
       (put_node (n\<lparr>n_standing := s, n_updated_rev := pa_revision p\<rparr>) st)"
| scope_set: "graph_step p (SetProjectTruthScopeOperation scope repository) st
     (st\<lparr>g_project_truth_scope := sorted_set scope,
         g_config_revisions := AList.update ''project_truth_scope'' (pa_revision p)
           (g_config_revisions st)\<rparr>)"
| ontology_set: "graph_step p (SetOntologyOperation os) st (set_ontology os (pa_revision p) st)"

abbreviation graph_steps :: "patch \<Rightarrow> graph_operation \<Rightarrow> graph_state \<Rightarrow> graph_state \<Rightarrow> bool" where
  "graph_steps p op \<equiv> (graph_step p op)\<^sup>*\<^sup>*"

lemma graph_steps_single: "graph_step p op st st' \<Longrightarrow> graph_steps p op st st'"
  by (rule r_into_rtranclp)

lemmas single_steps = edges_removed [THEN graph_steps_single] nodes_removed [THEN graph_steps_single]
  ontology_set [THEN graph_steps_single] scope_set [THEN graph_steps_single]
  standing_set [THEN graph_steps_single]

section \<open>The loops refine the steps\<close>

lemma graph_steps_trans: "graph_steps p op s t \<Longrightarrow> graph_steps p op t u \<Longrightarrow> graph_steps p op s u"
  by (rule rtranclp_trans)

text \<open>A \<open>for\<close> loop that cannot raise.\<close>

lemma fold_steps:
  assumes "\<And>x s. x \<in> set xs \<Longrightarrow> graph_step p op s (f x s)"
  shows "graph_steps p op s (fold f xs s)"
  using assms
proof (induction xs arbitrary: s)
  case (Cons x xs)
  then have "graph_step p op s (f x s)" and "graph_steps p op (f x s) (fold f xs (f x s))" by simp_all
  then show ?case by simp
qed simp

interpretation edges: loop_relation "create_edge (pa_revision p)" "\<lambda>raw. raw \<in> set edges"
  "\<lambda>s s'. graph_steps p (CreateEdgesOperation edges) (ap_graph s) (ap_graph s')" for p edges
  by unfold_locales (auto simp: create_edge_def result_simps intro!: edge_created r_into_rtranclp)

interpretation ambiguities: loop_relation resolve_ambiguity "\<lambda>r. r \<in> set rs"
  "graph_steps p (ResolveAmbiguitiesOperation rs)" for p rs
  by unfold_locales (auto intro: ambiguity_resolved)

interpretation resolutions: loop_relation "resolve_proposal p" "\<lambda>r. r \<in> set rs"
  "graph_steps p (ResolveProposalsOperation rs)" for p rs
  by unfold_locales (auto intro: proposal_resolved)

interpretation withdrawals: loop_relation "withdraw_proposal p" "\<lambda>w. w \<in> set ws"
  "graph_steps p (WithdrawProposalsOperation ws)" for p ws
  by unfold_locales (auto intro: proposal_withdrawn)

context adapter
begin

lemma create_node_step:
  assumes "raw \<in> set nodes" and "create_node A (pa_revision p) raw st = Inr st'"
  shows "graph_step p (CreateNodesOperation nodes) st st'"
proof -
  from assms(2) obtain n where "st' = put_node n st" and "created p raw n"
    by (rule create_node_Inr) (simp add: created_def)
  with assms(1) show ?thesis by (simp add: node_created)
qed

lemma update_node_step:
  assumes "u \<in> set us" and "update_node A p g u st = Inr st'"
  shows "graph_step p (UpdateNodesOperation us) st st'"
proof -
  from assms(2) obtain n n' where "dict_get (g_nodes st) (nu_id u) = Some n" and "revised p n n'"
    and "st' = (record_belief_transition n n' (pa_revision p) (nu_cause u) st)
            \<lparr>g_nodes := AList.update (n_id n) n' (g_nodes st)\<rparr>"
    by (rule update_node_Inr) (simp add: revised_def)
  with assms(1) show ?thesis by (auto intro!: node_updated [where i = "nu_id u"])
qed

lemma retire_step:
  assumes "i \<in> retires op" and "retire_and_record A p i cause st = Inr st'"
  shows "graph_step p op st st'"
proof -
  from assms(2) obtain n n' where "dict_get (g_nodes st) i = Some n" and "revised p n n'"
    and "node_attr n' (lifecycle_field project_type_of (n_type n)) = Some (VStr ''superseded'')"
    and "st' = record_belief_transition n n' (pa_revision p) cause
            (st\<lparr>g_nodes := AList.update i n' (g_nodes st)\<rparr>)"
    by (rule retire_and_record_Inr) (simp add: revised_def)
  with assms(1) show ?thesis by (auto intro: node_retired)
qed

lemma supersede_steps:
  assumes "item \<in> set items" and "supersede_one A p item st = Inr st'"
  shows "graph_steps p (SupersedeNodesOperation items) st st'"
proof -
  let ?op = "SupersedeNodesOperation items"
  have r: "sn_id item \<in> retires ?op" using assms(1) by simp
  from assms(2) obtain st1 where st1: "retire_and_record A p (sn_id item) (sn_cause item) st = Inr st1"
    and "st' = st1 \<or> (\<exists>t. st' = put_edge (generated_edge (sn_id item) ''supersedes'' t
           (sn_explanation item) (pa_revision p)) st1)"
    by (auto simp: supersede_one_def result_simps split: option.splits if_splits)
  then show ?thesis
    using retire_step [OF r st1] edge_generated [OF r] by (auto intro: rtranclp.rtrancl_into_rtrancl)
qed

lemma merge_steps:
  assumes "item \<in> set merges" and "merge_one A p item st = Inr st'"
  shows "graph_steps p (MergeNodesOperation merges) st st'"
proof -
  let ?op = "MergeNodesOperation merges"
  have r: "nm_duplicate item \<in> retires ?op" using assms(1) by simp
  from assms(2) obtain st1 where st1: "retire_and_record A p (nm_duplicate item) (nm_cause item) st = Inr st1"
    and st': "st' = put_edge (generated_edge (nm_duplicate item) ''duplicate_of'' (nm_canonical item)
              (nm_explanation item) (pa_revision p)) st1"
    by (auto simp: merge_one_def result_simps)
  then show ?thesis
    using retire_step [OF r st1] edge_generated [OF r] by (auto intro: rtranclp.rtrancl_into_rtrancl)
qed

end

sublocale adapter \<subseteq> creating: loop_relation "create_node A (pa_revision p)" "\<lambda>raw. raw \<in> set nodes"
  "graph_steps p (CreateNodesOperation nodes)" for p nodes
  by unfold_locales (auto intro: create_node_step)

sublocale adapter \<subseteq> updating: loop_relation "update_node A p g" "\<lambda>u. u \<in> set us"
  "graph_steps p (UpdateNodesOperation us)" for p g us
  by unfold_locales (auto intro: update_node_step)

sublocale adapter \<subseteq> superseding: loop_relation "supersede_one A p" "\<lambda>item. item \<in> set items"
  "graph_steps p (SupersedeNodesOperation items)" for p items
  by unfold_locales (auto intro: supersede_steps)

sublocale adapter \<subseteq> merging: loop_relation "merge_one A p" "\<lambda>item. item \<in> set merges"
  "graph_steps p (MergeNodesOperation merges)" for p merges
  by unfold_locales (auto intro: merge_steps)

context adapter
begin

lemma apply_operation_steps:
  assumes "apply_operation A p g op s = Inr s'"
  shows "graph_steps p op (ap_graph s) (ap_graph s')"
proof (cases op)
  case (CreateNodesOperation nodes)
  with assms show ?thesis by (auto simp: result_simps intro: creating.loop_R)
next
  case (UpdateNodesOperation us)
  with assms show ?thesis by (auto simp: result_simps intro: updating.loop_R)
next
  case (CreateEdgesOperation es)
  with assms show ?thesis by (auto intro: edges.loop_R)
next
  case (SupersedeNodesOperation items)
  with assms show ?thesis by (auto simp: result_simps intro: superseding.loop_R)
next
  case (MergeNodesOperation merges)
  with assms show ?thesis by (auto simp: result_simps intro: merging.loop_R)
next
  case (ResolveAmbiguitiesOperation rs)
  with assms show ?thesis by (auto simp: result_simps intro: ambiguities.loop_R)
next
  case (ResolveProposalsOperation rs)
  with assms show ?thesis by (auto simp: result_simps intro: resolutions.loop_R)
next
  case (WithdrawProposalsOperation ws)
  with assms show ?thesis by (auto simp: result_simps intro: withdrawals.loop_R)
next
  case (SetStandingOperation i st)
  with assms show ?thesis by (auto simp: result_simps set_standing_def intro!: single_steps)
next
  case (SetProjectTruthScopeOperation scope repository)
  with assms show ?thesis by (auto simp: set_project_truth_scope_def intro!: single_steps)
qed (use assms in \<open>auto intro!: fold_steps single_steps ambiguity_created proposal_created
      term_upserted\<close>)

end

section \<open>The steps of a patch and of a log\<close>

text \<open>
  What \<open>_apply_patch\<close> does to the graph: steps of its operations, then derived layers, then the
  revision and the refresh time.
\<close>

inductive patch_change :: "patch \<Rightarrow> graph_state \<Rightarrow> graph_state \<Rightarrow> bool" for p where
  by_operation: "op \<in> set (pa_ops p) \<Longrightarrow> graph_step p op st st' \<Longrightarrow> patch_change p st st'"
| by_layer: "patch_change p st (rederive_edge i st)"
| by_end: "patch_change p st (finish_patch p st)"

lemma graph_steps_change:
  assumes "graph_steps p op st st'" and "op \<in> set (pa_ops p)"
  shows "(patch_change p)\<^sup>*\<^sup>* st st'"
  using assms by (induction rule: rtranclp_induct) (auto intro: rtranclp.rtrancl_into_rtrancl by_operation)

lemma fold_rederive_change: "(patch_change p)\<^sup>*\<^sup>* st (fold rederive_edge is st)"
proof (induction "is" arbitrary: st)
  case (Cons i "is")
  then show ?case by (auto intro: converse_rtranclp_into_rtranclp by_layer)
qed simp

context adapter
begin

lemma apply_operations_change:
  assumes "apply_operations A p generated s = Inr s'"
  shows "(patch_change p)\<^sup>*\<^sup>* (ap_graph s) (ap_graph s')"
  by (rule apply_operations_invariant [where P = "\<lambda>t. (patch_change p)\<^sup>*\<^sup>* (ap_graph s) (ap_graph t)",
        OF _ _ assms])
    (auto intro: rtranclp_trans graph_steps_change dest: apply_operation_steps)

lemma apply_patch_change:
  assumes "apply_patch A idx p st = Inr (st', ds)"
  shows "(patch_change p)\<^sup>*\<^sup>* st st'"
proof -
  from assms obtain s where s: "apply_operations A p (generated_operation_indexes idx p)
      \<lparr>ap_graph = st, ap_descriptors = [], ap_created_edge_ids = []\<rparr> = Inr s"
    and st': "st' = finish_patch p
      (fold rederive_edge (rev (remdups (rev (ap_created_edge_ids s)))) (ap_graph s))"
    by (rule apply_patch_Inr)
  have "(patch_change p)\<^sup>*\<^sup>* st (ap_graph s)"
    using apply_operations_change [OF s] by simp
  then show ?thesis
    unfolding st'
    by (meson fold_rederive_change by_end rtranclp.rtrancl_into_rtrancl rtranclp_trans)
qed

text \<open>An invariant of the steps is an invariant of a patch.\<close>

lemma apply_patch_invariant:
  assumes "apply_patch A idx p st = Inr (st', ds)" and "P st"
    and "\<And>op s s'. op \<in> set (pa_ops p) \<Longrightarrow> graph_step p op s s' \<Longrightarrow> P s \<Longrightarrow> P s'"
    and "\<And>i s. P s \<Longrightarrow> P (rederive_edge i s)"
    and "\<And>s. P s \<Longrightarrow> P (finish_patch p s)"
  shows "P st'"
  using apply_patch_change [OF assms(1)] assms(2)
proof (induction rule: rtranclp_induct)
  case (step y z)
  from step.hyps(2) step.IH [OF assms(2)] show ?case
    by cases (auto intro: assms)
qed

end

end
