(* ===== verification/Graph_Invariants.thy ===== *)
theory Graph_Invariants
  imports Graph_Steps Replay
begin

text \<open>
  The invariants of the materialized graph, proved over the steps of \<open>Graph_Steps\<close> and lifted to
  a patch and to the replay of a log: every object is stored under its own id and every node
  conforms to its class (\<open>graph_wf\<close>), who may change a node and its standing, the log of belief
  transitions, and the immutable part of a Proposal.
\<close>

section \<open>Well-formed graphs\<close>

definition keyed :: "('v \<Rightarrow> string) \<Rightarrow> 'v dict \<Rightarrow> bool" where
  "keyed f d = (wf_dict d \<and> list_all (\<lambda>(k, v). f v = k) d)"

definition graph_wf :: "graph_state \<Rightarrow> bool" where
  "graph_wf st = (keyed n_id (g_nodes st) \<and> keyed e_id (g_edges st) \<and> keyed p_id (g_proposals st)
     \<and> keyed am_id (g_ambiguities st) \<and> keyed gl_term (g_glossary st)
     \<and> list_all (\<lambda>(_, n). conforming_node n) (g_nodes st))"

lemma set_update_subset: "set (AList.update k v d) \<subseteq> insert (k, v) (set d)"
  by (induction d) auto

lemma keyed_update [simp]: "keyed f d \<Longrightarrow> f v = k \<Longrightarrow> keyed f (AList.update k v d)"
  using set_update_subset [of k v d] by (fastforce simp: keyed_def list_all_iff)

lemma keyed_filter [simp]: "keyed f d \<Longrightarrow> keyed f (filter P d)"
  by (auto simp: keyed_def list_all_iff)

lemma keyed_delete [simp]: "keyed f d \<Longrightarrow> keyed f (AList.delete k d)"
  by (simp add: AList.delete_eq)

lemma keyed_fold_delete [simp]: "keyed f d \<Longrightarrow> keyed f (fold AList.delete ks d)"
  by (induction ks arbitrary: d) auto

lemma keyed_get: "keyed f d \<Longrightarrow> dict_get d k = Some v \<Longrightarrow> f v = k"
  by (auto simp: keyed_def list_all_iff dest: map_of_SomeD)

lemma values_update:
  "list_all (\<lambda>(_, v). P v) d \<Longrightarrow> P v \<Longrightarrow> list_all (\<lambda>(_, v). P v) (AList.update k v d)"
  using set_update_subset [of k v d] by (fastforce simp: list_all_iff)

lemma graph_wf_node: "graph_wf st \<Longrightarrow> dict_get (g_nodes st) i = Some n \<Longrightarrow> n_id n = i"
  by (auto simp: graph_wf_def dest: keyed_get)

lemma graph_wf_put_node:
  assumes "graph_wf st" and "conforming_node n" and "n_id n = i"
  shows "graph_wf (st\<lparr>g_nodes := AList.update i n (g_nodes st)\<rparr>)"
  using assms by (simp add: graph_wf_def values_update)

lemma graph_wf_record [simp]:
  "graph_wf (record_belief_transition a b r c st) = graph_wf st"
  by (simp add: graph_wf_def)

lemma graph_wf_frame [simp]:
  "graph_wf (st\<lparr>g_revision := r\<rparr>) = graph_wf st"
  "graph_wf (st\<lparr>g_validation_messages := ms\<rparr>) = graph_wf st"
  "graph_wf (degrade q code st) = graph_wf st"
  "graph_wf (finish_patch q st) = graph_wf st"
  by (simp_all add: graph_wf_def degrade_def finish_patch_def)

lemma conforming_standing [simp]:
  "conforming_node (n\<lparr>n_standing := s, n_updated_rev := r\<rparr>) = conforming_node n"
  by (simp add: conforming_node_def node_attr_def)

lemma graph_wf_conforming: "graph_wf st \<Longrightarrow> dict_get (g_nodes st) i = Some n \<Longrightarrow> conforming_node n"
  by (auto simp: graph_wf_def list_all_iff dest: map_of_SomeD)

lemma graph_wf_step:
  assumes "graph_step p op st st'" and "graph_wf st"
  shows "graph_wf st'"
  using assms
proof (induction rule: graph_step.induct)
  case (node_created raw nodes n st)
  then show ?case by (simp add: created_def put_node_def graph_wf_put_node)
next
  case (node_updated i op st n n' cause)
  then have "graph_wf (st\<lparr>g_nodes := AList.update (n_id n) n' (g_nodes st)\<rparr>)"
    by (simp add: revised_def same_identity_def graph_wf_put_node)
  then show ?case by (simp add: graph_wf_def)
next
  case (node_retired i op st n n' cause)
  moreover from this have "n_id n = i" by (simp add: graph_wf_node)
  ultimately show ?case by (simp add: revised_def same_identity_def graph_wf_put_node)
next
  case (standing_set st i n s)
  then show ?case by (simp add: put_node_def graph_wf_put_node graph_wf_conforming)
next
  case (nodes_removed node_ids st)
  then show ?case by (auto simp: graph_wf_def remove_nodes_def list_all_iff)
next
  case (proposal_created q qs st)
  then show ?case by (simp add: graph_wf_def create_proposal_def put_proposal_def case_prod_unfold)
next
  case (proposal_resolved r rs st st')
  then show ?case
    by (auto simp: graph_wf_def resolve_proposal_def put_proposal_def result_simps)
next
  case (proposal_withdrawn w ws st st')
  then show ?case
    by (auto simp: graph_wf_def withdraw_proposal_def put_proposal_def result_simps)
next
  case (ambiguity_resolved r rs st st')
  then show ?case by (auto simp: graph_wf_def resolve_ambiguity_def result_simps)
qed (auto simp: graph_wf_def put_edge_def create_ambiguity_def upsert_term_def set_ontology_def)

lemma graph_wf_rederive:
  assumes "graph_wf st"
  shows "graph_wf (rederive_edge i st)"
proof (cases "dict_get (g_edges st) i")
  case (Some e)
  then have "e_id e = i" using assms by (auto simp: graph_wf_def dest: keyed_get)
  with Some assms show ?thesis by (simp add: rederive_edge_def derive_layer_def graph_wf_def)
qed (use assms in \<open>simp add: rederive_edge_def\<close>)

context adapter
begin

lemma graph_wf_apply_patch:
  assumes "apply_patch A idx p st = Inr (st', ds)" and "graph_wf st"
  shows "graph_wf st'"
  by (rule apply_patch_invariant [where P = graph_wf, OF assms])
    (simp_all add: graph_wf_step graph_wf_rederive)

end

section \<open>Invariants of a replay\<close>

text \<open>The report of a patch during replay, and the result when the replay stops at it.\<close>

definition replay_report ::
  "patch_validator \<Rightarrow> validation_context \<Rightarrow> patch \<Rightarrow> graph_state \<Rightarrow> report" where
  "replay_report V ctx p st = V st p (ctx\<lparr>vc_project_truth_scope := g_project_truth_scope st,
     vc_mode := Replay_mode\<rparr>) @ pa_admission_messages p"

definition stopped :: "patch \<Rightarrow> string \<Rightarrow> report \<Rightarrow> materialization_result \<Rightarrow> materialization_result" where
  "stopped p code r m = m\<lparr>m_reports := AList.update (pa_revision p) r (m_reports m),
     m_state := degrade p code (m_state m)\<rparr>"

text \<open>A patch the replay cannot apply: the code and the report it stops with.\<close>

definition stop_code ::
  "node_adapter \<Rightarrow> patch_validator \<Rightarrow> validation_context \<Rightarrow> patch \<Rightarrow> graph_state \<Rightarrow>
   (string \<times> report) option" where
  "stop_code A V ctx p st =
     (let r = replay_report V ctx p st in
      if pa_admission p = Rejected_admission then None
      else if rejected r then Some (first_reject_code r, r)
      else if apply_patch A [] p st \<in> range Inr then None
      else Some (''malformed-operation'', reject ''malformed-operation'' (Some (pa_revision p)) [] [] r))"

lemma replay_loop_cases:
  obtains (skip) "pa_admission p = Rejected_admission"
      "replay_loop A V ctx (p # ps) m = replay_loop A V ctx ps (skip_rejected p m)"
  | (stop) code r where "stop_code A V ctx p (m_state m) = Some (code, r)"
      "replay_loop A V ctx (p # ps) m = stopped p code r m"
  | (accept) st' ds where "pa_admission p \<noteq> Rejected_admission"
      "apply_patch A [] p (m_state m) = Inr (st', ds)"
      "\<not> rejected (replay_report V ctx p (m_state m))"
      "replay_loop A V ctx (p # ps) m = replay_loop A V ctx ps
         (accept_applied p (replay_report V ctx p (m_state m)) st' ds m)"
proof (cases "pa_admission p = Rejected_admission")
  case True
  then show ?thesis by (intro skip) simp_all
next
  case adm: False
  show ?thesis
  proof (cases "rejected (replay_report V ctx p (m_state m))")
    case True
    then show ?thesis
      using adm by (intro stop) (auto simp: stop_code_def stopped_def replay_report_def Let_def)
  next
    case False
    show ?thesis
    proof (cases "apply_patch A [] p (m_state m)")
      case (Inl e)
      then show ?thesis
        using adm False by (intro stop) (auto simp: stop_code_def stopped_def replay_report_def Let_def)
    next
      case (Inr x)
      then show ?thesis
        using adm False by (intro accept [of "fst x" "snd x"])
          (auto simp: replay_report_def Let_def split: prod.split)
    qed
  qed
qed

lemma replay_loop_invariant:
  assumes "P (m_state m)"
    and "\<And>p st st' ds. p \<in> set ps \<Longrightarrow> P st \<Longrightarrow> apply_patch A [] p st = Inr (st', ds) \<Longrightarrow> P st'"
    and "\<And>r st. P st \<Longrightarrow> P (st\<lparr>g_revision := r\<rparr>)"
    and "\<And>ms st. P st \<Longrightarrow> P (st\<lparr>g_validation_messages := ms\<rparr>)"
    and "\<And>p c st. P st \<Longrightarrow> P (degrade p c st)"
  shows "P (m_state (replay_loop A V ctx ps m))"
  using assms(1,2)
proof (induction ps arbitrary: m)
  case (Cons p ps)
  show ?case
  proof (cases rule: replay_loop_cases [of p A V ctx ps m])
    case skip
    have "P (m_state (skip_rejected p m))"
      using assms(3,4) Cons.prems(1) by (simp add: skip_rejected_def)
    then show ?thesis unfolding skip(2) by (rule Cons.IH) (rule Cons.prems(2), simp_all)
  next
    case (stop code r)
    then show ?thesis
      using assms(5) Cons.prems(1) by (simp add: stopped_def del: replay_loop.simps)
  next
    case (accept st' ds)
    have "P st'" by (rule Cons.prems(2) [OF _ Cons.prems(1) accept(2)]) simp
    then have "P (m_state (accept_applied p r st' ds m))" for r
      using assms(4) by (simp add: accept_applied_def Let_def)
    then show ?thesis unfolding accept(4) by (rule Cons.IH) (rule Cons.prems(2), simp_all)
  qed
qed simp

end
