(* ===== verification/Graph_Frames.thy ===== *)
theory Graph_Frames
  imports Graph_Invariants
begin

text \<open>
  What a patch leaves alone. Each section states a relation between the graph before and after
  one step and lifts it to a patch: the nodes no operation names, the identity of a node, the
  standing a human gave it, the log of belief transitions, and the immutable part of a Proposal.
\<close>

lemmas step_defs = put_node_def remove_nodes_def put_edge_def create_ambiguity_def
  resolve_ambiguity_def upsert_term_def set_ontology_def create_proposal_def resolve_proposal_def
  withdraw_proposal_def put_proposal_def result_simps

section \<open>Which nodes an operation names\<close>

fun creates :: "graph_operation \<Rightarrow> string set" where
  "creates (CreateNodesOperation nodes) = n_id ` np_node ` set nodes"
| "creates _ = {}"

fun removes :: "graph_operation \<Rightarrow> string set" where
  "removes (RemoveNodesOperation node_ids) = set node_ids"
| "removes _ = {}"

fun restands :: "graph_operation \<Rightarrow> string set" where
  "restands (SetStandingOperation i s) = {i}"
| "restands _ = {}"

definition touches :: "graph_operation \<Rightarrow> string set" where
  "touches op = creates op \<union> removes op \<union> updates op \<union> retires op \<union> restands op"

text \<open>The id of a node has no default: a payload always carries it.\<close>

fun ids_given :: "graph_operation \<Rightarrow> bool" where
  "ids_given (CreateNodesOperation nodes) = list_all (\<lambda>raw. ''id'' \<in> set (np_fields_set raw)) nodes"
| "ids_given _ = True"

text \<open>A node is where it was, possibly revised, but never replaced by another.\<close>

definition identity_kept :: "string \<Rightarrow> graph_state \<Rightarrow> graph_state \<Rightarrow> bool" where
  "identity_kept i st st' = rel_option same_identity (dict_get (g_nodes st) i) (dict_get (g_nodes st') i)"

lemma same_identity_refl [simp]: "same_identity n n"
  by (simp add: same_identity_def)

lemma identity_kept_refl [simp]: "identity_kept i st st"
  by (simp add: identity_kept_def option.rel_refl)

lemma identity_kept_trans:
  "identity_kept i s t \<Longrightarrow> identity_kept i t u \<Longrightarrow> identity_kept i s u"
  by (auto simp: identity_kept_def same_identity_def option_rel_Some1 option_rel_Some2
      elim!: option.rel_cases)

lemma untouched_step:
  assumes "graph_step p op st st'" and "graph_wf st" and "i \<notin> touches op" and "ids_given op"
  shows "dict_get (g_nodes st') i = dict_get (g_nodes st) i"
  using assms
proof (induction rule: graph_step.induct)
  case (node_created raw nodes n st)
  then have "n_id n \<in> touches (CreateNodesOperation nodes)"
    by (auto simp: created_def touches_def list_all_iff)
  with node_created show ?case by auto
next
  case (node_updated j op st n n' cause)
  then have "n_id n \<in> touches op" by (auto simp: touches_def dest: graph_wf_node)
  with node_updated show ?case by auto
next
  case (standing_set st j n s)
  then have "n_id n = j" by (auto dest: graph_wf_node)
  with standing_set show ?case by (auto simp: touches_def)
qed (auto simp: step_defs touches_def dict_get_filter_key split: prod.split)

lemma identity_step:
  assumes "graph_step p op st st'" and "graph_wf st" and "i \<notin> creates op \<union> removes op"
    and "ids_given op"
  shows "identity_kept i st st'"
proof (cases "i \<in> touches op")
  case True
  from assms(1,2) show ?thesis
  proof cases
    case (node_updated j n n' cause)
    then have "n_id n = j" using assms(2) by (auto dest: graph_wf_node)
    with node_updated show ?thesis
      by (auto simp: identity_kept_def revised_def option.rel_refl)
  next
    case (node_retired j n n' cause)
    then show ?thesis by (auto simp: identity_kept_def revised_def option.rel_refl)
  next
    case (standing_set j n s)
    then have "n_id n = j" using assms(2) by (auto dest: graph_wf_node)
    with standing_set show ?thesis
      by (auto simp: identity_kept_def same_identity_def option.rel_refl)
  qed (use True assms(3) in \<open>auto simp: touches_def put_edge_def identity_kept_def option.rel_refl\<close>)
next
  case False
  with untouched_step [OF assms(1,2)] assms(4) show ?thesis
    by (simp add: identity_kept_def option.rel_refl)
qed

section \<open>Standing\<close>

fun raises_standing :: "graph_operation \<Rightarrow> bool" where
  "raises_standing (SetStandingOperation i s) = (s \<noteq> ASSERTED)"
| "raises_standing (CreateNodesOperation nodes) =
     list_ex (\<lambda>raw. ''standing'' \<in> set (np_fields_set raw) \<and> n_standing (np_node raw) \<noteq> ASSERTED) nodes"
| "raises_standing _ = False"

definition standing_earned :: "graph_state \<Rightarrow> graph_state \<Rightarrow> bool" where
  "standing_earned st0 st = (\<forall>i n. dict_get (g_nodes st) i = Some n \<longrightarrow> n_standing n \<noteq> ASSERTED \<longrightarrow>
     dict_get (g_nodes st0) i = Some n)"

lemma standing_step:
  assumes "graph_step p op st st'" and "pa_kind p \<noteq> Approval" and "\<not> raises_standing op"
    and "standing_earned st0 st"
  shows "standing_earned st0 st'"
  using assms
proof (induction rule: graph_step.induct)
  case (node_created raw nodes n st)
  then have "n_standing n = ASSERTED" by (auto simp: created_def list_ex_iff)
  with node_created show ?case by (simp add: standing_earned_def)
qed (auto simp: step_defs standing_earned_def revised_def dict_get_filter_key split: prod.split)

section \<open>The log of belief transitions\<close>

definition hypothesis_statuses :: "val option set" where
  "hypothesis_statuses = (\<lambda>s. Some (VStr s)) ` {''proposed'', ''active'', ''supported'', ''weakened'',
     ''rejected'', ''superseded''}"

definition belief_entry :: "patch \<Rightarrow> belief_transition \<Rightarrow> bool" where
  "belief_entry p b = (bt_revision b = pa_revision p \<and> bt_from_status b \<noteq> bt_to_status b
     \<and> bt_from_status b \<in> hypothesis_statuses \<and> bt_to_status b \<in> hypothesis_statuses)"

definition belief_log_grows :: "patch \<Rightarrow> graph_state \<Rightarrow> graph_state \<Rightarrow> bool" where
  "belief_log_grows p st st' = (\<exists>new. g_belief_transitions st' = g_belief_transitions st @ new
     \<and> (\<forall>b \<in> set new. belief_entry p b))"

lemma belief_log_refl [simp]: "g_belief_transitions st' = g_belief_transitions st \<Longrightarrow> belief_log_grows p st st'"
  by (simp add: belief_log_grows_def)

lemma belief_log_trans:
  "belief_log_grows p s t \<Longrightarrow> belief_log_grows p t u \<Longrightarrow> belief_log_grows p s u"
  by (fastforce simp: belief_log_grows_def)

lemma conforming_status:
  assumes "conforming_node n" and "n_type n = ''hypothesis''"
  shows "node_attr n ''status'' \<in> hypothesis_statuses"
proof -
  let ?a = "ALit [''proposed'', ''active'', ''supported'', ''weakened'', ''rejected'', ''superseded'']"
  have "list_ex (\<lambda>f. fd_name f = ''status'' \<and> fd_annotation f = ?a) (own_fields ''hypothesis'')"
    by code_simp
  then obtain f where "f \<in> set (own_fields ''hypothesis'')" and f: "fd_name f = ''status''"
    and a: "fd_annotation f = ?a"
    by (auto simp: list_ex_iff)
  then have "case node_attr n ''status'' of None \<Rightarrow> False | Some v \<Rightarrow> allows (fd_annotation f) v"
    using assms by (auto simp: conforming_node_def list_all_iff)
  then show ?thesis
    by (auto simp: a hypothesis_statuses_def split: option.splits val.splits)
qed

lemma belief_log_record:
  assumes "conforming_node n" and "conforming_node n'"
  shows "belief_log_grows p st (record_belief_transition n n' (pa_revision p) cause st)"
  using conforming_status [OF assms(1)] conforming_status [OF assms(2)]
  by (auto simp: belief_log_grows_def record_belief_transition_def is_belief_research belief_entry_def
      split: option.split)

lemma belief_log_step:
  assumes "graph_step p op st st'" and "graph_wf st"
  shows "belief_log_grows p st st'"
  using assms
proof (induction rule: graph_step.induct)
  case (node_updated i op st n n' cause)
  then have "belief_log_grows p st (record_belief_transition n n' (pa_revision p) cause st)"
    by (auto simp: revised_def intro!: belief_log_record dest: graph_wf_conforming)
  then show ?case by (simp add: belief_log_grows_def)
next
  case (node_retired i op st n n' cause)
  then have "belief_log_grows p (st\<lparr>g_nodes := AList.update i n' (g_nodes st)\<rparr>)
      (record_belief_transition n n' (pa_revision p) cause (st\<lparr>g_nodes := AList.update i n' (g_nodes st)\<rparr>))"
    by (auto simp: revised_def intro!: belief_log_record dest: graph_wf_conforming)
  then show ?case by (simp add: belief_log_grows_def)
qed (auto simp: step_defs split: prod.split)

section \<open>Proposals\<close>

text \<open>The part of a Proposal that only its filing may write.\<close>

definition filed_part :: "proposal \<Rightarrow> proposal" where
  "filed_part q = q\<lparr>p_status := Pending, p_resolved_rev := None, p_resolved_by := None,
     p_resolved_by_operation_id := None, p_resolution_reason := None, p_rejection_reason := None\<rparr>"

fun files :: "graph_operation \<Rightarrow> string set" where
  "files (CreateProposalsOperation qs) = p_id ` set qs"
| "files _ = {}"

fun resolves :: "graph_operation \<Rightarrow> string set" where
  "resolves (ResolveProposalsOperation rs) = pr_id ` set rs"
| "resolves (WithdrawProposalsOperation ws) = pw_id ` set ws"
| "resolves _ = {}"

definition filing_kept :: "string \<Rightarrow> graph_state \<Rightarrow> graph_state \<Rightarrow> bool" where
  "filing_kept i st st' = (map_option filed_part (dict_get (g_proposals st') i) =
     map_option filed_part (dict_get (g_proposals st) i))"

lemma graph_wf_proposal: "graph_wf st \<Longrightarrow> dict_get (g_proposals st) i = Some q \<Longrightarrow> p_id q = i"
  by (auto simp: graph_wf_def dest: keyed_get)

lemma filing_step:
  assumes "graph_step p op st st'" and "graph_wf st" and "i \<notin> files op"
  shows "filing_kept i st st'"
  using assms
proof (induction rule: graph_step.induct)
  case (proposal_resolved r rs st st')
  then show ?case
    by (auto simp: filing_kept_def filed_part_def step_defs dest: graph_wf_proposal)
next
  case (proposal_withdrawn w ws st st')
  then show ?case
    by (auto simp: filing_kept_def filed_part_def step_defs dest: graph_wf_proposal)
qed (auto simp: step_defs filing_kept_def split: prod.split)

lemma proposal_step:
  assumes "graph_step p op st st'" and "graph_wf st" and "i \<notin> files op \<union> resolves op"
  shows "dict_get (g_proposals st') i = dict_get (g_proposals st) i"
  using assms
proof (induction rule: graph_step.induct)
  case (proposal_resolved r rs st st')
  moreover from this have "i \<noteq> pr_id r" by auto
  ultimately show ?case by (auto simp: step_defs graph_wf_proposal)
next
  case (proposal_withdrawn w ws st st')
  moreover from this have "i \<noteq> pw_id w" by auto
  ultimately show ?case by (auto simp: step_defs graph_wf_proposal)
qed (auto simp: step_defs split: prod.split)

section \<open>Revision and refresh time\<close>

definition same_clock :: "graph_state \<Rightarrow> graph_state \<Rightarrow> bool" where
  "same_clock st st' = (g_revision st' = g_revision st \<and> g_last_refresh_at st' = g_last_refresh_at st
     \<and> g_validation_messages st' = g_validation_messages st
     \<and> g_replay_status st' = g_replay_status st)"

lemma clock_step: "graph_step p op st st' \<Longrightarrow> same_clock st st'"
  by (induction rule: graph_step.induct) (auto simp: same_clock_def step_defs split: prod.split)

lemma clock_steps: "graph_steps p op st st' \<Longrightarrow> same_clock st0 st \<Longrightarrow> same_clock st0 st'"
proof (induction rule: rtranclp_induct)
  case (step t u)
  then show ?case using clock_step [of p op t u] by (simp add: same_clock_def)
qed simp

section \<open>Lifting to a patch\<close>

context adapter
begin

lemma apply_patch_relation:
  assumes "apply_patch A idx p st = Inr (st', ds)" and "graph_wf st" and "R st st"
    and "\<And>s t. R st s \<Longrightarrow> R s t \<Longrightarrow> R st t"
    and "\<And>op s s'. op \<in> set (pa_ops p) \<Longrightarrow> graph_step p op s s' \<Longrightarrow> graph_wf s \<Longrightarrow> R s s'"
    and "\<And>i s. R s (rederive_edge i s)" and "\<And>s. R s (finish_patch p s)"
  shows "R st st'"
proof -
  have "graph_wf st' \<and> R st st'"
  proof (rule apply_patch_invariant [OF assms(1), where P = "\<lambda>s. graph_wf s \<and> R st s"])
    show "graph_wf s' \<and> R st s'"
      if "op \<in> set (pa_ops p)" "graph_step p op s s'" "graph_wf s \<and> R st s" for op s s'
      using that graph_wf_step assms(4) [OF _ assms(5) [OF that(1,2)]] by blast
    show "graph_wf (rederive_edge i s) \<and> R st (rederive_edge i s)" if "graph_wf s \<and> R st s" for i s
      using that graph_wf_rederive assms(4) [OF _ assms(6)] by blast
    show "graph_wf (finish_patch p s) \<and> R st (finish_patch p s)" if "graph_wf s \<and> R st s" for s
      using that assms(4) [OF _ assms(7)] by simp
  qed (simp add: assms(2,3))
  then show ?thesis ..
qed

lemma untouched_patch:
  assumes "apply_patch A idx p st = Inr (st', ds)" and "graph_wf st"
    and "\<And>op. op \<in> set (pa_ops p) \<Longrightarrow> i \<notin> touches op \<and> ids_given op"
  shows "dict_get (g_nodes st') i = dict_get (g_nodes st) i"
  by (rule apply_patch_relation [OF assms(1,2),
        where R = "\<lambda>s t. dict_get (g_nodes t) i = dict_get (g_nodes s) i"])
    (use assms(3) in \<open>auto simp: finish_patch_def dest: untouched_step\<close>)

lemma identity_patch:
  assumes "apply_patch A idx p st = Inr (st', ds)" and "graph_wf st"
    and "\<And>op. op \<in> set (pa_ops p) \<Longrightarrow> i \<notin> creates op \<union> removes op \<and> ids_given op"
  shows "identity_kept i st st'"
proof (rule apply_patch_relation [OF assms(1,2), where R = "identity_kept i"])
  show "identity_kept i s s'" if "op \<in> set (pa_ops p)" "graph_step p op s s'" "graph_wf s" for op s s'
    using identity_step [OF that(2,3)] assms(3) [OF that(1)] by blast
  show "identity_kept i st u" if "identity_kept i st t" "identity_kept i t u" for t u
    using that by (rule identity_kept_trans)
qed (auto simp: identity_kept_def option.rel_refl finish_patch_def)

lemma standing_patch:
  assumes "apply_patch A idx p st = Inr (st', ds)" and "pa_kind p \<noteq> Approval"
    and "\<And>op. op \<in> set (pa_ops p) \<Longrightarrow> \<not> raises_standing op"
  shows "standing_earned st st'"
  by (rule apply_patch_invariant [OF assms(1), where P = "standing_earned st"])
    (use assms(2,3) in \<open>auto simp: standing_earned_def finish_patch_def
      dest: standing_step [unfolded standing_earned_def]\<close>)

lemma belief_log_patch:
  assumes "apply_patch A idx p st = Inr (st', ds)" and "graph_wf st"
  shows "belief_log_grows p st st'"
  by (rule apply_patch_relation [OF assms, where R = "belief_log_grows p"])
    (auto intro: belief_log_trans belief_log_step simp: finish_patch_def)

lemma filing_patch:
  assumes "apply_patch A idx p st = Inr (st', ds)" and "graph_wf st"
    and "\<And>op. op \<in> set (pa_ops p) \<Longrightarrow> i \<notin> files op"
  shows "filing_kept i st st'"
proof (rule apply_patch_relation [OF assms(1,2), where R = "filing_kept i"])
  show "filing_kept i s s'" if "op \<in> set (pa_ops p)" "graph_step p op s s'" "graph_wf s" for op s s'
    using filing_step [OF that(2,3)] assms(3) [OF that(1)] by blast
qed (auto simp: filing_kept_def finish_patch_def)

lemma clock_patch:
  assumes "apply_patch A idx p st = Inr (st', ds)"
  shows "g_revision st' = max (g_revision st) (pa_revision p)"
    and "g_last_refresh_at st' =
      (if pa_kind p \<in> {Seed, Refresh} then Some (pa_created_at p) else g_last_refresh_at st)"
    and "g_validation_messages st' = g_validation_messages st"
    and "g_replay_status st' = g_replay_status st"
proof -
  from assms obtain s where s: "apply_operations A p (generated_operation_indexes idx p)
      \<lparr>ap_graph = st, ap_descriptors = [], ap_created_edge_ids = []\<rparr> = Inr s"
    and st': "st' = finish_patch p
      (fold rederive_edge (rev (remdups (rev (ap_created_edge_ids s)))) (ap_graph s))"
    by (rule apply_patch_Inr)
  have "same_clock st (ap_graph s)"
    by (rule apply_operations_invariant [where P = "\<lambda>t. same_clock st (ap_graph t)", OF _ _ s])
      (auto intro: clock_steps apply_operation_steps simp: same_clock_def [of st st])
  then show "g_revision st' = max (g_revision st) (pa_revision p)"
    and "g_last_refresh_at st' =
      (if pa_kind p \<in> {Seed, Refresh} then Some (pa_created_at p) else g_last_refresh_at st)"
    and "g_validation_messages st' = g_validation_messages st"
    and "g_replay_status st' = g_replay_status st"
    by (simp_all add: st' finish_patch_def same_clock_def)
qed

end

end
