(* ===== verification/Staging.thy ===== *)
theory Staging
  imports Rule_Laws Graph_Frames
begin

text \<open>
  Validation stages the operations of a patch one at a time; applying the patch runs them in
  one pass. The two differ in the layers of edges, which each pass derives from the graph it
  has, and in the refresh time. The rest of the graph is its \<open>core\<close>: every operation reads and
  writes the core alone, so a patch whose operations were all staged applies, and leaves the
  core of the staged graph.
\<close>

section \<open>The core of a graph\<close>

definition unlayer :: "edge \<Rightarrow> edge" where
  "unlayer e = e\<lparr>e_layer := Meta\<rparr>"

definition bare_edges :: "edge dict \<Rightarrow> edge dict" where
  "bare_edges = map (apsnd unlayer)"

definition core :: "graph_state \<Rightarrow> graph_state" where
  "core st = st\<lparr>g_edges := bare_edges (g_edges st), g_last_refresh_at := None\<rparr>"

lemma unlayer_simps [simp]:
  "unlayer (derive_layer st e) = unlayer e"
  "e_source (unlayer e) = e_source e" "e_target (unlayer e) = e_target e" "e_id (unlayer e) = e_id e"
  "e_id (derive_layer st e) = e_id e"
  by (simp_all add: unlayer_def derive_layer_def)

lemma bare_edges_update [simp]:
  "bare_edges (AList.update k e d) = AList.update k (unlayer e) (bare_edges d)"
  by (induction d) (auto simp: bare_edges_def)

lemma bare_edges_deletes [simp]:
  "bare_edges (fold AList.delete ks d) = fold AList.delete ks (bare_edges d)"
proof -
  have "bare_edges (AList.delete k d) = AList.delete k (bare_edges d)" for k d
    by (induction d) (auto simp: bare_edges_def AList.delete_eq)
  then show ?thesis by (induction ks arbitrary: d) simp_all
qed

lemma bare_edges_filter [simp]:
  "bare_edges (filter (\<lambda>(_, e). e_source e \<notin> S \<and> e_target e \<notin> S) d) =
     filter (\<lambda>(_, e). e_source e \<notin> S \<and> e_target e \<notin> S) (bare_edges d)"
  by (induction d) (auto simp: bare_edges_def)

lemma bare_edges_get: "dict_get (bare_edges d) i = map_option unlayer (dict_get d i)"
  by (induction d) (auto simp: bare_edges_def)

lemma core_fields:
  assumes "core a = core b"
  shows "g_nodes a = g_nodes b" and "g_proposals a = g_proposals b" and "g_ambiguities a = g_ambiguities b"
    and "g_glossary a = g_glossary b" and "g_ontology a = g_ontology b"
    and "g_revision a = g_revision b" and "g_belief_transitions a = g_belief_transitions b"
    and "g_config_revisions a = g_config_revisions b"
    and "bare_edges (g_edges a) = bare_edges (g_edges b)"
proof -
  show "g_nodes a = g_nodes b" using arg_cong [OF assms, of g_nodes] by (simp add: core_def)
  show "g_proposals a = g_proposals b" using arg_cong [OF assms, of g_proposals] by (simp add: core_def)
  show "g_ambiguities a = g_ambiguities b" using arg_cong [OF assms, of g_ambiguities] by (simp add: core_def)
  show "g_glossary a = g_glossary b" using arg_cong [OF assms, of g_glossary] by (simp add: core_def)
  show "g_ontology a = g_ontology b" using arg_cong [OF assms, of g_ontology] by (simp add: core_def)
  show "g_revision a = g_revision b" using arg_cong [OF assms, of g_revision] by (simp add: core_def)
  show "g_belief_transitions a = g_belief_transitions b"
    using arg_cong [OF assms, of g_belief_transitions] by (simp add: core_def)
  show "g_config_revisions a = g_config_revisions b"
    using arg_cong [OF assms, of g_config_revisions] by (simp add: core_def)
  show "bare_edges (g_edges a) = bare_edges (g_edges b)"
    using arg_cong [OF assms, of g_edges] by (simp add: core_def)
qed

lemma core_updates [simp]:
  "core (st\<lparr>g_nodes := x\<rparr>) = (core st)\<lparr>g_nodes := x\<rparr>"
  "core (st\<lparr>g_edges := es\<rparr>) = (core st)\<lparr>g_edges := bare_edges es\<rparr>"
  "core (st\<lparr>g_proposals := q\<rparr>) = (core st)\<lparr>g_proposals := q\<rparr>"
  "core (st\<lparr>g_ambiguities := m\<rparr>) = (core st)\<lparr>g_ambiguities := m\<rparr>"
  "core (st\<lparr>g_glossary := y\<rparr>) = (core st)\<lparr>g_glossary := y\<rparr>"
  "core (st\<lparr>g_ontology := os\<rparr>) = (core st)\<lparr>g_ontology := os\<rparr>"
  "core (st\<lparr>g_config_revisions := c\<rparr>) = (core st)\<lparr>g_config_revisions := c\<rparr>"
  "core (st\<lparr>g_belief_transitions := bs\<rparr>) = (core st)\<lparr>g_belief_transitions := bs\<rparr>"
  "core (st\<lparr>g_project_truth_scope := sc\<rparr>) = (core st)\<lparr>g_project_truth_scope := sc\<rparr>"
  "core (st\<lparr>g_revision := r\<rparr>) = (core st)\<lparr>g_revision := r\<rparr>"
  "core (st\<lparr>g_last_refresh_at := t\<rparr>) = core st"
  by (simp_all add: core_def)

section \<open>Operations act on the core\<close>

text \<open>A step respects a view of the state: it succeeds, and ends, alike on states of one view.\<close>

locale respecting_step =
  fixes view :: "'s \<Rightarrow> 'a" and step :: "'s \<Rightarrow> 's result"
  assumes alike: "view s = view t \<Longrightarrow> map_sum id view (step s) = map_sum id view (step t)"
begin

lemma step_alike:
  assumes "view s = view t" and "step s = Inr s'"
  obtains t' where "step t = Inr t'" and "view t' = view s'"
  using alike [OF assms(1)] assms(2) by (cases "step t") auto

end

lemma map_sum_bind [simp]: "map_sum id v (bind_r m f) = bind_r m (\<lambda>x. map_sum id v (f x))"
  by (cases m) simp_all

lemma respecting_fold_r:
  assumes "\<And>x. x \<in> set xs \<Longrightarrow> respecting_step view (f x)"
  shows "respecting_step view (fold_r f xs)"
proof
  show "map_sum id view (fold_r f xs s) = map_sum id view (fold_r f xs t)" if "view s = view t" for s t
    using that assms
  proof (induction xs arbitrary: s t)
    case (Cons x xs)
    have "map_sum id view (f x s) = map_sum id view (f x t)"
      by (rule respecting_step.alike [OF Cons.prems(2) Cons.prems(1)]) simp
    then consider e where "f x s = Inl e" "f x t = Inl e"
      | s1 t1 where "f x s = Inr s1" "f x t = Inr t1" "view s1 = view t1"
      by (cases "f x s"; cases "f x t") auto
    then show ?case
    proof cases
      case 2
      have "map_sum id view (fold_r f xs s1) = map_sum id view (fold_r f xs t1)"
        by (rule Cons.IH [OF 2(3)]) (simp add: Cons.prems(2))
      with 2 show ?thesis by (simp add: id_def)
    qed simp
  qed simp
qed

lemma respecting_fold:
  assumes "\<And>x s t. view s = view t \<Longrightarrow> view (f x s) = view (f x t)"
  shows "view s = view t \<Longrightarrow> view (fold f xs s) = view (fold f xs t)"
proof (induction xs arbitrary: s t)
  case (Cons x xs)
  have "view (fold f xs (f x s)) = view (fold f xs (f x t))"
    by (rule Cons.IH) (rule assms [OF Cons.prems])
  then show ?case by simp
qed simp

lemma core_respectingI:
  assumes "\<And>s t. core s = core t \<Longrightarrow> g_nodes s = g_nodes t \<Longrightarrow> g_proposals s = g_proposals t \<Longrightarrow>
      g_ambiguities s = g_ambiguities t \<Longrightarrow> map_sum id core (f s) = map_sum id core (f t)"
  shows "respecting_step core f"
  by unfold_locales (intro assms core_fields)

lemma core_record [simp]:
  "core (record_belief_transition n n' r c st) = record_belief_transition n n' r c (core st)"
  by (simp add: record_belief_transition_def core_def split: option.split)

lemmas node_steps = create_node_def update_node_def retire_and_record_def retire_node_def put_node_def
  put_edge_def set_standing_def dict_get_or_raise_def Let_def

lemma respecting_create_node: "respecting_step core (create_node A r raw)"
  by (rule core_respectingI) (simp add: node_steps)

lemma respecting_update_node: "respecting_step core (update_node A p g u)"
  by (rule core_respectingI) (simp add: node_steps split: option.split)

lemma respecting_retire: "respecting_step core (retire_and_record A p i c)"
  by (rule core_respectingI) (simp add: node_steps split: option.split)

lemma respecting_set_standing: "respecting_step core (set_standing i s r)"
  by (rule core_respectingI) (simp add: node_steps split: option.split)

lemma core_put_edge [simp]:
  "core (put_edge e st) = (core st)\<lparr>g_edges := AList.update (e_id e) (unlayer e) (g_edges (core st))\<rparr>"
  by (simp add: put_edge_def core_def)

lemma respecting_bind_total:
  assumes "respecting_step view f" and "\<And>s t. view s = view t \<Longrightarrow> view (g s) = view (g t)"
  shows "respecting_step view (\<lambda>s. bind_r (f s) (\<lambda>x. Inr (g x)))"
proof
  fix s t assume "view s = view t"
  then have "map_sum id view (f s) = map_sum id view (f t)" by (rule respecting_step.alike [OF assms(1)])
  then show "map_sum id view (bind_r (f s) (\<lambda>x. Inr (g x))) = map_sum id view (bind_r (f t) (\<lambda>x. Inr (g x)))"
    by (cases "f s"; cases "f t") (auto simp del: map_sum_bind intro: assms(2))
qed

lemma respecting_supersede: "respecting_step core (supersede_one A p item)"
  unfolding supersede_one_def
  by (rule respecting_bind_total [OF respecting_retire]) (simp split: option.split)

lemma respecting_merge: "respecting_step core (merge_one A p item)"
  unfolding merge_one_def
  by (rule respecting_bind_total [OF respecting_retire]) simp

lemma respecting_resolve_ambiguity: "respecting_step core (resolve_ambiguity res)"
  by (rule core_respectingI) (simp add: resolve_ambiguity_def dict_get_or_raise_def split: option.split)

lemma respecting_resolve_proposal: "respecting_step core (resolve_proposal p res)"
  by (rule core_respectingI)
    (simp add: resolve_proposal_def put_proposal_def dict_get_or_raise_def split: option.split)

lemma respecting_withdraw_proposal: "respecting_step core (withdraw_proposal p w)"
  by (rule core_respectingI)
    (simp add: withdraw_proposal_def put_proposal_def dict_get_or_raise_def split: option.split)


lemma core_endpoints:
  assumes "core s = core t"
  shows "(case dict_get (g_edges s) i of None \<Rightarrow> [] | Some e \<Rightarrow> [Some (e_source e), Some (e_target e)])
     = (case dict_get (g_edges t) i of None \<Rightarrow> [] | Some e \<Rightarrow> [Some (e_source e), Some (e_target e)])"
proof -
  have "map_option unlayer (dict_get (g_edges s) i) = map_option unlayer (dict_get (g_edges t) i)"
    using core_fields(9) [OF assms] by (simp flip: bare_edges_get)
  then show ?thesis
    by (cases "dict_get (g_edges s) i"; cases "dict_get (g_edges t) i")
      (auto dest: arg_cong [of _ _ e_source] arg_cong [of _ _ e_target])
qed

lemma core_incident:
  assumes "core s = core t"
  shows "incident_edge_ids s ns = incident_edge_ids t ns"
proof -
  have "incident_edge_ids st ns = map e_id (filter (\<lambda>e. e_source e \<in> set ns \<or> e_target e \<in> set ns)
      (map snd (bare_edges (g_edges st))))" for st
    by (simp add: incident_edge_ids_def bare_edges_def filter_map comp_def)
  then show ?thesis using core_fields(9) [OF assms] by simp
qed

lemma core_op_dependencies:
  assumes "core s = core t"
  shows "op_dependencies op s = op_dependencies op t" and "own_edge_ids op s = own_edge_ids op t"
  using core_endpoints [OF assms] core_fields(3) [OF assms] core_incident [OF assms]
  by (cases op; simp add: depends_remove_edges_def depends_resolve_ambiguities_def
        split: edge_op.split)+

lemma core_proposal_dependencies:
  "core s = core t \<Longrightarrow> proposal_dependencies s ops = proposal_dependencies t ops"
  by (simp add: proposal_dependencies_def candidate_ids_def config_keys_def
      core_op_dependencies [of s t])

lemma core_create_proposal:
  assumes "core s = core t"
  shows "core (create_proposal p q s) = core (create_proposal p q t)"
  using core_proposal_dependencies [OF assms, of "p_ops q"] core_fields(2,6) [OF assms] assms
  by (simp add: create_proposal_def put_proposal_def split: prod.split)

section \<open>Applying an operation\<close>

definition ap_core :: "apply_state \<Rightarrow> graph_state" where
  "ap_core s = core (ap_graph s)"

lemma respecting_on_graph:
  assumes "respecting_step core f"
  shows "respecting_step ap_core (on_graph f)"
proof
  fix s t :: apply_state
  assume "ap_core s = ap_core t"
  then have "map_sum id core (f (ap_graph s)) = map_sum id core (f (ap_graph t))"
    by (intro respecting_step.alike [OF assms]) (simp add: ap_core_def)
  then show "map_sum id ap_core (on_graph f s) = map_sum id ap_core (on_graph f t)"
    by (cases "f (ap_graph s)"; cases "f (ap_graph t)") (auto simp: on_graph_def ap_core_def)
qed

lemma respecting_create_edge: "respecting_step ap_core (create_edge r e)"
proof
  fix s t :: apply_state
  assume "ap_core s = ap_core t"
  then have c: "core (ap_graph s) = core (ap_graph t)" by (simp add: ap_core_def)
  with core_fields(5) [OF c] show "map_sum id ap_core (create_edge r e s) = map_sum id ap_core (create_edge r e t)"
    by (simp add: create_edge_def ap_core_def)
qed

lemma respecting_total_graph:
  assumes "\<And>s t. core s = core t \<Longrightarrow> core (f s) = core (f t)"
  shows "respecting_step ap_core (\<lambda>s. Inr (s\<lparr>ap_graph := f (ap_graph s)\<rparr>))"
  by unfold_locales (auto simp: ap_core_def intro: assms)

lemma core_total_steps:
  assumes "core s = core t"
  shows "core (s\<lparr>g_edges := fold AList.delete ids (g_edges s)\<rparr>) = core (t\<lparr>g_edges := fold AList.delete ids (g_edges t)\<rparr>)"
    and "core (remove_nodes ids s) = core (remove_nodes ids t)"
    and "core (create_ambiguity r a s) = core (create_ambiguity r a t)"
    and "core (upsert_term r term s) = core (upsert_term r term t)"
    and "core (set_ontology os r s) = core (set_ontology os r t)"
  using assms core_fields [OF assms]
  by (simp_all add: remove_nodes_def create_ambiguity_def upsert_term_def set_ontology_def)

text \<open>The body of the loop over the operations, as a function of the state.\<close>

lemma operation_functions:
  "apply_operation A p g (CreateNodesOperation nodes) = on_graph (fold_r (create_node A (pa_revision p)) nodes)"
  "apply_operation A p g (UpdateNodesOperation us) = on_graph (fold_r (update_node A p g) us)"
  "apply_operation A p g (CreateEdgesOperation es) = fold_r (create_edge (pa_revision p)) es"
  "apply_operation A p g (RemoveEdgesOperation ids) = (\<lambda>s. Inr (s\<lparr>ap_graph :=
     (\<lambda>st. st\<lparr>g_edges := fold AList.delete ids (g_edges st)\<rparr>) (ap_graph s)\<rparr>))"
  "apply_operation A p g (RemoveNodesOperation ids) = (\<lambda>s. Inr (s\<lparr>ap_graph := remove_nodes ids (ap_graph s)\<rparr>))"
  "apply_operation A p g (SupersedeNodesOperation items) = on_graph (fold_r (supersede_one A p) items)"
  "apply_operation A p g (MergeNodesOperation ms) = on_graph (fold_r (merge_one A p) ms)"
  "apply_operation A p g (CreateAmbiguitiesOperation as) = (\<lambda>s. Inr (s\<lparr>ap_graph :=
     fold (create_ambiguity (pa_revision p)) as (ap_graph s)\<rparr>))"
  "apply_operation A p g (ResolveAmbiguitiesOperation rs) = on_graph (fold_r resolve_ambiguity rs)"
  "apply_operation A p g (CreateProposalsOperation qs) = (\<lambda>s. Inr (s\<lparr>ap_graph :=
     fold (create_proposal p) qs (ap_graph s)\<rparr>))"
  "apply_operation A p g (ResolveProposalsOperation res) = on_graph (fold_r (resolve_proposal p) res)"
  "apply_operation A p g (WithdrawProposalsOperation ws) = on_graph (fold_r (withdraw_proposal p) ws)"
  "apply_operation A p g (UpsertGlossaryOperation ts) = (\<lambda>s. Inr (s\<lparr>ap_graph :=
     fold (upsert_term (pa_revision p)) ts (ap_graph s)\<rparr>))"
  "apply_operation A p g (SetCoverageOperation c) = Inr"
  "apply_operation A p g (SetStandingOperation i x) = on_graph (set_standing i x (pa_revision p))"
  "apply_operation A p g (SetProjectTruthScopeOperation scope repository) =
     (\<lambda>s. Inr (set_project_truth_scope scope repository (pa_revision p) s))"
  "apply_operation A p g (SetOntologyOperation os) = (\<lambda>s. Inr (s\<lparr>ap_graph :=
     set_ontology os (pa_revision p) (ap_graph s)\<rparr>))"
  by (rule ext, simp)+

lemmas respecting_steps = respecting_on_graph respecting_fold_r respecting_create_node
  respecting_update_node respecting_create_edge respecting_supersede respecting_merge
  respecting_resolve_ambiguity respecting_resolve_proposal respecting_withdraw_proposal
  respecting_set_standing

lemma respecting_truth_scope:
  "respecting_step ap_core (\<lambda>s. Inr (set_project_truth_scope scope repository r s))"
proof
  fix s t :: apply_state assume "ap_core s = ap_core t"
  then have c: "core (ap_graph s) = core (ap_graph t)" by (simp add: ap_core_def)
  show "map_sum id ap_core (Inr (set_project_truth_scope scope repository r s))
      = map_sum id ap_core (Inr (set_project_truth_scope scope repository r t))"
    using c core_fields(8) [OF c] by (simp add: ap_core_def set_project_truth_scope_def)
qed

lemma respecting_operation: "respecting_step ap_core (apply_operation A p g op)"
proof (cases op)
  case (SetCoverageOperation c)
  show ?thesis unfolding SetCoverageOperation operation_functions by unfold_locales simp
qed (simp_all only: operation_functions, (intro respecting_steps respecting_truth_scope
      respecting_total_graph respecting_fold core_create_proposal core_total_steps; assumption?)+)


interpretation operation: respecting_step ap_core "apply_operation A p g op" for A p g op
  by (rule respecting_operation)

section \<open>Staging and applying\<close>

lemma operation_reads_no_ops [simp]:
  "apply_operation A (p\<lparr>pa_ops := ops\<rparr>) g op = apply_operation A p g op"
proof -
  have "update_node A (p\<lparr>pa_ops := ops\<rparr>) g = update_node A p g"
    by (intro ext) (simp add: update_node_def immutable_update_fields_def Let_def cong: if_cong)
  moreover have "supersede_one A (p\<lparr>pa_ops := ops\<rparr>) = supersede_one A p"
    by (intro ext) (simp add: supersede_one_def retire_and_record_def cong: option.case_cong if_cong)
  moreover have "merge_one A (p\<lparr>pa_ops := ops\<rparr>) = merge_one A p"
    by (intro ext) (simp add: merge_one_def retire_and_record_def)
  moreover have "create_proposal (p\<lparr>pa_ops := ops\<rparr>) = create_proposal p"
    by (intro ext) (simp add: create_proposal_def actor_of_def cong: option.case_cong)
  moreover have "resolve_proposal (p\<lparr>pa_ops := ops\<rparr>) = resolve_proposal p"
    by (intro ext) (simp add: resolve_proposal_def actor_of_def)
  moreover have "withdraw_proposal (p\<lparr>pa_ops := ops\<rparr>) = withdraw_proposal p"
    by (intro ext) (simp add: withdraw_proposal_def)
  ultimately show ?thesis by (cases op) (simp_all add: operation_functions)
qed

lemma core_rederive [simp]: "core (rederive_edge i st) = core st"
proof (cases "dict_get (g_edges st) i")
  case (Some e)
  have "AList.update i (unlayer e) (bare_edges (g_edges st)) = bare_edges (g_edges st)"
    by (rule update_triv) (simp add: bare_edges_get Some)
  then show ?thesis by (simp add: rederive_edge_def Some core_def)
qed (simp add: rederive_edge_def)

lemma core_fold_rederive [simp]: "core (fold rederive_edge is st) = core st"
  by (induction "is" arbitrary: st) simp_all

definition start_state :: "graph_state \<Rightarrow> apply_state" where
  "start_state st = \<lparr>ap_graph = st, ap_descriptors = [], ap_created_edge_ids = []\<rparr>"

lemma no_generated_operations:
  "pa_transition p = None \<Longrightarrow> generated_operation_indexes [] p = []"
  by (simp add: generated_operation_indexes_def)

lemma apply_operations_plain:
  "apply_operations A p [] s = fold_r (apply_operation A p False) (pa_ops p) s"
proof -
  have "fold_r (\<lambda>(i, op). apply_operation A p (int i \<in> set []) op) (enumerate n ops) s
      = fold_r (apply_operation A p False) ops s" for n ops
    by (induction ops arbitrary: n s) (auto intro: bind_r_cong)
  then show ?thesis by (simp add: apply_operations_def)
qed

context adapter
begin

lemma apply_valid_operation_core:
  assumes "apply_valid_operation A st p op = Inr st'" and "pa_transition p = None"
  obtains s' where "apply_operation A p False op (start_state st) = Inr s'"
    and "ap_core s' = core st'"
proof -
  let ?p = "p\<lparr>pa_ops := [op]\<rparr>"
  from assms(1) obtain st1 ds where patch: "apply_patch A [] ?p st = Inr (st1, ds)"
    and st': "st' = st1\<lparr>g_revision := g_revision st\<rparr>"
    by (auto simp: apply_valid_operation_def result_simps)
  from patch obtain s where s: "apply_operations A ?p (generated_operation_indexes [] ?p)
      \<lparr>ap_graph = st, ap_descriptors = [], ap_created_edge_ids = []\<rparr> = Inr s"
    and st1: "st1 = finish_patch ?p
      (fold rederive_edge (rev (remdups (rev (ap_created_edge_ids s)))) (ap_graph s))"
    by (rule apply_patch_Inr)
  have op: "apply_operation A p False op (start_state st) = Inr s"
    using s assms(2)
    by (simp add: no_generated_operations apply_operations_plain start_state_def result_simps)
  have "g_revision (ap_graph s) = g_revision st"
    using clock_steps [OF apply_operation_steps [OF op], of st]
    by (simp add: same_clock_def start_state_def)
  then have "(core (ap_graph s))\<lparr>g_revision := g_revision st\<rparr> = core (ap_graph s)"
    by (simp add: core_def)
  then have "ap_core s = core st'"
    by (simp add: st' st1 ap_core_def finish_patch_def)
  with op show ?thesis by (rule that)
qed

lemma staged_applies:
  assumes "fold_r (\<lambda>op s. apply_valid_operation A s p op) ops st = Inr st'"
    and "pa_transition p = None" and "ap_core s = core st"
  shows "\<exists>s'. fold_r (apply_operation A p False) ops s = Inr s' \<and> ap_core s' = core st'"
  using assms(1,3)
proof (induction ops arbitrary: st s)
  case (Cons op ops)
  from Cons.prems(1) obtain st1 where one: "apply_valid_operation A st p op = Inr st1"
    and rest: "fold_r (\<lambda>op s. apply_valid_operation A s p op) ops st1 = Inr st'"
    by (auto simp: result_simps)
  from one assms(2) obtain s1 where "apply_operation A p False op (start_state st) = Inr s1"
    and s1: "ap_core s1 = core st1"
    by (rule apply_valid_operation_core)
  moreover have "ap_core (start_state st) = ap_core s"
    using Cons.prems(2) by (simp add: ap_core_def start_state_def)
  ultimately obtain s2 where "apply_operation A p False op s = Inr s2" and "ap_core s2 = core st1"
    using operation.step_alike by metis
  with Cons.IH [OF rest, of s2] show ?case by simp
qed simp

lemma staged_patch_applies:
  assumes "fold_r (\<lambda>op s. apply_valid_operation A s p op) (pa_ops p) st = Inr st'"
    and "pa_transition p = None"
  shows "\<exists>st1 ds. apply_patch A [] p st = Inr (st1, ds) \<and> g_nodes st1 = g_nodes st'
     \<and> g_proposals st1 = g_proposals st'"
proof -
  obtain s where s: "fold_r (apply_operation A p False) (pa_ops p) (start_state st) = Inr s"
    and c: "ap_core s = core st'"
    using staged_applies [OF assms, of "start_state st"] by (auto simp: ap_core_def start_state_def)
  have "core (ap_graph s) = core st'" using c by (simp add: ap_core_def)
  with s assms(2) show ?thesis
    using core_fields(1,2) [of "fold rederive_edge (rev (remdups (rev (ap_created_edge_ids s)))) (ap_graph s)" st']
    by (simp add: apply_patch_def no_generated_operations apply_operations_plain start_state_def
        finish_patch_def)
qed

end

section \<open>What an accepted report says\<close>

lemma reject_count_rejected: "rejected r \<longleftrightarrow> reject_count r > 0"
  by (auto simp: rejected_def reject_count_def list_ex_iff filter_empty_conv)

lemma rejected_prefix: "prefix r r' \<Longrightarrow> \<not> rejected r' \<Longrightarrow> \<not> rejected r"
  by (auto simp: prefix_def)

text \<open>The rules that accepted an operation, and the graph they saw.\<close>

definition accepted_at ::
  "node_adapter \<Rightarrow> digests \<Rightarrow> op_runner \<Rightarrow> op_context \<Rightarrow> graph_operation \<Rightarrow> bool" where
  "accepted_at A D run cx op = (\<exists>c c1. advances cx c \<and> structural_validate A D run op c = Inr c1
     \<and> \<not> rejected (cx_report c1) \<and> \<not> (cx_mode cx = Admission \<and> legacy_only op)
     \<and> (cx_mode cx = Admission \<longrightarrow> (\<exists>c2. authoring_validate A D run op c1 = Inr c2
          \<and> \<not> rejected (cx_report c2))))"

context operation_runner
begin

lemma operation_accepted:
  assumes "validate_operation A D run op cx = Inr cx'" and "\<not> rejected (cx_report cx')"
  shows "apply_valid_operation A (cx_state cx) (cx_patch cx) op = Inr (cx_state cx')"
    and "accepted_at A D run cx op"
proof -
  have legal: "\<not> (cx_mode cx = Admission \<and> legacy_only op)"
    using assms by (auto simp: validate_operation_def cx_reject_def split: if_splits)
  from assms(1) legal obtain c1 c2 where c1: "structural_validate A D run op cx = Inr c1"
    and c2: "(if cx_mode cx = Admission then authoring_validate A D run op c1 else Inr c1) = Inr c2"
    and cx': "cx' = (if reject_count (cx_report c2) \<noteq> reject_count (cx_report cx) then c2
           else stage_operation A op c2)"
    by (auto simp: validate_operation_def result_simps simp del: if_split)
  have e1: "extends cx c1" using tame_structural [of cx op] c1 by simp
  have e2: "extends c1 c2" using tame_authoring [of c1 op] c2 by (auto split: if_splits)
  have report: "\<not> rejected (cx_report c2)"
  proof (rule ccontr)
    assume "\<not> \<not> rejected (cx_report c2)"
    then show False
      using assms(2) advances_stage [of c2 A op] rejected_prefix
      by (auto simp: cx' advances_def split: if_splits)
  qed
  then have r1: "\<not> rejected (cx_report c1)" and r0: "\<not> rejected (cx_report cx)"
    using rejected_prefix extends_fields(8) [OF e2] extends_fields(8) [OF e1] by blast+
  then have cx'': "cx' = stage_operation A op c2"
    using report cx' by (simp add: reject_count_rejected)
  have same: "cx_state c2 = cx_state cx" "cx_patch c2 = cx_patch cx"
    using extends_fields(1,3) [OF e1] extends_fields(1,3) [OF e2] by simp_all
  show "apply_valid_operation A (cx_state cx) (cx_patch cx) op = Inr (cx_state cx')"
    using assms(2) by (auto simp: cx'' stage_operation_def same cx_reject_def split: sum.splits)
  show "accepted_at A D run cx op"
    unfolding accepted_at_def
    by (rule exI [of _ cx], rule exI [of _ c1]) (use c1 c2 r1 report legal in auto)
qed

lemma accepted_at_later: "advances cx c \<Longrightarrow> accepted_at A D run c op \<Longrightarrow> accepted_at A D run cx op"
  unfolding accepted_at_def by (metis advances_def advances_trans)

lemma operations_accepted:
  assumes "fold_r (validate_operation A D run) ops cx = Inr cx'" and "\<not> rejected (cx_report cx')"
  shows "fold_r (\<lambda>op s. apply_valid_operation A s (cx_patch cx) op) ops (cx_state cx) = Inr (cx_state cx')
     \<and> (\<forall>op \<in> set ops. accepted_at A D run cx op)"
  using assms(1)
proof (induction ops arbitrary: cx)
  case (Cons op ops)
  from Cons.prems obtain c where c: "validate_operation A D run op cx = Inr c"
    and rest: "fold_r (validate_operation A D run) ops c = Inr cx'"
    by (auto simp: result_simps)
  have later: "advances cx c" using tame_operation [of cx op] c by simp
  have "tame advances c (fold_r (validate_operation A D run) ops c)"
    by (rule tame_fold_r) (auto intro: advances_trans tame_operation)
  then have "\<not> rejected (cx_report c)"
    using rest assms(2) rejected_prefix by (auto simp: advances_def)
  note here = operation_accepted [OF c this]
  have "cx_patch c = cx_patch cx" using later by (simp add: advances_def)
  with here Cons.IH [OF rest] later show ?case by (auto intro: accepted_at_later)
qed simp

end

text \<open>A patch that validation does not reject: its operations were staged, and accepted.\<close>

lemma validated_patch_staged:
  assumes "validate_patch A D st p vcx w control pins = Inr r" and "\<not> rejected r"
    and "pa_transition p = None"
  obtains cx st' where "cx_state cx = st" and "cx_initial_state cx = st" and "cx_patch cx = p"
    and "cx_mode cx = vc_mode vcx"
    and "fold_r (\<lambda>op s. apply_valid_operation A s p op) (pa_ops p) st = Inr st'"
    and "\<And>op. op \<in> set (pa_ops p) \<Longrightarrow> accepted_at A D (run_operations A D Inr) cx op"
proof -
  let ?w = "case w of None \<Rightarrow> writer_from_patch p | Some w \<Rightarrow> w"
  from assms obtain cx5 where rules: "validate_patch_rules A D st p vcx ?w control pins = Inr cx5"
    and r: "r = cx_report cx5"
    by (auto simp: validate_patch_def validate_source_patch_def split: sum.splits if_splits)
  from rules obtain cx3 cx4 where cx3: "staging_context A st p vcx ?w control pins = Inr cx3"
    and cx4: "validate_operations A D cx3 = Inr cx4"
    and cx5: "cx5 = validate_created_proposal_liveness (validate_queued_decision_options A cx4)"
    by (auto simp: validate_patch_rules_staging result_simps)
  obtain cx0 where "cx_state cx0 = st" "cx_initial_state cx0 = st" "cx_patch cx0 = p"
    "cx_mode cx0 = vc_mode vcx" and "extends cx0 cx3"
    using tame_staging_context [of st p ?w vcx A control pins] cx3 by auto
  then have fs: "cx_state cx3 = st" "cx_initial_state cx3 = st" "cx_patch cx3 = p"
    "cx_mode cx3 = vc_mode vcx"
    using extends_fields [of cx0 cx3] by simp_all
  have "extends cx4 cx5"
    unfolding cx5 by (rule extends_trans [OF extends_queued_options extends_created_proposals])
  then have "\<not> rejected (cx_report cx4)"
    using assms(2) r rejected_prefix extends_fields(8) by blast
  with cx4 have "fold_r (\<lambda>op s. apply_valid_operation A s p op) (pa_ops p) st = Inr (cx_state cx4)
     \<and> (\<forall>op \<in> set (pa_ops p). accepted_at A D (run_operations A D Inr) cx3 op)"
    using proposal_run.operations_accepted [of A D "pa_ops p" cx3 cx4]
    by (simp add: validate_operations_def run_operations_def fs)
  then show ?thesis using that [of cx3] fs by blast
qed

end
