(* ===== verification/Admission_Laws.thy ===== *)
theory Admission_Laws
  imports Staging
begin

text \<open>
  What admission and validation let through: an admitted operation needs only actions its
  writer is permitted, the nodes an accepted patch creates are new, and the authorship of an
  accepted patch is the one its kind prescribes.
\<close>

section \<open>Permitted actions\<close>

lemma authority_messages_prefix: "prefix r (authority_messages st p ops r)"
proof (induction ops arbitrary: r)
  case (Cons op ops)
  have "prefix r r1" if "check_operation_authority st p op r = Inr r1" for r1
    using that
    by (auto simp: check_operation_authority_def result_simps split: if_splits
        intro!: prefix_fold report_grows)
  with Cons show ?case
    by (auto split: sum.split intro: report_grows prefix_order.trans)
qed simp

lemma rejected_fold_reject [simp]:
  "rejected (fold (\<lambda>_. reject code rv ns es) xs r) \<longleftrightarrow> rejected r \<or> xs \<noteq> []"
  by (induction xs arbitrary: r) (auto simp: rejected_def reject_def report_message_def)

text \<open>Admitted operations need only permitted actions.\<close>

lemma permitted_operations:
  assumes "\<not> rejected (authority_messages st p ops r)" and "op \<in> set ops" and "\<not> legacy_only op"
  shows "\<exists>actions. operation_actions st p op = Inr actions \<and> (\<forall>a \<in> set actions. permits p a)"
  using assms(1,2)
proof (induction ops arbitrary: r)
  case (Cons o1 ops)
  have r1: "\<not> rejected r1 \<and> \<not> rejected (authority_messages st p ops r1)"
    if "check_operation_authority st p o1 r = Inr r1" for r1
    using Cons.prems(1) that rejected_prefix [OF authority_messages_prefix] by simp
  show ?case
  proof (cases "op = o1")
    case True
    with Cons.prems(1) assms(3) obtain r1 where c: "check_operation_authority st p op r = Inr r1"
      by (auto split: sum.splits simp: rejected_def reject_def report_message_def)
    then obtain actions where "operation_actions st p op = Inr actions"
      and "r1 = fold (\<lambda>_. reject ''graph-action-refused'' (patch_rev p) [] [])
             (filter (\<lambda>a. \<not> permits p a) (remdups actions)) r"
      using assms(3) by (auto simp: check_operation_authority_def refused_actions_def result_simps)
    with r1 c True show ?thesis by (auto simp: filter_empty_conv)
  next
    case False
    with Cons show ?thesis by (auto split: sum.splits simp: rejected_def reject_def report_message_def)
  qed
qed simp

section \<open>What a returning loop did\<close>

text \<open>Two facts about loops: what each step of a loop that returns did.\<close>

lemma map_r_member:
  assumes "map_r f xs = Inr ys" and "x \<in> set xs"
  shows "\<exists>y \<in> set ys. f x = Inr y"
  using assms by (induction xs arbitrary: ys) (auto simp: result_simps)

lemma node_target_protected:
  "is_existing_protected_node st i \<Longrightarrow> i \<in> set ids \<Longrightarrow>
     protected \<in> set (node_target_actions st ids base protected)"
  by (auto simp: node_target_actions_def or_base_def)

lemma protected_operation_untouched:
  assumes "operation_actions st p op = Inr actions" and "\<And>a. a \<in> set actions \<Longrightarrow> permits p a"
    and "pa_author p = Some Agent" and "is_existing_protected_node st i"
  shows "i \<notin> removes op \<union> updates op \<union> retires op \<union> restands op"
proof -
  have agent: "a \<in> ORCHESTRATOR_AGENT_GRAPH_ACTIONS" if "a \<in> set actions" for a
    using assms(2) [OF that] assms(3)
    by (auto simp: permits_def ORCHESTRATOR_AGENT_GRAPH_ACTIONS_def split: if_splits)
  then have barred: "UPDATE_PROTECTED_EPISTEMIC \<notin> set actions" "REMOVE_PROTECTED_EPISTEMIC \<notin> set actions"
    "SUPERSEDE_PROTECTED_EPISTEMIC \<notin> set actions" "MERGE_PROTECTED_EPISTEMIC \<notin> set actions"
    by (auto simp: ORCHESTRATOR_AGENT_GRAPH_ACTIONS_def ORDINARY_AGENT_GRAPH_ACTIONS_def)
  show ?thesis
  proof (cases op)
    case (UpdateNodesOperation us)
    have "nu_id u \<noteq> i" if "u \<in> set us" for u
    proof
      assume "nu_id u = i"
      from assms(1) obtain acts where acts: "map_r (update_action st p) us = Inr acts"
        and actions: "actions = or_base UPDATE_NODE acts"
        by (auto simp: UpdateNodesOperation update_actions_def result_simps)
      from map_r_member [OF acts that] obtain a where "update_action st p u = Inr a" and "a \<in> set acts"
        by blast
      moreover have "update_action st p u = Inr UPDATE_PROTECTED_EPISTEMIC"
        using assms(4) \<open>nu_id u = i\<close> by (simp add: update_action_def)
      ultimately have "UPDATE_PROTECTED_EPISTEMIC \<in> set actions"
        by (auto simp: actions or_base_def)
      with barred(1) show False by blast
    qed
    then show ?thesis by (auto simp: UpdateNodesOperation)
  next
    case (SetStandingOperation j s)
    with assms(1,4) barred(1) show ?thesis by (auto split: if_splits)
  next
    case (RemoveNodesOperation ids)
    then have "actions = node_target_actions st ids REMOVE_NODE REMOVE_PROTECTED_EPISTEMIC"
      using assms(1) by simp
    with RemoveNodesOperation barred(2) node_target_protected [OF assms(4)] show ?thesis by auto
  next
    case (SupersedeNodesOperation items)
    then have "set (node_target_actions st (map sn_id items) SUPERSEDE_NODE SUPERSEDE_PROTECTED_EPISTEMIC) \<subseteq> set actions"
      using assms(1) by (auto simp: node_lifecycle_actions_def)
    with barred(3) have "i \<notin> set (map sn_id items)" using node_target_protected [OF assms(4)] by blast
    then show ?thesis by (simp add: SupersedeNodesOperation)
  next
    case (MergeNodesOperation items)
    then have "set (node_target_actions st (map nm_duplicate items) MERGE_NODE MERGE_PROTECTED_EPISTEMIC) \<subseteq> set actions"
      using assms(1) by (auto simp: node_lifecycle_actions_def)
    with barred(4) have "i \<notin> set (map nm_duplicate items)" using node_target_protected [OF assms(4)] by blast
    then show ?thesis by (simp add: MergeNodesOperation)
  qed simp_all
qed

lemma accepted_loop_step:
  assumes "fold_r f xs cx = Inr cx'" and "\<not> rejected (cx_report cx')"
    and "\<And>x c. tame extends c (f x c)" and "x \<in> set xs"
  shows "\<exists>c c1. extends cx c \<and> f x c = Inr c1 \<and> \<not> rejected (cx_report c1)"
  using assms(1,4)
proof (induction xs arbitrary: cx)
  case (Cons y ys)
  from Cons.prems(1) obtain c where c: "f y cx = Inr c" and rest: "fold_r f ys c = Inr cx'"
    by (auto simp: result_simps)
  have e: "extends cx c" using assms(3) [of cx y] c by simp
  have "extends c cx'" using tame_extends_fold_r [of ys f c] rest assms(3) by simp
  then have "\<not> rejected (cx_report c)" using assms(2) rejected_prefix extends_fields(8) by blast
  with Cons.prems(2) c e Cons.IH [OF rest] extends_trans [OF e] show ?case by (metis extends_refl set_ConsD)
qed simp

lemma not_slug_Nil [simp]: "\<not> is_slug []"
  by code_simp

lemma raw_id_unset: "''id'' \<notin> set (np_fields_set raw) \<Longrightarrow> raw_id (dump_exclude_unset raw) = []"
  by (auto simp: raw_id_def dump_exclude_unset_def dict_get_filter_key split: option.splits)

lemma new_node_needs_id:
  assumes "raw_id raw = []"
  shows "rejected (validate_new_node A st rv w raw r)"
proof -
  have step: "rejected (validate_new_node_extensions st raw rv a b r')" if "rejected r'" for a b r'
    using that rejected_prefix [OF grows_new_node_extensions [OF prefix_order.refl]] by blast
  show ?thesis unfolding validate_new_node_def Let_def by (rule step) (simp add: assms)
qed

text \<open>A node an accepted patch creates has an id, and it is the id of no node of the graph.\<close>

lemma tame_created_node: "tame extends cx (validate_created_node A raw cx)"
  using tame_create_nodes [of cx A "[raw]"]
  by (cases "validate_created_node A raw cx") (simp_all add: validate_create_nodes_def)

lemma created_node_fresh:
  assumes "validate_created_node A raw cx = Inr cx'" and "\<not> rejected (cx_report cx')"
    and "cx_mode cx = Admission"
  shows "''id'' \<in> set (np_fields_set raw)" and "n_id (np_node raw) \<notin> set (keys (g_nodes (cx_initial_state cx)))"
proof -
  let ?doc = "dump_exclude_unset raw"
  let ?cx1 = "cx_reject_if (cx_mode cx = Admission \<and> n_id (np_node raw) \<in> set (keys (g_nodes (cx_initial_state cx))))
                  ''initial-node-id-replacement'' [n_id (np_node raw)] [] cx"
  let ?cx2 = "on_report (validate_new_node A (cx_state cx) (patch_rev (cx_patch cx)) (cx_writer cx) ?doc) ?cx1"
  have "tame extends ?cx2 (validate_created_node A raw cx)"
    unfolding validate_created_node_def Let_def by (intro tame_on_report_r tame_source_refs) simp
  then have "prefix (cx_report ?cx2) (cx_report cx')" using assms(1) extends_fields(8) by simp
  then have r: "\<not> rejected (cx_report ?cx2)" using assms(2) rejected_prefix by blast
  moreover have "prefix (cx_report ?cx1) (cx_report ?cx2)"
    by (simp add: on_report_def grows_new_node)
  ultimately have "\<not> rejected (cx_report ?cx1)" using rejected_prefix by blast
  then show "n_id (np_node raw) \<notin> set (keys (g_nodes (cx_initial_state cx)))"
    using assms(3) by (simp add: cx_reject_if_def cx_reject_def split: if_splits)
  show "''id'' \<in> set (np_fields_set raw)"
  proof (rule ccontr)
    assume "''id'' \<notin> set (np_fields_set raw)"
    then have "raw_id ?doc = []" by (rule raw_id_unset)
    then have "rejected (cx_report ?cx2)" by (simp add: on_report_def new_node_needs_id)
    then show False using r by simp
  qed
qed

lemma accepted_operation_fresh:
  assumes "accepted_at A D run cx op" and "cx_mode cx = Admission"
  shows "ids_given op" and "creates op \<inter> set (keys (g_nodes (cx_initial_state cx))) = {}"
proof -
  have "ids_given op \<and> creates op \<inter> set (keys (g_nodes (cx_initial_state cx))) = {}"
  proof (cases op)
    case (CreateNodesOperation raws)
    from assms(1) obtain c c1 where c: "advances cx c"
      and v: "fold_r (validate_created_node A) raws c = Inr c1" and r: "\<not> rejected (cx_report c1)"
      by (auto simp: accepted_at_def CreateNodesOperation validate_create_nodes_def)
    have "''id'' \<in> set (np_fields_set raw) \<and> n_id (np_node raw) \<notin> set (keys (g_nodes (cx_initial_state cx)))"
      if "raw \<in> set raws" for raw
    proof -
      obtain d d1 where d: "extends c d" "validate_created_node A raw d = Inr d1"
        "\<not> rejected (cx_report d1)"
        using accepted_loop_step [OF v r tame_created_node \<open>raw \<in> set raws\<close>] by blast
      have "cx_initial_state d = cx_initial_state cx" "cx_mode d = Admission"
        using extends_fields(2,5) [OF d(1)] c assms(2) by (auto simp: advances_def)
      with created_node_fresh [OF d(2,3)] show ?thesis by auto
    qed
    then show ?thesis by (auto simp: CreateNodesOperation list_all_iff)
  qed simp_all
  then show "ids_given op" and "creates op \<inter> set (keys (g_nodes (cx_initial_state cx))) = {}" by simp_all
qed

section \<open>Authorship\<close>

lemma authorship_rejected_any: "authorship_rejected p \<Longrightarrow> rejected (validate_authorship p r)"
  by (auto simp: authorship_rejected_def validate_authorship_def Let_def rejected_def [of "[]"]
      split: if_splits)

text \<open>The stamps of an admitted patch, and what its permissions say.\<close>

lemma admitted_permissions:
  assumes "admit wa st p project authorized target = Inr (q, w, r)" and "\<not> rejected r"
    and "pa_author q = Some Agent" and "\<not> authorship_rejected q"
  shows "\<not> rejected (validate_permissions st q)"
proof (cases "authorship_rejected p")
  case True
  with assms(1,4) show ?thesis by (simp add: admit_def)
next
  case False
  from assms(4,3) have "pa_kind q \<noteq> Approval"
    by (auto simp: authorship_rejected_def validate_authorship_def Let_def split: if_splits)
  with False assms(1,2) show ?thesis by (auto simp: admit_def result_simps split: if_splits)
qed

lemma tame_advances_step: "advances cx cx' \<Longrightarrow> tame advances cx' m \<Longrightarrow> tame advances cx m"
  by (auto simp: tame_def intro: advances_trans split: sum.splits)

lemma tame_rules_after_envelope:
  "tame advances (validate_envelope st p (initial_context st p vcx w
       (if truthy control then control else pa_experiment_control_node_id p)))
     (validate_patch_rules A D st p vcx w control pins)" (is "tame advances ?env _")
proof -
  have "tame extends ?env (staging_context A st p vcx w control pins)"
    unfolding staging_context_def Let_def
    by (rule tame_bind) (auto intro!: tame_on_report_r tame_loop_authority tame_approval_shape context_grows)
  then have "tame advances ?env (staging_context A st p vcx w control pins)"
    by (rule tame_advances_extends)
  moreover have "advances c (validate_created_proposal_liveness (validate_queued_decision_options A c))" for c
    by (rule extends_advances [OF extends_trans [OF extends_queued_options extends_created_proposals]])
  ultimately show ?thesis
    unfolding validate_patch_rules_staging
    by (intro tame_bind tame_advances_step [OF _ tame_operations]) (auto intro: advances_trans)
qed

lemma rejected_envelope:
  assumes "authorship_rejected p"
  shows "rejected (cx_report (validate_envelope st p cx))"
proof -
  define c where "c = on_report (validate_authorship p)
      (cx_reject_if (pa_revision p \<noteq> 0 \<and> pa_revision p \<noteq> g_revision st + 1) ''non-monotonic-revision'' [] []
        (cx_reject_if (cx_mode cx = Admission \<and> pa_schema_generation p \<noteq> 2) ''legacy-schema-write'' [] [] cx))"
  have "extends c (validate_envelope st p cx)"
    unfolding validate_envelope_def c_def [symmetric]
    by (intro context_grows extends_on_report report_grows) simp_all
  moreover have "rejected (cx_report c)" using authorship_rejected_any [OF assms] by (simp add: c_def on_report_def)
  ultimately show ?thesis using rejected_prefix extends_fields(8) by blast
qed

lemma validated_authorship:
  assumes "validate_patch A D st p vcx w control pins = Inr r" and "\<not> rejected r"
    and "pa_transition p = None"
  shows "\<not> authorship_rejected p"
proof
  assume "authorship_rejected p"
  then have bad: "rejected (cx_report (validate_envelope st p cx))" for cx by (rule rejected_envelope)
  from assms obtain cx where "validate_patch_rules A D st p vcx
      (case w of None \<Rightarrow> writer_from_patch p | Some w \<Rightarrow> w) control pins = Inr cx" and "r = cx_report cx"
    by (auto simp: validate_patch_def validate_source_patch_def split: sum.splits if_splits)
  with tame_rules_after_envelope [of st p vcx _ control A D pins] show False
    using bad assms(2) rejected_prefix by (metis advances_def tame_Inr)
qed

end
