(* ===== verification/Validation_Properties.thy ===== *)
theory Validation_Properties
  imports Admission_Laws Samples
begin

text \<open>
  What an accepted patch guarantees: validation returns a report, a patch that is not rejected
  applies, and an agent whose patch is admitted leaves every protected belief as it was.
\<close>

section \<open>A live sample\<close>

definition sample_blocker :: "string \<Rightarrow> node_payload" where
  "sample_blocker i = \<lparr>np_node = sample_node i ''blocker''
     [(''description'', VStr ''B''), (''blocker_type'', VStr ''unknown''), (''status'', VStr ''open''),
      (''resolution_condition'', VStr []), (''recommended_action'', VNone)],
     np_fields_set = [''id'', ''title'', ''type'', ''description'']\<rparr>"

definition live_seed :: patch where
  "live_seed = sample_patch 1 Seed
     [CreateNodesOperation [sample_hypothesis ''hyp/h1'', sample_blocker ''blk/b1'']]"

definition live_state :: graph_state where
  "live_state = applied live_seed (initial_graph_state [''scope''])"

definition live_ops :: "graph_operation list" where
  "live_ops = [
     CreateNodesOperation [sample_question ''rq/why''],
     UpdateNodesOperation [\<lparr>nu_id = ''blk/b1'', nu_changes = [(''description'', VStr ''M'')],
       nu_cause = None, nu_base_updated_rev = None\<rparr>],
     CreateEdgesOperation [sample_edge\<lparr>ne_source := ''rq/why'', ne_target := ''hyp/h1'',
       ne_relation := ''has_hypothesis''\<rparr>]]"

definition live_member :: authorized_human where
  "live_member = \<lparr>ah_space_id = ''00000000-0000-4000-8000-000000000000'',
     ah_user_id = ''00000000-0000-4000-8000-000000000001'', ah_display_name = ''Ada''\<rparr>"

text \<open>The task the patch comes from, bound to a Work chat.\<close>

definition live_task :: agent_task_authority where
  "live_task = \<lparr>ta_operation_id = ''op'', ta_project_id = ''prj'', ta_apply_target = MAIN_TARGET,
     ta_authorized_by = Some live_member,
     ta_dispatch_authority = Some \<lparr>da_profile = Ordinary, da_task_contract = Work_auto,
       da_scope = \<lparr>ds_run_truth_scope = [''scope''], ds_episode_id = None,
         ds_chat_scope = Some Project_chat, ds_chat_id = Some ''chat'', ds_node_id = None,
         ds_patch_kind = Some Work, ds_control_node_id = None, ds_control_episode_id = None\<rparr>\<rparr>,
     ta_episode_id = None, ta_merge_source = None, ta_merge_dispatcher = None\<rparr>"

definition live_authority :: write_authority where
  "live_authority = \<lparr>wa_agent_authority_resolver = Some (\<lambda>_ _. Inr live_task),
     wa_project_membership_check = Some (\<lambda>_ u. u = ah_user_id live_member)\<rparr>"

definition live_patch :: patch where
  "live_patch = (sample_patch 2 Work live_ops)
     \<lparr>pa_run_truth_scope := [''scope''], pa_repositories_read := [''scope''],
      pa_authorized_by := Some live_member, pa_profile := Some Ordinary, pa_task_id := Some ''op''\<rparr>"

text \<open>Digests of no content, for a patch that carries no transition.\<close>

definition sample_digests :: digests where
  "sample_digests = \<lparr>dg_transition = (\<lambda>_ _ _ _ _ _. []), dg_operations = (\<lambda>_. []),
     dg_event = (\<lambda>_ _. [])\<rparr>"

lemma live_accepted:
  "validate_patch checked_adapter sample_digests live_state live_patch sample_context None None None = Inr []"
  by code_simp

lemma live_plain: "pa_transition live_patch = None"
  by (simp add: live_patch_def sample_patch_def)

lemma live_admitted:
  "admit live_authority live_state live_patch (Some ''prj'') None MAIN_TARGET
     = Inr (live_patch, writer_from_patch live_patch, [])"
  by code_simp

lemma live_accepted_by:
  "validate_patch checked_adapter sample_digests live_state live_patch sample_context
     (Some (writer_from_patch live_patch)) None None = Inr []"
  using live_accepted live_plain by (simp add: validate_patch_def validate_source_patch_def)

lemma live_applied:
  "apply_patch checked_adapter [] live_patch live_state = Inr (applied live_patch live_state, [])"
  by code_simp

lemma live_state_wf: "graph_wf live_state"
  by code_simp

section \<open>Validation returns\<close>



section \<open>An accepted patch applies\<close>

text \<open>
  (C2) A source patch that validation does not reject applies: replaying it on the graph it
  was validated against raises nothing.
\<close>

theorem validated_patch_applies:
  assumes "adapter A" and "pa_transition p = None"
    and "validate_patch A D st p vcx w control pins = Inr r" and "\<not> rejected r"
  shows "\<exists>st' ds. apply_patch A [] p st = Inr (st', ds)"
  by (rule validated_patch_staged [OF assms(3,4,2)])
    (use adapter.staged_patch_applies [OF assms(1) _ assms(2)] in blast)

theorem validated_patch_applies_witness:
  "\<exists>st' ds. apply_patch checked_adapter [] live_patch live_state = Inr (st', ds)"
  by (rule validated_patch_applies [OF checked_adapter.adapter_axioms live_plain live_accepted]) simp

section \<open>Agents and protected beliefs\<close>

text \<open>
  (C3) An agent cannot touch what is believed: when the patch of an agent is admitted and
  validation accepts it, every research question and hypothesis of the graph is the same after
  it as before, whatever the operations of the patch are.
\<close>

theorem agent_keeps_beliefs:
  assumes "adapter A" and "graph_wf st" and "pa_transition q = None"
    and "admit wa st p project authorized target = Inr (q, w, r)" and "\<not> rejected r"
    and "pa_author q = Some Agent" and "vc_mode vcx = Admission"
    and "validate_patch A D st q vcx (Some w) control pins = Inr r'" and "\<not> rejected r'"
    and "apply_patch A [] q st = Inr (st', ds)" and "is_existing_protected_node st i"
  shows "dict_get (g_nodes st') i = dict_get (g_nodes st) i"
proof (rule adapter.untouched_patch [OF assms(1,10,2)])
  fix op assume op: "op \<in> set (pa_ops q)"
  obtain cx where cx: "cx_initial_state cx = st" "cx_mode cx = vc_mode vcx"
    and acc: "\<And>op. op \<in> set (pa_ops q) \<Longrightarrow> accepted_at A D (run_operations A D Inr) cx op"
    by (rule validated_patch_staged [OF assms(8,9,3)]) blast
  note accepted = acc [OF op]
  then have "\<not> legacy_only op" using cx assms(7) by (auto simp: accepted_at_def)
  moreover have "\<not> rejected (validate_permissions st q)"
    by (rule admitted_permissions [OF assms(4-6) validated_authorship [OF assms(8,9,3)]])
  ultimately obtain actions where "operation_actions st q op = Inr actions"
    and "\<And>a. a \<in> set actions \<Longrightarrow> permits q a"
    using permitted_operations [OF _ op, of st q "[]"] unfolding validate_permissions_def by meson
  then have "i \<notin> removes op \<union> updates op \<union> retires op \<union> restands op"
    by (rule protected_operation_untouched [OF _ _ assms(6,11)])
  moreover have "i \<in> set (keys (g_nodes st))"
    using assms(11) by (auto simp: is_existing_protected_node_def split: option.splits
        dest!: map_of_SomeD intro: rev_image_eqI)
  ultimately show "i \<notin> touches op \<and> ids_given op"
    using accepted_operation_fresh [OF accepted] cx assms(7) by (auto simp: touches_def)
qed

theorem agent_keeps_beliefs_witness:
  "dict_get (g_nodes (applied live_patch live_state)) ''hyp/h1'' = dict_get (g_nodes live_state) ''hyp/h1''"
proof (rule agent_keeps_beliefs [OF checked_adapter.adapter_axioms live_state_wf live_plain live_admitted
      _ _ _ live_accepted_by _ live_applied])
  show "pa_author live_patch = Some Agent" by (simp add: live_patch_def sample_patch_def)
  show "vc_mode sample_context = Admission" by (simp add: sample_context_def)
  show "is_existing_protected_node live_state ''hyp/h1''" by code_simp
qed simp_all

end
