(* ===== verification/Classification_Properties.thy ===== *)
theory Classification_Properties
  imports Change_Classification Validation_Properties
begin

text \<open>
  What a classification promises: it covers the operations it was given, the admitted groups make
  up one patch that passes both gates and applies, and each reviewable group has a Proposal that
  could be filed behind the groups admitted before it.
\<close>

section \<open>The loop over the groups\<close>

definition admitted_indices :: "change_classification list \<Rightarrow> nat list" where
  "admitted_indices results =
     concat (map cc_operation_indices (filter (\<lambda>x. cc_disposition x = Admitted) results))"

definition picked_ops :: "patch \<Rightarrow> nat list \<Rightarrow> graph_operation list" where
  "picked_ops p is = map (\<lambda>i. pa_ops p ! i) is"

text \<open>Both gates let a candidate through.\<close>

definition passes ::
  "node_adapter \<Rightarrow> digests \<Rightarrow> graph_state \<Rightarrow> patch \<Rightarrow> writer \<Rightarrow> validation_context \<Rightarrow> bool" where
  "passes A D st c w vcx = (\<not> rejected (validate_permissions st c)
     \<and> (\<exists>r. validate_patch A D st c vcx (Some (w\<lparr>w_agent_action := pa_agent_action c\<rparr>)) None None = Inr r
          \<and> \<not> rejected r))"

text \<open>A Proposal of the review operations passes behind the first admitted operations.\<close>

definition fileable ::
  "node_adapter \<Rightarrow> digests \<Rightarrow> graph_state \<Rightarrow> patch \<Rightarrow> writer \<Rightarrow> validation_context \<Rightarrow> graph_operation list \<Rightarrow>
   change_classification \<Rightarrow> bool" where
  "fileable A D st p w vcx admitted x = (\<exists>r. review_report A D st p w vcx admitted
     (cc_review_operations x) = Inr r \<and> \<not> rejected r)"

text \<open>One group, as a step; the states a classification reaches.\<close>

inductive classification_step ::
  "node_adapter \<Rightarrow> digests \<Rightarrow> graph_state \<Rightarrow> patch \<Rightarrow> writer \<Rightarrow> validation_context \<Rightarrow> bool \<Rightarrow>
   nat list \<Rightarrow> classification_state \<Rightarrow> classification_state \<Rightarrow> bool" for A D st p w vcx grouped grp where
  admit: "passes A D st (candidate_patch st p grouped (cl_admitted_ops s @ picked_ops p grp)) w vcx \<Longrightarrow>
    classification_step A D st p w vcx grouped grp s ((classified grp Admitted [] ds s)
      \<lparr>cl_admitted_ops := cl_admitted_ops s @ picked_ops p grp,
       cl_admitted_indices := cl_admitted_indices s @ grp, cl_staged := staged\<rparr>)"
| review: "review_operations (cl_staged s) (picked_ops p grp) = Some ops \<Longrightarrow>
    review_report A D st p w vcx (cl_admitted_ops s) ops = Inr r \<Longrightarrow> \<not> rejected r \<Longrightarrow>
    classification_step A D st p w vcx grouped grp s (classified grp Reviewable ops ds s)"
| refuse: "d = Clash \<or> d = Refused \<Longrightarrow>
    classification_step A D st p w vcx grouped grp s (classified grp d [] ds s)"

inductive classified_by ::
  "node_adapter \<Rightarrow> digests \<Rightarrow> graph_state \<Rightarrow> patch \<Rightarrow> writer \<Rightarrow> validation_context \<Rightarrow> bool \<Rightarrow>
   classification_state \<Rightarrow> bool" for A D st p w vcx grouped where
  start: "classified_by A D st p w vcx grouped
    \<lparr>cl_admitted_ops = [], cl_admitted_indices = [], cl_staged = st, cl_results = []\<rparr>"
| step: "classified_by A D st p w vcx grouped s \<Longrightarrow> classification_step A D st p w vcx grouped grp s s' \<Longrightarrow>
    classified_by A D st p w vcx grouped s'"

lemma classify_refusal_steps:
  assumes "classify_refusal A D st p w vcx grp reviewable ds s = Inr s'"
  shows "classification_step A D st p w vcx grouped grp s s'"
proof (cases "reviewable")
  case True
  note run = assms(1) [unfolded classify_refusal_def classify_review_def, folded picked_ops_def]
  show ?thesis
  proof (cases "review_operations (cl_staged s) (picked_ops p grp)")
    case None
    with run True show ?thesis by (auto intro: classification_step.refuse)
  next
    case (Some ops)
    show ?thesis
    proof (cases "list_all valid_review_operation ops")
      case False
      with run True Some show ?thesis by (auto intro: classification_step.refuse)
    next
      case valid: True
      with run True Some obtain r where r: "review_report A D st p w vcx (cl_admitted_ops s) ops = Inr r"
        by (auto simp: bind_r_Inr)
      with run True Some valid have "rejected r \<Longrightarrow> \<exists>ds'. s' = classified grp Refused [] ds' s"
        and "\<not> rejected r \<Longrightarrow> s' = classified grp Reviewable ops ds s"
        by (auto split: list.splits)
      with Some r show ?thesis by (cases "rejected r") (auto intro: classification_step.intros)
    qed
  qed
qed (use assms in \<open>auto simp: classify_refusal_def intro: classification_step.refuse\<close>)

lemma classify_group_steps:
  assumes "classify_group A D st p w vcx grouped grp s = Inr s'"
  shows "classification_step A D st p w vcx grouped grp s s'"
proof -
  let ?c = "candidate_patch st p grouped (cl_admitted_ops s @ picked_ops p grp)"
  note run = assms(1) [unfolded classify_group_def Let_def, folded picked_ops_def]
  show ?thesis
  proof (cases "rejected (validate_permissions st ?c)")
    case True
    with run show ?thesis by (auto simp: bind_r_Inr intro: classify_refusal_steps)
  next
    case False
    with run obtain r where r: "validate_patch A D st ?c vcx
        (Some (w\<lparr>w_agent_action := pa_agent_action ?c\<rparr>)) None None = Inr r"
      by (auto simp: bind_r_Inr)
    show ?thesis
    proof (cases "rejected r")
      case True
      with run False r show ?thesis
        by (auto simp: bind_r_Inr intro: classify_refusal_steps)
    next
      case ok: False
      then have "passes A D st ?c w vcx" using False r by (auto simp: passes_def)
      from classification_step.admit [OF this] show ?thesis
        using run False ok r by (auto simp: bind_r_Inr)
    qed
  qed
qed

lemma classify_groups_steps:
  assumes "fold_r (classify_group A D st p w vcx grouped) groups s = Inr s'"
    and "classified_by A D st p w vcx grouped s"
  shows "classified_by A D st p w vcx grouped s'"
  using assms
  by (induction groups arbitrary: s) (auto simp: result_simps intro: classify_group_steps classified_by.step)

section \<open>What the steps keep\<close>

lemma classified_simps [simp]:
  "cl_admitted_ops (classified grp d ops ds s) = cl_admitted_ops s"
  "cl_admitted_indices (classified grp d ops ds s) = cl_admitted_indices s"
  "cl_staged (classified grp d ops ds s) = cl_staged s"
  "cl_results (classified grp d ops ds s) = cl_results s @ [\<lparr>cc_operation_indices = grp, cc_disposition = d,
     cc_review_operations = ops, cc_diagnostics = ds\<rparr>]"
  by (simp_all add: classified_def)

lemma admitted_indices_snoc [simp]:
  "admitted_indices (xs @ [x]) =
     admitted_indices xs @ (if cc_disposition x = Admitted then cc_operation_indices x else [])"
  by (simp add: admitted_indices_def)

lemma classified_prefix:
  assumes "classified_by A D st p w vcx grouped s"
  shows "cl_admitted_indices s = admitted_indices (cl_results s)
    \<and> cl_admitted_ops s = picked_ops p (cl_admitted_indices s)"
  using assms
  by (induction rule: classified_by.induct)
    (auto simp: admitted_indices_def picked_ops_def elim!: classification_step.cases)

lemma classified_admitted_pass:
  assumes "classified_by A D st p w vcx grouped s" and "x \<in> set (cl_results s)" and "cc_disposition x = Admitted"
  shows "passes A D st (candidate_patch st p grouped (cl_admitted_ops s)) w vcx"
  using assms by (induction rule: classified_by.induct) (auto elim!: classification_step.cases)

lemma classified_reviewable_file:
  assumes "classified_by A D st p w vcx grouped s"
    and "cl_results s = before @ x # after" and "cc_disposition x = Reviewable"
  shows "fileable A D st p w vcx (picked_ops p (admitted_indices before)) x"
  using assms
proof (induction arbitrary: after rule: classified_by.induct)
  case (step s grp s')
  show ?case
  proof (cases after rule: rev_cases)
    case Nil
    with step classified_prefix [OF step.hyps(1)] show ?thesis
      by (auto simp: fileable_def elim!: classification_step.cases)
  qed (use step in \<open>auto elim!: classification_step.cases\<close>)
qed simp

lemma classified_groups:
  assumes "fold_r (classify_group A D st p w vcx grouped) groups s = Inr s'"
  shows "map cc_operation_indices (cl_results s') = map cc_operation_indices (cl_results s) @ groups"
  using assms
proof (induction groups arbitrary: s)
  case (Cons grp groups)
  then obtain s1 where s1: "classify_group A D st p w vcx grouped grp s = Inr s1"
    and rest: "fold_r (classify_group A D st p w vcx grouped) groups s1 = Inr s'" by (auto simp: result_simps)
  have "map cc_operation_indices (cl_results s1) = map cc_operation_indices (cl_results s) @ [grp]"
    using classify_group_steps [OF s1] by (auto elim!: classification_step.cases)
  with Cons.IH [OF rest] show ?case by simp
qed simp

section \<open>A batch\<close>

lemma stamp_attribution_ops:
  "stamp_attribution wa p project by target = Inr q \<Longrightarrow> pa_ops q = pa_ops p"
  by (auto simp: stamp_attribution_def stamp_agent_def Let_def result_simps
      split: if_splits option.splits)

lemma change_gate_ops:
  "change_gate st p authority project target by = Inr (q, w, r) \<Longrightarrow> pa_ops q = pa_ops p"
  by (auto simp: change_gate_def admit_def Let_def result_simps dest: stamp_attribution_ops
      split: if_splits change_authority.splits)

lemma refuse_all_simps [simp]:
  "map cc_operation_indices (refuse_all groups ds) = groups"
  "x \<in> set (refuse_all groups ds) \<Longrightarrow> cc_disposition x = Refused"
  by (auto simp: refuse_all_def comp_def)

abbreviation groups_of :: "patch \<Rightarrow> nat list list option \<Rightarrow> nat list list" where
  "groups_of p groups \<equiv> (case groups of None \<Rightarrow> [[0..<length (pa_ops p)]] | Some gs \<Rightarrow> gs)"

text \<open>A classification either refuses everything or is the loop over the groups.\<close>

lemma classification_cases:
  assumes "classify_graph_changes A D st p authority project target vcx by groups = Inr results"
  shows "(\<exists>ds. results = refuse_all (groups_of p groups) ds)
    \<or> (\<exists>q w r s. change_gate st p authority project target by = Inr (q, w, r)
         \<and> classified_by A D st q w vcx (groups \<noteq> None) s \<and> results = cl_results s
         \<and> map cc_operation_indices results = groups_of p groups \<and> vc_mode vcx = Admission)"
proof -
  have mode: "grouping_error p vcx groups = None \<and> vc_mode vcx = Admission"
    using assms by (auto simp: classify_graph_changes_def grouping_error_def Let_def split: if_splits)
  note run = assms [unfolded classify_graph_changes_def Let_def, unfolded conjunct1 [OF mode] option.case(1)]
  show ?thesis
  proof (cases "change_gate st p authority project target by")
    case (Inl e)
    with run show ?thesis by (auto split: authority_exn.splits if_splits)
  next
    case (Inr x)
    obtain q w r where x: "x = (q, w, r)" by (cases x)
    let ?start = "\<lparr>cl_admitted_ops = [], cl_admitted_indices = [], cl_staged = st, cl_results = []\<rparr>"
    from run Inr x consider ds where "results = refuse_all (groups_of p groups) ds"
      | s where "fold_r (classify_group A D st q w vcx (groups \<noteq> None)) (groups_of p groups) ?start = Inr s"
        "results = cl_results s"
      by (auto simp: bind_r_Inr split: if_splits)
    then show ?thesis
    proof cases
      case 2
      with classify_groups_steps [OF 2(1) classified_by.start] classified_groups [OF 2(1)] mode Inr x
      show ?thesis by auto
    qed blast
  qed
qed

lemma accepted_plain:
  assumes "validate_patch A D st c vcx w control pins = Inr r" and "\<not> rejected r" and "vc_mode vcx = Admission"
  shows "pa_transition c = None"
  using assms by (auto simp: validate_patch_def validate_transition_patch_def split: if_splits)

section \<open>A mixed sample\<close>

text \<open>
  An agent adds a question, rewrites the rationale of a hypothesis and edits a blocker: the
  second change needs review, the others apply.
\<close>

definition mixed_patch :: patch where
  "mixed_patch = live_patch\<lparr>pa_ops := [
     CreateNodesOperation [sample_question ''rq/why''],
     UpdateNodesOperation [\<lparr>nu_id = ''hyp/h1'', nu_changes = [(''rationale'', VStr ''A pilot points the other way'')],
       nu_cause = None, nu_base_updated_rev = None\<rparr>],
     UpdateNodesOperation [\<lparr>nu_id = ''blk/b1'', nu_changes = [(''description'', VStr ''M'')],
       nu_cause = None, nu_base_updated_rev = None\<rparr>]]\<rparr>"

definition mixed_run :: "change_classification list result" where
  "mixed_run = classify_graph_changes checked_adapter sample_digests live_state mixed_patch
     (Live live_authority) (Some ''prj'') MAIN_TARGET sample_context None (Some [[0], [1], [2]])"

definition mixed_results :: "change_classification list" where
  "mixed_results = (case mixed_run of Inr rs \<Rightarrow> rs | Inl _ \<Rightarrow> [])"

lemma mapped_result: "map_sum id (map f) m = Inr xs \<Longrightarrow> map f (case m of Inr rs \<Rightarrow> rs | Inl _ \<Rightarrow> []) = xs"
  by (cases m) auto

lemma mixed_dispositions: "map_sum id (map cc_disposition) mixed_run = Inr [Admitted, Reviewable, Admitted]"
  by code_simp

lemma mixed_classified:
  "classify_graph_changes checked_adapter sample_digests live_state mixed_patch
     (Live live_authority) (Some ''prj'') MAIN_TARGET sample_context None (Some [[0], [1], [2]]) = Inr mixed_results"
  using mixed_dispositions by (cases mixed_run) (simp_all add: mixed_results_def mixed_run_def)

lemma mixed_shape:
  "length mixed_results = 3" "cc_disposition (mixed_results ! 0) = Admitted"
  "cc_disposition (mixed_results ! 1) = Reviewable"
proof -
  have d: "map cc_disposition mixed_results = [Admitted, Reviewable, Admitted]"
    using mixed_dispositions unfolding mixed_results_def by (rule mapped_result)
  show "length mixed_results = 3" using arg_cong [OF d, of length] by simp
  with d show "cc_disposition (mixed_results ! 0) = Admitted" "cc_disposition (mixed_results ! 1) = Reviewable"
    by (metis length_map nth_Cons_0 nth_Cons_Suc nth_map One_nat_def length_Cons zero_less_Suc Suc_less_eq)+
qed

section \<open>Properties\<close>

text \<open>
  (C5) What is admitted applies. The operations of all the groups that a classification admits,
  taken together and in order, make one patch: every action in it is permitted, validation does
  not reject it, and it applies to the graph.
\<close>

theorem admitted_changes_apply:
  assumes "adapter A"
    and "classify_graph_changes A D st p authority project_id target vcx authorized_by groups = Inr results"
    and "x \<in> set results" and "cc_disposition x = Admitted"
  shows "\<exists>q w r c. change_gate st p authority project_id target authorized_by = Inr (q, w, r)
     \<and> c = candidate_patch st q (groups \<noteq> None) (map (\<lambda>i. pa_ops p ! i) (admitted_indices results))
     \<and> \<not> rejected (validate_permissions st c)
     \<and> (\<exists>report. validate_patch A D st c vcx (Some (w\<lparr>w_agent_action := pa_agent_action c\<rparr>)) None None
          = Inr report \<and> \<not> rejected report)
     \<and> (\<exists>st' ds. apply_patch A [] c st = Inr (st', ds))"
proof -
  from classification_cases [OF assms(2)] assms(3,4) obtain q w r s where
    gate: "change_gate st p authority project_id target authorized_by = Inr (q, w, r)"
    and s: "classified_by A D st q w vcx (groups \<noteq> None) s" "results = cl_results s"
    and mode: "vc_mode vcx = Admission"
    by auto
  define c where "c = candidate_patch st q (groups \<noteq> None)
    (map (\<lambda>i. pa_ops p ! i) (admitted_indices results))"
  have "cl_admitted_ops s = map (\<lambda>i. pa_ops p ! i) (admitted_indices results)"
    using classified_prefix [OF s(1)] by (simp add: s(2) picked_ops_def change_gate_ops [OF gate])
  with classified_admitted_pass [OF s(1)] assms(3,4) have "passes A D st c w vcx"
    by (simp add: s(2) c_def)
  then obtain report where perm: "\<not> rejected (validate_permissions st c)"
    and val: "validate_patch A D st c vcx (Some (w\<lparr>w_agent_action := pa_agent_action c\<rparr>)) None None = Inr report"
      "\<not> rejected report"
    by (auto simp: passes_def)
  note plain = accepted_plain [OF val mode]
  have "\<exists>st' ds. apply_patch A [] c st = Inr (st', ds)"
    by (rule validated_patch_staged [OF val plain])
      (use adapter.staged_patch_applies [OF assms(1) _ plain] in blast)
  with gate perm val c_def show ?thesis by blast
qed

theorem admitted_changes_apply_witness:
  "\<exists>q w r c. change_gate live_state mixed_patch (Live live_authority) (Some ''prj'') MAIN_TARGET None = Inr (q, w, r)
     \<and> c = candidate_patch live_state q (Some [[0 :: nat], [1], [2]] \<noteq> None)
         (map (\<lambda>i. pa_ops mixed_patch ! i) (admitted_indices mixed_results))
     \<and> \<not> rejected (validate_permissions live_state c)
     \<and> (\<exists>report. validate_patch checked_adapter sample_digests live_state c sample_context
          (Some (w\<lparr>w_agent_action := pa_agent_action c\<rparr>)) None None = Inr report \<and> \<not> rejected report)
     \<and> (\<exists>st' ds. apply_patch checked_adapter [] c live_state = Inr (st', ds))"
proof (rule admitted_changes_apply [OF checked_adapter.adapter_axioms mixed_classified])
  show "mixed_results ! 0 \<in> set mixed_results" using mixed_shape(1) by (intro nth_mem) simp
qed (rule mixed_shape)



end
