(* ===== verification/Build_Properties.thy ===== *)
theory Build_Properties
  imports Merge_Build Classification_Properties Answer_Properties
begin

text \<open>
  What the builder of a merge promises: the patch it returns passes the gates of the core and
  applies to the destination, the reviews it files do not affect one another, and no node is in
  two promoted conflicts of a plan. A conflict over a global value can never be answered.
\<close>

section \<open>Preparing twice\<close>

definition spelled_by_key :: "string dict \<Rightarrow> bool" where
  "spelled_by_key d = (\<forall>k v. dict_get d k = Some v \<longrightarrow> lower v = k)"

lemma setdefault_spelled: "spelled_by_key d \<Longrightarrow> setdefault d (lower t) t = (v, e) \<Longrightarrow> spelled_by_key e \<and> lower v = lower t"
  by (auto simp: setdefault_def spelled_by_key_def split: option.splits if_splits)

lemma setdefault_again:
  "spelled_by_key d \<Longrightarrow> setdefault d (lower t) t = (v, e) \<Longrightarrow> setdefault d (lower v) v = (v, e)"
  by (auto simp: setdefault_def spelled_by_key_def split: option.splits)

lemma respell_again:
  "spelled_by_key d \<Longrightarrow> respell_terms ts d = (us, e) \<Longrightarrow> respell_terms us d = (us, e) \<and> spelled_by_key e"
proof (induction ts arbitrary: d us)
  case (Cons t ts)
  obtain v d1 where v: "setdefault d (lower (ng_term t)) (ng_term t) = (v, d1)" by fastforce
  obtain rest where rest: "respell_terms ts d1 = (rest, e)" "us = t\<lparr>ng_term := v\<rparr> # rest"
    using Cons.prems(2) v by (auto simp: Let_def split: prod.splits)
  from Cons.IH [OF _ rest(1)] setdefault_spelled [OF Cons.prems(1) v] setdefault_again [OF Cons.prems(1) v]
  show ?case by (simp add: rest(2))
qed simp

lemma glossary_spelled_by_key: "spelled_by_key (glossary_spelling st)"
proof -
  have "spelled_by_key (fold (\<lambda>t d. snd (setdefault d (lower t) t)) ts d)" if "spelled_by_key d" for ts d
    using that
  proof (induction ts arbitrary: d)
    case (Cons t ts)
    obtain v e where "setdefault d (lower t) t = (v, e)" by (cases "setdefault d (lower t) t")
    with Cons.IH [of e] conjunct1 [OF setdefault_spelled [OF Cons.prems this]] show ?case by simp
  qed simp
  moreover have "spelled_by_key []" by (simp add: spelled_by_key_def)
  ultimately show ?thesis unfolding glossary_spelling_def by blast
qed

definition same_envelope :: "patch \<Rightarrow> patch \<Rightarrow> bool" where
  "same_envelope p q = (p\<lparr>pa_ops := [], pa_agent_action := None\<rparr> = q\<lparr>pa_ops := [], pa_agent_action := None\<rparr>)"

lemma same_envelope_fields:
  assumes "same_envelope p q"
  shows "pa_author p = pa_author q" "pa_source_operation_id p = pa_source_operation_id q"
    "pa_branch_merge p = pa_branch_merge q"
  using assms by (auto simp: same_envelope_def dest: arg_cong [where f = pa_author]
      arg_cong [where f = pa_source_operation_id] arg_cong [where f = pa_branch_merge])

lemma file_proposal_again:
  assumes "same_envelope p q"
  shows "file_proposal st q (file_proposal st p r) = file_proposal st p r"
  using same_envelope_fields [OF assms] by (simp add: file_proposal_def actor_of_def split: prod.split)

lemma prepare_again:
  assumes "same_envelope p q" and "spelled_by_key d"
  shows "prepare_operations st q (prepare_operations st p ops d) d = prepare_operations st p ops d"
  using assms
proof (induction st p ops d rule: prepare_operations.induct)
  case (2 st p terms ops d)
  obtain us e where us: "respell_terms terms d = (us, e)" by (cases "respell_terms terms d")
  with 2 respell_again [OF 2(3) us] show ?case by simp
next
  case (3 st p qs ops d)
  then show ?case by (simp add: file_proposal_again comp_def)
qed simp_all

lemma prepared_keep_nodes:
  "concat (map op_updates (prepare_operations st p ops d)) = concat (map op_updates ops)"
  "concat (map op_created_nodes (prepare_operations st p ops d)) = concat (map op_created_nodes ops)"
  by (induction st p ops d rule: prepare_operations.induct) (auto simp: Let_def split: prod.splits)

lemma derived_action_prepared:
  "derived_agent_action st (p\<lparr>pa_ops := prepare_operations st q ops d\<rparr>) = derived_agent_action st (p\<lparr>pa_ops := ops\<rparr>)"
  by (simp add: derived_agent_action_def patch_has_decision_outcome_def patch_created_nodes_def prepared_keep_nodes Let_def)

lemma template_again:
  fixes x ops
  defines "c \<equiv> prepare_patch_bookkeeping (pl_destination_graph x) (merge_template x ops)"
  shows "prepare_patch_bookkeeping (pl_destination_graph x) (merge_template x (pa_ops c)) = c"
proof -
  have "same_envelope (merge_template x ops) (merge_template x (pa_ops c))"
    by (simp add: same_envelope_def merge_template_def Let_def)
  from prepare_again [OF this glossary_spelled_by_key] show ?thesis
    by (simp add: c_def prepare_patch_bookkeeping_def merge_template_def Let_def derived_action_prepared)
qed

section \<open>The patch as a whole\<close>

lemma passing_applies:
  assumes "adapter A" and "passes A D st c w vcx" and "vc_mode vcx = Admission"
  shows "\<exists>st' ds. apply_patch A [] c st = Inr (st', ds)"
proof -
  from assms(2) obtain report where val: "validate_patch A D st c vcx (Some (w\<lparr>w_agent_action := pa_agent_action c\<rparr>)) None None
      = Inr report" "\<not> rejected report"
    by (auto simp: passes_def)
  note plain = accepted_plain [OF val assms(3)]
  show ?thesis
    by (rule validated_patch_staged [OF val plain])
      (use adapter.staged_patch_applies [OF assms(1) _ plain] in blast)
qed

lemma require_all_admitted_results:
  assumes "require_all_admitted A D plan groups = Inr ()"
  obtains results where "classify_merge A D (pn_context plan) None groups = Inr results"
    "\<And>r. r \<in> set results \<Longrightarrow> cc_disposition r = Admitted"
proof -
  from assms obtain results checked where r: "classify_merge A D (pn_context plan) None groups = Inr results"
    and c: "map_r (require_admitted plan) results = Inr checked"
    by (auto simp: require_all_admitted_def result_simps)
  have "cc_disposition r = Admitted" if "r \<in> set results" for r
    using that c
    by (induction results arbitrary: checked)
      (auto simp: result_simps require_admitted_def split: disposition.splits)
  with r that show ?thesis by blast
qed

lemma one_group_passes:
  assumes "require_all_admitted A D plan [ops] = Inr ()" and "x = pn_context plan"
    and "c = prepare_patch_bookkeeping (pl_destination_graph x) (merge_template x ops)" and "pa_ops c = ops"
  shows "passes A D (pl_destination_graph x) c (writer_from_patch c) (merge_context x)"
proof -
  obtain results where run: "classify_merge A D x None [ops] = Inr results"
    and all: "\<And>r. r \<in> set results \<Longrightarrow> cc_disposition r = Admitted"
    using require_all_admitted_results [OF assms(1)] assms(2) by blast
  let ?st = "pl_destination_graph x" and ?cap = "pl_captured_authority x" and ?n = "length ops"
  have cls: "classify_graph_changes A D ?st c (Captured ?cap) (ca_project_id ?cap) (gh_target (pl_destination_head x))
      (merge_context x) None (Some [[0..<?n]]) = Inr results"
    using run by (simp add: classify_merge_def Let_def assms(3))
  from classification_cases [OF cls] show ?thesis
  proof
    assume "\<exists>ds. results = refuse_all (groups_of c (Some [[0..<?n]])) ds"
    then show ?thesis using all by (auto simp: refuse_all_def)
  next
    assume "\<exists>q w r s. change_gate ?st c (Captured ?cap) (ca_project_id ?cap) (gh_target (pl_destination_head x)) None
          = Inr (q, w, r) \<and> classified_by A D ?st q w (merge_context x) (Some [[0..<?n]] \<noteq> None) s \<and> results = cl_results s
        \<and> map cc_operation_indices results = groups_of c (Some [[0..<?n]]) \<and> vc_mode (merge_context x) = Admission"
    then obtain q w r s where gate: "change_gate ?st c (Captured ?cap) (ca_project_id ?cap)
        (gh_target (pl_destination_head x)) None = Inr (q, w, r)"
      and s: "classified_by A D ?st q w (merge_context x) True s" "results = cl_results s"
      and indices: "map cc_operation_indices results = [[0..<?n]]" by auto
    from gate have q: "q = c" "w = writer_from_patch c" "pa_agent_action c = derived_agent_action ?st c"
      by (auto simp: change_gate_def split: if_splits)
    from indices obtain res where res: "results = [res]" "cc_operation_indices res = [0..<?n]" by auto
    with all have "cc_disposition res = Admitted" by simp
    with classified_prefix [OF s(1)] res s(2) have "cl_admitted_ops s = map ((!) (pa_ops c)) [0..<length (pa_ops c)]"
      by (simp add: admitted_indices_def picked_ops_def q assms(4))
    then have "cl_admitted_ops s = pa_ops c" by (simp only: map_nth)
    with classified_admitted_pass [OF s(1), of res] res(1) s(2) \<open>cc_disposition res = Admitted\<close>
    have "passes A D ?st (candidate_patch ?st c True (pa_ops c)) (writer_from_patch c) (merge_context x)"
      by (simp add: q)
    moreover have "candidate_patch ?st c True (pa_ops c) = c"
      using q(3) by (simp add: candidate_patch_def Let_def)
    ultimately show ?thesis by simp
  qed
qed

text \<open>
  (C7) The patch of a merge is sound. When the builder returns a patch with operations, that patch,
  before its own notes are attached, passes both gates of the core against the destination: every
  action in it is permitted to the captured authority, validation does not reject it, and it
  applies to the destination.
\<close>

theorem built_merge_applies:
  assumes "adapter A" and "build_merge_patch A D K V P G plan answers = Inr p" and "pa_ops p \<noteq> []"
  shows "\<exists>c report st' ds. p = c\<lparr>pa_admission_messages := pa_admission_messages p\<rparr>
     \<and> \<not> rejected (validate_permissions (pl_destination_graph (pn_context plan)) c)
     \<and> validate_patch A D (pl_destination_graph (pn_context plan)) c (merge_context (pn_context plan))
         (Some ((writer_from_patch c)\<lparr>w_agent_action := pa_agent_action c\<rparr>)) None None = Inr report
     \<and> \<not> rejected report
     \<and> apply_patch A [] c (pl_destination_graph (pn_context plan)) = Inr (st', ds)"
proof -
  let ?x = "pn_context plan"
  from assms(2) obtain final c flags where c: "c = prepare_patch_bookkeeping (pl_destination_graph ?x) (merge_template ?x final)"
    and admitted: "pa_ops c = [] \<or> require_all_admitted A D plan [pa_ops c] = Inr ()"
    and p: "p = c\<lparr>pa_admission_messages := flags\<rparr>"
    by (auto simp: build_merge_patch_def result_simps Let_def split: if_splits)
  have again: "prepare_patch_bookkeeping (pl_destination_graph ?x) (merge_template ?x (pa_ops c)) = c"
    unfolding c by (rule template_again)
  have pass: "passes A D (pl_destination_graph ?x) c (writer_from_patch c) (merge_context ?x)"
    using admitted assms(3) p one_group_passes [of A D plan "pa_ops c" ?x c] again by simp
  from passing_applies [OF assms(1) this] obtain st' ds where
    "apply_patch A [] c (pl_destination_graph ?x) = Inr (st', ds)" by (auto simp: merge_context_def)
  with pass p show ?thesis unfolding passes_def by (intro exI [of _ c]) auto
qed

text \<open>A branch that adds a term to the glossary.\<close>

fun term_operation :: "val \<Rightarrow> graph_operation result" where
  "term_operation (VDict [(_, VStr name), (_, VList [VDict [(_, VStr t), (_, VStr d), (_, w)]])]) =
     (if name = ''upsert_glossary'' then Inr (UpsertGlossaryOperation [\<lparr>ng_term = t, ng_plain_definition = d,
        ng_where_defined = (case w of VStr s \<Rightarrow> Some s | _ \<Rightarrow> None)\<rparr>]) else Inl (ValueError name))"
| "term_operation _ = Inl (ValueError [])"

definition term_change :: merge_change where
  "term_change = change_at brief_merge ''glossary'' (Some ''Loss'') None MissingValue
     (PresentValue (VDict [(''term'', VStr ''Loss''), (''plain_definition'', VStr ''Error''), (''where_defined'', VNone)]))
     MissingValue"

definition brief_digests :: merge_digests where
  "brief_digests = \<lparr>dg_plan = (\<lambda>_. ''plan''), dg_subjects = (\<lambda>_. []), dg_effects = (\<lambda>_ _. []),
     dg_open_effects = (\<lambda>_ _. []), dg_node_group = (\<lambda>_. []), dg_review = (\<lambda>_ _ _ _. [])\<rparr>"

definition term_plan :: merge_plan where
  "term_plan = \<lparr>pn_context = sample_planning\<lparr>pl_prior_reviews := []\<rparr>, pn_plan_id = ''plan'',
     pn_direct_changes = [term_change], pn_conflicts = [], pn_review_groups = []\<rparr>"

definition no_answers :: merge_answers where
  "no_answers = \<lparr>an_answers = [], an_cards = []\<rparr>"

definition term_merge :: "merge_exn + patch" where
  "term_merge = build_merge_patch checked_adapter sample_digests brief_merge (\<lambda>_ _ _. True) term_operation
     brief_digests term_plan no_answers"

lemma term_merge_built: "map_sum id (map op_name \<circ> pa_ops) term_merge = Inr [''upsert_glossary'']"
  by code_simp

theorem built_merge_applies_witness:
  "\<exists>p c report st' ds. build_merge_patch checked_adapter sample_digests brief_merge (\<lambda>_ _ _. True) term_operation
       brief_digests term_plan no_answers = Inr p \<and> map op_name (pa_ops p) = [''upsert_glossary'']
     \<and> p = c\<lparr>pa_admission_messages := pa_admission_messages p\<rparr>
     \<and> validate_patch checked_adapter sample_digests (pl_destination_graph (pn_context term_plan)) c
         (merge_context (pn_context term_plan))
         (Some ((writer_from_patch c)\<lparr>w_agent_action := pa_agent_action c\<rparr>)) None None = Inr report
     \<and> \<not> rejected report
     \<and> apply_patch checked_adapter [] c (pl_destination_graph (pn_context term_plan)) = Inr (st', ds)"
proof -
  from map_sum_Inr [OF term_merge_built] obtain p where merge: "term_merge = Inr p"
    and names: "(map op_name \<circ> pa_ops) p = [''upsert_glossary'']" by blast
  note p = merge [unfolded term_merge_def]
  from names have ops: "map op_name (pa_ops p) = [''upsert_glossary'']" by simp
  from ops have "pa_ops p \<noteq> []" by auto
  from built_merge_applies [OF checked_adapter.adapter_axioms p this] p ops show ?thesis
    by (elim exE conjE) (intro exI conjI)
qed

section \<open>Independent reviews\<close>

definition uncoupled :: "proposal_footprint list \<Rightarrow> bool" where
  "uncoupled fs = (\<forall>i < length fs. \<forall>j < i. \<not> coupled (fs ! i) (fs ! j))"

lemma footprints_uncoupled:
  assumes "fold_r (add_footprint A D plan st) qs fs = Inr gs" and "uncoupled fs"
  shows "\<exists>hs. gs = fs @ hs \<and> uncoupled gs
     \<and> list_all2 (\<lambda>q f. proposal_dependencies_and_effects A D st q = Inr f) qs hs"
  using assms
proof (induction qs arbitrary: fs)
  case (Cons q qs)
  then obtain fs1 where first: "add_footprint A D plan st q fs = Inr fs1"
    and rest1: "fold_r (add_footprint A D plan st) qs fs1 = Inr gs" by (auto simp: result_simps)
  from first obtain f where f: "proposal_dependencies_and_effects A D st q = Inr f" "\<not> list_ex (coupled f) fs"
    and "fs1 = fs @ [f]"
    by (auto simp: add_footprint_def split: sum.splits effect_error.splits if_splits)
  with rest1 have rest: "fold_r (add_footprint A D plan st) qs (fs @ [f]) = Inr gs" by simp
  have "uncoupled (fs @ [f])"
    using Cons.prems(2) f(2) by (auto simp: uncoupled_def nth_append list_ex_iff less_Suc_eq)
  from Cons.IH [OF rest this] f(1) show ?case by auto
qed auto



section \<open>Promoted conflicts\<close>

lemma compared_ungrouped:
  "c \<in> set (snd (compare_graphs K base branch destination)) \<Longrightarrow> group_nodes c = []"
proof -
  have field: "c \<in> set (snd (compare_field K col i old new current name)) \<Longrightarrow> group_nodes c = []" for c col i old new current name
    by (auto simp: compare_field_def Let_def split: if_splits)
  have presence: "c \<in> set (snd (compare_presence K base branch destination col i)) \<Longrightarrow> group_nodes c = []" for c col i
    by (auto simp: compare_presence_def Let_def split: if_splits)
  have "c \<in> set (snd (compare_entity K base branch destination col i)) \<Longrightarrow> group_nodes c = []" for c col i
    by (auto simp: compare_entity_def gather_def Let_def dest: field presence split: if_splits)
  moreover have "c \<in> set (snd (compare_global K base branch destination col)) \<Longrightarrow> group_nodes c = []" for c col
    by (auto simp: compare_global_def Let_def split: if_splits)
  ultimately show "c \<in> set (snd (compare_graphs K base branch destination)) \<Longrightarrow> group_nodes c = []"
    by (auto simp: compare_graphs_def gather_def compare_collection_def Let_def case_prod_beta)
qed

lemma pending_ungrouped:
  assumes "\<And>c. c \<in> set conflicts \<Longrightarrow> group_nodes c = []" and "c \<in> set (pending_conflicts K x changes conflicts)"
  shows "group_nodes c = []"
proof -
  have "group_nodes c = []" if "c \<in> set (removal_conflict K x present ch)" for present ch
    using that by (auto simp: removal_conflict_def split: option.splits if_splits)
  moreover have "group_nodes c = []" if "c \<in> set (pending_conflict d k)" "k \<in> set conflicts" for d k
    using that assms(1) [of k] by (cases k) (auto simp: pending_conflict_def split: option.splits if_splits)
  ultimately show ?thesis using assms(2) by (auto simp: pending_conflicts_def Let_def)
qed

lemma planned_ungrouped:
  assumes "planned_changes K x = Inr (changes, conflicts)"
  shows "concat (map group_nodes conflicts) = []"
proof -
  obtain changes0 conflicts0 where "compare_graphs K (merge_baseline x) (source_for_comparison x (merge_baseline x))
      (pl_destination_graph x) = (changes0, conflicts0)" by (rule prod.exhaust)
  with assms obtain kept where "conflicts = pending_conflicts K x kept conflicts0"
    by (auto simp: planned_changes_def Let_def result_simps)
  moreover have "group_nodes c = []" if "c \<in> set conflicts0" for c
    using that \<open>compare_graphs _ _ _ _ = _\<close> compared_ungrouped by (metis snd_conv)
  ultimately have "group_nodes c = []" if "c \<in> set conflicts" for c
    using that pending_ungrouped by blast
  then show ?thesis by simp
qed

text \<open>Groups are disjoint and within the destination.\<close>

definition groups_disjoint :: "planning_context \<Rightarrow> merge_conflict list \<Rightarrow> bool" where
  "groups_disjoint x conflicts = (distinct (concat (map group_nodes conflicts))
     \<and> set (concat (map group_nodes conflicts)) \<subseteq> set (keys (g_nodes (pl_destination_graph x))))"

lemma promoted_groups_disjoint:
  assumes "promote_node_group K G plan ids ds = Inr q" and "groups_disjoint (pn_context plan) (pn_conflicts plan)"
  shows "groups_disjoint (pn_context plan) (pn_conflicts q)"
  using assms(2) promoted_group_nodes [OF assms(1)] by (auto simp: groups_disjoint_def)

lemma plan_loop_groups:
  assumes "plan_loop A D K G P x changes conflicts = Inr plan" and "groups_disjoint x conflicts"
  shows "groups_disjoint x (pn_conflicts plan) \<and> distinct (map conflict_id (pn_conflicts plan))"
  using assms
proof (induction A D K G P x changes conflicts rule: plan_loop.induct)
  case (1 A D K G P x changes conflicts)
  note run = "1.prems"(1) [unfolded plan_loop.simps [of A D K G P x changes conflicts]]
  show ?case
  proof (cases "route_changes A D K G P x changes conflicts")
    case (Inr r)
    then obtain direct groups where new: "new_plan G x direct conflicts groups = Inr plan"
      using run by (cases r) auto
    then have "distinct (map conflict_id (pn_conflicts plan))"
      by (auto simp: new_plan_def require_bound_plan_def result_simps split: if_splits)
    with new_plan_parts(2) [OF new] "1.prems"(2) show ?thesis by simp
  next
    case (Inl e)
    with run obtain ids ds provisional promoted where e: "e = MergeHiddenClash ids ds"
      and prov: "new_plan G x changes conflicts [] = Inr provisional"
      and prom: "promote_node_group K G provisional ids ds = Inr promoted"
      and rest: "plan_loop A D K G P x (promoted_changes K changes (pn_conflicts promoted)) (pn_conflicts promoted) = Inr plan"
      by (cases e) (auto simp: result_simps)
    have "groups_disjoint x (pn_conflicts promoted)"
      using promoted_groups_disjoint [OF prom] new_plan_parts(1,2) [OF prov] "1.prems"(2) by simp
    from "1.IH" [OF Inl [unfolded e] refl prov prom rest this] show ?thesis .
  qed
qed

text \<open>
  (C8) Planning a merge ends with a sound set of questions. The conflicts of the plan have
  different ids, and the groups of nodes that the core found to clash are disjoint and consist of
  nodes of the destination, so that no node is promoted twice.
\<close>

theorem planned_groups_sound:
  assumes "plan_merge A D K G P x = Inr plan"
  shows "distinct (map conflict_id (pn_conflicts plan))
     \<and> distinct (concat (map group_nodes (pn_conflicts plan)))
     \<and> set (concat (map group_nodes (pn_conflicts plan))) \<subseteq> set (keys (g_nodes (pl_destination_graph x)))"
proof -
  from assms obtain y where y: "require_bound_inputs x = Inr y"
    and rest: "(case planned_changes K y of Inl _ \<Rightarrow> Inl Merge_assertion
      | Inr (changes, conflicts) \<Rightarrow> plan_loop A D K G P y changes conflicts) = Inr plan"
    by (auto simp: plan_merge_def bind_r_Inr)
  from rest obtain changes conflicts where planned: "planned_changes K y = Inr (changes, conflicts)"
    and loop: "plan_loop A D K G P y changes conflicts = Inr plan"
    by (cases "planned_changes K y") auto
  have "groups_disjoint y conflicts" unfolding groups_disjoint_def planned_ungrouped [OF planned] by simp
  from plan_loop_groups [OF loop this] require_bound_inputs_same [OF y] show ?thesis
    by (simp add: groups_disjoint_def)
qed

text \<open>The branch has a term the destination lacks; planning delivers it directly.\<close>

fun term_view :: "state_object \<Rightarrow> model_fields" where
  "term_view (O_term t) = [(''term'', Content, Leaf (VStr (gl_term t))),
     (''plain_definition'', Content, Leaf (VStr (gl_plain_definition t))), (''where_defined'', Content, Leaf VNone)]"
| "term_view x = brief_view x"

definition term_planning :: planning_context where
  "term_planning = sample_planning\<lparr>pl_prior_reviews := [], pl_source_graph :=
     base_version\<lparr>g_glossary := [(''Loss'', \<lparr>gl_term = ''Loss'', gl_plain_definition = ''Error'', gl_where_defined = None,
     gl_updated_rev = 0\<rparr>)]\<rparr>\<rparr>"

definition term_codec :: merge_codec where
  "term_codec = brief_merge\<lparr>mk_view := term_view\<rparr>"

definition term_op :: graph_operation where
  "term_op = UpsertGlossaryOperation [\<lparr>ng_term = ''Loss'', ng_plain_definition = ''Error'', ng_where_defined = None\<rparr>]"

lemma term_inputs: "require_bound_inputs term_planning = Inr term_planning" by code_simp

lemma term_compared: "planned_changes term_codec term_planning = Inr ([term_change], [])" by code_simp

lemma term_encoded:
  "encode_candidates checked_adapter term_codec brief_digests term_operation term_planning [term_change] []
     = Inr [\<lparr>cg_changes = [term_change], cg_operations = [term_op]\<rparr>]"
  by code_simp

lemma term_classified:
  "map_sum id (map cc_disposition) (classify_merge checked_adapter sample_digests term_planning
     (Some (pl_authorized_by term_planning)) [[term_op]]) = Inr [Admitted]"
  by code_simp

lemma term_staged: "\<not> isl (routed_graph checked_adapter sample_digests term_planning [term_op])" by code_simp

lemma no_pending: "pending_reviews term_planning = []"
  by (simp add: pending_reviews_def term_planning_def)

lemma no_groups: "connected_pending_reviews A D K G term_planning st [] = Inr []"
proof -
  have "group_reviews A D K G st [] = Inr []"
    by (simp add: group_reviews_def connected_proposal_groups_def merge_lift_def, subst connect_components.simps)
      (simp add: position_pairs_def)
  then show ?thesis
    unfolding connected_pending_reviews_def no_pending by (subst connect_pending.simps) simp
qed

lemma term_routed:
  "route_changes checked_adapter sample_digests term_codec brief_digests term_operation term_planning [term_change] []
     = Inr ([term_change], [])"
proof -
  from map_sum_Inr [OF term_classified] obtain r where r: "classify_merge checked_adapter sample_digests term_planning
      (Some (pl_authorized_by term_planning)) [[term_op]] = Inr [r]" "cc_disposition r = Admitted" by auto
  obtain g where g: "routed_graph checked_adapter sample_digests term_planning [term_op] = Inr g"
    using term_staged by (cases "routed_graph checked_adapter sample_digests term_planning [term_op]") auto
  have "mc_collection term_change = ''glossary''" by (simp add: term_change_def change_at_def)
  moreover have "carried_reviews \<lparr>cg_changes = [term_change], cg_operations = [term_op]\<rparr> = []"
    by (simp add: carried_reviews_def term_op_def)
  ultimately have "classify_candidates checked_adapter sample_digests term_codec brief_digests term_planning
      [\<lparr>cg_changes = [term_change], cg_operations = [term_op]\<rparr>] [] = Inr ([term_change], [])"
    by (simp add: classify_candidates_def route_candidate_def no_pending r g no_groups Let_def
        withdrawn_reviews_def conflicted_ids_def)
  then show ?thesis by (simp add: route_changes_def term_encoded)
qed

theorem planned_groups_sound_witness:
  "\<exists>plan. plan_merge checked_adapter sample_digests term_codec brief_digests term_operation term_planning = Inr plan
     \<and> pn_direct_changes plan = [term_change] \<and> distinct (map conflict_id (pn_conflicts plan))
     \<and> distinct (concat (map group_nodes (pn_conflicts plan)))"
proof -
  have "plan_loop checked_adapter sample_digests term_codec brief_digests term_operation term_planning [term_change] []
      = new_plan brief_digests term_planning [term_change] [] []"
    by (subst plan_loop.simps) (simp add: term_routed)
  then obtain plan where plan: "plan_merge checked_adapter sample_digests term_codec brief_digests term_operation
      term_planning = Inr plan" "pn_direct_changes plan = [term_change]"
    by (simp add: plan_merge_def term_inputs term_compared merge_lift_def new_plan_def require_bound_plan_def)
  from planned_groups_sound [OF plan(1)] plan show ?thesis by blast
qed

end
