(* ===== verification/Graph_Properties.thy ===== *)
theory Graph_Properties
  imports Graph_Frames Samples
begin

text \<open>
  The properties of applying a patch to the graph, each with an application to the sample
  project. They hold for every node validator that meets the contract \<open>adapter\<close>.
\<close>

lemma sample_state_wf: "graph_wf sample_state"
  by code_simp

lemma approved_state_wf: "graph_wf approved_state"
  by code_simp

section \<open>Well-formedness\<close>

text \<open>
  (C1) Whatever log of patches is replayed with whatever patch validator, the graph that results
  is well formed: nodes, edges, Proposals, ambiguities and glossary terms are stored once each,
  under their own id, and every node has the attributes its class declares, each with a value
  its annotation allows.
\<close>

theorem replay_graph_wf:
  assumes "adapter A"
  shows "graph_wf (m_state (materialize_patches A validate_patch patches context))"
  unfolding materialize_patches_def materialize_patches_from_state_def
proof (rule replay_loop_invariant [where P = graph_wf])
  show "graph_wf st'" if "graph_wf st" "apply_patch A [] p st = Inr (st', ds)" for p st st' ds
    using adapter.graph_wf_apply_patch [OF assms that(2,1)] .
qed (simp_all add: graph_wf_def initial_graph_state_def keyed_def degrade_def)

theorem replay_graph_wf_witness:
  "graph_wf (m_state (materialize_patches checked_adapter sample_validator [seed_patch, chat_patch]
     sample_context))"
  by (rule replay_graph_wf [OF checked_adapter.adapter_axioms])

section \<open>What a patch leaves alone\<close>

text \<open>
  (C13) A patch changes only the nodes its operations name: a node that no operation creates,
  removes, updates, retires or gives a standing is the same before and after.
\<close>

theorem apply_patch_untouched:
  assumes "adapter A" and "graph_wf st" and "apply_patch A idx p st = Inr (st', ds)"
    and "\<forall>op \<in> set (pa_ops p). i \<notin> touches op \<and> ids_given op"
  shows "dict_get (g_nodes st') i = dict_get (g_nodes st) i"
  using adapter.untouched_patch [OF assms(1,3,2)] assms(4) by blast

theorem apply_patch_untouched_witness:
  "dict_get (g_nodes (applied chat_patch sample_state)) ''h2'' = dict_get (g_nodes sample_state) ''h2''"
proof (rule apply_patch_untouched [OF checked_adapter.adapter_axioms sample_state_wf chat_applied])
  show "\<forall>op \<in> set (pa_ops chat_patch). ''h2'' \<notin> touches op \<and> ids_given op"
    by (simp add: chat_patch_def sample_patch_def sample_update_def touches_def)
qed

text \<open>
  No operation but the creation and the removal of a node changes its id, its type or the
  revision that created it, makes it appear or makes it disappear.
\<close>

theorem apply_patch_identity:
  assumes "adapter A" and "graph_wf st" and "apply_patch A idx p st = Inr (st', ds)"
    and "\<forall>op \<in> set (pa_ops p). i \<notin> creates op \<union> removes op \<and> ids_given op"
  shows "rel_option same_identity (dict_get (g_nodes st) i) (dict_get (g_nodes st') i)"
  using adapter.identity_patch [OF assms(1,3,2), of i] assms(4) by (simp add: identity_kept_def)

theorem apply_patch_identity_witness:
  "rel_option same_identity (dict_get (g_nodes sample_state) ''h1'')
     (dict_get (g_nodes (applied chat_patch sample_state)) ''h1'')"
proof (rule apply_patch_identity [OF checked_adapter.adapter_axioms sample_state_wf chat_applied])
  show "\<forall>op \<in> set (pa_ops chat_patch). ''h1'' \<notin> creates op \<union> removes op \<and> ids_given op"
    by (simp add: chat_patch_def sample_patch_def)
qed

text \<open>
  (C11) Only an approval or an explicit standing gives a node a standing other than asserted. A
  patch of any other kind, with no operation that sets a standing or creates a node with one,
  leaves a node that is accepted or contested afterwards exactly as it was before: every node it
  revised is asserted again.
\<close>

theorem apply_patch_standing:
  assumes "adapter A" and "apply_patch A idx p st = Inr (st', ds)" and "pa_kind p \<noteq> Approval"
    and "\<forall>op \<in> set (pa_ops p). \<not> raises_standing op"
    and "dict_get (g_nodes st') i = Some n" and "n_standing n \<noteq> ASSERTED"
  shows "dict_get (g_nodes st) i = Some n"
  using adapter.standing_patch [OF assms(1-3)] assms(4-6) by (simp add: standing_earned_def)

lemma sample_accepted:
  "dict_get (g_nodes (applied cleanup_patch approved_state)) ''q1''
     = Some ((np_node (sample_question ''q1''))\<lparr>n_standing := ACCEPTED, n_created_rev := 1,
         n_updated_rev := 3\<rparr>)"
  by code_simp

theorem apply_patch_standing_witness:
  "dict_get (g_nodes approved_state) ''q1''
     = Some ((np_node (sample_question ''q1''))\<lparr>n_standing := ACCEPTED, n_created_rev := 1,
         n_updated_rev := 3\<rparr>)"
proof (rule apply_patch_standing [OF checked_adapter.adapter_axioms cleanup_applied _ _ sample_accepted])
  show "\<forall>op \<in> set (pa_ops cleanup_patch). \<not> raises_standing op"
    by (simp add: cleanup_patch_def sample_patch_def)
qed (simp_all add: cleanup_patch_def sample_patch_def)



text \<open>
  What a Proposal says and who filed it never changes once it is filed: an operation other
  than the filing of a Proposal with that id writes only its status and the resolution fields,
  and no operation deletes it.
\<close>

theorem apply_patch_filing:
  assumes "adapter A" and "graph_wf st" and "apply_patch A idx p st = Inr (st', ds)"
    and "\<forall>op \<in> set (pa_ops p). i \<notin> files op"
  shows "map_option filed_part (dict_get (g_proposals st') i) =
     map_option filed_part (dict_get (g_proposals st) i)"
  using adapter.filing_patch [OF assms(1,3,2), of i] assms(4) by (simp add: filing_kept_def)

theorem apply_patch_filing_witness:
  "map_option filed_part (dict_get (g_proposals approved_state) ''pr1'') =
     map_option filed_part (dict_get (g_proposals sample_state) ''pr1'')"
proof (rule apply_patch_filing [OF checked_adapter.adapter_axioms sample_state_wf approval_applied])
  show "\<forall>op \<in> set (pa_ops approval_patch). ''pr1'' \<notin> files op"
    by (simp add: approval_patch_def sample_patch_def)
qed

text \<open>
  Applying a patch moves the revision to the larger of the two, takes the refresh time of
  a seed or refresh patch and of no other, and leaves the validation messages and the replay
  status alone.
\<close>

theorem apply_patch_clock:
  assumes "adapter A" and "apply_patch A idx p st = Inr (st', ds)"
  shows "g_revision st' = max (g_revision st) (pa_revision p)
     \<and> g_last_refresh_at st' =
        (if pa_kind p \<in> {Seed, Refresh} then Some (pa_created_at p) else g_last_refresh_at st)
     \<and> g_validation_messages st' = g_validation_messages st
     \<and> g_replay_status st' = g_replay_status st"
  using adapter.clock_patch [OF assms] by simp

theorem apply_patch_clock_witness:
  "g_revision (applied chat_patch sample_state) = 2
     \<and> g_last_refresh_at (applied chat_patch sample_state) = g_last_refresh_at sample_state"
  using apply_patch_clock [OF checked_adapter.adapter_axioms chat_applied]
    apply_patch_clock [OF checked_adapter.adapter_axioms seed_applied]
  by (simp add: chat_patch_def seed_patch_def sample_patch_def initial_graph_state_def)

end
