(* ===== verification/Replay_Properties.thy ===== *)
theory Replay_Properties
  imports Graph_Properties
begin

text \<open>
  The properties of replaying a log: where it stops, what it leaves out, that the replay of a
  tail from a materialized state continues the replay of the whole log, and what the observer of
  accepted patches sees.
\<close>

section \<open>Laws of the loop\<close>

lemma degrade_status [simp]: "g_replay_status (degrade p code st) = Degraded"
  by (simp add: degrade_def)

text \<open>The state that results depends on the state the loop starts from and on nothing else.\<close>

lemma replay_loop_state:
  "m_state m = m_state m' \<Longrightarrow>
   m_state (replay_loop A V ctx ps m) = m_state (replay_loop A V ctx ps m')"
proof (induction ps arbitrary: m m')
  case (Cons p ps)
  show ?case
  proof (cases rule: replay_loop_cases [of p A V ctx ps m])
    case skip
    then show ?thesis
      using Cons.prems Cons.IH [of "skip_rejected p m" "skip_rejected p m'"]
      by (simp add: skip_rejected_def)
  next
    case (stop code r)
    then show ?thesis
      using Cons.prems
      by (cases rule: replay_loop_cases [of p A V ctx ps m'])
        (auto simp: stopped_def stop_code_def Let_def simp del: replay_loop.simps)
  next
    case (accept st' ds)
    then show ?thesis
      using Cons.prems
        Cons.IH [of "accept_applied p (replay_report V ctx p (m_state m)) st' ds m"
          "accept_applied p (replay_report V ctx p (m_state m)) st' ds m'"]
      by (simp add: accept_applied_def replay_report_def Let_def)
  qed
qed simp

context adapter
begin

lemma accept_status:
  assumes "apply_patch A [] p (m_state m) = Inr (st', ds)"
  shows "g_replay_status (m_state (accept_applied p r st' ds m)) = g_replay_status (m_state m)"
  using clock_patch(4) [OF assms] by (simp add: accept_applied_def Let_def)

lemma replay_loop_append:
  assumes "g_replay_status (m_state m) = Complete"
  shows "replay_loop A V ctx (ps @ qs) m =
    (if g_replay_status (m_state (replay_loop A V ctx ps m)) = Complete
     then replay_loop A V ctx qs (replay_loop A V ctx ps m) else replay_loop A V ctx ps m)"
  using assms
proof (induction ps arbitrary: m)
  case (Cons p ps)
  show ?case
  proof (cases rule: replay_loop_cases [of p A V ctx "ps @ qs" m])
    case skip
    then show ?thesis
      using Cons.IH [of "skip_rejected p m"] Cons.prems by (simp add: skip_rejected_def)
  next
    case (stop code r)
    then have "replay_loop A V ctx (p # ps) m = stopped p code r m"
      by (cases rule: replay_loop_cases [of p A V ctx ps m])
        (auto simp: stop_code_def Let_def simp del: replay_loop.simps)
    with stop show ?thesis by (simp add: stopped_def del: replay_loop.simps)
  next
    case (accept st' ds)
    then have "replay_loop A V ctx (p # ps) m = replay_loop A V ctx ps
        (accept_applied p (replay_report V ctx p (m_state m)) st' ds m)"
      by (cases rule: replay_loop_cases [of p A V ctx ps m])
        (auto simp: stop_code_def Let_def simp del: replay_loop.simps)
    with accept Cons.IH [of "accept_applied p (replay_report V ctx p (m_state m)) st' ds m"]
      Cons.prems accept_status [OF accept(2)]
    show ?thesis by (simp del: replay_loop.simps)
  qed
qed simp

end

text \<open>The accepted patches of a log, and the revision the log reaches.\<close>

definition accepted_patches :: "patch list \<Rightarrow> patch list" where
  "accepted_patches ps = filter (\<lambda>p. pa_admission p \<noteq> Rejected_admission) ps"

text \<open>One observation: the patch applied to the state before gives the state after.\<close>

definition observation_ok :: "node_adapter \<Rightarrow> graph_state \<times> patch \<times> graph_state \<Rightarrow> bool" where
  "observation_ok A obs = (case obs of (before, p, after) \<Rightarrow>
     \<exists>st' ds. apply_patch A [] p before = Inr (st', ds)
       \<and> after = st'\<lparr>g_validation_messages := g_validation_messages st' @ pa_admission_messages p\<rparr>)"

lemma accept_observation:
  assumes "apply_patch A [] p (m_state m) = Inr (st', ds)"
  shows "m_observed (accept_applied p r st' ds m) =
      m_observed m @ [(m_state m, p, m_state (accept_applied p r st' ds m))]"
    and "observation_ok A (m_state m, p, m_state (accept_applied p r st' ds m))"
  using assms by (simp_all add: accept_applied_def observation_ok_def Let_def)

context adapter
begin

lemma replay_loop_observed:
  assumes "g_replay_status (m_state m) = Complete"
    and "g_replay_status (m_state (replay_loop A V ctx ps m)) = Complete"
  shows "\<exists>obs. m_observed (replay_loop A V ctx ps m) = m_observed m @ obs
      \<and> map (\<lambda>x. fst (snd x)) obs = accepted_patches ps \<and> list_all (observation_ok A) obs"
  using assms
proof (induction ps arbitrary: m)
  case (Cons p ps)
  show ?case
  proof (cases rule: replay_loop_cases [of p A V ctx ps m])
    case skip
    have "g_replay_status (m_state (skip_rejected p m)) = Complete"
      using Cons.prems by (simp add: skip_rejected_def)
    from Cons.IH [OF this] skip Cons.prems show ?thesis
      by (auto simp: accepted_patches_def skip_rejected_def)
  next
    case (stop code r)
    then show ?thesis using Cons.prems by (simp add: stopped_def del: replay_loop.simps)
  next
    case (accept st' ds)
    let ?m = "accept_applied p (replay_report V ctx p (m_state m)) st' ds m"
    have "g_replay_status (m_state ?m) = Complete"
      using Cons.prems accept_status [OF accept(2)] by simp
    then obtain obs where "m_observed (replay_loop A V ctx ps ?m) = m_observed ?m @ obs"
      and "map (\<lambda>x. fst (snd x)) obs = accepted_patches ps" and "list_all (observation_ok A) obs"
      using Cons.IH [of ?m] Cons.prems accept(4) by auto
    then show ?thesis
      using accept accept_observation [OF accept(2), of "replay_report V ctx p (m_state m)"]
      by (intro exI [of _ "(m_state m, p, m_state ?m) # obs"])
        (simp add: accepted_patches_def del: replay_loop.simps)
  qed
qed (simp add: accepted_patches_def)

lemma replay_loop_revision:
  assumes "g_replay_status (m_state m) = Complete"
    and "g_replay_status (m_state (replay_loop A V ctx ps m)) = Complete"
  shows "g_revision (m_state (replay_loop A V ctx ps m)) =
      fold max (map pa_revision ps) (g_revision (m_state m))"
  using assms
proof (induction ps arbitrary: m)
  case (Cons p ps)
  show ?case
  proof (cases rule: replay_loop_cases [of p A V ctx ps m])
    case skip
    have "g_replay_status (m_state (skip_rejected p m)) = Complete"
      using Cons.prems by (simp add: skip_rejected_def)
    from Cons.IH [OF this] skip Cons.prems show ?thesis
      by (simp add: skip_rejected_def max.commute)
  next
    case (stop code r)
    then show ?thesis using Cons.prems by (simp add: stopped_def del: replay_loop.simps)
  next
    case (accept st' ds)
    let ?m = "accept_applied p (replay_report V ctx p (m_state m)) st' ds m"
    have "g_replay_status (m_state ?m) = Complete"
      using Cons.prems accept_status [OF accept(2)] by simp
    moreover have "g_revision (m_state ?m) = max (pa_revision p) (g_revision (m_state m))"
      using clock_patch(1) [OF accept(2)] by (simp add: accept_applied_def Let_def max.commute)
    ultimately show ?thesis
      using Cons.IH [of ?m] Cons.prems accept(4) by (simp del: replay_loop.simps)
  qed
qed simp

end

section \<open>Properties\<close>

abbreviation replayed ::
  "node_adapter \<Rightarrow> patch_validator \<Rightarrow> validation_context \<Rightarrow> patch list \<Rightarrow> graph_state \<Rightarrow> graph_state" where
  "replayed A V ctx ps st \<equiv> m_state (materialize_patches_from_state A V ps st ctx)"

text \<open>
  (C12) Replay stops at the first patch it cannot apply. If the log up to a patch replays
  completely and that patch is refused by the validator or raises while it is applied, the
  replay of the whole log is the state before the patch with the failure recorded: no operation
  of the patch and nothing after it has any effect.
\<close>

theorem replay_stops_at_failure:
  assumes "adapter A" and "g_replay_status st = Complete"
    and "g_replay_status (replayed A V ctx ps st) = Complete"
    and "stop_code A V ctx p (replayed A V ctx ps st) = Some (code, r)"
  shows "replayed A V ctx (ps @ p # qs) st = degrade p code (replayed A V ctx ps st)"
proof -
  let ?m = "\<lambda>xs. \<lparr>m_state = st, m_reports = [], m_repository_descriptors = [],
        m_processed_cursors = [], m_patches = xs, m_observed = []\<rparr>"
  let ?ps = "replay_loop A V ctx ps (?m (ps @ p # qs))"
  have ps: "m_state ?ps = replayed A V ctx ps st"
    unfolding materialize_patches_from_state_def by (rule replay_loop_state) simp
  then have "replay_loop A V ctx (ps @ p # qs) (?m (ps @ p # qs)) = replay_loop A V ctx (p # qs) ?ps"
    using adapter.replay_loop_append [OF assms(1), of "?m (ps @ p # qs)" V ctx ps "p # qs"] assms(2,3)
    by (simp del: replay_loop.simps)
  moreover have "m_state (replay_loop A V ctx (p # qs) ?ps) = degrade p code (m_state ?ps)"
    using assms(4) ps
    by (cases rule: replay_loop_cases [of p A V ctx qs ?ps])
      (auto simp: stop_code_def stopped_def Let_def simp del: replay_loop.simps)
  ultimately show ?thesis
    by (simp add: ps materialize_patches_from_state_def del: replay_loop.simps)
qed

theorem replay_stops_at_failure_witness:
  "replayed checked_adapter sample_validator sample_context
      ([seed_patch] @ sample_patch 2 Chat [] # [chat_patch]) (initial_graph_state [''scope''])
     = degrade (sample_patch 2 Chat []) ''empty-patch''
         (replayed checked_adapter sample_validator sample_context [seed_patch]
           (initial_graph_state [''scope'']))"
proof (rule replay_stops_at_failure [OF checked_adapter.adapter_axioms])
  show "g_replay_status (replayed checked_adapter sample_validator sample_context [seed_patch]
      (initial_graph_state [''scope''])) = Complete"
    by code_simp
  show "stop_code checked_adapter sample_validator sample_context (sample_patch 2 Chat [])
      (replayed checked_adapter sample_validator sample_context [seed_patch]
        (initial_graph_state [''scope'']))
     = Some (''empty-patch'', reject ''empty-patch'' (Some 2) [] [] [])"
    by (simp add: stop_code_def replay_report_def sample_validator_def sample_patch_def
        first_reject_code_def reject_def rejected_def report_message_def)
qed (simp add: initial_graph_state_def)

text \<open>
  (C15) Replaying a tail from the materialized state of a prefix gives the state of replaying the
  whole log, when the prefix replays completely; otherwise the whole log gives the degraded state
  of the prefix. A stored state may therefore stand in for the patches it was made from.
\<close>

theorem replay_tail:
  assumes "adapter A" and "g_replay_status st = Complete"
  shows "replayed A V ctx (ps @ qs) st =
    (if g_replay_status (replayed A V ctx ps st) = Complete
     then replayed A V ctx qs (replayed A V ctx ps st) else replayed A V ctx ps st)"
proof -
  let ?m = "\<lambda>xs s. \<lparr>m_state = s, m_reports = [], m_repository_descriptors = [],
        m_processed_cursors = [], m_patches = xs, m_observed = []\<rparr>"
  let ?ps = "replay_loop A V ctx ps (?m (ps @ qs) st)"
  have ps: "m_state ?ps = replayed A V ctx ps st"
    unfolding materialize_patches_from_state_def by (rule replay_loop_state) simp
  moreover have "m_state (replay_loop A V ctx qs ?ps) = replayed A V ctx qs (m_state ?ps)"
    unfolding materialize_patches_from_state_def by (rule replay_loop_state) simp
  ultimately show ?thesis
    using adapter.replay_loop_append [OF assms(1), of "?m (ps @ qs) st" V ctx ps qs] assms(2)
    by (simp add: materialize_patches_from_state_def)
qed

theorem replay_tail_witness:
  "replayed checked_adapter sample_validator sample_context ([seed_patch] @ [chat_patch])
      (initial_graph_state [''scope''])
   = replayed checked_adapter sample_validator sample_context [chat_patch]
      (replayed checked_adapter sample_validator sample_context [seed_patch]
        (initial_graph_state [''scope'']))"
proof -
  have "g_replay_status (replayed checked_adapter sample_validator sample_context [seed_patch]
      (initial_graph_state [''scope''])) = Complete"
    by code_simp
  then show ?thesis
    using replay_tail [OF checked_adapter.adapter_axioms, where st = "initial_graph_state [''scope'']"
        and V = sample_validator and ctx = sample_context and ps = "[seed_patch]"
        and qs = "[chat_patch]"]
    by (simp add: initial_graph_state_def del: append.simps)
qed

text \<open>
  When a log replays completely, the observer is called once for each patch that was not
  recorded as rejected, in log order, each time with the state the patch was applied to and the
  state it gave, and the graph's revision is the largest of the log's.
\<close>

theorem replay_observes_accepted:
  assumes "adapter A" and "g_replay_status st = Complete"
    and "g_replay_status (replayed A V ctx ps st) = Complete"
  shows "map (\<lambda>x. fst (snd x)) (m_observed (materialize_patches_from_state A V ps st ctx))
       = accepted_patches ps
     \<and> list_all (observation_ok A) (m_observed (materialize_patches_from_state A V ps st ctx))
     \<and> g_revision (replayed A V ctx ps st) = fold max (map pa_revision ps) (g_revision st)"
proof -
  let ?m = "\<lparr>m_state = st, m_reports = [], m_repository_descriptors = [],
        m_processed_cursors = [], m_patches = ps, m_observed = []\<rparr>"
  show ?thesis
    using adapter.replay_loop_observed [OF assms(1), of ?m V ctx ps]
      adapter.replay_loop_revision [OF assms(1), of ?m V ctx ps] assms(2,3)
    by (auto simp: materialize_patches_from_state_def)
qed

theorem replay_observes_accepted_witness:
  "map (\<lambda>x. fst (snd x)) (m_observed (materialize_patches_from_state checked_adapter sample_validator
      [seed_patch, chat_patch] (initial_graph_state [''scope'']) sample_context))
   = [seed_patch, chat_patch]"
proof -
  have "g_replay_status (replayed checked_adapter sample_validator sample_context
      [seed_patch, chat_patch] (initial_graph_state [''scope''])) = Complete"
    by code_simp
  then show ?thesis
    using replay_observes_accepted [OF checked_adapter.adapter_axioms,
        where st = "initial_graph_state [''scope'']" and V = sample_validator
        and ctx = sample_context and ps = "[seed_patch, chat_patch]"]
    by (simp add: initial_graph_state_def accepted_patches_def seed_patch_def chat_patch_def
        sample_patch_def)
qed

end
