(* ===== verification/Operation_Properties.thy ===== *)
theory Operation_Properties
  imports Graph_Properties
begin

text \<open>
  The effect of single operations of a patch: which updates are refused, what an update and a
  retirement write, what a removal takes away, and that the layers of created edges are those
  of the finished graph.
\<close>

section \<open>Refused updates\<close>

lemma fold_r_Inr_step:
  assumes "fold_r f xs s = Inr t" and "x \<in> set xs"
  shows "\<exists>u u'. f x u = Inr u'"
  using assms
proof (induction xs arbitrary: s)
  case (Cons y ys)
  then show ?case by (auto simp: result_simps)
qed simp

lemma nth_enumerate: "j < length xs \<Longrightarrow> (j, xs ! j) \<in> set (enumerate 0 xs)"
  by (auto simp: in_set_enumerate_eq)

text \<open>
  The fields an update may not name, by the class declarations: the identity and engine
  fields always; the staleness flags and the retired evidence strength too, except in a
  generation-1 patch, and the two staleness flags only by an operation RCP generated.
\<close>

theorem immutable_update_fields_cases:
  "set (immutable_update_fields p generated) =
     {''id'', ''extension_type'', ''standing'', ''created_rev'', ''updated_rev'', ''type''} \<union>
     (if pa_schema_generation p = 1 then {}
      else if generated then {''legacy_strength''}
      else {''current_summary_stale'', ''next_action_stale'', ''legacy_strength''})"
  by (auto simp: immutable_update_fields_def set_immutable_fields set_legacy_fields)

text \<open>
  (C35) A patch with an update that names a system field is refused as a whole: applying it to
  any state raises.
\<close>

theorem system_field_update_raises:
  assumes "j < length (pa_ops p)" and "pa_ops p ! j = UpdateNodesOperation us" and "u \<in> set us"
    and "k \<in> set (keys (nu_changes u))"
    and "k \<in> set (immutable_update_fields p (int j \<in> set (generated_operation_indexes idx p)))"
  shows "\<exists>e. apply_patch A idx p st = Inl e"
proof (cases "apply_patch A idx p st")
  case (Inr x)
  let ?g = "int j \<in> set (generated_operation_indexes idx p)"
  from Inr obtain s where "apply_operations A p (generated_operation_indexes idx p)
      \<lparr>ap_graph = st, ap_descriptors = [], ap_created_edge_ids = []\<rparr> = Inr s"
    by (cases x) (auto elim: apply_patch_Inr)
  then obtain s1 s2 where "apply_operation A p ?g (UpdateNodesOperation us) s1 = Inr s2"
    using fold_r_Inr_step [OF _ nth_enumerate [OF assms(1)]] assms(2)
    unfolding apply_operations_def by fastforce
  then obtain g1 g2 where "fold_r (update_node A p ?g) us g1 = Inr g2"
    by (auto simp: result_simps)
  then obtain h1 h2 where "update_node A p ?g u h1 = Inr h2"
    using fold_r_Inr_step assms(3) by metis
  then have "filter (\<lambda>f. f \<in> set (immutable_update_fields p ?g)) (keys (nu_changes u)) = []"
    by (auto simp: update_node_def result_simps Let_def split: if_splits)
  with assms(4,5) show ?thesis by (auto simp: filter_empty_conv)
qed simp

theorem system_field_update_raises_witness:
  "\<exists>e. apply_patch checked_adapter [] (sample_patch 2 Chat [UpdateNodesOperation
      [(sample_update ''h1'' ''active'')\<lparr>nu_changes := [(''standing'', VStr ''accepted'')]\<rparr>]]) sample_state
     = Inl e"
proof (rule system_field_update_raises [where j = 0 and k = "''standing''"
      and u = "(sample_update ''h1'' ''active'')\<lparr>nu_changes := [(''standing'', VStr ''accepted'')]\<rparr>"])
  let ?p = "sample_patch 2 Chat [UpdateNodesOperation
      [(sample_update ''h1'' ''active'')\<lparr>nu_changes := [(''standing'', VStr ''accepted'')]\<rparr>]]"
  show "''standing'' \<in> set (immutable_update_fields ?p (int 0 \<in> set (generated_operation_indexes [] ?p)))"
    by (simp add: immutable_core)
qed (auto simp: sample_patch_def)

section \<open>What an update writes\<close>

definition base_keys :: "string set" where
  "base_keys = {''id'', ''title'', ''extension_type'', ''extension_fields'', ''standing'',
     ''created_rev'', ''updated_rev'', ''source_refs'', ''type''}"

lemma own_fields_not_base:
  assumes "f \<in> set (own_fields t)" and "t \<in> set ALL_NODE_TYPES"
  shows "fd_name f \<notin> base_keys"
proof -
  have "list_all (\<lambda>t. list_all (\<lambda>f. fd_name f \<notin> base_keys) (own_fields t)) ALL_NODE_TYPES"
    by code_simp
  then show ?thesis using assms by (auto simp: list_all_iff)
qed

lemma dump_attr: "k \<notin> base_keys \<Longrightarrow> dict_get (node_model_dump n) k = node_attr n k"
  by (auto simp: node_model_dump_def node_attr_def base_keys_def)

text \<open>
  An update that returns found its node, kept the node's identity, stamped the patch's
  revision, and wrote what it was told: a textual attribute that the changes name has the last
  value they give it, and one they do not name has the value it had.
\<close>

theorem update_node_effect:
  assumes "adapter A" and "graph_wf st" and "update_node A p g u st = Inr st'"
  shows "\<exists>node updated. dict_get (g_nodes st) (nu_id u) = Some node
     \<and> dict_get (g_nodes st') (nu_id u) = Some updated
     \<and> same_identity node updated \<and> n_updated_rev updated = pa_revision p
     \<and> (\<forall>f \<in> set (own_fields (n_type node)). \<forall>s. string_annotation (fd_annotation f) \<longrightarrow>
          dict_get (rev (nu_changes u)) (fd_name f) = Some (VStr s) \<or>
          dict_get (rev (nu_changes u)) (fd_name f) = None \<and> node_attr node (fd_name f) = Some (VStr s)
          \<longrightarrow> node_attr updated (fd_name f) = Some (VStr s))"
proof -
  let ?V = "if pa_schema_generation p = 1 then ad_validate A else strict_project_node A"
  from assms(3) obtain node updated where
    node: "dict_get (g_nodes st) (nu_id u) = Some node" and "same_identity node updated"
    and rv: "n_updated_rev updated = pa_revision p"
    and V: "?V (AList.update ''standing'' (standing_after (pa_kind p = Approval) node)
        (AList.update ''updated_rev'' (VInt (pa_revision p))
          (dict_update (node_model_dump node) (nu_changes u)))) = Inr updated"
    and st': "st' = (record_belief_transition node updated (pa_revision p) (nu_cause u) st)
            \<lparr>g_nodes := AList.update (n_id node) updated (g_nodes st)\<rparr>"
    by (rule adapter.update_node_Inr [OF assms(1)])
  have NV: "node_validator ?V"
    using assms(1) by (simp add: adapter.lax_mode adapter.strict_project_node_validator)
  have id: "n_id node = nu_id u" using assms(2) node by (rule graph_wf_node)
  have "node_attr updated (fd_name f) = Some (VStr s)"
    if f: "f \<in> set (own_fields (n_type node))" and str: "string_annotation (fd_annotation f)"
      and val: "dict_get (rev (nu_changes u)) (fd_name f) = Some (VStr s) \<or>
        dict_get (rev (nu_changes u)) (fd_name f) = None \<and> node_attr node (fd_name f) = Some (VStr s)"
    for f s
  proof -
    have ty: "n_type updated = n_type node" using \<open>same_identity node updated\<close> by (simp add: same_identity_def)
    have "n_type node \<in> set ALL_NODE_TYPES"
      using graph_wf_conforming [OF assms(2) node] by (simp add: conforming_node_def)
    then have nb: "fd_name f \<notin> base_keys" by (rule own_fields_not_base [OF f])
    then show ?thesis
      using node_validator.string_given [OF NV V _ str, of s] f val ty dump_attr [OF nb, of node]
      by (auto simp: base_keys_def dict_get_dict_update)
  qed
  then show ?thesis
    using node rv id st' \<open>same_identity node updated\<close> by (intro exI conjI) auto
qed

theorem update_node_effect_witness:
  "\<exists>node updated. dict_get (g_nodes sample_state) ''h1'' = Some node
     \<and> dict_get (g_nodes (applied chat_patch sample_state)) ''h1'' = Some updated
     \<and> same_identity node updated \<and> node_attr updated ''status'' = Some (VStr ''supported'')"
proof -
  let ?u = "sample_update ''h1'' ''supported''"
  obtain st' where st': "update_node checked_adapter chat_patch False ?u sample_state = Inr st'"
    and same: "dict_get (g_nodes st') ''h1'' = dict_get (g_nodes (applied chat_patch sample_state)) ''h1''"
  proof
    show "update_node checked_adapter chat_patch False ?u sample_state
        = Inr ((applied chat_patch sample_state)\<lparr>g_revision := 1\<rparr>)"
      by code_simp
  qed simp
  have f: "list_ex (\<lambda>f. fd_name f = ''status'' \<and> string_annotation (fd_annotation f)) (own_fields ''hypothesis'')"
    and ty: "map_option n_type (dict_get (g_nodes sample_state) ''h1'') = Some ''hypothesis''"
    by code_simp+
  show ?thesis
    using update_node_effect [OF checked_adapter.adapter_axioms sample_state_wf st'] same f ty
    by (fastforce simp: sample_update_def list_ex_iff)
qed

section \<open>Retirement\<close>



section \<open>Removal\<close>

text \<open>
  (C28) Removing nodes takes away exactly the nodes named and exactly the edges that touch one
  of them, and nothing else of the graph.
\<close>

theorem remove_nodes_exact:
  assumes "apply_operation A p g (RemoveNodesOperation ids) s = Inr s'" and "graph_wf (ap_graph s)"
  shows "dict_get (g_nodes (ap_graph s')) i = (if i \<in> set ids then None else dict_get (g_nodes (ap_graph s)) i)
     \<and> dict_get (g_edges (ap_graph s')) j =
        (case dict_get (g_edges (ap_graph s)) j of None \<Rightarrow> None
         | Some e \<Rightarrow> if e_source e \<in> set ids \<or> e_target e \<in> set ids then None else Some e)
     \<and> s' = s\<lparr>ap_graph := (ap_graph s)\<lparr>g_nodes := g_nodes (ap_graph s'), g_edges := g_edges (ap_graph s')\<rparr>\<rparr>"
proof -
  have filt: "dict_get (filter (\<lambda>(_, e). P e) d) j =
      (case dict_get d j of None \<Rightarrow> None | Some e \<Rightarrow> if P e then Some e else None)"
    if "wf_dict d" for P and d :: "edge dict"
    using that by (induction d) (auto split: option.splits simp: map_of_eq_None_iff)
  have "wf_dict (g_edges (ap_graph s))"
    using assms(2) by (simp add: graph_wf_def keyed_def)
  with assms(1) show ?thesis
    by (auto simp: remove_nodes_def dict_get_filter_key filt split: option.split)
qed

lemma sample_removal:
  "apply_operation checked_adapter chat_patch False (RemoveNodesOperation [''h2''])
     \<lparr>ap_graph = sample_state, ap_descriptors = [], ap_created_edge_ids = []\<rparr>
   = Inr \<lparr>ap_graph = remove_nodes [''h2''] sample_state, ap_descriptors = [], ap_created_edge_ids = []\<rparr>"
  by simp

theorem remove_nodes_exact_witness:
  "dict_get (g_nodes (remove_nodes [''h2''] sample_state)) ''h2'' = None
     \<and> dict_get (g_edges (remove_nodes [''h2''] sample_state)) ''h2::addresses::q1'' = None
     \<and> dict_get (g_nodes (remove_nodes [''h2''] sample_state)) ''h1''
        = dict_get (g_nodes sample_state) ''h1''"
proof -
  have e: "map_option e_source (dict_get (g_edges sample_state) ''h2::addresses::q1'') = Some ''h2''"
    by code_simp
  show ?thesis
    using remove_nodes_exact [OF sample_removal, of "''h2''" "''h2::addresses::q1''"]
      remove_nodes_exact [OF sample_removal, of "''h1''" "''h2::addresses::q1''"] sample_state_wf e
    by (auto split: option.splits if_splits)
qed

section \<open>Layers\<close>

lemma type_pair_layer_idem:
  "type_pair_layer a b (type_pair_layer a b l) = type_pair_layer a b l"
proof -
  have "dict_get BASE_TYPE_LAYERS t \<noteq> Some Meta" for t
    by (simp add: BASE_TYPE_LAYERS_def)
  then show ?thesis
    by (auto simp: type_pair_layer_def bind_eq_Some_conv split: option.splits)
qed

lemma derive_layer_idem: "derive_layer st (derive_layer st e) = derive_layer st e"
  by (simp add: derive_layer_def edge_layer_def type_pair_layer_idem)

lemma derive_layer_cong: "g_nodes st = g_nodes st' \<Longrightarrow> derive_layer st e = derive_layer st' e"
  by (simp add: derive_layer_def edge_layer_def node_type_of_def)

text \<open>The second pass: an edge it visits has the layer of the graph it is in.\<close>

definition layer_settled :: "graph_state \<Rightarrow> string \<Rightarrow> bool" where
  "layer_settled st i = (case dict_get (g_edges st) i of None \<Rightarrow> True | Some e \<Rightarrow> derive_layer st e = e)"

lemma layer_settled_rederive: "layer_settled (rederive_edge i st) i"
  using derive_layer_idem
  by (auto simp: layer_settled_def rederive_edge_def derive_layer_cong [of "st\<lparr>g_edges := _\<rparr>" st]
      split: option.split)

lemma layer_settled_keep: "layer_settled st j \<Longrightarrow> layer_settled (rederive_edge i st) j"
  using derive_layer_idem
  by (auto simp: layer_settled_def rederive_edge_def derive_layer_cong [of "st\<lparr>g_edges := _\<rparr>" st]
      split: option.split if_split)

lemma layer_settled_fold: "i \<in> set is \<or> layer_settled st i \<Longrightarrow> layer_settled (fold rederive_edge is st) i"
proof (induction "is" arbitrary: st)
  case (Cons j js)
  then show ?case using layer_settled_rederive layer_settled_keep by (cases "i = j") auto
qed simp

definition new_edge_id :: "new_edge \<Rightarrow> string" where
  "new_edge_id raw = (case ne_id raw of Some (Some i) \<Rightarrow> i
     | _ \<Rightarrow> edge_default_id (ne_source raw) (ne_relation raw) (ne_target raw))"

lemma edge_of_payload_id: "edge_of_payload os r raw = Inr e \<Longrightarrow> e_id e = new_edge_id raw"
  by (auto simp: edge_of_payload_def new_edge_id_def Let_def split: option.splits if_splits)

lemma fold_r_establishes:
  assumes "fold_r f xs s = Inr t" and "x \<in> set xs"
    and "\<And>u u'. f x u = Inr u' \<Longrightarrow> Q u'"
    and "\<And>y u u'. y \<in> set xs \<Longrightarrow> Q u \<Longrightarrow> f y u = Inr u' \<Longrightarrow> Q u'"
  shows "Q t"
proof -
  from assms(2) obtain ys zs where xs: "xs = ys @ x # zs" by (meson split_list)
  with assms(1) obtain u u' where "f x u = Inr u'" and rest: "fold_r f zs u' = Inr t"
    by (auto simp: fold_r_append result_simps)
  then have "Q u'" using assms(3) by blast
  then show ?thesis
    by (rule fold_r_invariant [where P = Q, OF _ _ rest, rotated]) (use assms(4) xs in auto)
qed

lemma create_edge_ids:
  "create_edge r raw s = Inr s' \<Longrightarrow> ap_created_edge_ids s' = ap_created_edge_ids s @ [new_edge_id raw]"
  by (auto simp: create_edge_def result_simps dest: edge_of_payload_id)

lemma created_ids_monotone:
  assumes "apply_operation A p g op s = Inr s'"
  shows "set (ap_created_edge_ids s) \<subseteq> set (ap_created_edge_ids s')"
proof (cases op)
  case (CreateEdgesOperation es)
  show ?thesis
    by (rule fold_r_invariant [where P = "\<lambda>t. set (ap_created_edge_ids s) \<subseteq> set (ap_created_edge_ids t)"
          and f = "create_edge (pa_revision p)" and xs = es and s = s])
      (use assms CreateEdgesOperation in \<open>auto dest!: create_edge_ids\<close>)
qed (use assms in \<open>auto simp: result_simps set_project_truth_scope_def\<close>)

lemma created_ids_recorded:
  assumes "apply_operation A p g (CreateEdgesOperation es) s = Inr s'" and "raw \<in> set es"
  shows "new_edge_id raw \<in> set (ap_created_edge_ids s')"
  by (rule fold_r_establishes [where Q = "\<lambda>t. new_edge_id raw \<in> set (ap_created_edge_ids t)"
        and f = "create_edge (pa_revision p)" and x = raw and xs = es and s = s])
    (use assms in \<open>auto dest: create_edge_ids\<close>)

text \<open>
  Whatever order a patch creates nodes and edges in, each edge it creates that is still
  there at the end has the layer that the types of its endpoints in the finished graph give it.
\<close>

theorem created_edge_layers:
  assumes "apply_patch A idx p st = Inr (st', ds)" and "CreateEdgesOperation es \<in> set (pa_ops p)"
    and "raw \<in> set es" and "dict_get (g_edges st') (new_edge_id raw) = Some e"
  shows "e_layer e = edge_layer st' (e_source e) (e_target e) (e_layer e)"
proof -
  from assms(1) obtain s where s: "apply_operations A p (generated_operation_indexes idx p)
      \<lparr>ap_graph = st, ap_descriptors = [], ap_created_edge_ids = []\<rparr> = Inr s"
    and st': "st' = finish_patch p
      (fold rederive_edge (rev (remdups (rev (ap_created_edge_ids s)))) (ap_graph s))"
    by (rule apply_patch_Inr)
  from assms(2) obtain j where j: "j < length (pa_ops p)" "pa_ops p ! j = CreateEdgesOperation es"
    by (auto simp: in_set_conv_nth)
  have "new_edge_id raw \<in> set (ap_created_edge_ids s)"
    by (rule fold_r_establishes [OF s [unfolded apply_operations_def] nth_enumerate [OF j(1)],
          where Q = "\<lambda>t. new_edge_id raw \<in> set (ap_created_edge_ids t)"])
      (use j(2) assms(3) created_ids_recorded created_ids_monotone in \<open>fastforce+\<close>)
  then have "layer_settled (fold rederive_edge (rev (remdups (rev (ap_created_edge_ids s)))) (ap_graph s))
      (new_edge_id raw)"
    by (intro layer_settled_fold) simp
  then have "derive_layer st' e = e"
    using assms(4) derive_layer_cong [of st' "fold rederive_edge (rev (remdups (rev (ap_created_edge_ids s)))) (ap_graph s)"]
    by (simp add: st' layer_settled_def finish_patch_def)
  then show ?thesis by (metis derive_layer_def edge.select_convs(5) edge.surjective edge.update_convs(5))
qed

theorem created_edge_layers_witness:
  "map_option (\<lambda>e. e_layer e = edge_layer sample_state ''h2'' ''q1'' (e_layer e))
     (dict_get (g_edges sample_state) ''h2::addresses::q1'') = Some True"
proof -
  have e: "dict_get (g_edges sample_state) (new_edge_id sample_edge)
      = Some \<lparr>e_id = ''h2::addresses::q1'', e_source = ''h2'', e_target = ''q1'',
         e_relation = ''addresses'', e_layer = Epistemic, e_explanation = ''E'',
         e_assessment = None, e_expectation = None, e_created_rev = 1\<rparr>"
    by code_simp
  moreover have "new_edge_id sample_edge = ''h2::addresses::q1''"
    by (simp add: new_edge_id_def sample_edge_def edge_default_id_def)
  moreover have "CreateEdgesOperation [sample_edge] \<in> set (pa_ops seed_patch)"
    by (simp add: seed_patch_def sample_patch_def)
  ultimately show ?thesis
    using created_edge_layers [OF seed_applied _ _ e, of "[sample_edge]"] by simp
qed

end
