(* ===== verification/Bookkeeping_Properties.thy ===== *)
theory Bookkeeping_Properties
  imports Graph_Properties
begin

text \<open>
  The properties of the bookkeeping around a patch: the dependencies written back after staging
  do not change what the patch does, a Proposal is always filed as unresolved, the glossary
  keeps one spelling per term, and cursor keys are normalised once.
\<close>

section \<open>Finalizing\<close>

lemma create_proposal_finalized:
  "create_proposal (p\<lparr>pa_ops := ops\<rparr>) (finalize_proposal staged q) st = create_proposal p q st"
  by (auto simp: create_proposal_def finalize_proposal_def actor_of_def put_proposal_def
      split: option.split prod.split)

lemma ops_irrelevant [simp]:
  "update_node A (p\<lparr>pa_ops := ops\<rparr>) = update_node A p"
  "supersede_one A (p\<lparr>pa_ops := ops\<rparr>) = supersede_one A p"
  "merge_one A (p\<lparr>pa_ops := ops\<rparr>) = merge_one A p"
  "resolve_proposal (p\<lparr>pa_ops := ops\<rparr>) = resolve_proposal p"
  "withdraw_proposal (p\<lparr>pa_ops := ops\<rparr>) = withdraw_proposal p"
  "finish_patch (p\<lparr>pa_ops := ops\<rparr>) = finish_patch p"
  by (simp_all add: fun_eq_iff update_node_def immutable_update_fields_def supersede_one_def
      merge_one_def retire_and_record_def resolve_proposal_def withdraw_proposal_def actor_of_def
      finish_patch_def Let_def cong: if_cong option.case_cong)

lemma fold_create_finalized:
  "fold (create_proposal (p\<lparr>pa_ops := ops\<rparr>)) (map (finalize_proposal staged) qs) st
     = fold (create_proposal p) qs st"
  by (induction qs arbitrary: st) (simp_all add: create_proposal_finalized)

lemma apply_operation_finalized:
  "apply_operation A (p\<lparr>pa_ops := ops\<rparr>) g (finalize_operation staged op) s = apply_operation A p g op s"
  by (cases op) (simp_all add: fold_create_finalized)

lemma fold_r_enumerate_map:
  "(\<And>i x s. f i (h x) s = f' i x s) \<Longrightarrow>
   fold_r (\<lambda>(i, x). f i x) (enumerate n (map h xs)) s = fold_r (\<lambda>(i, x). f' i x) (enumerate n xs) s"
  by (induction xs arbitrary: n s) (auto intro: bind_r_cong)

text \<open>
  (C14) Writing the staged dependencies back into a patch never changes what the patch does:
  applying the finalized patch gives the same graph, descriptors or exception as applying the
  original, whatever state the dependencies were taken from.
\<close>

theorem finalize_preserves_effect:
  "apply_patch A idx (finalize_patch_bookkeeping p staged) st = apply_patch A idx p st"
proof -
  let ?p = "p\<lparr>pa_ops := map (finalize_operation staged) (pa_ops p)\<rparr>"
  have gen: "generated_operation_indexes idx ?p = generated_operation_indexes idx p"
    by (simp add: generated_operation_indexes_def)
  have "apply_operations A ?p g s = apply_operations A p g s" for g s
    unfolding apply_operations_def
    by (simp, rule fold_r_enumerate_map) (rule apply_operation_finalized)
  then show ?thesis
    by (simp add: apply_patch_def finalize_patch_bookkeeping_def gen)
qed

section \<open>Filing\<close>

text \<open>
  A Proposal enters a recorded patch only as a new filing: pending, with every resolution
  field empty, stamped with the author and operation of the patch that files it and the revision
  it was prepared at; rule 3 applies to the multi-operation Proposals of a branch merge and
  rule 2 to all others. Its text and its operations are those submitted.
\<close>

theorem prepared_proposals_filed:
  assumes "CreateProposalsOperation qs' \<in> set (pa_ops (prepare_patch_bookkeeping st p))" and "q' \<in> set qs'"
  shows "\<exists>qs q. CreateProposalsOperation qs \<in> set (pa_ops p) \<and> q \<in> set qs
     \<and> p_id q' = p_id q \<and> p_title q' = p_title q \<and> p_card q' = p_card q \<and> p_ops q' = p_ops q
     \<and> filed_part q' = q' \<and> p_base_rev q' = g_revision st
     \<and> p_created_by q' = Some (if pa_author p = Some Human then Human else Agent)
     \<and> p_created_by_operation_id q' = Some (pa_source_operation_id p)
     \<and> p_dependency_rule q' = (if pa_branch_merge p \<noteq> None \<and> length (p_ops q) > 1 then 3 else 2)"
proof -
  have "\<exists>qs. CreateProposalsOperation qs \<in> set ops \<and> qs' = map (file_proposal st p) qs"
    if "CreateProposalsOperation qs' \<in> set (prepare_operations st p ops d)" for ops d
    using that
    by (induction st p ops d rule: prepare_operations.induct) (auto simp: Let_def split: prod.splits)
  then obtain qs where "CreateProposalsOperation qs \<in> set (pa_ops p)"
    and "qs' = map (file_proposal st p) qs"
    using assms(1) by (auto simp: prepare_patch_bookkeeping_def)
  moreover from this assms(2) obtain q where "q \<in> set qs" and "q' = file_proposal st p q" by auto
  ultimately show ?thesis
    by (intro exI [of _ qs] exI [of _ q])
      (auto simp: file_proposal_def filed_part_def actor_of_def proposal_filing_dependency_rule_def
        CURRENT_PROPOSAL_DEPENDENCY_RULE_def split: prod.split)
qed

theorem prepared_proposals_filed_witness:
  "\<exists>qs q. CreateProposalsOperation qs \<in> set (pa_ops seed_patch) \<and> q \<in> set qs
     \<and> p_id (file_proposal sample_state seed_patch sample_proposal) = p_id q
     \<and> p_dependency_rule (file_proposal sample_state seed_patch sample_proposal) = 2"
proof -
  have "CreateProposalsOperation [file_proposal sample_state seed_patch sample_proposal]
      \<in> set (pa_ops (prepare_patch_bookkeeping sample_state seed_patch))"
    by (simp add: prepare_patch_bookkeeping_def seed_patch_def sample_patch_def Let_def split: prod.split)
  moreover have "pa_branch_merge seed_patch = None" by (simp add: seed_patch_def sample_patch_def)
  ultimately show ?thesis
    using prepared_proposals_filed [of "[file_proposal sample_state seed_patch sample_proposal]"
        sample_state seed_patch "file_proposal sample_state seed_patch sample_proposal"] by auto
qed

section \<open>One spelling per glossary term\<close>

definition glossary_unique :: "graph_state \<Rightarrow> bool" where
  "glossary_unique st = distinct (map lower (keys (g_glossary st)))"

text \<open>A spelling dictionary files each spelling under its lower-case form.\<close>

definition spellings :: "string dict \<Rightarrow> bool" where
  "spellings d = (\<forall>k w. dict_get d k = Some w \<longrightarrow> lower w = k)"

definition spelled :: "string dict \<Rightarrow> string \<Rightarrow> bool" where
  "spelled d t = (dict_get d (lower t) = Some t)"

lemma setdefault_spellings:
  assumes "spellings d" and "setdefault d (lower t) t = (w, d')"
  shows "spellings d'" and "spelled d' w" and "\<And>u. spelled d u \<Longrightarrow> spelled d' u"
    and "dict_get d (lower t) = None \<Longrightarrow> w = t"
proof -
  consider (old) "dict_get d (lower t) = Some w" "d' = d"
    | (new) "dict_get d (lower t) = None" "w = t" "d' = AList.update (lower t) t d"
    using assms(2) by (auto simp: setdefault_def split: option.splits)
  then have "spellings d' \<and> spelled d' w \<and> (\<forall>u. spelled d u \<longrightarrow> spelled d' u)
      \<and> (dict_get d (lower t) = None \<longrightarrow> w = t)"
  proof cases
    case old
    moreover from this have "lower w = lower t" using assms(1) by (simp add: spellings_def)
    ultimately show ?thesis using assms(1) by (simp add: spelled_def)
  next
    case new
    have "spellings d'"
      unfolding spellings_def new(3)
    proof (intro allI impI)
      fix k v
      assume "dict_get (AList.update (lower t) t d) k = Some v"
      then show "lower v = k" using assms(1) by (cases "k = lower t") (simp_all add: spellings_def)
    qed
    moreover have "spelled d' u" if "spelled d u" for u
      using that new by (cases "lower u = lower t") (simp_all add: spelled_def)
    ultimately show ?thesis using new by (simp add: spelled_def)
  qed
  then show "spellings d'" and "spelled d' w" and "\<And>u. spelled d u \<Longrightarrow> spelled d' u"
    and "dict_get d (lower t) = None \<Longrightarrow> w = t" by blast+
qed

lemma respell_terms_spelled:
  assumes "respell_terms ts d = (ts', d')" and "spellings d"
  shows "spellings d' \<and> (\<forall>u. spelled d u \<longrightarrow> spelled d' u) \<and> (\<forall>t \<in> set ts'. spelled d' (ng_term t))"
  using assms
proof (induction ts arbitrary: d ts')
  case (Cons t ts)
  obtain w d1 ts1 where w: "setdefault d (lower (ng_term t)) (ng_term t) = (w, d1)"
    and ts1: "respell_terms ts d1 = (ts1, d')" and ts': "ts' = t\<lparr>ng_term := w\<rparr> # ts1"
    using Cons.prems(1) by (auto simp: Let_def split: prod.splits)
  note sd = setdefault_spellings [OF Cons.prems(2) w]
  show ?case using Cons.IH [OF ts1 sd(1)] sd(2,3) ts' by auto
qed simp

lemma prepare_operations_spelled:
  assumes "spellings d"
  shows "\<exists>d'. (\<forall>u. spelled d u \<longrightarrow> spelled d' u) \<and>
    (\<forall>ts t. UpsertGlossaryOperation ts \<in> set (prepare_operations st p ops d) \<longrightarrow> t \<in> set ts \<longrightarrow>
      spelled d' (ng_term t))"
  using assms
proof (induction st p ops d rule: prepare_operations.induct)
  case (2 st p terms ops d)
  obtain terms' d1 where r: "respell_terms terms d = (terms', d1)" by fastforce
  note R = respell_terms_spelled [OF r 2(2)]
  from 2(1) [OF r [symmetric] refl] R obtain d' where "\<forall>u. spelled d1 u \<longrightarrow> spelled d' u"
    and "\<forall>ts t. UpsertGlossaryOperation ts \<in> set (prepare_operations st p ops d1) \<longrightarrow> t \<in> set ts \<longrightarrow>
      spelled d' (ng_term t)"
    by blast
  with r R show ?case
    by (intro exI [of _ d']) auto
qed auto

lemma glossary_spelling_spelled:
  assumes "glossary_unique st"
  shows "spellings (glossary_spelling st)"
    and "\<And>t. t \<in> set (keys (g_glossary st)) \<Longrightarrow> spelled (glossary_spelling st) t"
proof -
  let ?f = "\<lambda>t d. snd (setdefault d (lower t) t)"
  have sp: "spellings (fold ?f ts d)" if "spellings d" for ts d
    using that
    by (induction ts arbitrary: d) (simp_all add: setdefault_spellings(1) [OF _ prod.collapse [symmetric]])
  show "spellings (glossary_spelling st)"
    unfolding glossary_spelling_def by (rule sp) (simp add: spellings_def)
  have keep: "spelled (fold ?f ts d) u" if "spellings d" "spelled d u" for ts d u
    using that
  proof (induction ts arbitrary: d)
    case (Cons t ts)
    then show ?case
      using setdefault_spellings(1,3) [OF Cons.prems(1) prod.collapse [symmetric]] by simp
  qed simp
  have new: "spelled (fold ?f ts d) t"
    if "t \<in> set ts" "distinct (map lower ts)" "spellings d" "\<And>u. u \<in> set ts \<Longrightarrow> dict_get d (lower u) = None"
    for ts d t
    using that
  proof (induction ts arbitrary: d)
    case (Cons u ts)
    note sd = setdefault_spellings [OF Cons.prems(3) prod.collapse [symmetric], of u]
    have u: "fst (setdefault d (lower u) u) = u" using Cons.prems(4) by (simp add: sd(4))
    show ?case
    proof (cases "t = u")
      case True
      then show ?thesis using keep [OF sd(1), of u ts] sd(2) u by simp
    next
      case False
      have "dict_get (?f u d) (lower v) = None" if "v \<in> set ts" for v
      proof -
        have "lower v \<in> lower ` set ts" using that by (rule imageI)
        then have "lower v \<noteq> lower u" using Cons.prems(2) by auto
        then show ?thesis using that Cons.prems(4) by (auto simp: setdefault_def split: option.split)
      qed
      then show ?thesis using Cons False sd(1) by simp
    qed
  qed simp
  show "spelled (glossary_spelling st) t" if "t \<in> set (keys (g_glossary st))" for t
    unfolding glossary_spelling_def
  proof (rule new)
    show "distinct (map lower (sort (keys (g_glossary st))))"
      using assms by (metis distinct_map distinct_sort glossary_unique_def set_sort)
  qed (use that in \<open>auto simp: spellings_def\<close>)
qed

lemma glossary_step:
  assumes "graph_step p op st st'" and "\<And>ts t. op = UpsertGlossaryOperation ts \<Longrightarrow> t \<in> set ts \<Longrightarrow> spelled d (ng_term t)"
    and "list_all (spelled d) (keys (g_glossary st))" and "wf_dict (g_glossary st)"
  shows "list_all (spelled d) (keys (g_glossary st')) \<and> wf_dict (g_glossary st')"
  using assms
proof (induction rule: graph_step.induct)
  case (term_upserted t terms st)
  then have "spelled d (ng_term t)" by blast
  with term_upserted show ?case
    using set_update_subset [of "ng_term t" _ "g_glossary st"]
    by (fastforce simp: upsert_term_def list_all_iff)
qed (auto simp: step_defs split: prod.split)

lemma spelled_distinct:
  assumes "list_all (spelled d) ks" and "distinct ks"
  shows "distinct (map lower ks)"
proof -
  have "inj_on lower (set ks)"
  proof (rule inj_onI)
    fix x y
    assume "x \<in> set ks" "y \<in> set ks" "lower x = lower y"
    then show "x = y" using assms(1) by (simp add: list_all_iff spelled_def)
      (metis option.inject)
  qed
  with assms(2) show ?thesis by (simp add: distinct_map)
qed

text \<open>
  (C16) A patch that was prepared against a graph with one spelling per glossary term, ignoring
  case, keeps it so: two entries never differ only in case, whatever the patch upserts.
\<close>

theorem prepared_glossary_unique:
  assumes "adapter A" and "graph_wf st" and "glossary_unique st"
    and "apply_patch A idx (prepare_patch_bookkeeping st p) st = Inr (st', ds)"
  shows "glossary_unique st'"
proof -
  note G = glossary_spelling_spelled [OF assms(3)]
  obtain d where "\<forall>u. spelled (glossary_spelling st) u \<longrightarrow> spelled d u"
    and ops: "\<forall>ts t. UpsertGlossaryOperation ts \<in> set (pa_ops (prepare_patch_bookkeeping st p)) \<longrightarrow>
      t \<in> set ts \<longrightarrow> spelled d (ng_term t)"
    using prepare_operations_spelled [OF G(1), of st p "pa_ops p"] by (auto simp: prepare_patch_bookkeeping_def)
  then have "list_all (spelled d) (keys (g_glossary st)) \<and> wf_dict (g_glossary st)"
    using G(2) assms(2) by (auto simp: list_all_iff graph_wf_def keyed_def)
  then have "list_all (spelled d) (keys (g_glossary st')) \<and> wf_dict (g_glossary st')"
    by (rule adapter.apply_patch_invariant [OF assms(1,4),
          where P = "\<lambda>s. list_all (spelled d) (keys (g_glossary s)) \<and> wf_dict (g_glossary s)"])
      (use ops glossary_step in \<open>blast | simp add: finish_patch_def\<close>)+
  then show ?thesis
    unfolding glossary_unique_def by (intro spelled_distinct [where d = d]) simp_all
qed

definition glossary_patch :: patch where
  "glossary_patch = sample_patch 2 Chat [UpsertGlossaryOperation [sample_term\<lparr>ng_term := ''TERM''\<rparr>]]"

lemma glossary_patch_applied:
  "apply_patch checked_adapter [] (prepare_patch_bookkeeping sample_state glossary_patch) sample_state
     = Inr (applied (prepare_patch_bookkeeping sample_state glossary_patch) sample_state, [])"
  by code_simp

theorem prepared_glossary_unique_witness:
  "glossary_unique (applied (prepare_patch_bookkeeping sample_state glossary_patch) sample_state)"
proof (rule prepared_glossary_unique [OF checked_adapter.adapter_axioms sample_state_wf _
      glossary_patch_applied])
  show "glossary_unique sample_state" by code_simp
qed

section \<open>Cursors\<close>

text \<open>
  A cursor key of four segments loses its second one and every other key is kept, so a key
  is normalised by one pass; the normalised cursors have distinct keys, none of four segments.
\<close>

theorem current_cursor_key_normal:
  "split_on (CHR ''/'') (current_cursor_key key) =
     (if length (split_on (CHR ''/'') key) = 4
      then hd (split_on (CHR ''/'') key) # drop 2 (split_on (CHR ''/'') key)
      else split_on (CHR ''/'') key)
   \<and> current_cursor_key (current_cursor_key key) = current_cursor_key key
   \<and> wf_dict (current_cursors cursors)
   \<and> list_all (\<lambda>(k, _). length (split_on (CHR ''/'') k) \<noteq> 4) (current_cursors cursors)"
proof -
  have split: "split_on (CHR ''/'') (current_cursor_key k) =
     (if length (split_on (CHR ''/'') k) = 4
      then hd (split_on (CHR ''/'') k) # drop 2 (split_on (CHR ''/'') k)
      else split_on (CHR ''/'') k)" for k
  proof (cases "length (split_on (CHR ''/'') k) = 4")
    case True
    have "CHR ''/'' \<notin> set p" if "p \<in> set (hd (split_on (CHR ''/'') k) # drop 2 (split_on (CHR ''/'') k))" for p
      using that split_on_no_sep [of p "CHR ''/''" k] by (auto dest: in_set_dropD)
    then have "split_on (CHR ''/'') (join_with ''/'' (hd (split_on (CHR ''/'') k) # drop 2 (split_on (CHR ''/'') k)))
        = hd (split_on (CHR ''/'') k) # drop 2 (split_on (CHR ''/'') k)"
      by (intro split_join) simp_all
    with True show ?thesis by (simp add: current_cursor_key_def Let_def)
  qed (simp add: current_cursor_key_def)
  have len: "length (split_on (CHR ''/'') (current_cursor_key k)) \<noteq> 4" for k
    by (simp add: split)
  then have "current_cursor_key (current_cursor_key key) = current_cursor_key key"
    by (simp add: current_cursor_key_def [of "current_cursor_key key"])
  moreover have "wf_dict (fold (\<lambda>(key, v). AList.update (current_cursor_key key) v) cs d)
      \<and> list_all (\<lambda>(k, _). length (split_on (CHR ''/'') k) \<noteq> 4)
          (fold (\<lambda>(key, v). AList.update (current_cursor_key key) v) cs d)"
    if "wf_dict d" "list_all (\<lambda>(k, _). length (split_on (CHR ''/'') k) \<noteq> 4) d"
    for cs and d :: "string dict"
    using that
  proof (induction cs arbitrary: d)
    case (Cons c cs)
    obtain k v where c: "c = (k, v)" by fastforce
    have "list_all (\<lambda>(k, _). length (split_on (CHR ''/'') k) \<noteq> 4) (AList.update (current_cursor_key k) v d)"
      using Cons.prems(2) len [of k] set_update_subset [of "current_cursor_key k" v d]
      by (fastforce simp: list_all_iff)
    with Cons c show ?case by simp
  qed simp
  ultimately show ?thesis by (simp add: split current_cursors_def)
qed

end
