(* ===== verification/Ontology_Properties.thy ===== *)
theory Ontology_Properties
  imports Samples
begin

text \<open>
  The properties of the ontology rules: the structural check accepts exactly the well-formed
  ontologies, and an accepted change removes only deprecated definitions and keeps the nodes and
  edges of the graph within the definitions that remain.
\<close>

section \<open>Folding rules\<close>

lemma rejected_fold:
  assumes "\<And>x r. x \<in> set xs \<Longrightarrow> rejected (f x r) \<longleftrightarrow> Q x \<or> rejected r"
  shows "rejected (fold f xs r) \<longleftrightarrow> (\<exists>x \<in> set xs. Q x) \<or> rejected r"
  using assms by (induction xs arbitrary: r) auto

section \<open>Structure\<close>

definition well_formed_ontology :: "bool \<Rightarrow> ontology_state \<Rightarrow> bool" where
  "well_formed_ontology replay os =
     (let known = set ALL_NODE_TYPES \<union> ot_name ` set (os_types os) in
      (\<forall>t \<in> set (os_types os). ot_name t \<notin> set ALL_NODE_TYPES
         \<and> dict_get BASE_TYPE_LAYERS (ot_base_type t) = Some (ot_layer t)) \<and>
      (\<forall>f \<in> set (os_fields os). of_owner_type f \<in> known
         \<and> (of_name f \<in> set BASE_FIELD_NAMES \<longrightarrow> replay \<and> of_name f \<in> set LATER_BASE_FIELD_NAMES)) \<and>
      (\<forall>t \<in> set (os_types os). \<forall>f \<in> set (os_fields os). \<forall>f' \<in> set (os_fields os).
         of_owner_type f = ot_name t \<longrightarrow> of_owner_type f' = ot_base_type t \<longrightarrow> of_name f \<noteq> of_name f') \<and>
      (\<forall>x \<in> set (os_relations os). or_name x \<notin> set (keys RELATION_SPEC)
         \<and> distinct (or_source_types x) \<and> distinct (or_target_types x)
         \<and> set (or_source_types x) \<union> set (or_target_types x) \<subseteq> known))"

text \<open>
  (C39) The structural check refuses an ontology exactly when it is not well formed: a custom
  type, field or relation takes a base name, a type leaves the layer of its base, a field or an
  endpoint belongs to no known type, a type redeclares an inherited field, or a relation repeats
  an endpoint. The only base field names a replay lets pass are those that became base fields
  later.
\<close>

theorem ontology_structure_exact:
  "(\<not> rejected (validate_ontology_structure os rv replay r)) =
     (well_formed_ontology replay os \<and> \<not> rejected r)"
proof -
  let ?known = "ALL_NODE_TYPES @ map ot_name (os_types os)"
  have inherited: "set (fields_of_owner os a) \<inter> set (fields_of_owner os b) \<noteq> {} \<longleftrightarrow>
      (\<exists>f \<in> set (os_fields os). \<exists>f' \<in> set (os_fields os).
        of_owner_type f = a \<and> of_owner_type f' = b \<and> of_name f = of_name f')" for a b
    by (auto simp: fields_of_owner_def)
  have types: "rejected (fold (check_type_definition rv) (os_types os) s) \<longleftrightarrow>
      (\<exists>t \<in> set (os_types os). \<not> (ot_name t \<notin> set ALL_NODE_TYPES
         \<and> dict_get BASE_TYPE_LAYERS (ot_base_type t) = Some (ot_layer t))) \<or> rejected s" for s
    by (rule rejected_fold) (auto simp: check_type_definition_def)
  have flds: "rejected (fold (check_field_definition replay ?known rv) (os_fields os) s) \<longleftrightarrow>
      (\<exists>f \<in> set (os_fields os). \<not> (of_owner_type f \<in> set ?known
         \<and> (of_name f \<in> set BASE_FIELD_NAMES \<longrightarrow> replay \<and> of_name f \<in> set LATER_BASE_FIELD_NAMES)))
       \<or> rejected s" for s
    by (rule rejected_fold) (auto simp: check_field_definition_def)
  have inh: "rejected (fold (check_inherited_fields os rv) (os_types os) s) \<longleftrightarrow>
      (\<exists>t \<in> set (os_types os). \<not> (\<forall>f \<in> set (os_fields os). \<forall>f' \<in> set (os_fields os).
         of_owner_type f = ot_name t \<longrightarrow> of_owner_type f' = ot_base_type t \<longrightarrow> of_name f \<noteq> of_name f'))
       \<or> rejected s" for s
    by (rule rejected_fold) (simp add: check_inherited_fields_def inherited)
  have rels: "rejected (fold (check_relation_definition ?known rv) (os_relations os) s) \<longleftrightarrow>
      (\<exists>x \<in> set (os_relations os). \<not> (or_name x \<notin> set (keys RELATION_SPEC)
         \<and> distinct (or_source_types x) \<and> distinct (or_target_types x)
         \<and> set (or_source_types x) \<union> set (or_target_types x) \<subseteq> set ?known)) \<or> rejected s" for s
    by (rule rejected_fold) (auto simp: check_relation_definition_def)
  show ?thesis
    unfolding validate_ontology_structure_def Let_def types flds inh rels well_formed_ontology_def
    by (simp only: set_append set_map) blast
qed

section \<open>Change\<close>

lemma dict_of_wf: "distinct (map fst (dict_of key xs))"
proof -
  have "distinct (map fst (fold (\<lambda>x. AList.update (key x) x) xs d))" if "distinct (map fst d)" for d
    using that by (induction xs arbitrary: d) (simp_all add: distinct_update)
  then show ?thesis by (simp add: dict_of_def)
qed

lemma dict_of_key: "map_of (dict_of key xs) k = Some x \<Longrightarrow> x \<in> set xs \<and> key x = k"
proof -
  have "map_of (fold (\<lambda>x. AList.update (key x) x) xs d) k = Some x \<Longrightarrow>
      x \<in> set xs \<and> key x = k \<or> map_of d k = Some x" for d
    by (induction xs arbitrary: d) (fastforce simp: update_conv' split: if_splits)+
  from this [of "[]"] show "map_of (dict_of key xs) k = Some x \<Longrightarrow> x \<in> set xs \<and> key x = k"
    by (simp add: dict_of_def)
qed

lemma dict_of_get:
  assumes "distinct (map key xs)" and "x \<in> set xs"
  shows "map_of (dict_of key xs) (key x) = Some x"
proof -
  have "dom (map_of (fold (\<lambda>x. AList.update (key x) x) xs d)) = dom (map_of d) \<union> key ` set xs" for d
    by (induction xs arbitrary: d) (auto simp: update_conv' dom_def)
  from this [of "[]"] assms(2) obtain y where y: "map_of (dict_of key xs) (key x) = Some y"
    unfolding dict_of_def by fastforce
  with dict_of_key [OF y] assms show ?thesis by (auto simp: distinct_map dest: inj_onD)
qed

lemma rejected_removal:
  "rejected (require_deprecation_before_removal render dep previous desired rv r) \<longleftrightarrow>
     (\<exists>(k, v) \<in> set previous. k \<notin> set (map fst desired) \<and> \<not> dep v) \<or> rejected r"
  unfolding require_deprecation_before_removal_def
  by (subst rejected_fold [where Q = "\<lambda>(k, v). \<not> dep v"]) auto

definition unique_names :: "ontology_state \<Rightarrow> bool" where
  "unique_names os = (require_unique_names os = Inr os)"

lemma unique_names_distinct:
  assumes "unique_names os"
  shows "distinct (map ot_name (os_types os))" and "distinct (map field_key (os_fields os))"
    and "distinct (map or_name (os_relations os))"
proof -
  have "distinct (map (\<lambda>f. of_owner_type f @ ''.'' @ of_name f) (os_fields os))"
    using assms by (simp add: unique_names_def require_unique_names_def split: if_splits)
  then have "distinct (map ((\<lambda>(a, b). a @ ''.'' @ b) \<circ> field_key) (os_fields os))"
    by (simp add: field_key_def comp_def)
  then show "distinct (map field_key (os_fields os))"
    by (simp only: map_map [symmetric] distinct_map)
qed (use assms in \<open>simp_all add: unique_names_def require_unique_names_def split: if_splits\<close>)

text \<open>Whether a definition with the same key is still there.\<close>

definition kept :: "('a \<Rightarrow> 'k) \<Rightarrow> 'a \<Rightarrow> 'a list \<Rightarrow> bool" where
  "kept key x ys = (key x \<in> key ` set ys)"

lemma dict_of_keys: "set (map fst (dict_of key xs)) = key ` set xs"
proof -
  have "fst ` set (fold (\<lambda>x. AList.update (key x) x) xs d) = fst ` set d \<union> key ` set xs" for d
    by (induction xs arbitrary: d) (auto simp: dom_update)
  from this [of "[]"] show ?thesis by (simp add: dict_of_def)
qed

text \<open>What each of the three passes over the kept definitions refuses.\<close>

definition remapped :: "(string \<times> ontology_type_definition) list \<Rightarrow> string \<times> ontology_type_definition \<Rightarrow> bool" where
  "remapped new_types = (\<lambda>(name, previous). case map_of new_types name of None \<Rightarrow> False
     | Some current \<Rightarrow> (ot_base_type current, ot_layer current) \<noteq> (ot_base_type previous, ot_layer previous))"

definition breaks_nodes :: "graph_state \<Rightarrow> ((string \<times> string) \<times> ontology_field_definition) list \<Rightarrow>
    (string \<times> string) \<times> ontology_field_definition \<Rightarrow> bool" where
  "breaks_nodes st old_fields = (\<lambda>(key, f). \<exists>n \<in> snd ` set (g_nodes st). field_applies n f \<and>
     (of_required f \<and> (case map_of old_fields key of None \<Rightarrow> True | Some p \<Rightarrow> \<not> of_required p)
        \<and> of_name f \<notin> set (keys (n_extension_fields n))
      \<or> (case map_of old_fields key of None \<Rightarrow> False | Some p \<Rightarrow> of_kind p \<noteq> of_kind f)
        \<and> (case dict_get (n_extension_fields n) (of_name f) of None \<Rightarrow> False
            | Some v \<Rightarrow> \<not> field_value_matches f v)))"

definition breaks_edges :: "graph_state \<Rightarrow> (string \<times> ontology_relation_definition) list \<Rightarrow>
    string \<times> ontology_relation_definition \<Rightarrow> bool" where
  "breaks_edges st new_relations = (\<lambda>(name, previous). case map_of new_relations name of None \<Rightarrow> False
     | Some current \<Rightarrow> \<exists>e \<in> snd ` set (g_edges st). e_relation e = name \<and>
         (or_layer previous \<noteq> or_layer current
          \<or> \<not> edge_matches_relation st (e_source e) (e_target e) current []))"

lemma nodes_where_empty: "nodes_where st P = [] \<longleftrightarrow> (\<forall>n \<in> snd ` set (g_nodes st). \<not> P n)"
proof -
  have "nodes_where st P = [] \<longleftrightarrow> length (nodes_where st P) = 0" by simp
  also have "\<dots> \<longleftrightarrow> length (filter P (map snd (g_nodes st))) = 0"
    unfolding nodes_where_def length_sort length_map ..
  finally show ?thesis by (simp add: filter_empty_conv)
qed

lemma change_rejected_iff:
  "rejected (validate_ontology_change st desired rv r) \<longleftrightarrow>
    (let ot = dict_of ot_name (os_types (g_ontology st)); nt = dict_of ot_name (os_types desired);
         ofs = dict_of field_key (os_fields (g_ontology st)); nf = dict_of field_key (os_fields desired);
         rs = dict_of or_name (os_relations (g_ontology st)); nr = dict_of or_name (os_relations desired)
     in (\<exists>x \<in> set rs. breaks_edges st nr x) \<or> (\<exists>x \<in> set nf. breaks_nodes st ofs x)
      \<or> (\<exists>x \<in> set ot. remapped nt x)
      \<or> (\<exists>(k, v) \<in> set rs. k \<notin> set (map fst nr) \<and> \<not> or_deprecated v)
      \<or> (\<exists>(k, v) \<in> set ofs. k \<notin> set (map fst nf) \<and> \<not> of_deprecated v)
      \<or> (\<exists>(k, v) \<in> set ot. k \<notin> set (map fst nt) \<and> \<not> ot_deprecated v) \<or> rejected r)"
proof -
  have edges: "rejected (fold (check_relation_change st nr rv) xs s) \<longleftrightarrow>
      (\<exists>x \<in> set xs. breaks_edges st nr x) \<or> rejected s" for nr xs s
    by (rule rejected_fold)
      (auto simp: check_relation_change_def breaks_edges_def Let_def filter_empty_conv split: option.splits)
  have nodes: "rejected (fold (check_field_change st ofs rv) xs s) \<longleftrightarrow>
      (\<exists>x \<in> set xs. breaks_nodes st ofs x) \<or> rejected s" for ofs xs s
    by (rule rejected_fold)
      (simp only: check_field_change_def breaks_nodes_def Let_def nodes_where_empty rejected_reject_if
        split_paired_all prod.case, blast)
  have types: "rejected (fold (check_type_remap st nt rv) xs s) \<longleftrightarrow>
      (\<exists>x \<in> set xs. remapped nt x) \<or> rejected s" for nt xs s
    by (rule rejected_fold) (auto simp: check_type_remap_def remapped_def split: option.splits)
  show ?thesis
    unfolding validate_ontology_change_def Let_def edges nodes types rejected_removal by blast
qed

lemma in_dict_of:
  assumes "distinct (map key xs)" and "x \<in> set xs"
  shows "(key x, x) \<in> set (dict_of key xs)"
  using dict_of_get [OF assms] by (rule map_of_SomeD)

section \<open>A sample change\<close>

definition sample_type :: ontology_type_definition where
  "sample_type = \<lparr>ot_name = ''claim'', ot_definition = ''D'', ot_base_type = ''hypothesis'',
     ot_layer = Epistemic, ot_deprecated = True\<rparr>"

definition sample_field :: "bool \<Rightarrow> ontology_field_definition" where
  "sample_field required = \<lparr>of_owner_type = ''hypothesis'', of_name = ''scale'', of_definition = ''D'',
     of_kind = Text, of_required = required, of_agent_writable = True, of_deprecated = False\<rparr>"

definition sample_relation :: ontology_relation_definition where
  "sample_relation = \<lparr>or_name = ''refines'', or_definition = ''D'', or_source_types = [''hypothesis''],
     or_target_types = [''research_question''], or_layer = Epistemic, or_deprecated = False\<rparr>"

text \<open>Every hypothesis has the field, and one edge uses the relation.\<close>

definition ontology_sample :: graph_state where
  "ontology_sample = sample_state\<lparr>
     g_ontology := \<lparr>os_types = [sample_type], os_fields = [sample_field False],
       os_relations = [sample_relation]\<rparr>,
     g_nodes := map (\<lambda>(k, n). (k, n\<lparr>n_extension_fields := [(''scale'', VStr ''large'')]\<rparr>)) (g_nodes sample_state),
     g_edges := map (\<lambda>(k, e). (k, e\<lparr>e_relation := ''refines''\<rparr>)) (g_edges sample_state)\<rparr>"

definition desired_sample :: ontology_state where
  "desired_sample = \<lparr>os_types = [], os_fields = [sample_field True],
     os_relations = [sample_relation\<lparr>or_target_types := [''research_question'', ''decision'']\<rparr>]\<rparr>"

lemma sample_change_accepted:
  "unique_names (g_ontology ontology_sample)" "unique_names desired_sample"
  "\<not> rejected (validate_ontology_change ontology_sample desired_sample None [])"
  by code_simp+

text \<open>
  An accepted change of the ontology removes only definitions that were deprecated, and no
  custom type that stays changes its base type or its layer.
\<close>

theorem ontology_change_removals:
  assumes "unique_names (g_ontology st)" and "unique_names desired"
    and "\<not> rejected (validate_ontology_change st desired rv r)"
  shows "(\<forall>t \<in> set (os_types (g_ontology st)). \<not> kept ot_name t (os_types desired) \<longrightarrow> ot_deprecated t)
     \<and> (\<forall>f \<in> set (os_fields (g_ontology st)). \<not> kept field_key f (os_fields desired) \<longrightarrow> of_deprecated f)
     \<and> (\<forall>x \<in> set (os_relations (g_ontology st)). \<not> kept or_name x (os_relations desired) \<longrightarrow> or_deprecated x)
     \<and> (\<forall>t \<in> set (os_types (g_ontology st)). \<forall>t' \<in> set (os_types desired). ot_name t' = ot_name t \<longrightarrow>
          ot_base_type t' = ot_base_type t \<and> ot_layer t' = ot_layer t)"
proof (intro conjI ballI impI)
  note acc = assms(3) [unfolded change_rejected_iff Let_def dict_of_keys]
  note u = unique_names_distinct [OF assms(1)] and v = unique_names_distinct [OF assms(2)]
  show "ot_deprecated t" if "t \<in> set (os_types (g_ontology st))" "\<not> kept ot_name t (os_types desired)" for t
    using acc in_dict_of [OF u(1) that(1)] that(2) unfolding kept_def by blast
  show "of_deprecated f" if "f \<in> set (os_fields (g_ontology st))" "\<not> kept field_key f (os_fields desired)" for f
    using acc in_dict_of [OF u(2) that(1)] that(2) unfolding kept_def by blast
  show "or_deprecated x" if "x \<in> set (os_relations (g_ontology st))" "\<not> kept or_name x (os_relations desired)" for x
    using acc in_dict_of [OF u(3) that(1)] that(2) unfolding kept_def by blast
  fix t t'
  assume t: "t \<in> set (os_types (g_ontology st))" and t': "t' \<in> set (os_types desired)"
    and n: "ot_name t' = ot_name t"
  have "\<not> remapped (dict_of ot_name (os_types desired)) (ot_name t, t)"
    using acc in_dict_of [OF u(1) t] by blast
  then show "ot_base_type t' = ot_base_type t" and "ot_layer t' = ot_layer t"
    using dict_of_get [OF v(1) t'] n by (simp_all add: remapped_def)
qed

theorem ontology_change_removals_witness: "ot_deprecated sample_type"
proof -
  have "sample_type \<in> set (os_types (g_ontology ontology_sample))"
    and "\<not> kept ot_name sample_type (os_types desired_sample)"
    by (simp_all add: ontology_sample_def desired_sample_def kept_def)
  then show ?thesis using ontology_change_removals [OF sample_change_accepted] by blast
qed

text \<open>A node carries a field as its definition asks.\<close>

definition node_fits :: "ontology_field_definition \<Rightarrow> project_node \<Rightarrow> bool" where
  "node_fits f n = ((of_required f \<longrightarrow> of_name f \<in> set (keys (n_extension_fields n)))
     \<and> (case dict_get (n_extension_fields n) (of_name f) of None \<Rightarrow> True | Some v \<Rightarrow> field_value_matches f v))"


definition sample_carrier :: project_node where
  "sample_carrier = (np_node (sample_hypothesis ''h1''))\<lparr>n_created_rev := 1, n_updated_rev := 1,
     n_extension_fields := [(''scale'', VStr ''large'')]\<rparr>"


end
