(* ===== verification/Legacy_Properties.thy ===== *)
theory Legacy_Properties
  imports Legacy_Documents
begin

text \<open>
  The adaptation of persisted documents is stable: adapting an adapted document changes nothing,
  and a current document is left as it is.
\<close>

section \<open>Stability of the helpers\<close>

lemma get_val_update [simp]: "get_val (AList.update k v d) k' = (if k' = k then v else get_val d k')"
  by (simp add: get_val_def)

lemma get_val_delete [simp]: "get_val (AList.delete k d) k' = (if k' = k then VNone else get_val d k')"
  by (simp add: get_val_def)

lemma get_val_Some: "dict_get d k = Some v \<Longrightarrow> get_val d k = v"
  by (simp add: get_val_def)

lemma keys_update [simp]: "fst ` set (AList.update k v d) = insert k (fst ` set d)"
  by (induction d) auto

lemma keys_delete [simp]: "fst ` set (AList.delete k d) = fst ` set d - {k}"
  by (auto simp: AList.delete_eq)

lemma update_same: "dict_get d k = Some v \<Longrightarrow> AList.update k v d = d"
  by (induction d) (auto split: if_splits)

lemma delete_absent: "k \<notin> fst ` set d \<Longrightarrow> AList.delete k d = d"
  by (simp add: delete_idem)

lemma delete_absent_update [simp]: "k' \<noteq> k \<Longrightarrow>
    AList.delete k (AList.update k' v (AList.delete k d)) = AList.update k' v (AList.delete k d)"
  by (rule delete_absent) simp

definition stable :: "('a \<Rightarrow> 'a) \<Rightarrow> bool" where
  "stable f = (\<forall>x. f (f x) = f x)"

definition stable_r :: "('a \<Rightarrow> 'a result) \<Rightarrow> bool" where
  "stable_r f = (\<forall>x y. f x = Inr y \<longrightarrow> f y = Inr y)"

lemma stable_rD: "stable_r f \<Longrightarrow> f x = Inr y \<Longrightarrow> f y = Inr y"
  by (simp add: stable_r_def)

lemma stable_on_dict: "stable f \<Longrightarrow> stable (on_dict f)"
  unfolding stable_def
proof
  fix v
  assume "\<forall>x. f (f x) = f x"
  then show "on_dict f (on_dict f v) = on_dict f v" by (cases v) auto
qed

lemma stable_on_dict_r: "stable_r f \<Longrightarrow> stable_r (on_dict_r f)"
  unfolding stable_r_def
proof (intro allI impI)
  fix v v'
  assume "\<forall>x y. f x = Inr y \<longrightarrow> f y = Inr y" and "on_dict_r f v = Inr v'"
  then show "on_dict_r f v' = Inr v'" by (cases v) (auto simp: result_simps)
qed

lemma map_r_stable: "stable_r f \<Longrightarrow> map_r f xs = Inr ys \<Longrightarrow> map_r f ys = Inr ys"
  by (induction xs arbitrary: ys) (auto simp: result_simps dest: stable_rD)

lemma over_list_frame [simp]: "k' \<noteq> k \<Longrightarrow> dict_get (over_list f k d) k' = dict_get d k'"
  by (simp add: over_list_def split: option.split val.split)

lemma over_list_val [simp]: "k' \<noteq> k \<Longrightarrow> get_val (over_list f k d) k' = get_val d k'"
  by (simp add: get_val_def)

lemma stable_over_list: "stable f \<Longrightarrow> stable (over_list f k)"
  unfolding stable_def
proof
  fix d
  assume f: "\<forall>x. f (f x) = f x"
  show "over_list f k (over_list f k d) = over_list f k d"
    by (auto simp: over_list_def f comp_def update_same split: option.splits val.splits)
qed

lemma over_list_r_frame: "over_list_r f k d = Inr d' \<Longrightarrow> k' \<noteq> k \<Longrightarrow> dict_get d' k' = dict_get d k'"
  by (auto simp: over_list_r_def result_simps split: option.splits val.splits)

lemma in_keys: "dict_get d k = Some w \<Longrightarrow> k \<in> fst ` set d"
  by (metis domI dom_map_of_conv_image_fst)

lemma update_present: "dict_get d k = Some w \<Longrightarrow> fst ` set (AList.update k v d) = fst ` set d"
  by (simp add: insert_absorb in_keys)

lemma over_list_r_keys: "over_list_r f k d = Inr d' \<Longrightarrow> fst ` set d' = fst ` set d"
  by (simp add: over_list_r_def result_simps split: option.splits val.splits)
    (metis update_present)

lemma over_list_keys [simp]: "fst ` set (over_list f k d) = fst ` set d"
  by (auto simp: over_list_def split: option.split val.split dest: in_keys)

lemma stable_over_list_r: "stable_r f \<Longrightarrow> stable_r (over_list_r f k)"
  unfolding stable_r_def [of "over_list_r f k"]
  by (auto simp: over_list_r_def result_simps update_same dest: map_r_stable
      split: option.splits val.splits)

section \<open>Stability of the adapters\<close>

lemma evidence_strength [simp]: "''strength'' \<notin> fst ` set (adapt_legacy_evidence_record b d)"
  by (simp add: adapt_legacy_evidence_record_def Let_def)

lemma evidence_role:
  assumes "b"
  shows "''role'' \<in> fst ` set (adapt_legacy_evidence_record b d)"
  using assms by (simp add: adapt_legacy_evidence_record_def Let_def)

lemma get_val_absent: "k \<notin> fst ` set d \<Longrightarrow> get_val d k = VNone"
  by (simp add: get_val_def map_of_eq_None_iff [THEN iffD2])

lemma evidence_fix:
  assumes "get_val e ''strength'' = VNone" and "AList.delete ''strength'' e = e"
    and "b \<Longrightarrow> ''role'' \<in> fst ` set e"
  shows "adapt_legacy_evidence_record b e = e"
  using assms by (auto simp: adapt_legacy_evidence_record_def Let_def)

lemma stable_evidence: "stable (adapt_legacy_evidence_record b)"
  unfolding stable_def
proof
  fix d
  let ?d = "adapt_legacy_evidence_record b d"
  show "adapt_legacy_evidence_record b ?d = ?d"
    by (rule evidence_fix) (simp_all add: get_val_absent delete_absent evidence_role)
qed

lemma experiment_status: "get_val (adapt_legacy_experiment_record d) ''status'' \<noteq> VStr ''blocked''"
  by (simp add: adapt_legacy_experiment_record_def Let_def)

lemma stable_experiment: "stable adapt_legacy_experiment_record"
  unfolding stable_def
  using experiment_status by (simp add: adapt_legacy_experiment_record_def [of "adapt_legacy_experiment_record _"])

lemma evidence_type [simp]: "get_val (adapt_legacy_evidence_record b d) ''type'' = get_val d ''type''"
  by (simp add: adapt_legacy_evidence_record_def Let_def)

lemma experiment_type [simp]: "get_val (adapt_legacy_experiment_record d) ''type'' = get_val d ''type''"
  by (simp add: adapt_legacy_experiment_record_def Let_def)

lemma stable_snapshot: "stable adapt_legacy_snapshot_node"
  using stable_evidence [of True] stable_experiment
  by (simp add: stable_def adapt_legacy_snapshot_node_def)

lemma stable_created: "stable adapt_legacy_created_node"
  unfolding adapt_legacy_created_node_def
  by (rule stable_on_dict)
    (use stable_evidence [of True] stable_experiment in \<open>simp add: stable_def Let_def\<close>)

lemma experiment_strength [simp]:
  "''strength'' \<in> fst ` set (adapt_legacy_experiment_record d) \<longleftrightarrow> ''strength'' \<in> fst ` set d"
  by (simp add: adapt_legacy_experiment_record_def Let_def)

lemma stable_changes: "stable adapt_legacy_node_changes"
  unfolding adapt_legacy_node_changes_def
  by (rule stable_on_dict)
    (use stable_experiment in \<open>simp add: stable_def\<close>)

lemma stable_update: "stable adapt_legacy_update"
  using stable_changes
  by (auto simp: stable_def adapt_legacy_update_def update_same split: option.splits)

lemma stable_raised_rev: "stable (AList.delete ''raised_rev'')"
  by (simp add: stable_def delete_absent)

lemma node_operation_frame [simp]:
  "k \<noteq> ''nodes'' \<Longrightarrow> get_val (adapt_legacy_node_operation l d) k = get_val d k"
  "k \<noteq> ''nodes'' \<Longrightarrow> dict_get (adapt_legacy_node_operation l d) k = dict_get d k"
  "fst ` set (adapt_legacy_node_operation l d) = fst ` set d"
  by (simp_all add: adapt_legacy_node_operation_def)

lemma ambiguity_operation_frame [simp]:
  "k \<noteq> ''ambiguities'' \<Longrightarrow> get_val (adapt_legacy_ambiguity_operation d) k = get_val d k"
  "k \<noteq> ''ambiguities'' \<Longrightarrow> dict_get (adapt_legacy_ambiguity_operation d) k = dict_get d k"
  by (simp_all add: adapt_legacy_ambiguity_operation_def)

lemma stable_node_operation: "stable (adapt_legacy_node_operation l)"
  using stable_over_list [OF stable_created, of "''nodes''"]
    stable_over_list [OF stable_on_dict [OF stable_update], of "''nodes''"]
  by (simp add: stable_def adapt_legacy_node_operation_def)

lemma stable_ambiguity_operation: "stable adapt_legacy_ambiguity_operation"
  using stable_over_list [OF stable_on_dict [OF stable_raised_rev], of "''ambiguities''"]
  by (simp add: stable_def adapt_legacy_ambiguity_operation_def)

text \<open>A document is a fixed point of an adapter by the values under a few keys alone.\<close>

lemma over_list_fix:
  "over_list f k d = d \<longleftrightarrow> (case dict_get d k of Some (VList vs) \<Rightarrow> map f vs = vs | _ \<Rightarrow> True)"
proof (cases "\<exists>vs. dict_get d k = Some (VList vs)")
  case True
  then obtain vs where vs: "dict_get d k = Some (VList vs)" by blast
  have "AList.update k (VList (map f vs)) d = d \<Longrightarrow> map f vs = vs"
    by (metis dict_get_update option.inject val.inject(6) vs)
  then show ?thesis using vs by (auto simp: over_list_def update_same)
qed (auto simp: over_list_def split: option.split val.split)

lemma node_operation_fix_cong:
  assumes "dict_get d ''op'' = dict_get d' ''op''" and "dict_get d ''nodes'' = dict_get d' ''nodes''"
  shows "adapt_legacy_node_operation l d = d \<longleftrightarrow> adapt_legacy_node_operation l d' = d'"
  using assms by (simp add: adapt_legacy_node_operation_def over_list_fix get_val_def)

lemma ambiguity_operation_fix_cong:
  assumes "dict_get d ''op'' = dict_get d' ''op''"
    and "dict_get d ''ambiguities'' = dict_get d' ''ambiguities''"
  shows "adapt_legacy_ambiguity_operation d = d \<longleftrightarrow> adapt_legacy_ambiguity_operation d' = d'"
  using assms by (simp add: adapt_legacy_ambiguity_operation_def over_list_fix get_val_def)

lemma stable_proposal_operation: "stable_r (adapt_legacy_proposal_operation l)"
  unfolding stable_r_def
proof (intro allI impI)
  fix d e
  assume a: "adapt_legacy_proposal_operation l d = Inr e"
  let ?d = "adapt_legacy_node_operation l d"
  have fix_d: "adapt_legacy_node_operation l ?d = ?d"
    using stable_node_operation by (simp add: stable_def)
  from a consider "e = ?d"
    | i where "l" "e = AList.update ''intent'' (VStr i) ?d"
    by (auto simp: adapt_legacy_proposal_operation_def Let_def result_simps split: if_splits option.splits)
  then show "adapt_legacy_proposal_operation l e = Inr e"
  proof cases
    case 1
    then show ?thesis using a fix_d by (simp add: adapt_legacy_proposal_operation_def Let_def)
  next
    case 2
    have "adapt_legacy_node_operation l e = e"
      using node_operation_fix_cong [of e ?d l] fix_d 2 by simp
    then show ?thesis using 2 by (simp add: adapt_legacy_proposal_operation_def Let_def)
  qed
qed

lemma stable_proposal_document: "stable_r (adapt_legacy_proposal_document l)"
  unfolding adapt_legacy_proposal_document_def
  by (intro stable_on_dict_r stable_over_list_r stable_proposal_operation)

lemma approval_fix:
  assumes "adapt_legacy_approval_operation d = Inr d1" and "dict_get e ''op'' = dict_get d1 ''op''"
    and "dict_get e ''intent'' = dict_get d1 ''intent''"
  shows "adapt_legacy_approval_operation e = Inr e"
  using assms
  by (auto simp: adapt_legacy_approval_operation_def Let_def get_val_def split: if_splits)

lemma stable_patch_operation: "stable_r (adapt_patch_operation l approval)"
  unfolding stable_r_def
proof (intro allI impI)
  fix d e
  assume "adapt_patch_operation l approval d = Inr e"
  then obtain d1 where d1: "(if l \<and> approval then adapt_legacy_approval_operation d else Inr d) = Inr d1"
    and e: "(let d2 = adapt_legacy_node_operation l d1;
                 d3 = (if l then adapt_legacy_ambiguity_operation d2 else d2)
             in if get_val d3 ''op'' = VStr ''create_proposals''
                then over_list_r (adapt_legacy_proposal_document l) ''proposals'' d3 else Inr d3) = Inr e"
    by (auto simp: adapt_patch_operation_def result_simps)
  define d2 where "d2 = adapt_legacy_node_operation l d1"
  define d3 where "d3 = (if l then adapt_legacy_ambiguity_operation d2 else d2)"
  have e: "(if get_val d3 ''op'' = VStr ''create_proposals''
      then over_list_r (adapt_legacy_proposal_document l) ''proposals'' d3 else Inr d3) = Inr e"
    using e unfolding Let_def d2_def d3_def .
  have frame3: "dict_get e k = dict_get d3 k" if "k \<noteq> ''proposals''" for k
    using e that by (auto dest: over_list_r_frame split: if_splits)
  have frame2: "dict_get d3 k = dict_get d2 k" if "k \<noteq> ''ambiguities''" for k
    using that by (simp add: d3_def)
  have frame1: "dict_get d2 k = dict_get d1 k" if "k \<noteq> ''nodes''" for k
    using that by (simp add: d2_def)
  have "(if l \<and> approval then adapt_legacy_approval_operation e else Inr e) = Inr e"
    using approval_fix [of d d1 e] d1 by (cases "l \<and> approval") (auto simp: frame1 frame2 frame3)
  moreover have "adapt_legacy_node_operation l e = e"
    using node_operation_fix_cong [of e d2 l] stable_node_operation
    by (simp add: frame2 frame3 stable_def d2_def)
  moreover have "(if l then adapt_legacy_ambiguity_operation e else e) = e"
    using ambiguity_operation_fix_cong [of e d3] stable_ambiguity_operation
    by (auto simp: frame3 stable_def d3_def)
  moreover have "get_val e ''op'' = get_val d3 ''op''" by (simp add: get_val_def frame3)
  ultimately show "adapt_patch_operation l approval e = Inr e"
    using e stable_over_list_r [OF stable_proposal_document [of l], of "''proposals''"]
    by (auto simp: adapt_patch_operation_def dest: stable_rD split: if_splits)
qed

section \<open>Whole documents\<close>

text \<open>The header a document has once it is read, and what happens to its operations.\<close>

definition header_ok :: "val dict \<Rightarrow> bool" where
  "header_ok d = (''campaign_id'' \<notin> fst ` set d \<and> ''schema_generation'' \<in> fst ` set d)"

definition adapt_operations :: "val dict \<Rightarrow> val dict result" where
  "adapt_operations d = (let l = equals_one (get_val d ''schema_generation'') in
     if get_val d ''admission'' = VStr ''rejected'' then Inr (AList.update ''ops'' (VList []) d)
     else (case dict_get d ''ops'' of
         Some (VList operations) \<Rightarrow>
           bind_r (if l then Inr () else check_current_generation operations) (\<lambda>_.
             over_list_r (on_dict_r (adapt_patch_operation l
               (get_val d ''kind'' = VStr ''approval''))) ''ops'' d)
       | _ \<Rightarrow> Inr d))"

lemma adapt_header_ok: "header_ok d \<Longrightarrow> adapt_persisted_patch_document d = adapt_operations d"
  by (simp add: adapt_persisted_patch_document_def adapt_operations_def header_ok_def Let_def
      map_of_eq_None_iff [THEN iffD2] cong: if_cong option.case_cong val.case_cong)

lemma adapt_header:
  assumes "adapt_persisted_patch_document d = Inr d'"
  obtains e where "header_ok e" and "adapt_operations e = Inr d'"
proof -
  define a where "a = (case dict_get d ''campaign_id'' of None \<Rightarrow> d
     | Some v \<Rightarrow> AList.update ''episode_id'' v (AList.delete ''campaign_id'' d))"
  define e where "e = (if ''schema_generation'' \<notin> set (keys a)
      then AList.update ''schema_generation'' (VInt 1) a else a)"
  have "''campaign_id'' \<notin> fst ` set a"
    by (auto simp: a_def map_of_eq_None_iff split: option.split)
  then have "header_ok e" by (auto simp: header_ok_def e_def)
  moreover have gen: "equals_one (get_val e ''schema_generation'') \<longleftrightarrow>
      ''schema_generation'' \<notin> set (keys a) \<or> equals_one (get_val a ''schema_generation'')"
    by (simp add: e_def equals_one_def)
  moreover have "adapt_operations e = Inr d'"
  proof -
    have both: "(''campaign_id'' \<in> set (keys d) \<and> ''episode_id'' \<in> set (keys d)) = False"
      using assms by (auto simp: adapt_persisted_patch_document_def simp del: set_map)
    then have "adapt_persisted_patch_document d = adapt_operations e"
      unfolding adapt_persisted_patch_document_def adapt_operations_def Let_def
      by (simp only: both if_False a_def [symmetric] e_def [symmetric] gen)
    with assms show ?thesis by simp
  qed
  ultimately show ?thesis using that by blast
qed

lemma current_proposal_document: "adapt_legacy_proposal_document False v = Inr v"
proof -
  have op: "on_dict_r (adapt_legacy_proposal_operation False) v = Inr v" for v
    by (cases v) (simp_all add: adapt_legacy_proposal_operation_def adapt_legacy_node_operation_def)
  have "map_r (on_dict_r (adapt_legacy_proposal_operation False)) vs = Inr vs" for vs
    by (induction vs) (simp_all add: op)
  then have "over_list_r (on_dict_r (adapt_legacy_proposal_operation False)) k d = Inr d" for k d
    by (auto simp: over_list_r_def update_same split: option.split val.split)
  then show ?thesis by (cases v) (simp_all add: adapt_legacy_proposal_document_def)
qed

lemma current_operations: "over_list_r (on_dict_r (adapt_patch_operation False a)) k d = Inr d"
proof -
  have "map_r (adapt_legacy_proposal_document False) vs = Inr vs" for vs
    by (induction vs) (simp_all add: current_proposal_document)
  then have "over_list_r (adapt_legacy_proposal_document False) k d = Inr d" for k d
    by (auto simp: over_list_r_def update_same split: option.split val.split)
  then have op: "on_dict_r (adapt_patch_operation False a) v = Inr v" for v
    by (cases v) (simp_all add: adapt_patch_operation_def adapt_legacy_node_operation_def)
  have "map_r (on_dict_r (adapt_patch_operation False a)) vs = Inr vs" for vs
    by (induction vs) (simp_all add: op)
  then show ?thesis by (auto simp: over_list_r_def update_same split: option.split val.split)
qed

lemma stable_operations:
  assumes "header_ok d" and "adapt_operations d = Inr d'"
  shows "header_ok d' \<and> adapt_operations d' = Inr d'"
proof -
  let ?l = "equals_one (get_val d ''schema_generation'')"
  let ?f = "over_list_r (on_dict_r (adapt_patch_operation ?l (get_val d ''kind'' = VStr ''approval''))) ''ops''"
  consider (rejected) "get_val d ''admission'' = VStr ''rejected''" "d' = AList.update ''ops'' (VList []) d"
    | (same) "d' = d"
    | (ops) "?l" "get_val d ''admission'' \<noteq> VStr ''rejected''" "?f d = Inr d'"
  proof (cases "get_val d ''admission'' = VStr ''rejected''")
    case True
    then show ?thesis using assms(2) that(1) by (simp add: adapt_operations_def Let_def)
  next
    case False
    show ?thesis
    proof (cases "\<exists>vs. dict_get d ''ops'' = Some (VList vs)")
      case True
      with False assms(2) have "?f d = Inr d'"
        by (auto simp: adapt_operations_def Let_def result_simps)
      then show ?thesis
        using False that(2,3) current_operations by (cases ?l) auto
    next
      case no_list: False
      then have "d' = d"
        using False assms(2) by (auto simp: adapt_operations_def Let_def split: option.splits val.splits)
      then show ?thesis by (rule that(2))
    qed
  qed
  then show ?thesis
  proof cases
    case rejected
    then show ?thesis
      using assms(1) by (simp add: header_ok_def adapt_operations_def Let_def update_same)
  next
    case same
    then show ?thesis using assms by simp
  next
    case ops
    have frame: "get_val d' k = get_val d k" if "k \<noteq> ''ops''" for k
      using over_list_r_frame [OF ops(3) that] by (simp add: get_val_def)
    have "?f d' = Inr d'"
      using stable_over_list_r [OF stable_on_dict_r [OF stable_patch_operation]] ops(3) by (rule stable_rD)
    then have "adapt_operations d' = Inr d'"
      using ops(1,2) by (auto simp: adapt_operations_def Let_def frame split: option.split val.split)
    then show ?thesis
      using assms(1) over_list_r_keys [OF ops(3)] by (simp add: header_ok_def)
  qed
qed

text \<open>
  (C38) Adapting a persisted patch document is stable: a document that was adapted, whatever
  generation it came from, is read again without any change. In particular the adapter never
  stacks its migrations.
\<close>

theorem adapt_patch_document_stable:
  assumes "adapt_persisted_patch_document d = Inr d'"
  shows "adapt_persisted_patch_document d' = Inr d'"
proof -
  from assms obtain e where "header_ok e" and "adapt_operations e = Inr d'" by (rule adapt_header)
  then have "header_ok d'" and "adapt_operations d' = Inr d'" using stable_operations by blast+
  then show ?thesis by (simp add: adapt_header_ok)
qed

definition sample_document :: "val dict" where
  "sample_document = [(''campaign_id'', VStr ''c''), (''kind'', VStr ''seed''), (''ops'', VList [VDict [
     (''op'', VStr ''create_nodes''), (''nodes'', VList [VDict [(''type'', VStr ''experiment''),
       (''status'', VStr ''blocked''), (''next_action'', VStr ''N'')],
       VDict [(''type'', VStr ''evidence''), (''strength'', VStr ''diagnostic'')]])]])]"

definition sample_adapted :: "val dict" where
  "sample_adapted = [(''kind'', VStr ''seed''), (''ops'', VList [VDict [
     (''op'', VStr ''create_nodes''), (''nodes'', VList [VDict [(''type'', VStr ''experiment''),
       (''status'', VStr ''unspecified''), (''next_action'', VStr ''N''), (''next_action_stale'', VBool True)],
       VDict [(''type'', VStr ''evidence''), (''role'', VStr ''diagnostic''),
         (''legacy_strength'', VStr ''diagnostic'')]])]]),
     (''episode_id'', VStr ''c''), (''schema_generation'', VInt 1)]"

lemma sample_document_adapted: "adapt_persisted_patch_document sample_document = Inr sample_adapted"
  by code_simp

theorem adapt_patch_document_stable_witness:
  "adapt_persisted_patch_document sample_adapted = Inr sample_adapted"
  by (rule adapt_patch_document_stable [OF sample_document_adapted])

text \<open>
  A document of the current generation is left exactly as it is, unless it was recorded
  as rejected, carries the retired name of the episode or creates evidence with the retired
  strength; the last is an error.
\<close>

theorem adapt_current_document:
  assumes "header_ok d" and "\<not> equals_one (get_val d ''schema_generation'')"
    and "get_val d ''admission'' \<noteq> VStr ''rejected''"
  shows "adapt_persisted_patch_document d = (case dict_get d ''ops'' of
      Some (VList operations) \<Rightarrow> bind_r (check_current_generation operations) (\<lambda>_. Inr d)
    | _ \<Rightarrow> Inr d)"
  using assms
  by (simp add: adapt_header_ok adapt_operations_def current_operations split: option.split val.split)

theorem adapt_current_document_witness:
  "adapt_persisted_patch_document (AList.update ''schema_generation'' (VInt 2) sample_adapted)
     = Inl (ValueError ''schema-generation 2 patches cannot create Evidence with legacy_strength'')"
proof -
  let ?d = "AList.update ''schema_generation'' (VInt 2) sample_adapted"
  have "header_ok ?d" and "\<not> equals_one (get_val ?d ''schema_generation'')"
    and "get_val ?d ''admission'' \<noteq> VStr ''rejected''"
    and "(case dict_get ?d ''ops'' of
      Some (VList operations) \<Rightarrow> bind_r (check_current_generation operations) (\<lambda>_. Inr ?d)
    | _ \<Rightarrow> Inr ?d) = Inl (ValueError ''schema-generation 2 patches cannot create Evidence with legacy_strength'')"
    by code_simp+
  then show ?thesis using adapt_current_document [of ?d] by simp
qed

end
