(* ===== verification/Model_Properties.thy ===== *)
theory Model_Properties
  imports Graph_Frames Samples
begin

text \<open>
  The properties of the data model: normalised evidence assessments and display names, the keys
  of graph targets, coherent merge receipts, the conversion of Proposal operations, and the
  dependencies of a Proposal.
\<close>

section \<open>Normalised text\<close>

lemma dropWhile_idem [simp]: "dropWhile P (dropWhile P xs) = dropWhile P xs"
  by (induction xs) auto

lemma dropWhile_rev_idem:
  assumes "dropWhile P xs = xs"
  shows "dropWhile P (rev (dropWhile P (rev xs))) = rev (dropWhile P (rev xs))"
proof (cases "rev (dropWhile P (rev xs))")
  case (Cons y ys)
  have "\<exists>zs. xs = rev (dropWhile P (rev xs)) @ zs"
    by (metis rev_append rev_rev_ident takeWhile_dropWhile_id)
  then obtain zs where "xs = y # ys @ zs" using Cons by auto
  moreover have "xs = [] \<or> \<not> P (hd xs)" using assms by (simp only: dropWhile_eq_self_iff)
  ultimately have "\<not> P y" by simp
  then show ?thesis by (simp add: Cons)
next
  case Nil
  show ?thesis unfolding Nil by simp
qed

lemma strip_idem [simp]: "strip (strip s) = strip s"
  by (simp add: strip_def dropWhile_rev_idem)

fun strings :: "val list \<Rightarrow> string list" where
  "strings [] = []"
| "strings (VStr s # vs) = s # strings vs"
| "strings (_ # vs) = strings vs"

definition normal_items :: "val list \<Rightarrow> val list \<Rightarrow> string list \<Rightarrow> bool" where
  "normal_items items items' seen = (strings items' = map strip (strings items) \<and> distinct (strings items')
     \<and> (\<forall>s \<in> set (strings items'). s \<notin> set seen \<and> s \<noteq> [])
     \<and> normalize_qualification_items items' seen = Inr items')"

lemma qualification_items:
  "normalize_qualification_items items seen = Inr items' \<Longrightarrow> normal_items items items' seen"
proof (induction items arbitrary: seen items')
  case (Cons v items)
  show ?case
  proof (cases "is_VStr v")
    case True
    then obtain s where v: "v = VStr s" by (cases v) auto
    with Cons.prems obtain rest where s: "strip s \<noteq> []" "strip s \<notin> set seen"
      and rest: "normalize_qualification_items items (strip s # seen) = Inr rest"
      and items': "items' = VStr (strip s) # rest"
      by (auto simp: Let_def result_simps split: if_splits)
    from Cons.IH [OF rest] s show ?thesis
      by (auto simp: normal_items_def v items' Let_def)
  next
    case False
    with Cons.prems obtain rest where rest: "normalize_qualification_items items seen = Inr rest"
      and items': "items' = v # rest"
      by (cases v) (auto simp: result_simps)
    have "strings (v # xs) = strings xs" for xs using False by (cases v) simp_all
    moreover have "normalize_qualification_items (v # rest) seen = Inr (v # rest)"
      if "normalize_qualification_items rest seen = Inr rest"
      using that False by (cases v) simp_all
    ultimately show ?thesis using Cons.IH [OF rest] by (auto simp: normal_items_def items')
  qed
qed (simp add: normal_items_def)

text \<open>
  The qualifications of an evidence assessment are normalised in one pass: each text is
  trimmed, none is blank, none occurs twice, their order is kept, and normalising the result
  again changes nothing.
\<close>

theorem qualifications_normal:
  assumes "normalize_qualifications (VList items) = Inr v"
  shows "\<exists>items'. v = VList items' \<and> strings items' = map strip (strings items)
     \<and> distinct (strings items') \<and> [] \<notin> set (strings items') \<and> normalize_qualifications v = Inr v"
proof -
  from assms obtain items' where v: "v = VList items'"
    and "normalize_qualification_items items [] = Inr items'"
    by (auto simp: normalize_qualifications_def result_simps)
  then have "normal_items items items' []" by (intro qualification_items)
  then have "strings items' = map strip (strings items)" and "distinct (strings items')"
    and "[] \<notin> set (strings items')" and "normalize_qualification_items items' [] = Inr items'"
    by (auto simp: normal_items_def)
  then show ?thesis by (intro exI [of _ items']) (simp add: v normalize_qualifications_def)
qed

theorem qualifications_normal_witness:
  "normalize_qualifications (VList [VStr ''small'', VStr ''one seed''])
     = Inr (VList [VStr ''small'', VStr ''one seed''])"
proof -
  have "normalize_qualifications (VList [VStr '' small '', VStr ''one seed''])
     = Inr (VList [VStr ''small'', VStr ''one seed''])"
    by code_simp
  then show ?thesis using qualifications_normal by blast
qed

text \<open>
  A display name that is accepted is trimmed, not blank, at most 120 characters long and
  free of control characters, and it is accepted again unchanged.
\<close>

theorem display_name_normal:
  assumes "normalize_display_name s = Inr name"
  shows "name = strip s \<and> name \<noteq> [] \<and> length name \<le> 120 \<and> \<not> list_ex is_control name
     \<and> normalize_display_name name = Inr name"
  using assms
  by (auto simp: normalize_display_name_def Let_def DISPLAY_NAME_MAX_LENGTH_def split: if_splits)

theorem display_name_normal_witness: "normalize_display_name ''Ada'' = Inr ''Ada''"
proof -
  have "normalize_display_name '' Ada '' = Inr ''Ada''" by code_simp
  then show ?thesis using display_name_normal by blast
qed

section \<open>Targets and merges\<close>

text \<open>
  The key of a graph target identifies it: two targets that pass validation have the same
  key only if they are the same target.
\<close>

theorem target_key_injective:
  assumes "require_matching_branch_id t = Inr t" and "require_matching_branch_id t' = Inr t'"
    and "target_key t = target_key t'"
  shows "t = t'"
  using assms
  by (cases t; cases t') (auto simp: require_matching_branch_id_def target_key_def
      split: if_splits target_kind.splits option.splits)

theorem target_key_injective_witness:
  "\<lparr>gt_kind = Branch_target, gt_branch_id = Some ''b''\<rparr>
     = \<lparr>gt_kind = Branch_target, gt_branch_id = Some ([CHR ''b''] @ [])\<rparr>"
  by (rule target_key_injective) (simp_all add: require_matching_branch_id_def)

text \<open>
  A merge receipt that passes validation together with its provenance records one of two
  things: a commit that advances the destination by exactly one revision under a transition, or
  no change at all. The destination is the target the branch came from, never the branch itself,
  and its revision never goes back before the branch's base.
\<close>

theorem merge_receipt_coherent:
  assumes "source_and_rebase_heads_are_coherent (mr_provenance r) = Inr (mr_provenance r)"
    and "committed_head_is_coherent r = Inr r"
  shows "gh_target (mr_result_main_head r) = gh_target (mp_branch_base_head (mr_provenance r))
     \<and> gh_target (mr_result_main_head r) \<noteq> gh_target (mp_branch_head (mr_provenance r))
     \<and> gh_revision (mp_branch_base_head (mr_provenance r)) \<le> gh_revision (mr_result_main_head r)
     \<and> (case mr_outcome r of
          Committed \<Rightarrow> gh_revision (mr_result_main_head r) = gh_revision (mp_rebased_main_head (mr_provenance r)) + 1
            \<and> gh_transition_id (mr_result_main_head r) \<noteq> None
        | No_change \<Rightarrow> mr_result_main_head r = mp_rebased_main_head (mr_provenance r))"
  using assms
  by (auto simp: source_and_rebase_heads_are_coherent_def committed_head_is_coherent_def Let_def
      split: if_splits merge_outcome.splits)

definition main_head :: "int \<Rightarrow> graph_head_ref" where
  "main_head rv = \<lparr>gh_target = \<lparr>gt_kind = Main_target, gt_branch_id = None\<rparr>, gh_revision = rv,
     gh_transition_id = Some ''t''\<rparr>"

definition sample_receipt :: branch_merge_receipt where
  "sample_receipt = \<lparr>mr_outcome = Committed, mr_provenance = \<lparr>mp_merge_id = ''m'', mp_branch_id = ''b'',
       mp_episode_id = None, mp_branch_base_head = main_head 3,
       mp_branch_head = \<lparr>gh_target = \<lparr>gt_kind = Branch_target, gt_branch_id = Some ''b''\<rparr>,
         gh_revision = 7, gh_transition_id = None\<rparr>,
       mp_rebased_main_head = main_head 5, mp_merge_task_id = ''task''\<rparr>,
     mr_result_main_head = main_head 6, mr_authorized_by = \<lparr>ah_space_id = ''s'', ah_user_id = ''u'',
       ah_display_name = ''Ada''\<rparr>, mr_created_at = 0\<rparr>"

theorem merge_receipt_coherent_witness:
  "gh_revision (mr_result_main_head sample_receipt)
     = gh_revision (mp_rebased_main_head (mr_provenance sample_receipt)) + 1"
proof -
  have "source_and_rebase_heads_are_coherent (mr_provenance sample_receipt) = Inr (mr_provenance sample_receipt)"
    and "committed_head_is_coherent sample_receipt = Inr sample_receipt"
    and "mr_outcome sample_receipt = Committed"
    by (simp_all add: sample_receipt_def main_head_def source_and_rebase_heads_are_coherent_def
        committed_head_is_coherent_def)
  then show ?thesis using merge_receipt_coherent [of sample_receipt] by simp
qed

section \<open>Proposals\<close>

text \<open>The edges an operation deletes from a graph.\<close>

fun deletes_edges :: "graph_state \<Rightarrow> graph_operation \<Rightarrow> string set" where
  "deletes_edges st (RemoveEdgesOperation edge_ids) = set edge_ids"
| "deletes_edges st (RemoveNodesOperation node_ids) =
     {e_id e | e. e \<in> snd ` set (g_edges st) \<and> (e_source e \<in> set node_ids \<or> e_target e \<in> set node_ids)}"
| "deletes_edges st _ = {}"

fun sets_config :: "graph_operation \<Rightarrow> string set" where
  "sets_config (SetProjectTruthScopeOperation _ _) = {''project_truth_scope''}"
| "sets_config (SetOntologyOperation _) = {''ontology''}"
| "sets_config _ = {}"

lemma candidate_ids_set: "set (candidate_ids op st) = (case op_dependencies op st of
     None \<Rightarrow> {} | Some (cs, _) \<Rightarrow> {i. Some i \<in> set cs})"
  by (auto simp: candidate_ids_def List.map_filter_def image_iff split: option.split prod.split)

lemma edge_operation_cases:
  assumes "edge_operation_from_proposal p = Inr g"
  obtains es where "g = CreateEdgesOperation es"
  | ids where "g = RemoveEdgesOperation ids" "px_op p = Remove_edges" "px_edge_ids p = Some (Some ids)"
  using assms
  by (auto simp: edge_operation_from_proposal_def split: edge_op.splits option.splits)

lemma operation_nodes_covered:
  assumes "graph_operation_from_proposal op = Inr g"
  shows "touches g - creates g \<subseteq> set (own_node_ids op) \<union> set (candidate_ids op st)"
proof (cases op)
  case (ProposalProtectedRelationOperation l p)
  with assms show ?thesis by (auto simp: touches_def elim: edge_operation_cases)
next
  case (ProposalSupersedeOperation l items)
  with assms show ?thesis by (fastforce simp: touches_def candidate_ids_set depends_supersede_nodes_def)
next
  case (ProposalMergeOperation l merges)
  with assms show ?thesis by (fastforce simp: touches_def candidate_ids_set depends_merge_nodes_def)
qed (use assms in \<open>auto simp: touches_def candidate_ids_set depends_update_nodes_def depends_remove_nodes_def\<close>)

lemma operation_edges_covered:
  assumes "graph_operation_from_proposal op = Inr g"
  shows "deletes_edges st g \<subseteq> set (own_edge_ids op st)"
proof (cases op)
  case (ProposalProtectedRelationOperation l p)
  with assms have "edge_operation_from_proposal p = Inr g" by simp
  then show ?thesis
    by (rule edge_operation_cases) (simp_all add: ProposalProtectedRelationOperation field_value_def)
next
  case (ProposalRemovalOperation l ns)
  with assms show ?thesis by (force simp: incident_edge_ids_def)
qed (use assms in auto)

lemma operation_config_covered:
  assumes "graph_operation_from_proposal op = Inr g"
  shows "sets_config g \<subseteq> set (config_keys op st)"
proof (cases op)
  case (ProposalProtectedRelationOperation l p)
  with assms have "edge_operation_from_proposal p = Inr g" by simp
  then show ?thesis by (rule edge_operation_cases) simp_all
qed (use assms in \<open>auto simp: config_keys_def depends_set_project_truth_scope_def depends_set_ontology_def\<close>)

lemmas operation_covered = operation_nodes_covered operation_edges_covered operation_config_covered

text \<open>
  (C17) The dependencies of a Proposal cover what its operations will write: every existing node
  that one of them updates, retires, removes or gives a standing, every edge it deletes, also
  with a removed node, and every configuration it sets. Each list is sorted and without
  duplicates.
\<close>

theorem proposal_dependencies_cover:
  assumes "proposal_dependencies st ops = (nodes, edges, config)"
    and "op \<in> set ops" and "graph_operation_from_proposal op = Inr g"
  shows "touches g - creates g \<subseteq> set nodes \<and> deletes_edges st g \<subseteq> set edges \<and> sets_config g \<subseteq> set config
     \<and> sorted nodes \<and> sorted edges \<and> sorted config
     \<and> distinct nodes \<and> distinct edges \<and> distinct config"
proof -
  have "set (own_node_ids op) \<union> set (candidate_ids op st) \<subseteq> set nodes"
    and "set (own_edge_ids op st) \<subseteq> set edges" and "set (config_keys op st) \<subseteq> set config"
    using assms(1,2) by (auto simp: proposal_dependencies_def)
  then show ?thesis
    using operation_covered [OF assms(3), of st] assms(1) by (auto simp: proposal_dependencies_def)
qed

theorem proposal_dependencies_cover_witness:
  "touches (RemoveNodesOperation [''h2'']) - creates (RemoveNodesOperation [''h2'']) \<subseteq> set [''h2'']
     \<and> deletes_edges sample_state (RemoveNodesOperation [''h2'']) \<subseteq> set [''h2::addresses::q1'']"
proof -
  have "proposal_dependencies sample_state [ProposalRemovalOperation False [''h2'']]
     = ([''h2''], [''h2::addresses::q1''], [])"
    by code_simp
  then show ?thesis
    using proposal_dependencies_cover [of sample_state "[ProposalRemovalOperation False [''h2'']]"
        "[''h2'']" "[''h2::addresses::q1'']" "[]" "ProposalRemovalOperation False [''h2'']"
        "RemoveNodesOperation [''h2'']"] by simp
qed

text \<open>
  Every Proposal operation can be converted into a graph operation, except the
  protected-relation operations that carry the other payload field, even as an
  explicit null, or lack their own: the check of the class accepts such a null.
\<close>

theorem proposal_operation_converts:
  "(\<exists>g. graph_operation_from_proposal op = Inr g) = (case op of
     ProposalProtectedRelationOperation _ p \<Rightarrow>
       require_matching_payload p = Inr p
       \<and> (case px_op p of Create_edges \<Rightarrow> px_edge_ids p = None | Remove_edges \<Rightarrow> px_edges p = None)
   | _ \<Rightarrow> True)"
proof (cases op)
  case (ProposalProtectedRelationOperation l p)
  have "(\<exists>g. edge_operation_from_proposal p = Inr g) = (require_matching_payload p = Inr p
     \<and> (case px_op p of Create_edges \<Rightarrow> px_edge_ids p = None | Remove_edges \<Rightarrow> px_edges p = None))"
    by (cases "px_op p"; cases "px_edges p"; cases "px_edge_ids p")
      (auto simp: edge_operation_from_proposal_def require_matching_payload_def field_value_def
        split: option.split)
  with ProposalProtectedRelationOperation show ?thesis by simp
qed simp_all

end
