(* ===== verification/Grouping_Properties.thy ===== *)
theory Grouping_Properties
  imports Proposal_Rules "HOL-Library.Multiset"
begin

text \<open>
  The loop that joins coupled Proposals into connected groups ends, and with the coarsest
  outcome its test allows: a partition of the Proposals into groups no two of which are coupled.
\<close>

section \<open>Groups\<close>

definition partition_of :: "nat \<Rightarrow> nat list list \<Rightarrow> bool" where
  "partition_of n groups = (mset (concat groups) = mset [0..<n] \<and> list_all (\<lambda>g. g \<noteq> [] \<and> sorted g) groups)"

text \<open>No two groups have effects on what the other depends on, and no link joins them.\<close>

definition separate ::
  "node_adapter \<Rightarrow> digests \<Rightarrow> graph_state \<Rightarrow> proposal list \<Rightarrow> string list list option \<Rightarrow>
   nat list \<Rightarrow> nat list \<Rightarrow> bool" where
  "separate A D st qs links g h =
     (case (speculative_footprint A D st (component_draft qs g),
            speculative_footprint A D st (component_draft qs h)) of
        (Inr f, Inr k) \<Rightarrow> \<not> coupled f k \<and> \<not> linked links g h
      | _ \<Rightarrow> False)"

lemma position_pairs_iff: "(l, r) \<in> set (position_pairs n) \<longleftrightarrow> l < r \<and> r < n"
  by (force simp: position_pairs_def)

lemma map_r_nth:
  "map_r f xs = Inr ys \<Longrightarrow> length ys = length xs \<and> (\<forall>i < length xs. f (xs ! i) = Inr (ys ! i))"
  by (induction xs arbitrary: ys) (auto simp: result_simps less_Suc_eq_0_disj)

lemma map_r_raised: "map_r f xs = Inl e \<Longrightarrow> \<exists>x \<in> set xs. f x = Inl e"
proof (induction xs)
  case (Cons x xs)
  then show ?case by (cases "f x"; cases "map_r f xs") auto
qed simp

section \<open>Joining two groups\<close>

lemma split_at_two:
  assumes "l < r" and "r < length cs"
  shows "cs = take l cs @ cs ! l # drop (Suc l) (take r cs) @ cs ! r # drop (Suc r) cs"
proof -
  have "cs = take r cs @ cs ! r # drop (Suc r) cs" using assms(2) by (simp add: id_take_nth_drop)
  moreover have "take r cs = take l (take r cs) @ take r cs ! l # drop (Suc l) (take r cs)"
    using assms by (intro id_take_nth_drop) simp
  ultimately have "cs = (take l (take r cs) @ take r cs ! l # drop (Suc l) (take r cs)) @ cs ! r # drop (Suc r) cs"
    by simp
  then show ?thesis using assms by (simp add: min_def)
qed

lemma join_components_split:
  assumes "l < r" and "r < length cs"
  shows "join_components cs l r =
     take l cs @ sort (cs ! l @ cs ! r) # drop (Suc l) (take r cs) @ drop (Suc r) cs"
proof -
  have "take r (cs[l := x]) = take l cs @ x # drop (Suc l) (take r cs)" for x
  proof -
    have "take r (cs[l := x]) = (take r cs)[l := x]" by (rule take_update_swap)
    also have "\<dots> = take l (take r cs) @ x # drop (Suc l) (take r cs)"
      using assms by (intro upd_conv_take_nth_drop) simp
    finally show ?thesis using assms by (simp add: min_def)
  qed
  then show ?thesis using assms by (simp add: join_components_def Let_def drop_update_cancel)
qed

lemma partition_join:
  assumes "partition_of n cs" and "l < r" and "r < length cs"
  shows "partition_of n (join_components cs l r)"
proof -
  have split: "mset (concat cs) = mset (concat (join_components cs l r))"
    by (subst split_at_two [OF assms(2,3)], subst join_components_split [OF assms(2,3)]) simp
  have "sort (cs ! l @ cs ! r) \<noteq> []"
    using assms by (auto simp: partition_of_def list_all_length simp flip: set_empty)
  moreover have "set (join_components cs l r) \<subseteq> insert (sort (cs ! l @ cs ! r)) (set cs)"
    by (subst join_components_split [OF assms(2,3)])
      (auto dest: in_set_takeD in_set_dropD)
  ultimately show ?thesis
    using assms(1) split by (fastforce simp: partition_of_def list_all_iff)
qed

section \<open>The loop\<close>

lemma connect_components_outcome:
  assumes "partition_of n cs"
  shows "case connect_components A D st qs links cs of
     Inl e \<Rightarrow> (\<exists>g. g \<noteq> [] \<and> speculative_footprint A D st (component_draft qs g) = Inl e)
   | Inr groups \<Rightarrow> partition_of n groups \<and> sorted_wrt (separate A D st qs links) groups"
  using assms
proof (induction A D st qs links cs rule: connect_components.induct)
  case (1 A D st qs links cs)
  show ?case
  proof (cases "map_r (\<lambda>c. speculative_footprint A D st (component_draft qs c)) cs")
    case (Inl e)
    with map_r_raised [OF this] "1.prems" show ?thesis
      by (auto simp: partition_of_def list_all_iff)
  next
    case (Inr fps)
    let ?find = "find (\<lambda>(l, r). coupled (fps ! l) (fps ! r) \<or> linked links (cs ! l) (cs ! r))
      (position_pairs (length cs))"
    show ?thesis
    proof (cases ?find)
      case None
      then have "separate A D st qs links (cs ! l) (cs ! r)" if "l < r" "r < length cs" for l r
        using that map_r_nth [OF Inr]
        by (auto simp: find_None_iff position_pairs_iff separate_def)
      with None Inr "1.prems" show ?thesis by (auto simp: sorted_wrt_iff_nth_less)
    next
      case (Some pair)
      then have "pair \<in> set (position_pairs (length cs))"
        by (auto simp: find_Some_iff in_set_conv_nth)
      then have "fst pair < snd pair \<and> snd pair < length cs"
        using position_pairs_less [of "fst pair" "snd pair"] by simp
      then have "partition_of n (join_components cs (fst pair) (snd pair))"
        using partition_join [OF "1.prems"] by blast
      then show ?thesis using "1.IH" [OF Inr Some, of "fst pair" "snd pair"] Some Inr
        by (cases pair) simp
    qed
  qed
qed

text \<open>
  (C22) Grouping Proposals ends: it raises only what the dry approval of a non-empty group of
  them raises, and otherwise returns groups that contain every Proposal exactly once, in order,
  such that no two groups are coupled through what they write and depend on, nor linked.
\<close>

theorem connected_groups_separate:
  "case connected_proposal_groups A D st qs links of
     Inl e \<Rightarrow> (\<exists>g. g \<noteq> [] \<and> speculative_footprint A D st (component_draft qs g) = Inl e)
   | Inr groups \<Rightarrow> partition_of (length qs) groups \<and> sorted_wrt (separate A D st qs links) groups"
  unfolding connected_proposal_groups_def
proof (rule connect_components_outcome)
  have "concat (map (\<lambda>i. [i]) xs) = xs" for xs :: "nat list" by (induction xs) simp_all
  then show "partition_of (length qs) (map (\<lambda>i. [i]) [0..<length qs])"
    by (simp add: partition_of_def list_all_iff)
qed

end
