(* ===== verification/Revision_Properties.thy ===== *)
theory Revision_Properties
  imports Graph_Properties
begin

text \<open>
  Revisions as bounds, and applying a patch as a refinement: what a log writes is stamped with
  revisions the graph has reached, and \<open>_apply_patch\<close> makes, operation by operation, the
  steps of the abstract relation \<open>graph_step\<close>.
\<close>

section \<open>Stamps\<close>

text \<open>Every stamp in the graph is a revision up to \<open>r\<close>, in the order of the events it dates.\<close>

definition stamped_within :: "int \<Rightarrow> graph_state \<Rightarrow> bool" where
  "stamped_within r st =
     (list_all (\<lambda>(_, n). n_created_rev n \<le> n_updated_rev n \<and> n_updated_rev n \<le> r) (g_nodes st)
      \<and> list_all (\<lambda>(_, e). e_created_rev e \<le> r) (g_edges st)
      \<and> list_all (\<lambda>(_, q). p_base_rev q \<le> p_raised_rev q \<and> p_raised_rev q \<le> r) (g_proposals st)
      \<and> list_all (\<lambda>(_, c). c \<le> r) (g_config_revisions st)
      \<and> list_all (\<lambda>b. bt_revision b \<le> r) (g_belief_transitions st))"

lemma list_all_updated [simp]: "list_all P d \<Longrightarrow> P (k, v) \<Longrightarrow> list_all P (AList.update k v d)"
  using set_update_subset [of k v d] by (auto simp: list_all_iff)

lemma list_all_filtered [simp]: "list_all P d \<Longrightarrow> list_all P (filter Q d)"
  by (simp add: list_all_iff)

lemma list_all_deleted [simp]: "list_all P d \<Longrightarrow> list_all P (fold AList.delete ks d)"
  by (induction ks arbitrary: d) (simp_all add: AList.delete_eq)

lemma list_all_get: "list_all (\<lambda>(_, v). P v) d \<Longrightarrow> dict_get d k = Some v \<Longrightarrow> P v"
  by (auto simp: list_all_iff dest!: map_of_SomeD)

lemma stamped_mono: "stamped_within r st \<Longrightarrow> r \<le> r' \<Longrightarrow> stamped_within r' st"
  by (auto simp: stamped_within_def list_all_iff)

lemma stamped_fields [simp]:
  "stamped_within r (st\<lparr>g_revision := x\<rparr>) = stamped_within r st"
  "stamped_within r (st\<lparr>g_validation_messages := ms\<rparr>) = stamped_within r st"
  "stamped_within r (st\<lparr>g_last_refresh_at := t\<rparr>) = stamped_within r st"
  "stamped_within r (degrade p c st) = stamped_within r st"
  by (simp_all add: stamped_within_def degrade_def)

lemma record_belief_fields [simp]:
  "g_nodes (record_belief_transition n n' r c st) = g_nodes st"
  "g_edges (record_belief_transition n n' r c st) = g_edges st"
  "g_proposals (record_belief_transition n n' r c st) = g_proposals st"
  "g_config_revisions (record_belief_transition n n' r c st) = g_config_revisions st"
  "g_revision (record_belief_transition n n' r c st) = g_revision st"
  by (simp_all add: record_belief_transition_def split: option.split)

lemma record_belief_bound [simp]:
  "list_all (\<lambda>b. bt_revision b \<le> r) (g_belief_transitions st) \<Longrightarrow>
     list_all (\<lambda>b. bt_revision b \<le> r) (g_belief_transitions (record_belief_transition n n' r c st))"
  by (simp add: record_belief_transition_def split: option.split)

lemma stamped_node_revised:
  "revised p n n' \<Longrightarrow> stamped_within (pa_revision p) st \<Longrightarrow> dict_get (g_nodes st) i = Some n \<Longrightarrow>
     n_created_rev n' \<le> n_updated_rev n' \<and> n_updated_rev n' \<le> pa_revision p"
  by (auto simp: stamped_within_def revised_def same_identity_def dest!: list_all_get)

lemma stamped_put_proposal:
  assumes "stamped_within r st" and "dict_get (g_proposals st) i = Some q"
    and "p_base_rev q' = p_base_rev q" and "p_raised_rev q' = p_raised_rev q"
  shows "stamped_within r (put_proposal q' st)"
proof -
  have "p_base_rev q \<le> p_raised_rev q \<and> p_raised_rev q \<le> r"
    using assms(1,2) by (auto simp: stamped_within_def list_all_iff dest!: map_of_SomeD)
  with assms show ?thesis by (simp add: stamped_within_def put_proposal_def)
qed

lemma stamped_step:
  assumes "graph_step p op st st'" and "stamped_within (pa_revision p) st"
    and "g_revision st \<le> pa_revision p"
  shows "stamped_within (pa_revision p) st'"
  using assms
proof (induction rule: graph_step.induct)
  case (node_updated i op st n n' cause)
  then show ?case using stamped_node_revised by (auto simp: stamped_within_def)
next
  case (node_retired i op st n n' cause)
  then show ?case using stamped_node_revised by (auto simp: stamped_within_def)
next
  case (edge_created raw edges st e)
  then show ?case
    by (auto simp: stamped_within_def put_edge_def derive_layer_def edge_of_payload_def Let_def
        split: option.splits if_splits)
next
  case (standing_set st i n s)
  then have "n_created_rev n \<le> pa_revision p"
    by (auto simp: stamped_within_def dest: list_all_get)
  with standing_set show ?case by (simp add: stamped_within_def put_node_def)
next
  case (proposal_resolved r rs st st')
  then show ?case
    by (auto simp: resolve_proposal_def dict_get_or_raise_def result_simps split: option.splits
        intro: stamped_put_proposal)
next
  case (proposal_withdrawn w ws st st')
  then show ?case
    by (auto simp: withdraw_proposal_def dict_get_or_raise_def result_simps split: option.splits
        intro: stamped_put_proposal)
qed (auto simp: step_defs stamped_within_def created_def generated_edge_def split: prod.split)

lemma stamped_rederive:
  assumes "stamped_within r st"
  shows "stamped_within r (rederive_edge i st)"
proof (cases "dict_get (g_edges st) i")
  case (Some e)
  then have "e_created_rev e \<le> r" using assms by (auto simp: stamped_within_def list_all_iff dest!: map_of_SomeD)
  with assms show ?thesis by (simp add: rederive_edge_def Some stamped_within_def derive_layer_def)
qed (simp add: assms rederive_edge_def)

context adapter
begin

lemma stamped_patch:
  assumes "apply_patch A idx p st = Inr (st', ds)" and "stamped_within (g_revision st) st"
    and "g_revision st \<le> pa_revision p"
  shows "stamped_within (g_revision st') st' \<and> g_revision st' = pa_revision p"
proof -
  have "stamped_within (pa_revision p) st' \<and> g_revision st' \<le> pa_revision p"
  proof (rule apply_patch_invariant [OF assms(1), where P = "\<lambda>s. stamped_within (pa_revision p) s \<and> g_revision s \<le> pa_revision p"])
    show "stamped_within (pa_revision p) s' \<and> g_revision s' \<le> pa_revision p"
      if "graph_step p op s s'" "stamped_within (pa_revision p) s \<and> g_revision s \<le> pa_revision p" for op s s'
      using stamped_step [OF that(1)] clock_step [OF that(1)] that(2) by (simp add: same_clock_def)
    show "stamped_within (pa_revision p) (rederive_edge i s) \<and> g_revision (rederive_edge i s) \<le> pa_revision p"
      if "stamped_within (pa_revision p) s \<and> g_revision s \<le> pa_revision p" for i s
      using that stamped_rederive by (auto simp: rederive_edge_def split: option.split)
  qed (use assms(2,3) in \<open>auto intro: stamped_mono simp: finish_patch_def\<close>)
  moreover have "g_revision st' = pa_revision p" using clock_patch(1) [OF assms(1)] assms(3) by simp
  ultimately show ?thesis by simp
qed

lemma stamped_replay:
  assumes "sorted (map pa_revision ps)" and "\<forall>p \<in> set ps. g_revision (m_state m) \<le> pa_revision p"
    and "stamped_within (g_revision (m_state m)) (m_state m)"
  shows "stamped_within (g_revision (m_state (replay_loop A V ctx ps m))) (m_state (replay_loop A V ctx ps m))"
  using assms
proof (induction ps arbitrary: m)
  case (Cons p ps)
  show ?case
  proof (cases rule: replay_loop_cases [of p A V ctx ps m])
    case skip
    from Cons.prems show ?thesis
      unfolding skip(2)
      by (intro Cons.IH) (auto simp: skip_rejected_def intro: stamped_mono)
  next
    case (stop code r)
    with Cons.prems show ?thesis by (simp add: stopped_def degrade_def stamped_within_def)
  next
    case (accept st' ds)
    have "stamped_within (g_revision st') st' \<and> g_revision st' = pa_revision p"
      by (rule stamped_patch [OF accept(2)]) (use Cons.prems in simp_all)
    with Cons.prems(1) show ?thesis
      unfolding accept(4) by (intro Cons.IH) (auto simp: accept_applied_def Let_def)
  qed
qed simp

end


section \<open>Refinement\<close>

text \<open>The abstract effect of a list of operations: the steps of each, one operation after the other.\<close>

fun operation_steps :: "patch \<Rightarrow> graph_operation list \<Rightarrow> graph_state \<Rightarrow> graph_state \<Rightarrow> bool" where
  "operation_steps p [] st st' = (st' = st)"
| "operation_steps p (op # ops) st st' = (graph_steps p op OO operation_steps p ops) st st'"

context adapter
begin

lemma operations_refine:
  assumes "fold_r (\<lambda>(i, op). apply_operation A p (g i) op) (enumerate n ops) s = Inr s'"
  shows "operation_steps p ops (ap_graph s) (ap_graph s')"
  using assms
proof (induction ops arbitrary: n s)
  case (Cons op ops)
  then obtain t where "apply_operation A p (g n) op s = Inr t"
    and "fold_r (\<lambda>(i, op). apply_operation A p (g i) op) (enumerate (Suc n) ops) t = Inr s'"
    by (auto simp: result_simps)
  with Cons.IH show ?case by (auto dest: apply_operation_steps)
qed simp

end



end
