(* ===== verification/Transition_Laws.thy ===== *)
theory Transition_Laws
  imports Staging "HOL-Library.Multiset"
begin

text \<open>
  Why a recorded transition replays: the source patches that validation reads back from a
  combined patch have the operations and the provenance of the patches it was prepared from,
  so they stage the same graphs up to edge layers and the refresh time, and the lifecycle events
  read nothing else.
\<close>

section \<open>Staging by another writer\<close>

text \<open>What applying an operation reads of its patch.\<close>

definition same_stamps :: "patch \<Rightarrow> patch \<Rightarrow> bool" where
  "same_stamps p q = (pa_revision q = pa_revision p \<and> pa_kind q = pa_kind p
     \<and> pa_schema_generation q = pa_schema_generation p \<and> pa_author q = pa_author p
     \<and> pa_source_operation_id q = pa_source_operation_id p)"

lemma operation_same_stamps:
  assumes "same_stamps p q"
  shows "apply_operation A q g op = apply_operation A p g op"
proof -
  note fs = assms [unfolded same_stamps_def]
  have "update_node A q g = update_node A p g"
    using fs by (intro ext) (simp add: update_node_def immutable_update_fields_def Let_def cong: if_cong)
  moreover have "supersede_one A q = supersede_one A p"
    using fs by (intro ext) (simp add: supersede_one_def retire_and_record_def cong: option.case_cong if_cong)
  moreover have "merge_one A q = merge_one A p"
    using fs by (intro ext) (simp add: merge_one_def retire_and_record_def)
  moreover have "create_proposal q = create_proposal p"
    using fs by (intro ext) (simp add: create_proposal_def actor_of_def cong: option.case_cong)
  moreover have "resolve_proposal q = resolve_proposal p"
    using fs by (intro ext) (simp add: resolve_proposal_def actor_of_def)
  moreover have "withdraw_proposal q = withdraw_proposal p"
    using fs by (intro ext) (simp add: withdraw_proposal_def)
  ultimately show ?thesis using fs by (cases op) (simp_all add: operation_functions)
qed

text \<open>One operation staged on its own, as an initiating or a generated one.\<close>

definition stage_one ::
  "node_adapter \<Rightarrow> patch \<Rightarrow> bool \<Rightarrow> graph_operation \<Rightarrow> graph_state \<Rightarrow> graph_state result" where
  "stage_one A p generated op st =
     bind_r (apply_operation A p generated op (start_state st)) (\<lambda>s.
       Inr ((finish_patch p (fold rederive_edge (rev (remdups (rev (ap_created_edge_ids s)))) (ap_graph s)))
         \<lparr>g_revision := g_revision st\<rparr>))"

lemma bind_r_assoc: "bind_r (bind_r m f) g = bind_r m (\<lambda>x. bind_r (f x) g)"
  by (cases m) simp_all

lemma apply_one_patch:
  "apply_patch A idx (p\<lparr>pa_ops := [op]\<rparr>) st =
     bind_r (apply_operation A p (0 \<in> set (generated_operation_indexes idx p)) op (start_state st)) (\<lambda>s.
       Inr (finish_patch p (fold rederive_edge (rev (remdups (rev (ap_created_edge_ids s)))) (ap_graph s)),
            ap_descriptors s))"
  by (simp add: apply_patch_def apply_operations_def start_state_def finish_patch_def
      generated_operation_indexes_def bind_r_assoc cong: option.case_cong if_cong)

lemma staged_as_initiating:
  "pa_transition p = None \<Longrightarrow> apply_valid_operation A st p op = stage_one A p False op st"
  by (simp add: apply_valid_operation_def apply_one_patch no_generated_operations stage_one_def
      bind_r_assoc)

lemma staged_as_generated:
  "apply_transition_generated_operation A st p op = stage_one A p True op st"
  by (simp add: apply_transition_generated_operation_def apply_one_patch stage_one_def
      generated_operation_indexes_def bind_r_assoc)

lemma stage_one_alike:
  assumes "same_stamps p q" and "core s = core t"
  shows "map_sum id core (stage_one A q g op t) = map_sum id core (stage_one A p g op s)"
proof -
  have view: "map_sum id core (stage_one A p g op s) =
      map_sum id (\<lambda>c. c\<lparr>g_revision := g_revision s\<rparr>)
        (map_sum id ap_core (apply_operation A p g op (start_state s)))" for p s
    by (cases "apply_operation A p g op (start_state s)")
      (simp_all add: stage_one_def finish_patch_def ap_core_def)
  have "ap_core (start_state t) = ap_core (start_state s)"
    using assms(2) by (simp add: ap_core_def start_state_def)
  then have "map_sum id ap_core (apply_operation A p g op (start_state t))
      = map_sum id ap_core (apply_operation A p g op (start_state s))"
    by (rule operation.alike)
  then show ?thesis
    unfolding view operation_same_stamps [OF assms(1)] using core_fields(6) [OF assms(2)] by simp
qed

lemma stage_one_follows:
  assumes "same_stamps p q" and "core s = core t" and "stage_one A p g op s = Inr s'"
  obtains t' where "stage_one A q g op t = Inr t'" and "core t' = core s'"
  using stage_one_alike [OF assms(1,2), of A g op] assms(3) by (cases "stage_one A q g op t") auto

section \<open>Timelines\<close>

definition same_step :: "int \<times> graph_state \<times> graph_state \<Rightarrow> int \<times> graph_state \<times> graph_state \<Rightarrow> bool" where
  "same_step = (\<lambda>(i, a, b) (j, c, d). i = j \<and> core a = core c \<and> core b = core d)"

definition same_action :: "patch \<times> graph_operation \<Rightarrow> patch \<times> graph_operation \<Rightarrow> bool" where
  "same_action = (\<lambda>(p, op) (q, op'). same_stamps p q \<and> op' = op \<and> pa_transition p = None
     \<and> pa_transition q = None)"

lemma steps_follow:
  assumes "list_all2 same_action xs ys" and "core s = core t"
    and "apply_steps A i xs s = Inr (steps, s')"
  shows "\<exists>steps' t'. apply_steps A i ys t = Inr (steps', t') \<and> core t' = core s'
     \<and> list_all2 same_step steps steps'"
  using assms
proof (induction xs ys arbitrary: i s t steps rule: list_all2_induct)
  case (Cons x xs y ys)
  obtain p op q where xy: "x = (p, op)" "y = (q, op)" and pq: "same_stamps p q"
    and plain: "pa_transition p = None" "pa_transition q = None"
    using Cons.hyps(1) by (cases x; cases y) (auto simp: same_action_def)
  from Cons.prems(2) obtain s1 rest where s1: "stage_one A p False op s = Inr s1"
    and rest: "apply_steps A (Suc i) xs s1 = Inr (rest, s')" and steps: "steps = (int i, s, s1) # rest"
    by (auto simp: xy staged_as_initiating plain result_simps)
  from stage_one_follows [OF pq Cons.prems(1) s1] obtain t1 where
    t1: "stage_one A q False op t = Inr t1" and c: "core t1 = core s1" .
  from Cons.IH [OF c [symmetric] rest] obtain rest' t' where
    "apply_steps A (Suc i) ys t1 = Inr (rest', t')" "core t' = core s'" "list_all2 same_step rest rest'"
    by blast
  with t1 c Cons.prems(1) show ?case
    by (auto simp: xy staged_as_initiating plain steps same_step_def)
qed simp

lemma generated_follow:
  assumes "same_stamps p q" and "core s = core t" and "apply_generated_steps A p xs s = Inr (steps, s')"
  shows "\<exists>steps' t'. apply_generated_steps A q xs t = Inr (steps', t') \<and> core t' = core s'
     \<and> list_all2 same_step steps steps'"
  using assms(2,3)
proof (induction xs arbitrary: s t steps)
  case (Cons x xs)
  obtain i op where x: "x = (i, op)" by (cases x)
  from Cons.prems(2) obtain s1 rest where s1: "stage_one A p True op s = Inr s1"
    and rest: "apply_generated_steps A p xs s1 = Inr (rest, s')" and steps: "steps = (i, s, s1) # rest"
    by (auto simp: x staged_as_generated result_simps)
  from stage_one_follows [OF assms(1) Cons.prems(1) s1] obtain t1 where
    t1: "stage_one A q True op t = Inr t1" and c: "core t1 = core s1" .
  from Cons.IH [OF c [symmetric] rest] obtain rest' t' where
    "apply_generated_steps A q xs t1 = Inr (rest', t')" "core t' = core s'" "list_all2 same_step rest rest'"
    by blast
  with t1 c Cons.prems(1) show ?case by (auto simp: x staged_as_generated steps same_step_def)
qed simp

lemma timeline_follows:
  assumes "list_all2 same_action xs ys" and "apply_timeline A st xs = Inr (steps, s')"
  shows "\<exists>steps' t'. apply_timeline A st ys = Inr (steps', t') \<and> core t' = core s'
     \<and> list_all2 same_step steps steps'"
proof (cases xs)
  case Nil
  with assms(2) show ?thesis by (simp add: apply_timeline_def)
next
  case (Cons x xs1)
  obtain s1 where s1: "apply_steps A 0 xs st = Inr (steps, s1)"
    and s': "s' = s1\<lparr>g_revision := pa_revision (fst x)\<rparr>"
    using assms(2) unfolding apply_timeline_def Cons
    by (cases x) (auto simp: bind_r_Inr simp del: apply_steps.simps)
  obtain y ys1 where ys: "ys = y # ys1" and y: "pa_revision (fst y) = pa_revision (fst x)"
    using assms(1) by (auto simp: Cons list_all2_Cons1 same_action_def same_stamps_def)
  from steps_follow [OF assms(1) refl s1] obtain steps' t' where
    "apply_steps A 0 ys st = Inr (steps', t')" "core t' = core s1" "list_all2 same_step steps steps'"
    by blast
  with y show ?thesis
    unfolding apply_timeline_def ys s' by (cases y) (simp del: apply_steps.simps)
qed

section \<open>Events\<close>

lemma status_events_alike:
  assumes "same_step x y" shows "status_events b x = status_events b y"
proof -
  obtain i s s' t t' where xy: "x = (i, s, s')" "y = (i, t, t')" and "core s = core t" "core s' = core t'"
    using assms by (cases x; cases y) (auto simp: same_step_def)
  then have "g_nodes s = g_nodes t" "g_nodes s' = g_nodes t'" by (auto dest: core_fields(1))
  then show ?thesis
    by (simp add: xy status_events_def status_field_def event_field_def cong: option.case_cong)
qed

lemma guidance_events_alike:
  assumes "same_step x y" shows "guidance_events ops x = guidance_events ops y"
proof -
  obtain i s s' t t' where xy: "x = (i, s, s')" "y = (i, t, t')" and "core s = core t" "core s' = core t'"
    using assms by (cases x; cases y) (auto simp: same_step_def)
  then have "g_nodes s = g_nodes t" "g_nodes s' = g_nodes t'" by (auto dest: core_fields(1))
  then show ?thesis
    by (simp add: xy guidance_events_def event_field_def cong: graph_operation.case_cong)
qed

lemma map_alike: "list_all2 R xs ys \<Longrightarrow> (\<And>x y. R x y \<Longrightarrow> f x = f y) \<Longrightarrow> map f xs = map f ys"
  by (induction rule: list_all2_induct) auto

lemma lifecycle_events_alike:
  assumes "list_all2 same_step xs ys" and "list_all2 same_step gs hs"
  shows "lifecycle_events D tid ys hs ops tag = lifecycle_events D tid xs gs ops tag"
  unfolding lifecycle_events_def Let_def
  using map_alike [OF assms(1) status_events_alike] map_alike [OF assms(2) guidance_events_alike] by simp

section \<open>Recovering the source patches\<close>

text \<open>What validation reads back for a source patch \<open>p\<close> of the combined patch \<open>q\<close>.\<close>

definition source_of :: "patch \<Rightarrow> patch \<Rightarrow> patch" where
  "source_of q p = q\<lparr>pa_summary := pa_summary p, pa_change_summary := pa_change_summary p,
     pa_ops := pa_ops p, pa_human_action := pa_human_action p, pa_agent_action := pa_agent_action p,
     pa_transition := None\<rparr>"

abbreviation all_ops :: "patch list \<Rightarrow> graph_operation list" where
  "all_ops ps \<equiv> concat (map pa_ops ps)"

lemma source_patches_recovered:
  assumes "pa_ops q = before @ all_ops ps @ after"
  shows "map (source_patch_for_group q) (initiating_groups i (length before) ps) = map (source_of q) ps"
  using assms
proof (induction ps arbitrary: i before)
  case (Cons p ps)
  have "map (\<lambda>k. pa_ops q ! nat k) (map int [length before..<length before + length (pa_ops p)]) = pa_ops p"
  proof (rule nth_equalityI)
    fix k assume "k < length (map (\<lambda>k. pa_ops q ! nat k) (map int [length before..<length before + length (pa_ops p)]))"
    then have "k < length (pa_ops p)" and "nat (int (length before + k)) = length before + k"
      by (simp_all only: length_map length_upt nat_int)
    then show "map (\<lambda>k. pa_ops q ! nat k) (map int [length before..<length before + length (pa_ops p)]) ! k = pa_ops p ! k"
      by (simp add: Cons.prems nth_append del: of_nat_add)
  qed simp
  moreover have "pa_ops q = (before @ pa_ops p) @ all_ops ps @ after" using Cons.prems by simp
  from Cons.IH [OF this, of "Suc i"] have "map (source_patch_for_group q)
      (initiating_groups (Suc i) (length before + length (pa_ops p)) ps) = map (source_of q) ps" by simp
  ultimately show ?case
    unfolding initiating_groups.simps list.map
    by (intro arg_cong2 [of _ _ _ _ Cons]) (simp_all add: source_patch_for_group_def source_of_def comp_def)
qed simp

lemma group_indexes:
  "concat (map ig_operation_indexes (initiating_groups i n ps)) = map int [n..<n + length (all_ops ps)]"
proof (induction ps arbitrary: i n)
  case (Cons p ps)
  have "[n..<n + length (pa_ops p) + length (all_ops ps)]
      = [n..<n + length (pa_ops p)] @ [n + length (pa_ops p)..<n + length (pa_ops p) + length (all_ops ps)]"
    by (rule upt_add_eq_append) simp
  with Cons.IH show ?case by (simp add: add.assoc)
qed simp

lemma source_actions_ops [simp]: "map snd (source_actions ps) = all_ops ps"
  by (induction ps) (simp_all add: source_actions_def comp_def)

lemma length_source_actions: "length (source_actions ps) = length (all_ops ps)"
  using arg_cong [OF source_actions_ops [of ps], of length] by (simp only: length_map)

lemma source_actions_alike:
  assumes "\<And>p. p \<in> set ps \<Longrightarrow> same_stamps p (f p) \<and> pa_ops (f p) = pa_ops p \<and> pa_transition p = None
      \<and> pa_transition (f p) = None"
  shows "list_all2 same_action (source_actions ps) (source_actions (map f ps))"
  using assms
proof (induction ps)
  case (Cons p ps)
  have "list_all2 same_action (map (Pair p) (pa_ops p)) (map (Pair (f p)) (pa_ops (f p)))"
    using Cons.prems [of p] by (simp add: list_all2_map1 list_all2_map2 same_action_def list.rel_refl)
  moreover have "list_all2 same_action (source_actions ps) (source_actions (map f ps))"
    using Cons by simp
  ultimately show ?case by (simp add: source_actions_def list_all2_appendI)
qed (simp add: source_actions_def)

section \<open>Provenance\<close>

lemma remdups_absorb: "set xs \<subseteq> set ys \<Longrightarrow> remdups (xs @ ys) = remdups ys"
  by (induction xs) auto

lemma stable_union_same:
  assumes "\<And>p. p \<in> set ps \<Longrightarrow> f p = xs" and "ps \<noteq> []" and "distinct xs"
  shows "stable_union (map f ps) = xs"
proof -
  have "set (rev (concat (map f ps))) = set xs" if "ps \<noteq> []" "\<And>p. p \<in> set ps \<Longrightarrow> f p = xs" for ps
    using that by (cases ps) auto
  then have "remdups (rev (concat (map f ps))) = rev xs"
    using assms by (cases ps) (auto simp: remdups_absorb distinct_remdups_id)
  then show ?thesis by (simp add: stable_union_def)
qed

lemma cursors_collected:
  assumes "fold_r add_cursor xs d = Inr d'" and "wf_dict d"
  shows "wf_dict d' \<and> set d' = set d \<union> set xs"
  using assms
proof (induction xs arbitrary: d)
  case (Cons x xs)
  obtain k v where x: "x = (k, v)" by (cases x)
  from Cons.prems(1) have ok: "dict_get d k = None \<or> dict_get d k = Some v"
    and rest: "fold_r add_cursor xs (AList.update k v d) = Inr d'"
    by (auto simp: x add_cursor_def result_simps split: if_splits)
  have "set (AList.update k v d) = insert (k, v) (set d)"
  proof (cases "dict_get d k")
    case None
    then have "k \<notin> fst ` set d" by (simp add: map_of_eq_None_iff)
    then show ?thesis by (induction d) auto
  next
    case (Some w)
    with ok have "dict_get d k = Some v" by simp
    then show ?thesis by (simp add: update_triv map_of_SomeD insert_absorb)
  qed
  with Cons.IH [OF rest] Cons.prems(2) show ?case by (auto simp: x)
qed simp

lemma sort_key_dict:
  assumes "wf_dict xs" and "wf_dict ys" and "set xs = set ys"
  shows "sort_key fst xs = sort_key fst ys"
proof (rule sort_key_inj_key_eq)
  have "distinct xs" "distinct ys" using assms(1,2) by (simp_all add: distinct_map)
  with assms(3) show "mset xs = mset (sort_key fst ys)" by (simp add: set_eq_iff_mset_eq_distinct)
  show "inj_on fst (set xs)" using assms(1) by (simp add: distinct_map)
qed simp

text \<open>A list field that may name a value twice would not come back.\<close>

definition plain_lists :: "patch \<Rightarrow> bool" where
  "plain_lists p = (distinct (pa_run_truth_scope p) \<and> distinct (pa_repositories_read p)
     \<and> wf_dict (pa_processed_cursors p))"

lemma combined_provenance:
  assumes "combined_patch ps ops trace = Inr q" and "p \<in> set ps"
    and "\<And>p. p \<in> set ps \<Longrightarrow> envelope_of p = envelope_of (hd ps)"
    and "\<And>p. p \<in> set ps \<Longrightarrow> plain_lists p"
  shows "envelope_of (source_of q p) = envelope_of p"
proof -
  have ne: "ps \<noteq> []" using assms(2) by auto
  from assms(1) obtain cursors where
    cursors: "fold_r add_cursor (concat (map pa_processed_cursors ps)) [] = Inr cursors"
    and q: "pa_run_truth_scope q = stable_union (map pa_run_truth_scope ps)"
      "pa_repositories_read q = stable_union (map pa_repositories_read ps)"
      "pa_processed_cursors q = cursors" and env: "(envelope_of q)\<lparr>tv_run_truth_scope := [],
        tv_repositories_read := [], tv_processed_cursors := []\<rparr> = (envelope_of (hd ps))\<lparr>tv_run_truth_scope := [],
        tv_repositories_read := [], tv_processed_cursors := []\<rparr>"
    by (auto simp: combined_patch_def result_simps envelope_of_def)
  have same: "pa_run_truth_scope r = pa_run_truth_scope (hd ps)"
      "pa_repositories_read r = pa_repositories_read (hd ps)"
      "sort_key fst (pa_processed_cursors r) = sort_key fst (pa_processed_cursors (hd ps))" if "r \<in> set ps" for r
    using assms(3) [OF that] by (simp_all add: envelope_of_def)
  have "hd ps \<in> set ps" using ne by simp
  note plain = assms(4) [OF this, unfolded plain_lists_def]
  have "set (pa_processed_cursors r) = set (pa_processed_cursors (hd ps))" if "r \<in> set ps" for r
    using arg_cong [OF same(3) [OF that], of set] by simp
  then have "(\<Union>r \<in> set ps. set (pa_processed_cursors r)) = (\<Union>r \<in> set ps. set (pa_processed_cursors (hd ps)))"
    by (intro SUP_cong) simp_all
  then have "set (concat (map pa_processed_cursors ps)) = set (pa_processed_cursors (hd ps))"
    using ne by (simp add: image_constant_conv)
  with cursors_collected [OF cursors] have "wf_dict cursors" "set cursors = set (pa_processed_cursors (hd ps))"
    by auto
  then have "sort_key fst cursors = sort_key fst (pa_processed_cursors (hd ps))"
    using plain by (intro sort_key_dict) simp_all
  moreover have "stable_union (map pa_run_truth_scope ps) = pa_run_truth_scope (hd ps)"
    using plain by (intro stable_union_same same ne) simp_all
  moreover have "stable_union (map pa_repositories_read ps) = pa_repositories_read (hd ps)"
    using plain by (intro stable_union_same same ne) simp_all
  ultimately have "envelope_of q = envelope_of (hd ps)"
    using env by (simp add: envelope_of_def q)
  moreover have "envelope_of (source_of q p) = envelope_of q"
    by (simp add: source_of_def envelope_of_def)
  ultimately show ?thesis using assms(3) [OF assms(2)] by simp
qed

end
