(* ===== verification/Transition_Trace.thy ===== *)
theory Transition_Trace
  imports Transition_Laws
begin

text \<open>
  The trace of a prepared transition passes every check of its validation: the generated actions
  are guidance updates caused by earlier ones, the operation indexes partition the combined patch,
  and each event cites an action of the patch.
\<close>

section \<open>Generated guidance\<close>

lemma causes_updated: "snd ` set (AList.update k v d) \<subseteq> insert v (snd ` set d)"
  by (induction d) auto

lemma fold_if_causes:
  "snd ` set (fold (\<lambda>k d. if c k d then AList.update (key k) i d else d) ks d) \<subseteq> insert i (snd ` set d)"
proof (induction ks arbitrary: d)
  case (Cons k ks)
  show ?case
  proof (cases "c k d")
    case True
    have "snd ` set (fold (\<lambda>k d. if c k d then AList.update (key k) i d else d) (k # ks) d)
        \<subseteq> insert i (snd ` set (AList.update (key k) i d))"
      using Cons.IH [of "AList.update (key k) i d"] True by simp
    also have "\<dots> \<subseteq> insert i (snd ` set d)" using causes_updated [of "key k" i d] by blast
    finally show ?thesis .
  qed (use Cons.IH [of d] in simp)
qed auto

lemma action_causes: "snd ` set (action_change_causes step causes) \<subseteq> insert (fst step) (snd ` set causes)"
proof -
  obtain i before after where step: "step = (i, before, after)" by (cases step)
  show ?thesis
    unfolding step action_change_causes_def prod.case fst_conv by (rule fold_if_causes [where key = "\<lambda>k. k"])
qed

lemma dependency_causes: "snd ` set (dependency_change_causes steps) \<subseteq> fst ` set steps"
proof -
  have "snd ` set (fold action_change_causes steps d) \<subseteq> fst ` set steps \<union> snd ` set d" for d
  proof (induction steps arbitrary: d)
    case (Cons step steps)
    from Cons.IH [of "action_change_causes step d"] action_causes [of step d] show ?case by auto
  qed simp
  from this [of "[]"] show ?thesis by (simp add: dependency_change_causes_def)
qed

lemma fold_enumerate_causes:
  assumes "\<And>i x d. snd ` set (f (i, x) d) \<subseteq> insert (int i) (snd ` set d)"
  shows "snd ` set (fold f (enumerate n xs) d) \<subseteq> int ` {n..<n + length xs} \<union> snd ` set d"
proof (induction xs arbitrary: n d)
  case (Cons x xs)
  have "snd ` set (fold f (enumerate (Suc n) xs) (f (n, x) d))
      \<subseteq> int ` {Suc n..<Suc n + length xs} \<union> snd ` set (f (n, x) d)" by (rule Cons.IH)
  also have "\<dots> \<subseteq> int ` {Suc n..<Suc n + length xs} \<union> insert (int n) (snd ` set d)"
    by (rule Un_mono [OF subset_refl assms])
  also have "\<dots> = int ` insert n {Suc n..<Suc n + length xs} \<union> snd ` set d" by simp
  also have "insert n {Suc n..<Suc n + length xs} = {n..<n + length (x # xs)}" by auto
  finally show ?case by simp
qed simp

lemma explicit_causes:
  "snd ` set (explicit_guidance_updates ops) \<subseteq> int ` {..<length ops}"
proof -
  let ?f = "\<lambda>(index, op) updates. case op of
       UpdateNodesOperation us \<Rightarrow> fold (\<lambda>u updates. fold (\<lambda>field updates.
           if field \<in> set (keys (nu_changes u)) then AList.update (nu_id u, field) (int index) updates
           else updates) [''current_summary'', ''next_action''] updates) us updates
     | _ \<Rightarrow> updates"
  have item: "snd ` set (?f (i, op) d) \<subseteq> insert (int i) (snd ` set d)" for i op d
  proof (cases op)
    case (UpdateNodesOperation us)
    have "snd ` set (fold (\<lambda>u updates. fold (\<lambda>field updates.
           if field \<in> set (keys (nu_changes u)) then AList.update (nu_id u, field) (int i) updates
           else updates) [''current_summary'', ''next_action''] updates) us d) \<subseteq> insert (int i) (snd ` set d)"
    proof (induction us arbitrary: d)
      case (Cons u us)
      have "snd ` set (fold (\<lambda>field updates.
           if field \<in> set (keys (nu_changes u)) then AList.update (nu_id u, field) (int i) updates
           else updates) [''current_summary'', ''next_action''] d) \<subseteq> insert (int i) (snd ` set d)"
        by (rule fold_if_causes [where key = "\<lambda>field. (nu_id u, field)"])
      with Cons.IH show ?case unfolding fold_simps(2) [of _ u] comp_apply by blast
    qed auto
    then show ?thesis by (simp only: UpdateNodesOperation prod.case graph_operation.case)
  qed auto
  have "snd ` set (explicit_guidance_updates ops) \<subseteq> int ` {0..<0 + length ops} \<union> snd ` set ([] :: ((string \<times> string) \<times> int) list)"
    unfolding explicit_guidance_updates_def by (rule fold_enumerate_causes) (rule item)
  then show ?thesis by auto
qed

lemma guidance_action_sound:
  assumes "(op, c) \<in> set (guidance_actions st stale explicit)"
  shows "validate_guidance_operation op = Inr ()" and "c \<in> snd ` set stale \<union> snd ` set explicit"
proof -
  from assms obtain i n where "(op, c) \<in> set (map (\<lambda>cause. (guidance_update i
       (map snd (filter (\<lambda>(c, _). c = cause) (List.map_filter
          (desired_staleness n (dict_get stale i) explicit i) GUIDANCE_FIELDS))), cause))
       (sorted_set (map fst (List.map_filter (desired_staleness n (dict_get stale i) explicit i) GUIDANCE_FIELDS))))"
    by (auto simp: guidance_actions_def experiment_guidance_actions_def Let_def split: option.splits)
  moreover define changes where
    "changes = List.map_filter (desired_staleness n (dict_get stale i) explicit i) GUIDANCE_FIELDS"
  ultimately have op: "op = guidance_update i (map snd (filter (\<lambda>(c', _). c' = c) changes))"
    and c: "c \<in> fst ` set changes"
    by (auto simp: sorted_set_def)
  have change: "snd x \<in> {''current_summary_stale'', ''next_action_stale''} \<times> UNIV
      \<and> fst x \<in> snd ` set stale \<union> snd ` set explicit" if "x \<in> set changes" for x
    using that
    by (auto simp: changes_def List.map_filter_def GUIDANCE_FIELDS_def desired_staleness_def Let_def
        split: option.splits if_splits dest!: map_of_SomeD intro: rev_image_eqI)
  with c show "c \<in> snd ` set stale \<union> snd ` set explicit" by auto
  show "validate_guidance_operation op = Inr ()"
    using c change by (fastforce simp: op guidance_update_def filter_empty_conv list_ex_iff)
qed

section \<open>Indexes\<close>

lemma upto_nats: "map int [0..<n] @ [int n..int (n + m) - 1] = [0..int (n + m) - 1]"
proof (rule nth_equalityI)
  fix k assume "k < length (map int [0..<n] @ [int n..int (n + m) - 1])"
  then have "k < n + m" by simp
  then show "(map int [0..<n] @ [int n..int (n + m) - 1]) ! k = [0..int (n + m) - 1] ! k"
    by (simp add: nth_append)
qed simp

lemma index_error_none:
  assumes "length (pa_ops q) = n + m"
    and "concat (map ig_operation_indexes (tt_initiating_groups trace)) = map int [0..<n]"
    and "map ga_operation_index (tt_generated_actions trace) = [int n..int (n + m) - 1]"
  shows "index_error q trace = None"
proof -
  have "sorted (map int [0..<n] @ [int n..int (n + m) - 1])" unfolding upto_nats by simp
  then have "sort (map int [0..<n] @ [int n..int (n + m) - 1]) = [0..int (n + m) - 1]"
    unfolding upto_nats by (simp add: sorted_sort_id)
  moreover have "sort (map int [0..<n]) = map int [0..<n]"
    by (simp add: sorted_sort_id sorted_map sorted_wrt_upt)
  moreover have "sort [int n..int (n + m) - 1] = [int n..int (n + m) - 1]" by (simp add: sorted_sort_id)
  moreover have "Min (set [int n..int (n + m) - 1]) = int n" if "m \<noteq> 0"
    using that by (intro Min_eqI) auto
  ultimately show ?thesis
    unfolding index_error_def Let_def assms
    by (auto simp: distinct_map list_ex_iff assms(1))
qed

section \<open>Event checks\<close>

lemma events_pass:
  assumes "\<And>e. e \<in> set pending \<Longrightarrow> fst e < bound"
  shows "\<exists>known'. fold_r (check_event D tid bound)
     (enumerate k (map (\<lambda>(ordinal, e). event_of D tid ordinal e) (enumerate k pending))) known = Inr known'"
  using assms
proof (induction pending arbitrary: k known)
  case (Cons e pending)
  obtain c i f old new t where e: "e = (c, i, f, old, new, t)" by (cases e)
  have "\<exists>known1. check_event D tid bound (k, event_of D tid k e) known = Inr known1"
    using Cons.prems [of e] by (simp add: e check_event_def event_of_def)
  with Cons show ?case by auto
qed simp

lemma status_event_causes: "e \<in> set (status_events b step) \<Longrightarrow> fst e = fst step"
  by (cases step) (auto simp: status_events_def List.map_filter_def Let_def split: if_splits)

lemma guidance_event_causes: "e \<in> set (guidance_events ops step) \<Longrightarrow> fst e = fst step"
  by (cases step) (auto simp: guidance_events_def Let_def split: graph_operation.splits)

lemma apply_steps_indexes: "apply_steps A i xs st = Inr (steps, st') \<Longrightarrow> map fst steps = map int [i..<i + length xs]"
proof (induction xs arbitrary: i st steps)
  case (Cons x xs)
  then obtain st1 rest where "apply_steps A (Suc i) xs st1 = Inr (rest, st')" and "steps = (int i, st, st1) # rest"
    by (cases x) (auto simp: result_simps)
  moreover have "[i..<i + length (x # xs)] = i # [Suc i..<Suc i + length xs]"
    using upt_conv_Cons [of i "Suc i + length xs"] by (simp del: upt_Suc)
  ultimately show ?case using Cons.IH [of "Suc i" st1 rest] by simp
qed simp

lemma generated_steps_indexes:
  "apply_generated_steps A p xs st = Inr (steps, st') \<Longrightarrow> map fst steps = map fst xs"
proof (induction xs arbitrary: st steps)
  case (Cons x xs)
  then show ?case by (cases x) (auto simp: result_simps)
qed simp

lemma map_r_all: "(\<And>x. x \<in> set xs \<Longrightarrow> f x = Inr (g x)) \<Longrightarrow> map_r f xs = Inr (map g xs)"
  by (induction xs) simp_all

section \<open>The generated half of a trace\<close>

text \<open>The references a transition writes for its generated actions, after \<open>n\<close> initiating ones.\<close>

definition generated_refs :: "nat \<Rightarrow> (graph_operation \<times> int) list \<Rightarrow> transition_generated_action list" where
  "generated_refs n generated = map generated_action
     (zip [int n..int (n + length generated) - 1] (map snd generated))"

lemma generated_ref_indexes:
  "map ga_operation_index (generated_refs n generated) = [int n..int (n + length generated) - 1]"
proof -
  have "map ga_operation_index (generated_refs n generated)
      = map fst (zip [int n..int (n + length generated) - 1] (map snd generated))"
    by (simp add: generated_refs_def generated_action_def comp_def split_beta)
  then show ?thesis by simp
qed

lemma generated_refs_operations:
  assumes "pa_ops q = ops @ map fst generated"
  shows "map (\<lambda>i. (ga_operation_index i, pa_ops q ! nat (ga_operation_index i))) (generated_refs (length ops) generated)
    = zip [int (length ops)..int (length ops + length generated) - 1] (map fst generated)"
proof (rule nth_equalityI)
  fix k assume "k < length (map (\<lambda>i. (ga_operation_index i, pa_ops q ! nat (ga_operation_index i)))
    (generated_refs (length ops) generated))"
  then have "k < length generated" by (simp add: generated_refs_def)
  moreover have "nat (int (length ops) + int k) = length ops + k" by simp
  ultimately show "map (\<lambda>i. (ga_operation_index i, pa_ops q ! nat (ga_operation_index i)))
      (generated_refs (length ops) generated) ! k
    = zip [int (length ops)..int (length ops + length generated) - 1] (map fst generated) ! k"
    by (simp add: generated_refs_def generated_action_def assms nth_append)
qed (simp add: generated_refs_def)

lemma generated_refs_checked:
  assumes "pa_ops q = ops @ map fst generated"
    and "\<And>op c. (op, c) \<in> set generated \<Longrightarrow> validate_guidance_operation op = Inr () \<and> c < int (length ops)"
  shows "map_r (check_generated_action q) (generated_refs (length ops) generated)
    = Inr (map (\<lambda>_. ()) (generated_refs (length ops) generated))"
proof (rule map_r_all)
  fix r assume "r \<in> set (generated_refs (length ops) generated)"
  then obtain k where k: "k < length generated"
    and r: "r = generated_action (int (length ops) + int k, snd (generated ! k))"
    by (auto simp: generated_refs_def in_set_zip)
  have "nat (int (length ops) + int k) = length ops + k" by simp
  then have "pa_ops q ! nat (int (length ops) + int k) = fst (generated ! k)"
    using k by (simp add: assms(1) nth_append)
  moreover have "(fst (generated ! k), snd (generated ! k)) \<in> set generated" using k by simp
  from assms(2) [OF this] have "validate_guidance_operation (fst (generated ! k)) = Inr ()"
    and "snd (generated ! k) < int (length ops)" by simp_all
  ultimately show "check_generated_action q r = Inr ()"
    by (simp add: r check_generated_action_def generated_action_def GUIDANCE_RULE_IDS_def)
qed

section \<open>Preparation, inverted\<close>

text \<open>The trace that preparation records, from the two halves of its timeline.\<close>

definition prepared_id ::
  "digests \<Rightarrow> graph_head_ref \<Rightarrow> patch list \<Rightarrow> (graph_operation \<times> int) list \<Rightarrow> string" where
  "prepared_id D head ps generated = transition_id D head ps (initiating_groups 0 0 ps) (all_ops ps)
     TRANSITION_RULESET_TAG (generated_refs (length (all_ops ps)) generated)"

definition prepared_trace ::
  "digests \<Rightarrow> graph_head_ref \<Rightarrow> patch list \<Rightarrow> (graph_operation \<times> int) list \<Rightarrow> timeline \<Rightarrow> timeline \<Rightarrow>
   transition_trace" where
  "prepared_trace D head ps generated steps gsteps =
     \<lparr>tt_transition_id = prepared_id D head ps generated, tt_pre_head = head,
      tt_ruleset_tag = TRANSITION_RULESET_TAG, tt_initiating_groups = initiating_groups 0 0 ps,
      tt_generated_actions = generated_refs (length (all_ops ps)) generated,
      tt_lifecycle_events = lifecycle_events D (prepared_id D head ps generated) steps gsteps
        (all_ops ps @ map fst generated) TRANSITION_RULESET_TAG,
      tt_expanded_ops_sha256 = dg_operations D (all_ops ps @ map fst generated)\<rparr>"

text \<open>The generated operations with their positions in the combined patch.\<close>

abbreviation placed_actions :: "patch list \<Rightarrow> (graph_operation \<times> int) list \<Rightarrow> (int \<times> graph_operation) list" where
  "placed_actions ps generated \<equiv>
     zip [int (length (all_ops ps))..int (length (all_ops ps) + length generated) - 1] (map fst generated)"

lemma preparedE:
  assumes "prepare_validated A D mx st ps pre = Inr (q, persisted)"
  obtains head steps initiated generated gsteps where
    "initiating_error st ps head = None"
    and "apply_timeline A st (source_actions ps) = Inr (steps, initiated)"
    and "generated = guidance_actions initiated (dependency_change_causes steps)
      (explicit_guidance_updates (all_ops ps))"
    and "apply_generated_steps A (hd ps) (placed_actions ps generated) initiated = Inr (gsteps, persisted)"
    and "combined_patch ps (all_ops ps @ map fst generated)
      (prepared_trace D head ps generated steps gsteps) = Inr q"
    and "length generated \<le> mx" and "apply_valid_patch A st q = Inr persisted"
proof -
  define head where "head = (case pre of Some h \<Rightarrow> h | None \<Rightarrow>
            \<lparr>gh_target = MAIN_TARGET, gh_revision = g_revision st, gh_transition_id = None\<rparr>)"
  note prep = assms [unfolded prepare_validated_def Let_def, folded head_def,
      unfolded source_actions_ops length_source_actions]
  have ok: "initiating_error st ps head = None" using prep by (auto split: option.splits)
  note prep = prep [unfolded ok option.case]
  then obtain steps initiated where tl: "apply_timeline A st (source_actions ps) = Inr (steps, initiated)"
    by (auto simp: bind_r_Inr)
  define generated where "generated = guidance_actions initiated (dependency_change_causes steps)
      (explicit_guidance_updates (all_ops ps))"
  note prep = prep [unfolded tl bind_r.simps prod.case, folded generated_def]
  have fsts: "map fst (placed_actions ps generated) =
      [int (length (all_ops ps))..int (length (all_ops ps) + length generated) - 1]"
    by simp
  note prep = prep [unfolded fsts, folded generated_refs_def prepared_id_def]
  then obtain gsteps final where gs:
    "apply_generated_steps A (hd ps) (placed_actions ps generated) initiated = Inr (gsteps, final)"
    by (auto simp: bind_r_Inr split: if_splits)
  note prep = prep [unfolded gs bind_r.simps prod.case, folded prepared_id_def prepared_trace_def]
  show ?thesis
    by (rule that [OF ok tl generated_def])
      (use prep gs in \<open>auto simp: bind_r_Inr split: if_splits\<close>)
qed

section \<open>Validation\<close>

lemma initiating_error_none:
  assumes "initiating_error st ps head = None"
  shows "ps \<noteq> []" and "gh_revision head = g_revision st"
    and "p \<in> set ps \<Longrightarrow> pa_revision p = pa_revision (hd ps) \<and> pa_transition p = None
      \<and> envelope_of p = envelope_of (hd ps) \<and> pa_ops p \<noteq> []"
proof -
  show "ps \<noteq> []" and "gh_revision head = g_revision st"
    using assms by (simp_all add: initiating_error_def split: if_splits)
  have "\<not> list_ex (\<lambda>p. pa_revision p \<noteq> pa_revision (hd ps)) ps \<and> \<not> list_ex (\<lambda>p. pa_transition p \<noteq> None) ps
      \<and> \<not> list_ex (\<lambda>p. envelope_of p \<noteq> envelope_of (hd ps)) ps \<and> \<not> list_ex (\<lambda>p. pa_ops p = []) ps"
    using assms by (simp add: initiating_error_def split: if_splits)
  then show "p \<in> set ps \<Longrightarrow> pa_revision p = pa_revision (hd ps) \<and> pa_transition p = None
      \<and> envelope_of p = envelope_of (hd ps) \<and> pa_ops p \<noteq> []"
    unfolding list_ex_iff by blast
qed

lemma timeline_steps:
  assumes "apply_timeline A st xs = Inr (steps, st')"
  shows "\<exists>st1. apply_steps A 0 xs st = Inr (steps, st1)"
  using assms by (cases xs) (auto simp: apply_timeline_def bind_r_Inr simp del: apply_steps.simps)

lemma envelope_stamps:
  assumes "envelope_of q = envelope_of p" and "pa_revision q = pa_revision p"
  shows "same_stamps p q"
  using assms by (simp add: same_stamps_def envelope_of_def)

lemma combined_fields:
  assumes "combined_patch ps ops trace = Inr q"
  shows "pa_ops q = ops" and "pa_transition q = Some trace" and "same_stamps (hd ps) q"
  using assms by (auto simp: combined_patch_def same_stamps_def result_simps)

lemma prepared_events_pass:
  assumes "apply_steps A 0 xs st = Inr (steps, st1)"
    and "apply_generated_steps A p (zip [int (length xs)..int (length xs + m) - 1] gops) st2 = Inr (gsteps, st3)"
  shows "\<exists>known. fold_r (check_event D tid (int (length xs + m)))
     (enumerate 0 (lifecycle_events D tid steps gsteps ops tag)) [] = Inr known"
  unfolding lifecycle_events_def Let_def
proof (rule events_pass)
  fix e assume "e \<in> set (concat (map (status_events (tag \<in> set LIFECYCLE_FIELD_RULESETS)) steps)
     @ concat (map (guidance_events ops) gsteps))"
  then have "fst e \<in> set (map fst steps) \<union> set (map fst gsteps)"
    by (auto dest!: status_event_causes guidance_event_causes)
  moreover have "set (map fst steps) = int ` {0..<length xs}"
    using apply_steps_indexes [OF assms(1)] by simp
  moreover have "set (map fst gsteps) \<subseteq> {int (length xs)..int (length xs + m) - 1}"
    unfolding generated_steps_indexes [OF assms(2)] by (auto dest: set_zip_leftD)
  ultimately show "fst e < int (length xs + m)" by auto
qed

text \<open>The sources that validation reads back have the provenance and revision of the originals.\<close>

lemma sources_recovered:
  assumes "initiating_error st ps head = None" and "combined_patch ps ops trace = Inr q"
    and "\<And>p. p \<in> set ps \<Longrightarrow> plain_lists p" and "p \<in> set ps"
  shows "envelope_of (source_of q p) = envelope_of p \<and> pa_revision (source_of q p) = pa_revision p
    \<and> same_stamps p (source_of q p)"
proof -
  note ini = initiating_error_none(3) [OF assms(1)]
  have "envelope_of (source_of q p) = envelope_of p"
    using ini by (intro combined_provenance [OF assms(2,4)] assms(3)) auto
  moreover have "pa_revision (source_of q p) = pa_revision p"
    using combined_fields(3) [OF assms(2)] ini [OF assms(4)] by (simp add: source_of_def same_stamps_def)
  ultimately show ?thesis by (simp add: envelope_stamps)
qed

text \<open>The generated actions pass, because each cites an initiating action.\<close>

lemma generated_sound:
  assumes "apply_timeline A st (source_actions ps) = Inr (steps, initiated)"
    and "(op, c) \<in> set (guidance_actions initiated (dependency_change_causes steps)
      (explicit_guidance_updates (all_ops ps)))"
  shows "validate_guidance_operation op = Inr () \<and> c < int (length (all_ops ps))"
proof -
  from timeline_steps [OF assms(1)] obtain st1 where
    as: "apply_steps A 0 (source_actions ps) st = Inr (steps, st1)" ..
  have "fst ` set steps = int ` {..<length (all_ops ps)}"
    using arg_cong [OF apply_steps_indexes [OF as], of set]
    by (simp add: length_source_actions lessThan_atLeast0)
  then show ?thesis
    using guidance_action_sound [OF assms(2)] dependency_causes [of steps] explicit_causes [of "all_ops ps"]
    by auto
qed

text \<open>A recorded trace passes its checks when its sources replay the two halves of the timeline.\<close>

lemma trace_accepted:
  assumes "initiating_error st ps head = None"
    and "combined_patch ps (all_ops ps @ map fst generated)
      (prepared_trace D head ps generated steps gsteps) = Inr q"
    and "map envelope_of (map (source_of q) ps) = map envelope_of ps"
    and gens: "\<And>op c. (op, c) \<in> set generated \<Longrightarrow>
      validate_guidance_operation op = Inr () \<and> c < int (length (all_ops ps))"
    and tl: "apply_timeline A st (source_actions (map (source_of q) ps)) = Inr (steps', initiated')"
    and gs: "apply_generated_steps A q (placed_actions ps generated) initiated' = Inr (gsteps', final')"
    and same: "list_all2 same_step steps steps'" "list_all2 same_step gsteps gsteps'"
  shows "validate_transition_trace A D st q = Inr (map (source_of q) ps)"
proof -
  let ?trace = "prepared_trace D head ps generated steps gsteps"
  note ini = initiating_error_none [OF assms(1)] and q = combined_fields [OF assms(2)]
  have sources: "map (source_patch_for_group q) (initiating_groups 0 0 ps) = map (source_of q) ps"
    using source_patches_recovered [of q "[]" ps "map fst generated" 0] q(1) by simp
  have ops: "all_ops (map (source_of q) ps) = all_ops ps" by (simp add: source_of_def comp_def)
  have "all_ops ps \<noteq> []" using ini(1,3) by (cases ps) auto
  then have ne: "source_actions (map (source_of q) ps) \<noteq> []"
    using source_actions_ops [of "map (source_of q) ps", unfolded ops] by (metis list.map_disc_iff)
  have idx: "index_error q ?trace = None"
    by (rule index_error_none [where n = "length (all_ops ps)" and m = "length generated"])
      (simp_all add: q(1) prepared_trace_def group_indexes generated_ref_indexes)
  have events: "lifecycle_events D tid steps' gsteps' (pa_ops q) tag = lifecycle_events D tid steps gsteps
      (all_ops ps @ map fst generated) tag" for tid tag
    unfolding q(1) by (rule lifecycle_events_alike [OF same])
  from timeline_steps [OF tl] obtain st1 where
    as: "apply_steps A 0 (source_actions (map (source_of q) ps)) st = Inr (steps', st1)" ..
  have known: "\<exists>known. fold_r (check_event D tid (int (length (pa_ops q))))
     (enumerate 0 (lifecycle_events D tid steps' gsteps' ops' tag)) [] = Inr known" for tid ops' tag
    using prepared_events_pass [OF as, of q "length generated"] gs
    unfolding length_source_actions ops by (auto simp: q(1))
  have flds: "tt_initiating_groups ?trace = initiating_groups 0 0 ps" "tt_pre_head ?trace = head"
    "tt_generated_actions ?trace = generated_refs (length (all_ops ps)) generated"
    "dg_operations D (pa_ops q) = tt_expanded_ops_sha256 ?trace"
    "tt_ruleset_tag ?trace = TRANSITION_RULESET_TAG"
    "tt_transition_id ?trace = prepared_id D head ps generated"
    "tt_lifecycle_events ?trace = lifecycle_events D (prepared_id D head ps generated) steps' gsteps'
       (pa_ops q) TRANSITION_RULESET_TAG"
    by (simp_all add: prepared_trace_def q(1) events [unfolded q(1)])
  have tid: "transition_id D head (map (source_of q) ps) (initiating_groups 0 0 ps) (all_ops ps)
     TRANSITION_RULESET_TAG (generated_refs (length (all_ops ps)) generated) = prepared_id D head ps generated"
    unfolding prepared_id_def transition_id_def assms(3) ..
  have checked: "\<exists>us. map_r (check_generated_action q) (generated_refs (length (all_ops ps)) generated) = Inr us"
    using generated_refs_checked [OF q(1)] gens by blast
  show ?thesis
    using known checked
    unfolding validate_transition_trace_def q(2) option.case Let_def flds(1-3,5-7) sources source_actions_ops ops
      tid idx bind_r.simps tl prod.case
      generated_refs_operations [OF q(1)] gs
    by (auto simp: ini(2) flds(4) ne bind_r_Inr)
qed

text \<open>A transition that was prepared is accepted again, with the sources it was prepared from.\<close>

lemma prepared_transition_validates:
  assumes "prepare_validated A D mx st ps pre = Inr (q, persisted)"
    and plain: "\<And>p. p \<in> set ps \<Longrightarrow> plain_lists p"
  shows "validate_transition_trace A D st q = Inr (map (source_of q) ps)"
    and "p \<in> set ps \<Longrightarrow> envelope_of (source_of q p) = envelope_of p \<and> pa_revision (source_of q p) = pa_revision p"
proof -
  obtain head steps initiated generated gsteps where
    ok: "initiating_error st ps head = None"
    and tl: "apply_timeline A st (source_actions ps) = Inr (steps, initiated)"
    and gen: "generated = guidance_actions initiated (dependency_change_causes steps)
      (explicit_guidance_updates (all_ops ps))"
    and gs: "apply_generated_steps A (hd ps) (placed_actions ps generated) initiated = Inr (gsteps, persisted)"
    and comb: "combined_patch ps (all_ops ps @ map fst generated)
      (prepared_trace D head ps generated steps gsteps) = Inr q"
    by (rule preparedE [OF assms(1)])
  note sources = sources_recovered [OF ok comb plain]
  have "list_all2 same_action (source_actions ps) (source_actions (map (source_of q) ps))"
    using initiating_error_none(3) [OF ok] sources
    by (intro source_actions_alike conjI) (auto simp: source_of_def)
  from timeline_follows [OF this tl] obtain steps' initiated' where
    tl': "apply_timeline A st (source_actions (map (source_of q) ps)) = Inr (steps', initiated')"
    and c: "core initiated' = core initiated" and steps: "list_all2 same_step steps steps'" by blast
  from generated_follow [OF combined_fields(3) [OF comb] c [symmetric] gs] obtain gsteps' final' where
    gs': "apply_generated_steps A q (placed_actions ps generated) initiated' = Inr (gsteps', final')"
    and gsteps: "list_all2 same_step gsteps gsteps'" by blast
  show "validate_transition_trace A D st q = Inr (map (source_of q) ps)"
    using sources generated_sound [OF tl] gen
    by (intro trace_accepted [OF ok comb _ _ tl' gs' steps gsteps]) simp_all
  show "p \<in> set ps \<Longrightarrow> envelope_of (source_of q p) = envelope_of p \<and> pa_revision (source_of q p) = pa_revision p"
    using sources by blast
qed

end
