(* ===== verification/Experiment_Runtime.thy ===== *)
theory Experiment_Runtime
  imports Approval_Rules
begin

text \<open>
  The control state of an Experiment loop (\<open>control.py\<close>): whether a new episode may start and
  why not, whether a watcher may wake the next invocation, which attempts a human releases,
  and the nodes and edges of the current flow. A reason is the fact its prose states; the clock
  is an argument.
\<close>

section \<open>Releasing attempts\<close>

definition attempt_id :: "val dict \<Rightarrow> string option" where
  "attempt_id d = (case dict_get d ''id'' of Some (VStr i) \<Rightarrow> Some i | _ \<Rightarrow> None)"

definition open_attempt_ids :: "project_node \<Rightarrow> string list" where
  "open_attempt_ids n = List.map_filter attempt_id
     (filter (\<lambda>d. attempt_status_in d ACTIVE_EXPERIMENT_ATTEMPT_STATUSES) (attempts_of n))"

definition release_attempt :: "int \<Rightarrow> val dict \<Rightarrow> val dict" where
  "release_attempt now d =
     AList.update ''failure_reason'' (VStr ''Released by the human.'')
       (AList.update ''finished_at'' (VTime now) (AList.update ''status'' (VStr ''cancelled'') d))"

definition released_attempts ::
  "node_adapter \<Rightarrow> int \<Rightarrow> project_node \<Rightarrow> string list \<Rightarrow> val list result" where
  "released_attempts A now n attempt_ids =
     (if \<not> is_experiment n then Inl (ValueError ''no attempts to release'')
      else if \<not> set attempt_ids \<subseteq> set (open_attempt_ids n)
        then Inl (ValueError ''no open attempt named'')
      else Inr (map (\<lambda>d. VDict (json_dict A
        (if attempt_id d \<in> Some ` set attempt_ids then release_attempt now d else d))) (attempts_of n)))"

section \<open>Operational state\<close>

datatype agent_failure_kind = Transport_lost | Provider_auth | Session_refused

record experiment_session_binding =
  sb_provider :: "string option"
  sb_model :: "string option"
  sb_reasoning :: "string option"
  sb_run_on :: "string option"
  sb_run_truth_scope :: "string list option"
  sb_native_session_bound :: bool
  sb_diagnostic :: "string option"

record experiment_operational_state =
  eo_task_active :: bool
  eo_detached_work_active :: bool
  eo_watcher_degraded :: bool
  eo_watcher_completion_pending :: bool
  eo_watcher_delivery_diagnostic :: "string option"
  eo_episode_exited :: bool
  eo_episode_live :: bool
  eo_stop_requested :: bool
  eo_stop_settled :: bool
  eo_chat_id :: "string option"
  eo_current_operation_id :: "string option"
  eo_current_status :: "string option"
  eo_current_queued :: bool
  eo_current_active :: bool
  eo_current_awaiting_human :: bool
  eo_current_phase :: "string option"
  eo_current_status_message :: "string option"
  eo_current_failure_kind :: "agent_failure_kind option"
  eo_current_last_activity_at :: "string option"
  eo_current_invocation :: "int option"
  eo_session :: experiment_session_binding

definition default_operational :: experiment_operational_state where
  "default_operational = \<lparr>eo_task_active = False, eo_detached_work_active = False,
     eo_watcher_degraded = False, eo_watcher_completion_pending = False,
     eo_watcher_delivery_diagnostic = None, eo_episode_exited = False, eo_episode_live = False,
     eo_stop_requested = False, eo_stop_settled = False, eo_chat_id = None,
     eo_current_operation_id = None, eo_current_status = None, eo_current_queued = False,
     eo_current_active = False, eo_current_awaiting_human = False, eo_current_phase = None,
     eo_current_status_message = None, eo_current_failure_kind = None,
     eo_current_last_activity_at = None, eo_current_invocation = None,
     eo_session = \<lparr>sb_provider = None, sb_model = None, sb_reasoning = None, sb_run_on = None,
       sb_run_truth_scope = None, sb_native_session_bound = False, sb_diagnostic = None\<rparr>\<rparr>"

definition stopping :: "experiment_operational_state \<Rightarrow> bool" where
  "stopping o1 = (eo_stop_requested o1 \<and> \<not> eo_stop_settled o1)"

section \<open>Control state\<close>

definition CLOSED_EXPERIMENT_STATUSES :: "string list" where
  "CLOSED_EXPERIMENT_STATUSES = [''completed'', ''abandoned'', ''superseded'']"

datatype control_reason =
    Gate gate_reason
  | Experiment_closed
  | Loop_active
  | Stop_finishing
  | Detached_running
  | Episode_open
  | Watcher_diagnostic string

record experiment_control_state =
  ec_ready :: bool
  ec_reasons :: "control_reason list"
  ec_graph_reasons :: "gate_reason list"
  ec_isolated_start_reasons :: "control_reason list"
  ec_invocations_used :: int
  ec_invocation_ceiling :: int
  ec_invocations_remaining :: int
  ec_episode_id :: "string option"
  ec_paused :: bool
  ec_active :: bool
  ec_governing_decisions :: "experiment_decision_pin list"
  ec_decision_drift :: "(experiment_decision_pin \<times> val option \<times> val option) list"
  ec_operational :: experiment_operational_state

text \<open>The runtime fields of an episode: both or neither of the id and the rest.\<close>

definition episode_limits ::
  "project_node \<Rightarrow> string option \<Rightarrow> int \<Rightarrow> int option \<Rightarrow> experiment_decision_pin list option \<Rightarrow>
   (int \<times> experiment_decision_pin list) result" where
  "episode_limits n episode_id invocations_used invocation_ceiling bundle = (case episode_id of
     None \<Rightarrow>
       if invocation_ceiling \<noteq> None \<or> invocations_used \<noteq> 0 \<or> bundle \<noteq> None
         then Inl (ValueError ''Loop runtime fields require an episode id.'')
       else (case node_attr n ''invocation_ceiling'' of
           Some (VInt c) \<Rightarrow> Inr (c, [])
         | _ \<Rightarrow> Inl (AttributeError ''invocation_ceiling''))
   | Some _ \<Rightarrow> (case invocation_ceiling of
         None \<Rightarrow> Inl (ValueError ''must retain its pinned invocation ceiling'')
       | Some c \<Rightarrow>
           if invocations_used < 1 then Inl (ValueError ''must have at least one invocation'')
           else (case bundle of
               None \<Rightarrow> Inl (ValueError ''must retain its pinned decision bundle'')
             | Some pins \<Rightarrow> Inr (c, pins))))"

definition operational_reasons ::
  "bool \<Rightarrow> bool \<Rightarrow> int \<Rightarrow> int \<Rightarrow> experiment_operational_state option \<Rightarrow> control_reason list" where
  "operational_reasons active detached_work_active invocations_used ceiling operational =
     (let holds = (\<lambda>P. case operational of None \<Rightarrow> False | Some s \<Rightarrow> P s);
          first = (if active then [Loop_active] else [])
            @ (if holds stopping then [Stop_finishing] else [])
            @ (if detached_work_active \<and> invocations_used \<ge> ceiling then [Detached_running] else []);
          second = first @ (if holds eo_episode_live \<and> first = [] then [Episode_open] else [])
      in second @ (case operational of
           None \<Rightarrow> []
         | Some s \<Rightarrow> (case eo_watcher_delivery_diagnostic s of
               Some d \<Rightarrow> if eo_watcher_completion_pending s \<and> \<not> eo_detached_work_active s \<and> d \<noteq> []
                 then [Watcher_diagnostic d] else []
             | None \<Rightarrow> [])))"

text \<open>The model of the result refuses a negative count and a ceiling below one.\<close>

definition derive_experiment_control_state ::
  "graph_state \<Rightarrow> string \<Rightarrow> string list \<Rightarrow> string option \<Rightarrow> int \<Rightarrow> int option \<Rightarrow> bool \<Rightarrow> bool \<Rightarrow>
   experiment_decision_pin list option \<Rightarrow> experiment_operational_state option \<Rightarrow>
   experiment_control_state result" where
  "derive_experiment_control_state st experiment_id active_ids episode_id invocations_used
     invocation_ceiling paused detached_work_active bundle operational =
     (case experiment_node st (Some experiment_id) of
        None \<Rightarrow> Inl (ValueError ''not an Experiment'')
      | Some n \<Rightarrow>
          bind_r (experiment_graph_precondition_reasons st experiment_id) (\<lambda>gates.
          bind_r (episode_limits n episode_id invocations_used invocation_ceiling bundle)
            (\<lambda>(ceiling, pins).
          (let fresh = (if attr_in n ''status'' CLOSED_EXPERIMENT_STATUSES then [Experiment_closed] else []);
               active = (experiment_id \<in> set active_ids);
               reasons = map Gate gates @ fresh
                 @ operational_reasons active detached_work_active invocations_used ceiling operational
           in if invocations_used < 0 \<or> ceiling < 1 then Inl (ValueError ''control state'')
              else Inr \<lparr>ec_ready = (reasons = []), ec_reasons = reasons, ec_graph_reasons = gates,
                ec_isolated_start_reasons = map Gate gates @ fresh,
                ec_invocations_used = invocations_used, ec_invocation_ceiling = ceiling,
                ec_invocations_remaining = max (ceiling - invocations_used) 0,
                ec_episode_id = episode_id, ec_paused = paused, ec_active = active,
                ec_governing_decisions = governing_decision_bundle st experiment_id,
                ec_decision_drift = decision_drift st pins,
                ec_operational = (case operational of None \<Rightarrow> default_operational | Some s \<Rightarrow> s)\<rparr>))))"

section \<open>Waking a loop\<close>

record experiment_invocation_admission =
  ia_episode_id :: string
  ia_invocation :: int
  ia_invocation_ceiling :: int
  ia_decision_bundle :: "experiment_decision_pin list"

definition admit_experiment_watcher_invocation ::
  "graph_state \<Rightarrow> string \<Rightarrow> string option \<Rightarrow> int \<Rightarrow> int option \<Rightarrow> experiment_decision_pin list option \<Rightarrow>
   bool \<Rightarrow> bool \<Rightarrow> bool \<Rightarrow> experiment_invocation_admission option result" where
  "admit_experiment_watcher_invocation st experiment_id episode_id invocations_used
     invocation_ceiling bundle task_active episode_exited stop_requested =
     (case (episode_id, invocation_ceiling, bundle) of
        (None, _, _) \<Rightarrow> Inl (ValueError ''cannot wake without an authorized episode'')
      | (Some _, None, _) \<Rightarrow> Inl (ValueError ''cannot wake without its pinned ceiling'')
      | (Some e, Some ceiling, pins) \<Rightarrow>
          if invocations_used < 1 then Inl (ValueError ''cannot wake before invocation 1'')
          else (case pins of
              None \<Rightarrow> Inl (ValueError ''cannot wake without pinned decisions'')
            | Some pins \<Rightarrow>
                if task_active \<or> episode_exited \<or> stop_requested then Inr None
                else if invocations_used \<ge> ceiling then Inr None
                else
                  bind_r (experiment_graph_precondition_reasons st experiment_id) (\<lambda>gates.
                  if gates \<noteq> [] then Inr None
                  else Inr (Some \<lparr>ia_episode_id = e, ia_invocation = invocations_used + 1,
                         ia_invocation_ceiling = ceiling, ia_decision_bundle = pins\<rparr>))))"

section \<open>The current flow\<close>

definition is_active_flow_node :: "bool \<Rightarrow> project_node \<Rightarrow> bool" where
  "is_active_flow_node include_resolved_blockers n =
     (\<not> (n_type n = ''blocker'' \<and> node_attr n ''status'' = Some (VStr ''resolved'')
         \<and> \<not> include_resolved_blockers))"

record active_flow =
  af_revision :: int
  af_node_ids :: "string list"
  af_edge_ids :: "string list"

definition active_flow_projection :: "bool \<Rightarrow> graph_state \<Rightarrow> active_flow" where
  "active_flow_projection include_resolved_blockers st =
     (let node_ids = sort (map fst (filter (\<lambda>(_, n). is_active_flow_node include_resolved_blockers n)
            (g_nodes st)))
      in \<lparr>af_revision = g_revision st, af_node_ids = node_ids,
          af_edge_ids = sort (map fst (filter (\<lambda>(_, e). e_source e \<in> set node_ids
            \<and> e_target e \<in> set node_ids) (g_edges st)))\<rparr>)"

end
