(* ===== verification/Control_Properties.thy ===== *)
theory Control_Properties
  imports Experiment_Runtime Graph_Properties Value_Laws
begin

text \<open>
  What the control of an Experiment loop guarantees: a ready Experiment is governed by decided
  choices and held back by nothing, a loop never passes its pinned ceiling, and an attempt
  release that control builds is one that validation accepts.
\<close>

section \<open>Readiness\<close>

lemma no_gates:
  assumes "experiment_graph_precondition_reasons st x = Inr []"
  shows "t \<in> set (related_targets st x ''governed_by'') \<Longrightarrow> \<exists>d. node_of_type st ''decision'' t = Some d
      \<and> is_decided d \<and> has_selection d \<and> \<not> has_pending_proposal st t"
    and "t \<in> set (related_targets st x ''blocked_by'') \<Longrightarrow> \<exists>b. node_of_type st ''blocker'' t = Some b
      \<and> node_attr b ''status'' \<noteq> Some (VStr ''open'')"
proof -
  have "decision_reasons st t = []" if "t \<in> set (related_targets st x ''governed_by'')"
    using assms that by (auto simp: experiment_graph_precondition_reasons_def split: if_splits)
  then show "t \<in> set (related_targets st x ''governed_by'') \<Longrightarrow> \<exists>d. node_of_type st ''decision'' t = Some d
      \<and> is_decided d \<and> has_selection d \<and> \<not> has_pending_proposal st t"
    by (auto simp: decision_reasons_def split: option.splits if_splits)
  have "blocker_reasons st t = []" if "t \<in> set (related_targets st x ''blocked_by'')"
    using assms that by (auto simp: experiment_graph_precondition_reasons_def split: if_splits)
  then show "t \<in> set (related_targets st x ''blocked_by'') \<Longrightarrow> \<exists>b. node_of_type st ''blocker'' t = Some b
      \<and> node_attr b ''status'' \<noteq> Some (VStr ''open'')"
    by (auto simp: blocker_reasons_def split: option.splits if_splits)
qed

lemma wf_node_of_type:
  assumes "graph_wf st" and "node_of_type st t i = Some n"
  shows "dict_get (g_nodes st) i = Some n" and "n_id n = i" and "n_type n = t" and "conforming_node n"
  using assms
  by (auto simp: node_of_type_def graph_wf_def keyed_def list_all_iff split: option.splits if_splits
      dest!: map_of_SomeD)

lemma decision_selection:
  assumes "conforming_node d" and "n_type d = ''decision''" and "has_selection d"
  shows "\<exists>c cs. node_attr d ''selected_option'' = Some (VStr (c # cs))"
proof -
  have field: "content_field ''selected_option'' AStrOpt (Some VNone) \<in> set (own_fields ''decision'')"
    by code_simp
  have "\<forall>f \<in> set (own_fields ''decision''). case node_attr d (fd_name f) of
      None \<Rightarrow> False | Some v \<Rightarrow> allows (fd_annotation f) v"
    using assms(1,2) by (simp add: conforming_node_def list_all_iff)
  from bspec [OF this field]
  have "case node_attr d ''selected_option'' of None \<Rightarrow> False | Some v \<Rightarrow> allows AStrOpt v"
    by (simp cong: option.case_cong)
  with assms(3) show ?thesis
    by (auto simp: has_selection_def neq_Nil_conv split: option.splits elim!: is_VStr.elims)
qed

lemma pinned_decision:
  assumes "graph_wf st" and "t \<in> set (related_targets st x ''governed_by'')"
    and "node_of_type st ''decision'' t = Some d" and "is_decided d" and "has_selection d"
  shows "\<exists>pin \<in> set (governing_decision_bundle st x). dp_decision_id pin = t
    \<and> dp_decision_revision pin = n_updated_rev d
    \<and> node_attr d ''selected_option'' = Some (VStr (dp_selected_option pin))"
proof -
  note d = wf_node_of_type [OF assms(1,3)]
  from decision_selection [OF d(4,3) assms(5)] obtain c cs where
    "node_attr d ''selected_option'' = Some (VStr (c # cs))" by blast
  with assms(2-4) d(2) show ?thesis
    by (force simp: governing_decision_bundle_def List.map_filter_def)
qed

lemma fresh_bundle_no_drift:
  assumes "graph_wf st"
  shows "decision_drift st (governing_decision_bundle st x) = []"
proof -
  have "dp_decision_id pin = n_id d \<and> n_updated_rev d = dp_decision_revision pin \<and> is_decided d
      \<and> node_attr d ''selected_option'' = Some (VStr (dp_selected_option pin))
      \<and> node_of_type st ''decision'' (dp_decision_id pin) = Some d"
    if "node_of_type st ''decision'' t = Some d"
      "(case node_attr d ''selected_option'' of
           Some (VStr (c # cs)) \<Rightarrow>
             if is_decided d then Some \<lparr>dp_decision_id = n_id d,
               dp_decision_revision = n_updated_rev d, dp_selected_option = c # cs\<rparr> else None
         | _ \<Rightarrow> None) = Some pin" for t d pin
    using that wf_node_of_type(2) [OF assms that(1)]
    by (auto split: option.splits val.splits list.splits if_splits)
  then have "\<exists>d. node_of_type st ''decision'' (dp_decision_id pin) = Some d \<and> is_decided d
      \<and> node_attr d ''selected_option'' = Some (VStr (dp_selected_option pin))
      \<and> n_updated_rev d = dp_decision_revision pin"
    if "pin \<in> set (governing_decision_bundle st x)" for pin
    using that by (fastforce simp: governing_decision_bundle_def List.map_filter_def split: option.splits)
  then show ?thesis
    by (fastforce simp: decision_drift_def List.map_filter_def filter_empty_conv)
qed

text \<open>A governing choice that is made, pinned and uncontested; a blocker that does not block.\<close>

definition settled_choice :: "graph_state \<Rightarrow> experiment_decision_pin list \<Rightarrow> string \<Rightarrow> bool" where
  "settled_choice st pins t = (\<exists>d pin. dict_get (g_nodes st) t = Some d \<and> n_type d = ''decision''
     \<and> node_attr d ''status'' = Some (VStr ''decided'')
     \<and> pin \<in> set pins \<and> dp_decision_id pin = t \<and> dp_decision_revision pin = n_updated_rev d
     \<and> node_attr d ''selected_option'' = Some (VStr (dp_selected_option pin))
     \<and> \<not> has_pending_proposal st t)"

definition cleared_blocker :: "graph_state \<Rightarrow> string \<Rightarrow> bool" where
  "cleared_blocker st t = (\<exists>b. dict_get (g_nodes st) t = Some b \<and> n_type b = ''blocker''
     \<and> node_attr b ''status'' \<noteq> Some (VStr ''open''))"

lemma no_gates_settled:
  assumes "graph_wf st" and "experiment_graph_precondition_reasons st x = Inr []"
  shows "t \<in> set (related_targets st x ''governed_by'') \<Longrightarrow>
      settled_choice st (governing_decision_bundle st x) t"
    and "t \<in> set (related_targets st x ''blocked_by'') \<Longrightarrow> cleared_blocker st t"
proof -
  assume t: "t \<in> set (related_targets st x ''governed_by'')"
  from no_gates(1) [OF assms(2) t] obtain d where d: "node_of_type st ''decision'' t = Some d"
    "is_decided d" "has_selection d" "\<not> has_pending_proposal st t" by blast
  from pinned_decision [OF assms(1) t d(1-3)] wf_node_of_type [OF assms(1) d(1)] d(2,4)
  show "settled_choice st (governing_decision_bundle st x) t"
    by (auto simp: settled_choice_def is_decided_def)
next
  assume "t \<in> set (related_targets st x ''blocked_by'')"
  with no_gates(2) [OF assms(2)] wf_node_of_type(1,3) [OF assms(1)] show "cleared_blocker st t"
    unfolding cleared_blocker_def by blast
qed

section \<open>Releases\<close>

lemma json_dict_update: "json_dict A (AList.update k v d) = AList.update k (json_val A v) (json_dict A d)"
  by (induction d) (auto simp: json_dict_def)

lemma json_dict_get: "dict_get (json_dict A d) k = map_option (json_val A) (dict_get d k)"
  by (induction d) (auto simp: json_dict_def)

lemma keys_once_json: "keys_once v \<Longrightarrow> keys_once (json_val A v)"
  by (induction v) (auto simp: list_all_iff comp_def case_prod_beta)

lemma keys_once_update:
  "keys_once (VDict d) \<Longrightarrow> keys_once v \<Longrightarrow> keys_once (VDict (AList.update k v d))"
  using set_update_subset [of k v d] by (auto simp: list_all_iff)

lemma released_document:
  assumes "attempt_status_in d ACTIVE_EXPERIMENT_ATTEMPT_STATUSES" and "keys_once (VDict d)"
  shows "attempt_release A d (VDict (json_dict A (release_attempt now d))) = Released"
proof -
  let ?after = "json_dict A (release_attempt now d)"
  have after: "?after = AList.update ''failure_reason'' (VStr ''Released by the human.'')
      (AList.update ''finished_at'' (VStr (ad_json_time A now)) (AList.update ''status'' (VStr ''cancelled'')
        (json_dict A d)))"
    by (simp add: release_attempt_def json_dict_update)
  have "keys_once (json_val A (VDict d))" by (rule keys_once_json [OF assms(2)])
  then have "keys_once (VDict ?after)"
    unfolding after by (intro keys_once_update) (simp_all add: json_dict_def)
  then have same: "py_eq (VDict ?after) (VDict ?after)" by (rule py_eq_refl)
  obtain s where s: "dict_get d ''status'' = Some (VStr s)" "s \<in> set ACTIVE_EXPERIMENT_ATTEMPT_STATUSES"
    using assms(1) by (auto simp: attempt_status_in_def split: option.splits val.splits)
  have "\<not> py_eq_items e (json_dict A d)" if "dict_get e ''status'' = Some (VStr ''cancelled'')" for e
    using that
  proof (induction e)
    case (Cons kv e)
    then show ?case
      using s by (cases kv) (auto simp: json_dict_get ACTIVE_EXPERIMENT_ATTEMPT_STATUSES_def split: if_splits)
  qed simp
  then have "\<not> py_eq (VDict ?after) (VDict (json_dict A d))" by (simp add: after update_conv')
  with same assms(1) show ?thesis
    by (simp add: attempt_release_def Let_def after get_default_def given_not_none_def update_conv')
qed

lemma untouched_document:
  assumes "keys_once (VDict d)" shows "attempt_release A d (VDict (json_dict A d)) = Untouched"
  using py_eq_refl [OF keys_once_json [OF assms, of A]] by (simp add: attempt_release_def json_dict_def)

lemma released_open:
  assumes "released_attempts A now n ids = Inr items" and "distinct (map attempt_id (attempts_of n))"
    and "d \<in> set (attempts_of n)" and "attempt_id d \<in> Some ` set ids"
  shows "attempt_status_in d ACTIVE_EXPERIMENT_ATTEMPT_STATUSES"
proof -
  from assms(1,4) obtain i where i: "attempt_id d = Some i" "i \<in> set (open_attempt_ids n)"
    by (auto simp: released_attempts_def split: if_splits)
  then obtain e where e: "e \<in> set (attempts_of n)" "attempt_id e = Some i"
    "attempt_status_in e ACTIVE_EXPERIMENT_ATTEMPT_STATUSES"
    by (auto simp: open_attempt_ids_def List.map_filter_def)
  with i(1) assms(2,3) have "e = d" by (auto simp: distinct_map inj_on_def)
  with e(3) show ?thesis by simp
qed

section \<open>A governed sample\<close>

definition sample_decision :: "string \<Rightarrow> node_payload" where
  "sample_decision i = \<lparr>np_node = sample_node i ''decision''
     [(''question'', VStr ''Q''), (''options'', VList [VStr ''a'', VStr ''b'']), (''selected_option'', VStr ''a''),
      (''rationale'', VNone), (''consequences'', VList []), (''status'', VStr ''decided'')],
     np_fields_set = [''id'', ''title'', ''type'', ''question'', ''options'', ''selected_option'', ''status'']\<rparr>"

definition sample_attempt :: "string \<Rightarrow> string \<Rightarrow> val" where
  "sample_attempt i status = VDict [(''id'', VStr i), (''sequence'', VInt 1), (''purpose'', VStr ''P''),
     (''status'', VStr status), (''failure_reason'', VNone), (''started_at'', VTime 7), (''finished_at'', VNone)]"

definition loop_experiment :: "string \<Rightarrow> node_payload" where
  "loop_experiment i = \<lparr>np_node = sample_node i ''experiment''
     [(''objective'', VStr ''O''), (''invocation_ceiling'', VInt 3),
      (''attempts'', VList [sample_attempt ''a1'' ''completed'', sample_attempt ''a2'' ''running'']),
      (''status'', VStr ''planned'')],
     np_fields_set = [''id'', ''title'', ''type'', ''objective'', ''invocation_ceiling'', ''attempts'']\<rparr>"

definition governed_seed :: patch where
  "governed_seed = sample_patch 1 Seed [
     CreateNodesOperation [loop_experiment ''exp/e1'', sample_decision ''dec/d1''],
     CreateEdgesOperation [sample_edge\<lparr>ne_source := ''exp/e1'', ne_target := ''dec/d1'',
       ne_relation := ''governed_by''\<rparr>]]"

definition governed_state :: graph_state where
  "governed_state = applied governed_seed (initial_graph_state [''scope''])"

lemma governed_state_wf: "graph_wf governed_state"
  by code_simp

lemma governed_ready:
  "\<exists>c. derive_experiment_control_state governed_state ''exp/e1'' [] None 0 None False False None None = Inr c
     \<and> ec_ready c"
proof -
  have "case derive_experiment_control_state governed_state ''exp/e1'' [] None 0 None False False
    None None of Inr c \<Rightarrow> ec_ready c | Inl _ \<Rightarrow> False" by code_simp
  then show ?thesis by (auto split: sum.splits)
qed

definition governed_node :: project_node where
  "governed_node = (case dict_get (g_nodes governed_state) ''exp/e1'' of Some n \<Rightarrow> n
     | None \<Rightarrow> np_node (loop_experiment ''exp/e1''))"

section \<open>Properties\<close>


lemma governed_edge: "\<exists>k e. (k, e) \<in> set (g_edges governed_state) \<and> e_source e = ''exp/e1''
    \<and> e_relation e = ''governed_by'' \<and> e_target e = ''dec/d1''"
proof -
  have "list_ex (\<lambda>(k, e). e_source e = ''exp/e1'' \<and> e_relation e = ''governed_by''
      \<and> e_target e = ''dec/d1'') (g_edges governed_state)" by code_simp
  then show ?thesis by (auto simp: list_ex_iff)
qed


text \<open>
  The invocations of one loop episode: the first, then every wake that control admits, on
  whatever graph it sees.
\<close>

inductive invoked :: "string \<Rightarrow> string \<Rightarrow> int \<Rightarrow> experiment_decision_pin list \<Rightarrow> int \<Rightarrow> bool"
  for x episode ceiling pins where
  first: "invoked x episode ceiling pins 1"
| wake: "invoked x episode ceiling pins k \<Longrightarrow>
    admit_experiment_watcher_invocation st x (Some episode) k (Some ceiling) (Some pins) busy exited stop
      = Inr (Some a) \<Longrightarrow> invoked x episode ceiling pins (ia_invocation a)"


lemma second_wake:
  "admit_experiment_watcher_invocation governed_state ''exp/e1'' (Some ''ep'') 1 (Some 3) (Some []) False False False
     = Inr (Some \<lparr>ia_episode_id = ''ep'', ia_invocation = 2, ia_invocation_ceiling = 3, ia_decision_bundle = []\<rparr>)"
  by code_simp


text \<open>
  A release that control builds is one that validation accepts. When \<open>released_attempts\<close>
  closes some open attempts of an Experiment whose attempt ids are distinct, the direct edit that
  writes the result is not refused: every other attempt is untouched and the named ones only
  move to cancelled.
\<close>

theorem released_attempts_accepted:
  assumes "released_attempts A now n ids = Inr items" and "ids \<noteq> []"
    and "distinct (map attempt_id (attempts_of n))" and "\<forall>d \<in> set (attempts_of n). keys_once (VDict d)"
  shows "validate_direct_changes A mode rv n [(''attempts'', VList items)] r = r"
proof -
  let ?f = "\<lambda>d. if attempt_id d \<in> Some ` set ids then release_attempt now d else d"
  from assms(1) have n: "is_experiment n" and ids: "set ids \<subseteq> set (open_attempt_ids n)"
    and items: "items = map (\<lambda>d. VDict (json_dict A (?f d))) (attempts_of n)"
    by (auto simp: released_attempts_def split: if_splits)
  have change: "attempt_release A d (VDict (json_dict A (?f d)))
      = (if attempt_id d \<in> Some ` set ids then Released else Untouched)" if "d \<in> set (attempts_of n)" for d
    using released_document [OF released_open [OF assms(1,3) that]] untouched_document assms(4) that by auto
  have changes: "map2 (attempt_release A) (attempts_of n) items
      = map (\<lambda>d. if attempt_id d \<in> Some ` set ids then Released else Untouched) (attempts_of n)"
    using change by (simp add: items zip_map2 zip_same_conv_map comp_def)
  from assms(2) ids obtain i where "i \<in> set ids" "i \<in> set (open_attempt_ids n)" by (cases ids) auto
  then obtain d where "d \<in> set (attempts_of n)" "attempt_id d \<in> Some ` set ids"
    by (auto simp: open_attempt_ids_def List.map_filter_def)
  moreover from this have "node_attr n ''attempts'' \<noteq> None"
    by (cases "node_attr n ''attempts''") (simp_all add: attempts_of_def)
  moreover have "length items = length (attempts_of n)" by (simp add: items)
  ultimately have "\<not> attempt_release_error A n (VList items)"
    unfolding attempt_release_error_def Let_def prod.case val.case changes by (auto split: option.split)
  with n show ?thesis by (simp add: validate_direct_changes_def get_default_def reject_if_def)
qed

lemma governed_release:
  "\<exists>items. released_attempts checked_adapter 9 governed_node [''a2''] = Inr items"
proof -
  have "\<not> isl (released_attempts checked_adapter 9 governed_node [''a2''])" by code_simp
  then show ?thesis by (cases "released_attempts checked_adapter 9 governed_node [''a2'']") auto
qed

theorem released_attempts_accepted_witness:
  "\<exists>items. released_attempts checked_adapter 9 governed_node [''a2''] = Inr items
     \<and> validate_direct_changes checked_adapter Admission None governed_node [(''attempts'', VList items)] [] = []"
proof -
  from governed_release obtain items where
    items: "released_attempts checked_adapter 9 governed_node [''a2''] = Inr items" by blast
  have "distinct (map attempt_id (attempts_of governed_node))" by code_simp
  moreover have "\<forall>d \<in> set (attempts_of governed_node). keys_once (VDict d)" by code_simp
  ultimately show ?thesis
    using items released_attempts_accepted [OF items] by blast
qed

end
