(* ===== verification/Attention.thy ===== *)
theory Attention
  imports Proposal_Rules Graph_Quality
begin

text \<open>
  What the Inbox and Runs surfaces read of a graph (\<open>core/attention.py\<close>): the Proposals, Decisions
  and Blockers that await a human, what each pending Proposal would do, and the counts. The
  text of an action line is what it shows; its punctuation is not modelled.
\<close>

section \<open>Action lines\<close>

datatype action_text =
    Prose string
  | Shown val
  | Standing_text standing
  | Relation_text string string string

record proposal_action_line =
  al_label :: "string option"
  al_text :: action_text
  al_before :: "action_text option"

abbreviation action_line :: "string \<Rightarrow> action_text \<Rightarrow> proposal_action_line" where
  "action_line l t \<equiv> \<lparr>al_label = Some l, al_text = t, al_before = None\<rparr>"

definition compact_label :: "string \<Rightarrow> string" where
  "compact_label s = map (\<lambda>c. if c = CHR ''_'' then CHR '' '' else c) s"

text \<open>A text that is not empty is shown as it is, any other value in its display form.\<close>

definition field_text :: "val option \<Rightarrow> action_text" where
  "field_text v = (case v of
     Some (VStr s) \<Rightarrow> if s \<noteq> [] then Prose s else Shown (VStr s)
   | Some w \<Rightarrow> Shown w
   | None \<Rightarrow> Shown VNone)"

definition relation_text :: "graph_state \<Rightarrow> string \<Rightarrow> string \<Rightarrow> string \<Rightarrow> action_text option" where
  "relation_text st source target relation =
     (case (dict_get (g_nodes st) source, dict_get (g_nodes st) target) of
        (Some s, Some t) \<Rightarrow> Some (Relation_text (n_title s) (compact_label relation) (n_title t))
      | _ \<Rightarrow> None)"

definition fallback_action :: "proposal \<Rightarrow> proposal_action_line list" where
  "fallback_action q = [\<lparr>al_label = None, al_text = Prose
     (if gc_decision_needed (p_card q) \<noteq> [] then gc_decision_needed (p_card q)
      else ''Review the stored proposal action.''), al_before = None\<rparr>]"

definition removal_lines :: "graph_state \<Rightarrow> string \<Rightarrow> proposal_action_line list option" where
  "removal_lines st i = (case dict_get (g_nodes st) i of
     None \<Rightarrow> None
   | Some n \<Rightarrow>
       (let relations = map (\<lambda>e. relation_text st (e_source e) (e_target e) (e_relation e))
              (filter (\<lambda>e. e_source e = i \<or> e_target e = i) (sort_key e_id (map snd (g_edges st))))
        in if None \<in> set relations then None
           else Some (action_line ''Remove'' (Prose (n_title n))
             # (if relations = [] then [action_line ''Incident relations'' (Prose ''None'')]
                else map (\<lambda>r. action_line ''Also removes'' (the r)) relations))))"

definition content_lines :: "node_adapter \<Rightarrow> graph_state \<Rightarrow> node_update \<Rightarrow> proposal_action_line list option" where
  "content_lines A st u = map_option (\<lambda>n. action_line ''Node'' (Prose (n_title n))
     # map (\<lambda>(field, proposed). \<lparr>al_label = Some (compact_label field), al_text = field_text (Some proposed),
         al_before = Some (field_text (dict_get (node_json A n) field))\<rparr>) (nu_changes u))
     (dict_get (g_nodes st) (nu_id u))"

definition status_lines :: "graph_state \<Rightarrow> node_update \<Rightarrow> proposal_action_line list option" where
  "status_lines st u = (case dict_get (g_nodes st) (nu_id u) of
     None \<Rightarrow> None
   | Some n \<Rightarrow> (case (node_attr n ''status'', dict_get (nu_changes u) ''status'') of
         (Some (VStr current), Some (VStr proposed)) \<Rightarrow>
           Some [action_line ''Node'' (Prose (n_title n)),
             \<lparr>al_label = Some ''Status'', al_text = Prose proposed, al_before = Some (Prose current)\<rparr>]
       | _ \<Rightarrow> None))"

definition titled_pair ::
  "graph_state \<Rightarrow> string \<times> string \<Rightarrow> string \<Rightarrow> string option \<Rightarrow> proposal_action_line list option" where
  "titled_pair st = (\<lambda>(first, second) i j.
     case (dict_get (g_nodes st) i, Option.bind j (dict_get (g_nodes st))) of
       (Some m, Some n) \<Rightarrow> Some [action_line first (Prose (n_title m)), action_line second (Prose (n_title n))]
     | _ \<Rightarrow> None)"

fun relation_change_lines :: "graph_state \<Rightarrow> protected_relation \<Rightarrow> proposal_action_line list option" where
  "relation_change_lines st p =
     (case (px_op p, field_value (px_edges p), field_value (px_edge_ids p)) of
        (Create_edges, Some (e # _), _) \<Rightarrow>
          map_option (\<lambda>t. [action_line ''Add relation'' t]) (relation_text st (ne_source e) (ne_target e) (ne_relation e))
      | (_, _, Some (i # _)) \<Rightarrow> Option.bind (dict_get (g_edges st) i) (\<lambda>e.
          map_option (\<lambda>t. [action_line ''Remove relation'' t])
            (relation_text st (e_source e) (e_target e) (e_relation e)))
      | _ \<Rightarrow> None)"

text \<open>The lines of one operation; the fallback when it names nothing the graph has.\<close>

fun operation_lines :: "node_adapter \<Rightarrow> graph_state \<Rightarrow> proposal_operation \<Rightarrow> proposal_action_line list option" where
  "operation_lines A st (ProposalContentChangeOperation _ us) =
     (case us of [] \<Rightarrow> None | u # _ \<Rightarrow> content_lines A st u)"
| "operation_lines A st (ProposalRemovalOperation _ ids) =
     (case ids of [] \<Rightarrow> None | i # _ \<Rightarrow> removal_lines st i)"
| "operation_lines A st (ProposalSupersedeOperation _ ss) = (case ss of
     [] \<Rightarrow> None | s # _ \<Rightarrow> titled_pair st (''Supersede'', ''With'') (sn_id s) (sn_superseded_by s))"
| "operation_lines A st (ProposalMergeOperation _ ms) = (case ms of
     [] \<Rightarrow> None | m # _ \<Rightarrow> titled_pair st (''Merge'', ''Into'') (nm_duplicate m) (Some (nm_canonical m)))"
| "operation_lines A st (ProposalProtectedRelationOperation _ p) = relation_change_lines st p"
| "operation_lines A st (ProposalStandingChangeOperation i s) =
     map_option (\<lambda>n. [action_line ''Node'' (Prose (n_title n)),
       \<lparr>al_label = Some ''Standing'', al_text = Standing_text s,
        al_before = Some (Standing_text (n_standing n))\<rparr>]) (dict_get (g_nodes st) i)"
| "operation_lines A st (ProposalStatusChangeOperation _ us) =
     (case us of [] \<Rightarrow> None | u # _ \<Rightarrow> status_lines st u)"
| "operation_lines A st _ = None"

definition single_action ::
  "node_adapter \<Rightarrow> graph_state \<Rightarrow> proposal \<Rightarrow> proposal_operation \<Rightarrow> proposal_action_line list" where
  "single_action A st q op =
     (case operation_lines A st op of None \<Rightarrow> fallback_action q | Some lines \<Rightarrow> lines)"

fun changed_subject :: "proposal_operation \<Rightarrow> string option" where
  "changed_subject (ProposalStandingChangeOperation i _) = Some i"
| "changed_subject op = (case proposal_updates op of [] \<Rightarrow> None | u # _ \<Rightarrow> Some (nu_id u))"

fun is_node_change :: "proposal_operation \<Rightarrow> bool" where
  "is_node_change (ProposalContentChangeOperation _ _) = True"
| "is_node_change (ProposalStatusChangeOperation _ _) = True"
| "is_node_change (ProposalStandingChangeOperation _ _) = True"
| "is_node_change _ = False"

text \<open>Each node is named once, above all of its changes.\<close>

fun combined_actions ::
  "node_adapter \<Rightarrow> graph_state \<Rightarrow> proposal \<Rightarrow> string list \<Rightarrow> proposal_operation list \<Rightarrow>
   proposal_action_line list" where
  "combined_actions A st q named [] = []"
| "combined_actions A st q named (op # ops) =
     (let single = single_action A st q op; subject = changed_subject op;
          shown = (if subject \<in> Some ` set named \<and> al_label (hd single) = Some ''Node''
            then tl single else single)
      in shown @ combined_actions A st q (case subject of None \<Rightarrow> named | Some i \<Rightarrow> i # named) ops)"

definition proposal_action :: "node_adapter \<Rightarrow> graph_state \<Rightarrow> proposal \<Rightarrow> proposal_action_line list" where
  "proposal_action A st q =
     (if 2 \<le> length (p_ops q) \<and> length (p_ops q) \<le> 3 \<and> list_all is_node_change (p_ops q)
        then combined_actions A st q [] (p_ops q)
      else (case p_ops q of [op] \<Rightarrow> single_action A st q op | _ \<Rightarrow> fallback_action q))"

section \<open>Memberships\<close>

definition decision_awaits_choice :: "project_node \<Rightarrow> bool" where
  "decision_awaits_choice n = (is_decision n \<and> attr_in n ''status'' [''ready'', ''revisit''])"

definition open_blocker :: "project_node \<Rightarrow> bool" where
  "open_blocker n = (n_type n = ''blocker'' \<and> node_attr n ''status'' = Some (VStr ''open'')
     \<and> n_standing n = ASSERTED)"

text \<open>The choice of a Decision whose options no longer offer it.\<close>

definition prior_choice :: "project_node \<Rightarrow> string option" where
  "prior_choice n = (case node_attr n ''selected_option'' of
     Some (VStr s) \<Rightarrow> if is_decision n \<and> \<not> in_options (VStr s) (attr_val n ''options'') then Some s else None
   | _ \<Rightarrow> None)"

definition decision_prior_choices :: "graph_state \<Rightarrow> string dict" where
  "decision_prior_choices st = fold (\<lambda>n d. case prior_choice n of None \<Rightarrow> d
     | Some s \<Rightarrow> AList.update (n_id n) s d) (map snd (g_nodes st)) []"

record graph_attention =
  ga_pending_proposal_ids :: "string list"
  ga_decisions_awaiting_choice_ids :: "string list"
  ga_open_blocker_ids :: "string list"
  ga_proposal_actions :: "proposal_action_line list dict"
  ga_stale_proposal_ids :: "string list"
  ga_refreshable_proposal_ids :: "string list"
  ga_stale_edge_ids :: "string list"
  ga_decision_prior_choices :: "string dict"

definition pending_proposal_ids :: "graph_state \<Rightarrow> string list" where
  "pending_proposal_ids st = sort (map fst (filter (\<lambda>(_, q). p_status q = Pending) (g_proposals st)))"

definition stale_proposal_ids :: "graph_state \<Rightarrow> string list" where
  "stale_proposal_ids st = filter (\<lambda>i. case dict_get (g_proposals st) i of None \<Rightarrow> False
     | Some q \<Rightarrow> proposal_is_stale st q) (pending_proposal_ids st)"

definition node_ids_with :: "(project_node \<Rightarrow> bool) \<Rightarrow> graph_state \<Rightarrow> string list" where
  "node_ids_with P st = sort (map n_id (filter P (map snd (g_nodes st))))"

definition project_graph_attention :: "node_adapter \<Rightarrow> graph_state \<Rightarrow> graph_attention result" where
  "project_graph_attention A st =
     (if list_ex (\<lambda>(i, n). i \<noteq> n_id n) (g_nodes st)
        then Inl (ValueError ''Graph node mapping key does not match'')
      else if list_ex (\<lambda>(i, q). i \<noteq> p_id q) (g_proposals st)
        then Inl (ValueError ''Graph Proposal mapping key does not match'')
      else
        Inr \<lparr>ga_pending_proposal_ids = pending_proposal_ids st,
          ga_decisions_awaiting_choice_ids = node_ids_with decision_awaits_choice st,
          ga_open_blocker_ids = node_ids_with open_blocker st,
          ga_proposal_actions = map (\<lambda>i. (i, case dict_get (g_proposals st) i of None \<Rightarrow> []
            | Some q \<Rightarrow> proposal_action A st q)) (pending_proposal_ids st),
          ga_stale_proposal_ids = stale_proposal_ids st,
          ga_refreshable_proposal_ids =
            filter (\<lambda>i. proposal_refresh_refusal st (dict_get (g_proposals st) i) = None)
              (stale_proposal_ids st),
          ga_stale_edge_ids = stale_edge_ids st,
          ga_decision_prior_choices = decision_prior_choices st\<rparr>)"

section \<open>Counts and availability\<close>

definition standing_rank :: "standing \<Rightarrow> nat" where
  "standing_rank s = (case s of ACCEPTED \<Rightarrow> 0 | ASSERTED \<Rightarrow> 1 | CONTESTED \<Rightarrow> 2)"

definition project_primary_question :: "graph_state \<Rightarrow> project_node option" where
  "project_primary_question st =
     (case sort_key (\<lambda>n. (standing_rank (n_standing n), n_id n))
             (filter (\<lambda>n. n_type n = ''research_question'') (map snd (g_nodes st))) of
        [] \<Rightarrow> None | n # _ \<Rightarrow> Some n)"

record project_counts =
  pc_pending_proposals :: nat
  pc_decisions_awaiting_choice :: nat
  pc_open_blockers :: nat
  pc_asserted :: nat
  pc_accepted :: nat
  pc_contested :: nat

definition standing_count :: "standing \<Rightarrow> graph_state \<Rightarrow> nat" where
  "standing_count s st = length (filter (\<lambda>(_, n). n_standing n = s) (g_nodes st))"

definition project_counts_of :: "graph_state \<Rightarrow> graph_attention \<Rightarrow> project_counts" where
  "project_counts_of st attention = \<lparr>
     pc_pending_proposals = length (ga_pending_proposal_ids attention),
     pc_decisions_awaiting_choice = length (ga_decisions_awaiting_choice_ids attention),
     pc_open_blockers = length (ga_open_blocker_ids attention),
     pc_asserted = standing_count ASSERTED st, pc_accepted = standing_count ACCEPTED st,
     pc_contested = standing_count CONTESTED st\<rparr>"

text \<open>A caller may pass the attention it has already projected.\<close>

definition project_counts_projection ::
  "node_adapter \<Rightarrow> graph_state \<Rightarrow> graph_attention option \<Rightarrow> project_counts result" where
  "project_counts_projection A st attention =
     bind_r (case attention of None \<Rightarrow> project_graph_attention A st | Some a \<Rightarrow> Inr a)
       (\<lambda>a. Inr (project_counts_of st a))"

text \<open>The reason names the failure that stopped replay, when one is recorded.\<close>

datatype unavailable_reason = Replay_degraded | Replay_stopped replay_failure

definition project_graph_mutation_availability :: "graph_state \<Rightarrow> unavailable_reason option" where
  "project_graph_mutation_availability st =
     (if g_replay_status st \<noteq> Degraded then None
      else Some (case g_replay_failure st of None \<Rightarrow> Replay_degraded | Some f \<Rightarrow> Replay_stopped f))"

end
