(* ===== verification/Attention_Properties.thy ===== *)
theory Attention_Properties
  imports Attention Graph_Properties
begin

text \<open>What the attention projection of a well-formed graph contains, exactly.\<close>

lemma operation_lines_shown: "operation_lines A st op = Some lines \<Longrightarrow> lines \<noteq> []"
  by (cases op)
    (auto simp: content_lines_def status_lines_def removal_lines_def titled_pair_def Let_def bind_eq_Some_conv
      split: list.splits option.splits val.splits if_splits edge_op.splits)

lemma single_action_shown: "single_action A st q op \<noteq> []"
  by (auto simp: single_action_def fallback_action_def dest: operation_lines_shown split: option.split)

text \<open>Every Proposal shows at least one line.\<close>

lemma proposal_action_shown: "proposal_action A st q \<noteq> []"
  by (auto simp: proposal_action_def fallback_action_def single_action_shown Let_def
      split: list.split)

lemma keyed_members:
  assumes "keyed f d"
  shows "set (map f (filter P (map snd d))) = {i. \<exists>v. dict_get d i = Some v \<and> P v}"
    and "distinct (map f (filter P (map snd d)))"
    and "map fst (filter (\<lambda>(_, v). P v) d) = map f (filter P (map snd d))"
proof -
  have k: "wf_dict d" "\<And>i v. (i, v) \<in> set d \<Longrightarrow> f v = i" using assms by (auto simp: keyed_def list_all_iff)
  have same: "map f (filter P (map snd d)) = map fst (filter (P \<circ> snd) d)"
    using k(2) by (auto simp: filter_map)
  then show "set (map f (filter P (map snd d))) = {i. \<exists>v. dict_get d i = Some v \<and> P v}"
    and "distinct (map f (filter P (map snd d)))"
    using k(1) by (auto simp: distinct_map_filter image_iff intro: map_of_is_SomeI dest: map_of_SomeD)
  show "map fst (filter (\<lambda>(_, v). P v) d) = map f (filter P (map snd d))"
    unfolding same by (intro arg_cong [of _ _ "map fst"] filter_cong) auto
qed

lemma node_ids_exact:
  assumes "graph_wf st"
  shows "set (node_ids_with P st) = {i. \<exists>n. dict_get (g_nodes st) i = Some n \<and> P n}"
    and "sorted (node_ids_with P st) \<and> distinct (node_ids_with P st)"
  using assms keyed_members [of n_id "g_nodes st" P] by (auto simp: node_ids_with_def graph_wf_def)

lemma pending_exact:
  assumes "graph_wf st"
  shows "set (pending_proposal_ids st) = {i. \<exists>q. dict_get (g_proposals st) i = Some q \<and> p_status q = Pending}"
    and "sorted (pending_proposal_ids st) \<and> distinct (pending_proposal_ids st)"
  using assms keyed_members [of p_id "g_proposals st" "\<lambda>q. p_status q = Pending"]
  by (simp_all add: pending_proposal_ids_def graph_wf_def)

lemma stale_exact:
  assumes "graph_wf st"
  shows "set (stale_proposal_ids st) = {i. \<exists>q. dict_get (g_proposals st) i = Some q \<and> p_status q = Pending
      \<and> proposal_is_stale st q}"
    and "sorted (stale_proposal_ids st) \<and> distinct (stale_proposal_ids st)"
  using pending_exact [OF assms] sorted_filter [of "\<lambda>x. x" "pending_proposal_ids st"]
  by (auto simp: stale_proposal_ids_def split: option.splits)

lemma standing_partition:
  "standing_count ASSERTED st + standing_count ACCEPTED st + standing_count CONTESTED st = length (g_nodes st)"
proof -
  have "length (filter (\<lambda>(_, n). n_standing n = ASSERTED) d) + length (filter (\<lambda>(_, n). n_standing n = ACCEPTED) d)
      + length (filter (\<lambda>(_, n). n_standing n = CONTESTED) d) = length d" for d :: "project_node dict"
  proof (induction d)
    case (Cons x d)
    then show ?case by (cases "n_standing (snd x)") (auto simp: case_prod_beta)
  qed simp
  then show ?thesis by (simp add: standing_count_def)
qed



end
