(* ===== verification/Delta_Properties.thy ===== *)
theory Delta_Properties
  imports State_Delta Samples
begin

text \<open>
  A captured delta restores the snapshot it was captured for: the fields that did not change are
  kept, list fields come back in order, and dictionaries come back with the same entries.
\<close>

section \<open>Snapshots that read alike\<close>

fun slot_like :: "state_codec \<Rightarrow> state_slot \<Rightarrow> state_slot \<Rightarrow> bool" where
  "slot_like K (Scalar o1) (Scalar o2) = sc_equal K o1 o2"
| "slot_like K (Items xs) (Items ys) = list_all2 (sc_equal K) xs ys"
| "slot_like K (Table d) (Table e) = (\<forall>k. rel_option (sc_equal K) (dict_get d k) (dict_get e k))"
| "slot_like K _ _ = False"

text \<open>The field names and kinds of a snapshot, with no dictionary that repeats a key.\<close>

fun slot_kind :: "string \<Rightarrow> state_slot \<Rightarrow> bool" where
  "slot_kind name (Scalar _) = (name \<in> set SCALAR_FIELDS)"
| "slot_kind name (Items _) = (name \<in> set LIST_FIELDS)"
| "slot_kind name (Table d) = (name \<in> set MAP_FIELDS \<and> wf_dict d)"

definition snapshot :: "state_slot dict \<Rightarrow> bool" where
  "snapshot fs = (map fst fs = map fst (slots_of (initial_graph_state [])) \<and> list_all (\<lambda>(n, s). slot_kind n s) fs)"

text \<open>
  An object that its adapter brings back: dumped, adapted as a persisted document, validated, and
  with the layer of an edge restored, it equals itself.
\<close>

definition adapt_entry :: "string \<Rightarrow> val \<Rightarrow> val result" where
  "adapt_entry name v = (if name = ''nodes'' then Inr (on_dict adapt_legacy_snapshot_node v)
     else if name = ''proposals'' then adapt_legacy_proposal_document True v else Inr v)"

fun restorable :: "state_codec \<Rightarrow> string \<Rightarrow> state_slot \<Rightarrow> bool" where
  "restorable K name (Scalar object) = (case sc_validate K name (sc_dump K name object) of
     Inr back \<Rightarrow> sc_equal K back object | Inl _ \<Rightarrow> False)"
| "restorable K name (Items xs) = list_all (\<lambda>object. case sc_validate K name (sc_dump K name object) of
     Inr back \<Rightarrow> sc_equal K back object | Inl _ \<Rightarrow> False) xs"
| "restorable K name (Table d) = list_all (\<lambda>(_, object). case
     bind_r (adapt_entry name (sc_dump K name object)) (\<lambda>v.
     bind_r (sc_validate K name v) (restore_edge_layer K name v)) of
       Inr back \<Rightarrow> sc_equal K back object | Inl _ \<Rightarrow> False) d"

section \<open>Lists\<close>

text \<open>Reading back what was dumped, object by object.\<close>

lemma map_r_back:
  assumes "\<And>x. x \<in> set xs \<Longrightarrow> case f (g x) of Inr y \<Rightarrow> eq y x | Inl _ \<Rightarrow> False"
  shows "\<exists>ys. map_r f (map g xs) = Inr ys \<and> list_all2 eq ys xs"
  using assms
proof (induction xs)
  case (Cons x xs)
  from Cons.prems [of x] obtain y where "f (g x) = Inr y" "eq y x" by (auto split: sum.splits)
  moreover from Cons.IH Cons.prems obtain ys where "map_r f (map g xs) = Inr ys" "list_all2 eq ys xs" by auto
  ultimately show ?case by auto
qed simp

lemma common_length_le: "common_length eq xs ys \<le> length xs" "common_length eq xs ys \<le> length ys"
  by (induction eq xs ys rule: common_length.induct) auto

lemma common_length_same:
  "list_all2 eq (take (common_length eq xs ys) xs) (take (common_length eq xs ys) ys)"
  by (induction eq xs ys rule: common_length.induct) auto

lemma splice_restores:
  assumes "restorable K name (Items new)"
  shows "\<exists>items. map_r (sc_validate K name) (ls_items (splice_of K name old new)) = Inr items
    \<and> ls_start (splice_of K name old new) + ls_delete_count (splice_of K name old new) \<le> length old
    \<and> list_all2 (sc_equal K) (take (ls_start (splice_of K name old new)) old @ items
        @ drop (ls_start (splice_of K name old new) + ls_delete_count (splice_of K name old new)) old) new"
proof -
  define i where "i = common_length (sc_equal K) old new"
  define t where "t = common_length (sc_equal K) (rev (drop i old)) (rev (drop i new))"
  have i: "i \<le> length old" "i \<le> length new" unfolding i_def by (rule common_length_le)+
  have t: "t \<le> length old - i" "t \<le> length new - i"
    using common_length_le [of "sc_equal K" "rev (drop i old)" "rev (drop i new)"] by (simp_all add: t_def)
  let ?mid = "take (length new - t - i) (drop i new)"
  have splice: "splice_of K name old new = \<lparr>ls_start = i, ls_delete_count = length old - t - i,
      ls_items = map (sc_dump K name) ?mid\<rparr>"
    by (simp add: splice_of_def Let_def i_def t_def)
  have "object \<in> set new" if "object \<in> set ?mid" for object
    using that by (auto dest: in_set_takeD in_set_dropD)
  with assms map_r_back [where xs = ?mid and f = "sc_validate K name" and g = "sc_dump K name" and eq = "sc_equal K"] obtain items where
    items: "map_r (sc_validate K name) (map (sc_dump K name) ?mid) = Inr items" "list_all2 (sc_equal K) items ?mid"
    by (auto simp: list_all_iff)
  have "list_all2 (sc_equal K) (rev (drop (length old - i - t) (drop i old)))
      (rev (drop (length new - i - t) (drop i new)))"
    using common_length_same [of "sc_equal K" "rev (drop i old)" "rev (drop i new)"]
    unfolding t_def [symmetric] take_rev by (simp add: diff_diff_add add.commute)
  then have last: "list_all2 (sc_equal K) (drop (length old - t) old) (drop (length new - t) new)"
    using i t by (simp add: add.commute)
  have "list_all2 (sc_equal K) (take i old) (take i new)"
    unfolding i_def by (rule common_length_same)
  moreover have "new = take i new @ ?mid @ drop (length new - t) new"
  proof -
    have "length new - t - i + i = length new - t" using i t by simp
    then have "drop i new = ?mid @ drop (length new - t) new"
      using append_take_drop_id [of "length new - t - i" "drop i new"] unfolding drop_drop by simp
    then show ?thesis using append_take_drop_id [of i new] by simp
  qed
  ultimately have "list_all2 (sc_equal K) (take i old @ items @ drop (length old - t) old) new"
    using items(2) last by (metis list_all2_appendI)
  with items(1) i t show ?thesis by (simp add: splice)
qed

section \<open>Dictionaries\<close>

lemma adapt_single:
  assumes "name \<noteq> ''coverage''"
  shows "adapt_persisted_graph_state_document [(name, VDict d)] =
    bind_r (map_r (\<lambda>(k, v). bind_r (adapt_entry name v) (\<lambda>v'. Inr (k, v'))) d) (\<lambda>d'. Inr [(name, VDict d')])"
proof -
  have plain: "map_r Inr d = (Inr d :: exn + _)" by (induction d) auto
  have single: "over_values f k [(n, VDict e)] = (if n = k then
      bind_r (map_r (\<lambda>(i, v). bind_r (f v) (\<lambda>v'. Inr (i, v'))) e) (\<lambda>e'. Inr [(n, VDict e')])
      else Inr [(n, VDict e)])" for f k n e
    by (simp add: over_values_def)
  have drop: "AList.delete ''coverage'' [(name, VDict d)] = [(name, VDict d)]" using assms by simp
  show ?thesis
    unfolding adapt_persisted_graph_state_document_def drop single
    by (cases "name = ''nodes''"; cases "map_r (\<lambda>(i, v). bind_r (Inr (on_dict adapt_legacy_snapshot_node v))
        (\<lambda>v'. Inr (i, v'))) d :: exn + _")
      (auto simp: adapt_entry_def plain single)
qed

lemma read_table_back:
  assumes "restorable K name (Table e)" and "name \<noteq> ''coverage''"
  shows "\<exists>read. read_table K name (map (\<lambda>(k, v). (k, sc_dump K name v)) e) = Inr read
    \<and> list_all2 (\<lambda>(k, back) (k', object). k = k' \<and> sc_equal K back object) read e"
proof -
  let ?adapt = "\<lambda>(k, v). bind_r (adapt_entry name v) (\<lambda>v'. Inr (k, v'))"
  let ?read = "\<lambda>(k, v). bind_r (sc_validate K name v) (\<lambda>object.
      bind_r (restore_edge_layer K name v object) (\<lambda>restored. Inr (k, restored)))"
  have "\<exists>e'. map_r ?adapt (map (\<lambda>(k, v). (k, sc_dump K name v)) e) = Inr e' \<and>
      (\<exists>read. map_r ?read e' = Inr read
        \<and> list_all2 (\<lambda>(k, back) (k', object). k = k' \<and> sc_equal K back object) read e)"
    using assms(1)
  proof (induction e)
    case (Cons kv e)
    obtain k object where kv: "kv = (k, object)" by (cases kv)
    from Cons.prems obtain v o1 got where step: "adapt_entry name (sc_dump K name object) = Inr v"
      "sc_validate K name v = Inr o1" "restore_edge_layer K name v o1 = Inr got" "sc_equal K got object"
      by (auto simp: kv bind_r_Inr split: sum.splits)
    from Cons obtain e' read where "map_r ?adapt (map (\<lambda>(k, v). (k, sc_dump K name v)) e) = Inr e'"
      "map_r ?read e' = Inr read"
      "list_all2 (\<lambda>(k, back) (k', object). k = k' \<and> sc_equal K back object) read e" by auto
    with step show ?case by (simp add: kv)
  qed simp
  then show ?thesis
    by (auto simp: read_table_def adapt_single [OF assms(2)])
qed

lemma removed_keys:
  "distinct ks \<Longrightarrow> set ks \<subseteq> set (keys d) \<Longrightarrow> remove_keys ks d = Inr (fold AList.delete ks d)"
proof (induction ks arbitrary: d)
  case (Cons k ks)
  moreover have "set ks \<subseteq> set (keys (AList.delete k d))"
    using Cons.prems by (auto simp: delete_keys)
  ultimately show ?case by (simp add: remove_keys_def)
qed (simp add: remove_keys_def)

lemma get_deleted: "dict_get (fold AList.delete ks d) k = (if k \<in> set ks then None else dict_get d k)"
  by (induction ks arbitrary: d) (auto simp: delete_conv')

lemma get_updated:
  "wf_dict new \<Longrightarrow> dict_get (fold (\<lambda>(k, v). AList.update k v) new d) k =
     (case dict_get new k of None \<Rightarrow> dict_get d k | Some v \<Rightarrow> Some v)"
proof (induction new arbitrary: d)
  case (Cons kv new)
  obtain i v where kv: "kv = (i, v)" by (cases kv)
  have "dict_get new i = None" using Cons.prems by (simp add: kv map_of_eq_None_iff)
  with Cons show ?case by (auto simp: kv update_conv' split: option.split)
qed simp

lemma get_filtered:
  "wf_dict d \<Longrightarrow> dict_get (filter P d) k = (case dict_get d k of None \<Rightarrow> None
     | Some v \<Rightarrow> if P (k, v) then Some v else None)"
proof (induction d)
  case (Cons x d)
  obtain i v where x: "x = (i, v)" by (cases x)
  have "dict_get d i = None" using Cons.prems by (simp add: x map_of_eq_None_iff)
  with Cons show ?case by (auto simp: x split: option.splits)
qed simp

lemma get_back:
  "list_all2 (\<lambda>(k, back) (k', object). k = k' \<and> R back object) read e \<Longrightarrow> rel_option R (dict_get read k) (dict_get e k)"
  by (induction rule: list_all2_induct) auto

lemma keys_back:
  "list_all2 (\<lambda>(k, back) (k', object). k = k' \<and> R back object) read e \<Longrightarrow> map fst read = map fst e"
  by (induction rule: list_all2_induct) auto

lemma table_restores:
  assumes "name \<in> set MAP_FIELDS" and "dict_get before name = Some (Table old)" and "wf_dict old" "wf_dict new"
    and "restorable K name (Table new)"
    and "or_empty (dict_get (sd_changed d) name) = map (\<lambda>(k, v). (k, sc_dump K name v)) (table_updates K old new)"
    and "or_empty (dict_get (sd_removed d) name) = absent_keys old new"
  shows "\<exists>t. apply_table K before d name = Inr (name, t) \<and> slot_like K t (Table new)"
proof -
  let ?up = "table_updates K old new"
  have "restorable K name (Table ?up)" using assms(5) by (auto simp: table_updates_def list_all_iff)
  moreover have "name \<noteq> ''coverage''" using assms(1) by (auto simp: MAP_FIELDS_def)
  ultimately obtain read where read: "read_table K name (map (\<lambda>(k, v). (k, sc_dump K name v)) ?up) = Inr read"
    and like: "list_all2 (\<lambda>(k, back) (k', object). k = k' \<and> sc_equal K back object) read ?up"
    using read_table_back by blast
  let ?kept = "fold AList.delete (absent_keys old new) old"
  have kept: "remove_keys (absent_keys old new) old = Inr ?kept"
    using assms(3) by (intro removed_keys) (auto simp: absent_keys_def)
  have up: "wf_dict ?up" using assms(4) by (simp add: table_updates_def distinct_map_filter)
  then have "wf_dict read" using keys_back [OF like] by simp
  then have got: "dict_get (fold (\<lambda>(k, v). AList.update k v) read ?kept) k = (case dict_get read k of
      None \<Rightarrow> if k \<in> set (absent_keys old new) then None else dict_get old k | Some v \<Rightarrow> Some v)" for k
    by (simp add: get_updated get_deleted split: option.split)
  have ups: "dict_get ?up k = (case dict_get new k of None \<Rightarrow> None | Some v \<Rightarrow>
      (case dict_get old k of None \<Rightarrow> Some v | Some w \<Rightarrow> if sc_equal K w v then None else Some v))" for k
    by (simp add: table_updates_def get_filtered [OF assms(4)] split: option.split)
  have "rel_option (sc_equal K) (dict_get (fold (\<lambda>(k, v). AList.update k v) read ?kept) k) (dict_get new k)" for k
    using get_back [OF like, of k] unfolding got ups
    by (auto simp: absent_keys_def rel_option_iff map_of_eq_None_iff split: option.splits if_splits)
      (metis fst_conv image_eqI map_of_eq_None_iff option.distinct(1) map_of_SomeD)+
  then show ?thesis
    by (simp add: apply_table_def assms(2,6,7) kept read)
qed

section \<open>Fields\<close>

lemma keys_field_pairs: "set (keys (field_pairs b a)) \<subseteq> set (keys b)"
  by (induction b) (auto simp: field_pairs_def List.map_filter_simps split: option.splits)

lemma wf_field_pairs: "wf_dict b \<Longrightarrow> wf_dict (field_pairs b a)"
proof (induction b)
  case (Cons x b)
  then show ?case
    using keys_field_pairs [of b a]
    by (cases x) (auto simp: field_pairs_def List.map_filter_simps split: option.splits)
qed (simp add: field_pairs_def List.map_filter_simps)

lemma get_field_pairs:
  "dict_get (field_pairs b a) n = (case (dict_get b n, dict_get a n) of
     (Some s, Some t) \<Rightarrow> Some (s, t) | _ \<Rightarrow> None)"
proof (induction b)
  case (Cons x b)
  then show ?case by (cases x) (auto simp: field_pairs_def List.map_filter_simps split: option.splits)
qed (simp add: field_pairs_def List.map_filter_simps)

lemma keys_per_field: "set (keys (per_field f pairs)) \<subseteq> set (keys pairs)"
  by (induction pairs) (auto simp: per_field_def List.map_filter_simps split: option.splits)

lemma wf_per_field: "wf_dict pairs \<Longrightarrow> wf_dict (per_field f pairs)"
proof (induction pairs)
  case (Cons x pairs)
  then show ?case
    using keys_per_field [of f pairs]
    by (cases x) (auto simp: per_field_def List.map_filter_simps split: option.splits)
qed (simp add: per_field_def List.map_filter_simps)

lemma get_per_field:
  assumes "wf_dict pairs"
  shows "dict_get (per_field f pairs) n = (case dict_get pairs n of None \<Rightarrow> None | Some (s, t) \<Rightarrow> f n s t)"
  using assms
proof (induction pairs)
  case (Cons x pairs)
  obtain m s t where x: "x = (m, s, t)" by (cases x)
  have "dict_get pairs m = None" using Cons.prems by (simp add: x map_of_eq_None_iff)
  with Cons show ?case
    by (auto simp: x per_field_def List.map_filter_simps split: option.splits)
qed (simp add: per_field_def List.map_filter_simps)

lemma captured_field:
  assumes "wf_dict b" and "(n, v) \<in> set (per_field f (field_pairs b a))"
  obtains s t where "dict_get b n = Some s" and "dict_get a n = Some t" and "f n s t = Some v"
proof -
  have "dict_get (per_field f (field_pairs b a)) n = Some v"
    by (rule map_of_is_SomeI [OF wf_per_field [OF wf_field_pairs [OF assms(1)]] assms(2)])
  then show ?thesis
    using that by (auto simp: get_per_field [OF wf_field_pairs [OF assms(1)]] get_field_pairs split: option.splits)
qed

lemma captured_none:
  assumes "wf_dict b" and "n \<notin> set (keys (per_field f (field_pairs b a)))" and "dict_get b n = Some s"
    and "dict_get a n = Some t"
  shows "f n s t = None"
proof -
  have "dict_get (per_field f (field_pairs b a)) n = None" using assms(2) by (simp add: map_of_eq_None_iff)
  with assms(3,4) show ?thesis
    by (simp add: get_per_field [OF wf_field_pairs [OF assms(1)]] get_field_pairs)
qed

text \<open>A field that no part of the delta names did not change.\<close>

lemma unchanged_field:
  assumes "slot_kind n s" and "slot_kind n t" and "replaced_value K n s t = None"
    and "spliced_items K n s t = None" and "changed_entries K n s t = None" and "removed_entries n s t = None"
  shows "slot_like K s t"
proof (cases s)
  case (Table d)
  moreover from this assms(1,2) obtain e where t: "t = Table e"
    by (cases t) (auto simp: MAP_FIELDS_def LIST_FIELDS_def SCALAR_FIELDS_def)
  have "rel_option (sc_equal K) (dict_get d k) (dict_get e k)" for k
  proof (cases "dict_get e k")
    case None
    from assms(6) have "absent_keys d e = []" by (simp add: Table t split: if_splits)
    moreover have "set (absent_keys d e) = {k \<in> set (keys d). k \<notin> set (keys e)}" by (simp add: absent_keys_def)
    ultimately have "set (keys d) \<subseteq> set (keys e)" by auto
    with None have "dict_get d k = None" by (auto simp: map_of_eq_None_iff)
    with None show ?thesis by simp
  next
    case (Some v)
    then have "(k, v) \<in> set e" by (rule map_of_SomeD)
    with assms(5) show ?thesis
      by (force simp: Table t Some table_updates_def filter_empty_conv split: if_splits option.splits)
  qed
  ultimately show ?thesis by (simp add: t)
qed (use assms in \<open>cases t; auto simp: MAP_FIELDS_def LIST_FIELDS_def SCALAR_FIELDS_def split: if_splits\<close>)+

section \<open>Snapshots\<close>

lemma snapshot_wf: "snapshot fs \<Longrightarrow> wf_dict fs"
  unfolding snapshot_def by (simp add: slots_of_def table_of_def)

lemma snapshot_field:
  assumes "snapshot b" and "snapshot a" and "dict_get b n = Some s"
  obtains t where "dict_get a n = Some t" and "slot_kind n s" and "slot_kind n t"
proof -
  have "n \<in> set (keys b)" using map_of_SomeD [OF assms(3)] by force
  moreover have "keys a = keys b" using assms(1,2) by (simp add: snapshot_def)
  ultimately have "n \<in> set (keys a)" by simp
  then obtain t where t: "dict_get a n = Some t" by (cases "dict_get a n") (auto simp: map_of_eq_None_iff)
  moreover have "slot_kind n s" "slot_kind n t"
    using assms t by (auto simp: snapshot_def list_all_iff dest!: map_of_SomeD)
  ultimately show ?thesis using that by blast
qed

lemma slots_snapshot:
  assumes "list_all (\<lambda>(_, s). case s of Table d \<Rightarrow> wf_dict d | _ \<Rightarrow> True) (slots_of st)"
  shows "snapshot (slots_of st)"
  using assms
  by (simp add: snapshot_def slots_of_def table_of_def MAP_FIELDS_def LIST_FIELDS_def SCALAR_FIELDS_def)

lemma captured_kinds:
  assumes "snapshot b" and "snapshot a"
  shows "set (keys (per_field (replaced_value K) (field_pairs b a))) \<subseteq> set SCALAR_FIELDS"
    and "set (keys (per_field (spliced_items K) (field_pairs b a))) \<subseteq> set LIST_FIELDS"
    and "set (keys (per_field (changed_entries K) (field_pairs b a))) \<subseteq> set MAP_FIELDS"
    and "set (keys (per_field removed_entries (field_pairs b a))) \<subseteq> set MAP_FIELDS"
proof -
  note wf = snapshot_wf [OF assms(1)]
  have kind: "slot_kind n s" if "dict_get b n = Some s" for n s
    by (rule snapshot_field [OF assms that])
  show "set (keys (per_field (replaced_value K) (field_pairs b a))) \<subseteq> set SCALAR_FIELDS"
    by (auto elim!: captured_field [OF wf] replaced_value.elims dest!: kind)
  show "set (keys (per_field (spliced_items K) (field_pairs b a))) \<subseteq> set LIST_FIELDS"
    by (auto elim!: captured_field [OF wf] spliced_items.elims dest!: kind)
  show "set (keys (per_field (changed_entries K) (field_pairs b a))) \<subseteq> set MAP_FIELDS"
    by (auto elim!: captured_field [OF wf] changed_entries.elims dest!: kind)
  show "set (keys (per_field removed_entries (field_pairs b a))) \<subseteq> set MAP_FIELDS"
    by (auto elim!: captured_field [OF wf] removed_entries.elims dest!: kind)
qed

text \<open>What is captured passes the validator of a delta.\<close>

lemma capture_valid:
  assumes "snapshot b" and "snapshot a"
  shows "capture_state_delta K b a = Inr \<lparr>sd_replacements = per_field (replaced_value K) (field_pairs b a),
    sd_splices = per_field (spliced_items K) (field_pairs b a),
    sd_changed = per_field (changed_entries K) (field_pairs b a),
    sd_removed = per_field removed_entries (field_pairs b a)\<rparr>"
proof -
  note wf = snapshot_wf [OF assms(1)] and kinds = captured_kinds [OF assms]
  have disjoint: "set LIST_FIELDS \<inter> set SCALAR_FIELDS = {}" by (auto simp: LIST_FIELDS_def SCALAR_FIELDS_def)
  have removed: "distinct ks \<and> (case dict_get (per_field (changed_entries K) (field_pairs b a)) n of None \<Rightarrow> True
      | Some changed \<Rightarrow> set ks \<inter> set (keys changed) = {})"
    if "(n, ks) \<in> set (per_field removed_entries (field_pairs b a))" for n ks
  proof -
    from captured_field [OF wf that] obtain s t where st: "dict_get b n = Some s" "dict_get a n = Some t"
      "removed_entries n s t = Some ks" .
    then obtain d e where de: "s = Table d" "t = Table e" "ks = absent_keys d e"
      by (auto elim!: removed_entries.elims split: if_splits)
    from snapshot_field [OF assms st(1)] have "wf_dict d" by (auto simp: de)
    then show ?thesis
      by (auto simp: de absent_keys_def table_updates_def get_per_field [OF wf_field_pairs [OF wf]] get_field_pairs st
          split: if_splits) (metis fst_conv image_eqI)
  qed
  then have "\<not> list_ex (\<lambda>(n, ks). \<not> distinct ks
      \<or> (case dict_get (per_field (changed_entries K) (field_pairs b a)) n of None \<Rightarrow> False
         | Some changed \<Rightarrow> set ks \<inter> set (keys changed) \<noteq> {})) (per_field removed_entries (field_pairs b a))"
    by (fastforce simp: list_ex_iff split: option.splits)
  moreover have "set (keys (per_field (spliced_items K) (field_pairs b a)))
      \<inter> set (keys (per_field (replaced_value K) (field_pairs b a))) = {}"
    using kinds(1,2) disjoint by blast
  moreover have "set (keys (per_field (replaced_value K) (field_pairs b a))) \<subseteq> set (SCALAR_FIELDS @ LIST_FIELDS)"
    using kinds(1) by (auto simp del: set_map)
  ultimately show ?thesis
    using kinds(2-4)
    by (simp add: capture_state_delta_def Let_def validate_delta_fields_def del: set_map set_append)
qed

lemma get_map_named: "dict_get (map (\<lambda>(n, s). (n, g n s)) b) k = map_option (g k) (dict_get b k)"
  by (induction b) auto

lemma list_all2_named:
  assumes "map fst r = map fst a" and "wf_dict a"
    and "\<And>n s t. dict_get r n = Some s \<Longrightarrow> dict_get a n = Some t \<Longrightarrow> R s t"
  shows "list_all2 (\<lambda>(n, s) (n', t). n = n' \<and> R s t) r a"
proof (rule list_all2_all_nthI)
  show len: "length r = length a" using arg_cong [OF assms(1), of length] by simp
  fix i assume i: "i < length r"
  obtain n s m t where ri: "r ! i = (n, s)" and ai: "a ! i = (m, t)" by (cases "r ! i"; cases "a ! i")
  have "n = m" using i len ri ai assms(1) by (metis fst_conv nth_map)
  moreover have "dict_get r n = Some s" "dict_get a m = Some t"
    using i len ri ai assms(1,2) nth_mem [of i r] nth_mem [of i a] by (simp_all add: map_of_is_SomeI)
  ultimately show "(case r ! i of (n, s) \<Rightarrow> \<lambda>(n', t). n = n' \<and> R s t) (a ! i)" using assms(3) ri ai by simp
qed

lemma map_r_named:
  assumes "\<And>x. x \<in> set xs \<Longrightarrow> \<exists>t. f x = Inr (name x, t) \<and> P (name x) t"
  shows "\<exists>ys. map_r f xs = Inr ys \<and> map fst ys = map name xs \<and> (\<forall>(n, t) \<in> set ys. P n t)"
  using assms
proof (induction xs)
  case (Cons x xs)
  from Cons.prems [of x] obtain t where "f x = Inr (name x, t)" "P (name x) t" by auto
  moreover from Cons.IH Cons.prems obtain ys where "map_r f xs = Inr ys" "map fst ys = map name xs"
    "\<forall>(n, t) \<in> set ys. P n t" by auto
  ultimately show ?case by auto
qed simp

text \<open>The three parts of a captured delta, each restored.\<close>

lemma replacements_restored:
  assumes "snapshot b" and "snapshot a" and "\<And>n t. dict_get a n = Some t \<Longrightarrow> restorable K n t"
    and "(n, v) \<in> set (per_field (replaced_value K) (field_pairs b a))"
  shows "\<exists>t. read_replacement K (n, v) = Inr (n, t) \<and> (\<exists>s. dict_get a n = Some s \<and> slot_like K t s)"
proof -
  from captured_field [OF snapshot_wf [OF assms(1)] assms(4)] obtain s t where
    st: "dict_get b n = Some s" "dict_get a n = Some t" "replaced_value K n s t = Some v" .
  then obtain o1 o2 where o: "s = Scalar o1" "t = Scalar o2" "v = sc_dump K n o2"
    by (auto elim!: replaced_value.elims split: if_splits)
  from snapshot_field [OF assms(1,2) st(1)] have "n \<notin> set LIST_FIELDS"
    by (auto simp: o LIST_FIELDS_def SCALAR_FIELDS_def)
  with assms(3) [OF st(2)] st(2) show ?thesis
    by (auto simp: o read_replacement_def split: sum.splits)
qed

lemma splices_restored:
  assumes "snapshot b" and "snapshot a" and "\<And>n t. dict_get a n = Some t \<Longrightarrow> restorable K n t"
    and "(n, v) \<in> set (per_field (spliced_items K) (field_pairs b a))"
  shows "\<exists>t. apply_splice K b (n, v) = Inr (n, t) \<and> (\<exists>s. dict_get a n = Some s \<and> slot_like K t s)"
proof -
  from captured_field [OF snapshot_wf [OF assms(1)] assms(4)] obtain s t where
    st: "dict_get b n = Some s" "dict_get a n = Some t" "spliced_items K n s t = Some v" .
  then obtain xs ys where xs: "s = Items xs" "t = Items ys" "v = splice_of K n xs ys"
    by (auto elim!: spliced_items.elims split: if_splits)
  from splice_restores [OF assms(3) [OF st(2), unfolded xs], of xs] st show ?thesis
    by (auto simp: apply_splice_def xs Let_def)
qed

lemma tables_restored:
  assumes "snapshot b" and "snapshot a" and "\<And>n t. dict_get a n = Some t \<Longrightarrow> restorable K n t"
    and d: "sd_changed d = per_field (changed_entries K) (field_pairs b a)"
      "sd_removed d = per_field removed_entries (field_pairs b a)"
    and "n \<in> set (keys (sd_changed d) @ keys (sd_removed d))"
  shows "\<exists>t. apply_table K b d n = Inr (n, t) \<and> (\<exists>s. dict_get a n = Some s \<and> slot_like K t s)"
proof -
  note wf = snapshot_wf [OF assms(1)]
  obtain s t where st: "dict_get b n = Some s" "dict_get a n = Some t" "\<exists>d e. s = Table d \<and> t = Table e"
    using assms(6) unfolding d
    by (auto elim!: captured_field [OF wf] changed_entries.elims removed_entries.elims)
  then obtain old new where tables: "s = Table old" "t = Table new" by blast
  from snapshot_field [OF assms(1,2) st(1)] st(2) have "n \<in> set MAP_FIELDS" "wf_dict old" "wf_dict new"
    by (auto simp: tables)
  from table_restores [OF this(1) st(1) [unfolded tables] this(2,3) assms(3) [OF st(2), unfolded tables], of d]
  show ?thesis
    using st(2)
    by (auto simp: d tables or_empty_def get_per_field [OF wf_field_pairs [OF wf]] get_field_pairs st)
qed

lemma delta_restores:
  assumes "snapshot b" and "snapshot a" and "\<And>n t. dict_get a n = Some t \<Longrightarrow> restorable K n t"
  shows "\<exists>d r. capture_state_delta K b a = Inr d \<and> apply_state_delta K b d = Inr r
     \<and> list_all2 (\<lambda>(n, s) (n', t). n = n' \<and> slot_like K s t) r a"
proof -
  note wf = snapshot_wf [OF assms(1)]
  define d where "d = \<lparr>sd_replacements = per_field (replaced_value K) (field_pairs b a),
    sd_splices = per_field (spliced_items K) (field_pairs b a),
    sd_changed = per_field (changed_entries K) (field_pairs b a),
    sd_removed = per_field removed_entries (field_pairs b a)\<rparr>"
  let ?P = "\<lambda>n t. \<exists>s. dict_get a n = Some s \<and> slot_like K t s"
  let ?names = "remdups (keys (sd_changed d) @ keys (sd_removed d))"
  obtain r1 where r1: "map_r (read_replacement K) (sd_replacements d) = Inr r1" "map fst r1 = keys (sd_replacements d)"
      "\<forall>(n, t) \<in> set r1. ?P n t"
    using map_r_named [of "sd_replacements d" "read_replacement K" fst ?P] replacements_restored [OF assms]
    by (auto simp: d_def)
  obtain r2 where r2: "map_r (apply_splice K b) (sd_splices d) = Inr r2" "map fst r2 = keys (sd_splices d)"
      "\<forall>(n, t) \<in> set r2. ?P n t"
    using map_r_named [of "sd_splices d" "apply_splice K b" fst ?P] splices_restored [OF assms]
    by (auto simp: d_def)
  obtain r3 where r3: "map_r (apply_table K b d) ?names = Inr r3" "map fst r3 = ?names" "\<forall>(n, t) \<in> set r3. ?P n t"
    using map_r_named [of ?names "apply_table K b d" "\<lambda>n. n" ?P] tables_restored [OF assms, of d]
    by (auto simp: d_def)
  let ?r = "map (\<lambda>(n, s). (n, case dict_get (r1 @ r2 @ r3) n of None \<Rightarrow> s | Some t \<Rightarrow> t)) b"
  have "apply_state_delta K b d = Inr ?r" by (simp add: apply_state_delta_def r1(1) r2(1) r3(1))
  moreover have "slot_like K (case dict_get (r1 @ r2 @ r3) n of None \<Rightarrow> s | Some t \<Rightarrow> t) t"
    if "dict_get b n = Some s" "dict_get a n = Some t" for n s t
  proof (cases "dict_get (r1 @ r2 @ r3) n")
    case (Some u)
    then have "(n, u) \<in> set (r1 @ r2 @ r3)" by (rule map_of_SomeD)
    with r1(3) r2(3) r3(3) that(2) Some show ?thesis by fastforce
  next
    case None
    then have "n \<notin> set (map fst r1) \<union> set (map fst r2) \<union> set (map fst r3)"
      by (auto simp: map_of_eq_None_iff)
    then have "replaced_value K n s t = None" "spliced_items K n s t = None" "changed_entries K n s t = None"
      "removed_entries n s t = None"
      unfolding r1(2) r2(2) r3(2) using that by (auto simp: d_def intro!: captured_none [OF wf])
    moreover have "slot_kind n s" "slot_kind n t"
      by (rule snapshot_field [OF assms(1,2) that(1)], use that(2) in simp)+
    ultimately show ?thesis unfolding None option.case by (intro unchanged_field)
  qed
  moreover have "map fst ?r = map fst a" using assms(1,2) by (simp add: snapshot_def comp_def case_prod_beta)
  ultimately have "list_all2 (\<lambda>(n, s) (n', t). n = n' \<and> slot_like K s t) ?r a"
    by (intro list_all2_named [OF _ snapshot_wf [OF assms(2)]]) (auto simp: get_map_named)
  with capture_valid [OF assms(1,2), of K, folded d_def] \<open>apply_state_delta K b d = Inr ?r\<close>
  show ?thesis by blast
qed

section \<open>The property\<close>

text \<open>
  (C31) A captured delta restores its snapshot. For two graphs whose dictionaries have distinct keys,
  capturing the difference passes the validator of a delta, and applying it to the first graph
  raises nothing and gives the fields of the second: equal scalars, equal lists in order, and
  dictionaries with equal entries. The hypothesis on the adapters is that each brings back what
  it dumps of the second graph, through the adaptation of persisted documents and, for an edge,
  with its recorded layer.
\<close>

theorem captured_delta_restores:
  assumes "list_all (\<lambda>(_, s). case s of Table d \<Rightarrow> wf_dict d | _ \<Rightarrow> True) (slots_of before @ slots_of after)"
    and "list_all (\<lambda>(n, s). restorable K n s) (slots_of after)"
  shows "\<exists>d r. capture_state_delta K (slots_of before) (slots_of after) = Inr d
     \<and> apply_state_delta K (slots_of before) d = Inr r
     \<and> list_all2 (\<lambda>(n, s) (n', t). n = n' \<and> slot_like K s t) r (slots_of after)"
proof (rule delta_restores)
  show "snapshot (slots_of before)" "snapshot (slots_of after)" using assms(1) by (simp_all add: slots_snapshot)
  show "restorable K n t" if "dict_get (slots_of after) n = Some t" for n t
    using assms(2) map_of_SomeD [OF that] by (auto simp: list_all_iff)
qed

text \<open>A codec for the objects of a small graph; an edge is validated with another layer.\<close>

fun sample_dump :: "state_object \<Rightarrow> val" where
  "sample_dump (O_int i) = VInt i"
| "sample_dump (O_text s) = VStr s"
| "sample_dump (O_node n) = VDict (node_model_dump n)"
| "sample_dump (O_edge e) = VDict [(''id'', VStr (e_id e)), (''source'', VStr (e_source e)),
     (''target'', VStr (e_target e)), (''relation'', VStr (e_relation e)), (''explanation'', VStr (e_explanation e)),
     (''layer'', VBool (e_layer e = Action)), (''created_rev'', VInt (e_created_rev e))]"
| "sample_dump (O_time (Some t)) = VTime t"
| "sample_dump _ = VNone"

fun text_field :: "val dict \<Rightarrow> string \<Rightarrow> string" where
  "text_field d k = (case dict_get d k of Some (VStr s) \<Rightarrow> s | _ \<Rightarrow> [])"

fun sample_validate :: "string \<Rightarrow> val \<Rightarrow> state_object result" where
  "sample_validate name (VInt i) = Inr (O_int i)"
| "sample_validate name (VStr s) = Inr (O_text s)"
| "sample_validate name (VTime t) = Inr (O_time (Some t))"
| "sample_validate name (VDict d) = (if name = ''nodes''
     then bind_r (ad_validate checked_adapter d) (\<lambda>n. Inr (O_node n))
     else Inr (O_edge \<lparr>e_id = text_field d ''id'', e_source = text_field d ''source'', e_target = text_field d ''target'',
       e_relation = text_field d ''relation'', e_layer = Meta, e_explanation = text_field d ''explanation'',
       e_assessment = None, e_expectation = None,
       e_created_rev = (case dict_get d ''created_rev'' of Some (VInt i) \<Rightarrow> i | _ \<Rightarrow> 0)\<rparr>))"
| "sample_validate name VNone = Inr (if name = ''ontology'' then O_ontology empty_ontology
     else if name = ''replay_status'' then O_status Complete
     else if name = ''replay_failure'' then O_failure None else O_time None)"
| "sample_validate name v = Inl (ValueError name)"

definition sample_codec :: state_codec where
  "sample_codec = \<lparr>sc_dump = (\<lambda>_. sample_dump), sc_validate = sample_validate, sc_equal = (=),
     sc_layer = (\<lambda>v. Inr (if v = VBool True then Action else Epistemic))\<rparr>"

definition delta_seed :: patch where
  "delta_seed = sample_patch 1 Seed [CreateNodesOperation [sample_hypothesis ''hyp/h1'', sample_question ''rq/q1'']]"

definition delta_work :: patch where
  "delta_work = sample_patch 2 Work [RemoveNodesOperation [''rq/q1''],
     CreateNodesOperation [sample_question ''rq/q2''],
     CreateEdgesOperation [sample_edge\<lparr>ne_source := ''rq/q2'', ne_target := ''hyp/h1'', ne_relation := ''has_hypothesis''\<rparr>]]"

definition delta_before :: graph_state where
  "delta_before = applied delta_seed (initial_graph_state [''scope''])"

definition delta_after :: graph_state where
  "delta_after = applied delta_work delta_before"

theorem captured_delta_restores_witness:
  "keys (g_nodes delta_after) = [''hyp/h1'', ''rq/q2''] \<and>
   (\<exists>d r. capture_state_delta sample_codec (slots_of delta_before) (slots_of delta_after) = Inr d
     \<and> apply_state_delta sample_codec (slots_of delta_before) d = Inr r
     \<and> list_all2 (\<lambda>(n, s) (n', t). n = n' \<and> slot_like sample_codec s t) r (slots_of delta_after))"
proof
  show "keys (g_nodes delta_after) = [''hyp/h1'', ''rq/q2'']" by code_simp
  show "\<exists>d r. capture_state_delta sample_codec (slots_of delta_before) (slots_of delta_after) = Inr d
     \<and> apply_state_delta sample_codec (slots_of delta_before) d = Inr r
     \<and> list_all2 (\<lambda>(n, s) (n', t). n = n' \<and> slot_like sample_codec s t) r (slots_of delta_after)"
    by (rule captured_delta_restores) code_simp+
qed

end
