(* ===== verification/Spec2Isabelle.thy ===== *)
theory Spec2Isabelle
  imports Head_Properties Merge_Properties Review_Properties Page_Properties
    Answer_Properties Build_Properties
    Graph_Properties Replay_Properties Operation_Properties Bookkeeping_Properties
    Ontology_Properties Legacy_Properties Model_Properties Graph_Quality
    Validation_Properties Grouping_Properties Revision_Properties Transition_Properties
    Classification_Properties Control_Properties Attention_Properties Delta_Properties
begin

text \<open>
  A model of the core of RCP (\<open>src/src/rcp/core\<close>, \<open>control.py\<close>, the queries of \<open>history\<close> and the branch
  merge of \<open>runs\<close>): the project graph, the patches that change it, who may write them, what validates
  them, how a log of them is replayed and questioned, and how a branch is merged.

  \<^bold>\<open>The program.\<close> A project is a graph of research questions, hypotheses, decisions, experiments,
  evidence and blockers. Every change is a \<open>Patch\<close>, a list of typed graph operations with
  provenance. A patch is admitted (\<open>WriteAuthority.admit\<close>: authorship, attribution, permitted
  actions), validated against the graph (\<open>validate_patch\<close>: envelope, approval or experiment-loop
  shape, then each operation by the rules of the registry and staged in order), prepared as a
  transition (\<open>GraphTransitionManager.prepare_validated\<close>: lifecycle events and generated guidance
  operations), and appended to the log. The graph is the replay of the log
  (\<open>materialize_patches\<close>), which validates every patch again and applies it (\<open>_apply_patch\<close>).
  Agents may not change protected beliefs directly; they file Proposals, which a human approves,
  and an approval replays the stored operations of the Proposal. A batch of direct changes is sorted
  first (\<open>classify_graph_changes\<close>) into what applies, what a Proposal can carry and what is refused.
  The history index keeps snapshots of the graph as sparse differences, and answers what changed
  between two heads in bounded pages. A branch is merged into its destination in three steps:
  \<open>plan_merge\<close> compares base, branch and destination and routes the changes through the core into
  direct changes, conflicts and review groups; someone answers the conflicts; and
  \<open>prepare_merge_candidate\<close> turns the answered plan into one patch that the core admits.

  \<^bold>\<open>Data.\<close>
  \<^item> \<open>Prelude\<close>: exceptions as the left part of a sum (\<open>result\<close>), dictionaries as association
    lists in insertion order, folds that may raise, the collection \<open>result_simps\<close>.
  \<^item> \<open>Project_Types\<close> (\<open>project_types.py\<close>, \<open>research_type.py\<close>), \<open>Node_Models\<close>, \<open>Transition_Models\<close>,
    \<open>Operations\<close>, \<open>Graph_State\<close> (\<open>models.py\<close>, \<open>transition_models.py\<close>, \<open>operations.py\<close>,
    \<open>validation/report.py\<close>): the records, unions, field tables and model validators.
  \<^item> \<open>Values\<close>: the Python view of document values: truth, equality, iteration, text.

  \<^bold>\<open>The graph.\<close>
  \<^item> \<open>Ontology\<close> (\<open>ontology.py\<close>), \<open>Dependencies\<close> (\<open>validation/registry.py\<close> and the \<open>depends_*\<close>
    functions), \<open>Materialize\<close> and \<open>Replay\<close> (\<open>materialize.py\<close>): one definition per operation of
    \<open>_apply_patch\<close>, then the patch, the log, and the bookkeeping before and after staging.
  \<^item> \<open>Legacy_Documents\<close> (\<open>operations.py\<close>, \<open>research_compat.py\<close>): adapting persisted documents.

  \<^bold>\<open>Authority and validation.\<close>
  \<^item> \<open>Authority\<close> (\<open>authority.py\<close>): dispatch bindings, graph actions, permissions, admission.
  \<^item> \<open>Text_Rules\<close>, \<open>Research_Rules\<close>, \<open>Graph_Quality\<close>, \<open>Validation_Context\<close>, \<open>Validation_Nodes\<close>,
    \<open>Validation_Ops\<close> (\<open>research_rules.py\<close> and \<open>validation/\<close> \<open>constants\<close>, \<open>quality\<close>,
    \<open>outcome_edges\<close>, \<open>context\<close>, \<open>carried\<close>, \<open>nodes\<close>, \<open>ops\<close>, \<open>registry\<close>): the rules of the operations.
  \<^item> \<open>Proposal_Rules\<close>, \<open>Proposal_Validation\<close> (\<open>validation/proposals.py\<close>), \<open>Approval_Rules\<close>
    (\<open>validation/approval.py\<close>), \<open>Experiment_Loop\<close> (\<open>validation/experiment_loop.py\<close>),
    \<open>Validation_Patch\<close> (\<open>validation/patch.py\<close>). The rules of a Proposal call the loop over the
    operations, which calls the rules of Proposals: the loop is an argument (\<open>op_runner\<close>) of the
    latter, and \<open>validate_operations\<close> ties the knot twice, which is enough because a Proposal
    contains no Proposal.
  \<^item> \<open>Experiment_Control\<close> (\<open>control.py\<close>, \<open>experiment_guidance.py\<close>), \<open>Transitions\<close>
    (\<open>transitions.py\<close>).
  \<^item> \<open>Change_Classification\<close> (\<open>authority.py\<close>, \<open>classify_graph_changes\<close>): groups of operations judged
    in order, each on top of the admitted ones.

  \<^bold>\<open>Around the graph.\<close>
  \<^item> \<open>Experiment_Runtime\<close> (\<open>control.py\<close>): whether an episode may start, whether a watcher may wake the
    next invocation, the release of attempts, the current flow.
  \<^item> \<open>Attention\<close> (\<open>attention.py\<close>): what the Inbox reads of a graph.
  \<^item> \<open>State_Delta\<close> (\<open>history/state_delta.py\<close>): the difference of two snapshots.
  \<^item> \<open>History_Heads\<close> (\<open>history/queries.py\<close>, \<open>history/ancestry.py\<close>): references to heads and the
    ancestry of branches. \<open>Semantic_Delta\<close> (\<open>history/delta.py\<close>) and \<open>History_Pages\<close>
    (\<open>history/pages.py\<close>): what changed between two graphs, and its pages.

  \<^bold>\<open>Branch merges.\<close> (\<open>runs/merge_contract.py\<close>, \<open>runs/merge_plan.py\<close>, \<open>runs/merge_patch.py\<close>)
  \<^item> \<open>Merge_Compare\<close>: \<open>compare_graphs\<close>, the changes of the branch and the conflicts over fields,
    presence and incident edges. \<open>Merge_Review\<close>: the bound context of a plan and the reconciliation
    with pending reviews of earlier merges.
  \<^item> \<open>Merge_Answers\<close>: plans, answers, \<open>_resolved_changes\<close> and \<open>_documents\<close>. \<open>Merge_Effects\<close>:
    \<open>construct_effects\<close>, one definition per collection, with the cause of a carried status.
  \<^item> \<open>Merge_Groups\<close>: \<open>group_reviews\<close> and \<open>_connected_pending_reviews\<close>. \<open>Merge_Plan\<close>: encoding,
    \<open>classify_candidates\<close>, \<open>promote_node_group\<close> and the loop of \<open>plan_merge\<close>. \<open>Merge_Build\<close>:
    \<open>build_merge_patch\<close> and \<open>prepare_merge_candidate\<close>. \<open>Proposal_Effects\<close> (\<open>validation/proposals.py\<close>):
    the validated footprint of a Proposal both use.

  \<^bold>\<open>Proofs.\<close>
  \<^item> \<open>Apply_Laws\<close> and \<open>Graph_Steps\<close> give applying a patch an abstract step relation
    (\<open>graph_step\<close>); \<open>Graph_Invariants\<close> and \<open>Graph_Frames\<close> prove invariants and frames by rule
    induction on it. \<open>Graph_Properties\<close>, \<open>Operation_Properties\<close>, \<open>Replay_Properties\<close>,
    \<open>Bookkeeping_Properties\<close>, \<open>Revision_Properties\<close> state them of the program: well-formedness,
    standing, untouched nodes, the log of belief transitions, exact effects of the operations,
    replay, revision stamps, and the refinement itself.
  \<^item> \<open>Rule_Laws\<close>: every rule only extends the report and raises only exceptions that validation
    catches. \<open>Staging\<close>: staging an operation at a time and applying a patch in one pass agree on
    the \<open>core\<close> of the graph. \<open>Admission_Laws\<close>: what admission and validation let through.
    \<open>Validation_Properties\<close> concludes that validation returns, that what it accepts applies, and
    that agents leave protected beliefs alone. \<open>Grouping_Properties\<close>: grouping Proposals ends.
  \<^item> \<open>Transition_Laws\<close>: the source patches read back from a combined patch stage the same graphs.
    \<open>Transition_Trace\<close>: the trace of a prepared transition passes each check of its validation.
    \<open>Transition_Properties\<close> concludes that a prepared transition replays.
  \<^item> \<open>Classification_Properties\<close>: the groups a classification admits apply together, and what it
    calls reviewable can be filed. \<open>Control_Properties\<close>: a ready Experiment is governed, a loop keeps
    its ceiling, a release is accepted. \<open>Attention_Properties\<close>: the memberships are exact.
    \<open>Delta_Properties\<close>: a captured delta restores its snapshot.
  \<^item> \<open>Head_Properties\<close>: the text of a head is read back; a validated ancestry ends at main.
    \<open>Page_Properties\<close>: a semantic delta is exact, and the pages of an answer deliver all of it.
  \<^item> \<open>Value_Laws\<close> and \<open>Merge_Properties\<close>: the comparison is a three-way merge.
    \<open>Review_Properties\<close>: reconciliation loses no change. \<open>Answer_Properties\<close>: only planned or typed
    values enter a merge; a conflict over the ontology cannot be answered. \<open>Build_Properties\<close>: a
    built patch passes both gates and applies, its reviews are independent, and planning ends with
    disjoint node groups.
  \<^item> \<open>Ontology_Properties\<close>, \<open>Legacy_Properties\<close>, \<open>Model_Properties\<close>: those components.

  \<^bold>\<open>Parameters.\<close> Code outside the repository enters as arguments. Pydantic's node validation is
  \<open>node_adapter\<close>; theorems assume the contract \<open>adapter\<close> (a validated node conforms to its class
  and has the fields it was given), and the executable validator of \<open>Node_Validator\<close> meets it,
  which is what the witnesses use. SHA-256 of canonical JSON is \<open>digests\<close>, without hypothesis.
  The field adapters of a snapshot are \<open>state_codec\<close>, assumed to bring back what they dump.
  In a merge, what Pydantic knows of an instance is \<open>merge_codec\<close>, the strict adapter of one field
  \<open>field_adapter\<close>, that of an operation document \<open>operation_adapter\<close>, the digests of plans and groups
  \<open>merge_digests\<close>, the history a candidate is validated against \<open>merge_history\<close>, all without
  hypothesis in the theorems about planning and building. The comparison assumes that digests of
  different coordinates differ and that a document does not repeat a key.
  The membership check and the task resolver are arguments of the source too. Replay takes the
  patch validator as an argument, so its properties hold for any.

  \<^bold>\<open>Bounds.\<close> Strings are lists of 8-bit characters. Integers are unbounded, as in Python. Loops are
  structural or have a termination proof, so there is no fuel. Messages carry their level, code
  and related ids, not their prose. Floats are their text, so \<open>1 == 1.0\<close> is not an equality of
  the model. A set is a list of which only membership or the sorted form is used.

  \<^bold>\<open>Not modelled.\<close> Files, Git, SQLite, processes, HTTP and rendering (the engine and the store of
  \<open>history\<close>, \<open>storage\<close>, \<open>runs\<close> apart from the merge, \<open>agents\<close>, \<open>api\<close>, \<open>transport\<close>, \<open>paper\<close> and the
  services around them): their logic is I/O. The refresh delta of \<open>history/delta.py\<close> is prose. The
  document of schemas that guards a prepared merge is an argument. The rendering of a graph as Markdown (\<open>research_md.py\<close>) and the prose of the authority contract.
\<close>

end
